(* ===== verification/Prelude.thy ===== *)
theory Prelude
  imports Main "HOL-Library.Word"
begin

section \<open>Prelude: outcomes of Go calls, effects, shared lemmas\<close>

text \<open>
  What every component shares: the way a Go function can end (a value, an error, a panic), the
  type of a function that talks to the outside (Kubernetes, Keystone, the clock, metrics), the
  combinators the handlers are composed with, and the weakest-precondition equations by which
  their properties are computed.

  A Go function \<open>f(ctx, x) (T, error)\<close> becomes \<open>f :: x \<Rightarrow> ('w, T) io\<close>. The world \<open>'w\<close> is a
  type variable: nothing is known of it but what the client operations, which are parameters,
  promise. So no handler can look inside the outside world or skip a call.
\<close>

named_theorems io_simps \<open>running the effect combinators\<close>
named_theorems wp_simps \<open>weakest preconditions of the effect combinators\<close>

subsection \<open>Errors and panics\<close>

text \<open>
  Errors that come from outside: the Kubernetes API server's status errors (the code asks only
  whether the reason is NotFound or AlreadyExists), an OpenStack response with its HTTP status
  code, and anything else. Each carries the text that \<open>Error()\<close> prints.
\<close>

datatype kube_reason = NotFound | AlreadyExists | OtherReason

datatype ext_error =
    KubeError kube_reason string
  | CloudError "nat option" string
  | OtherError string

fun ext_text :: "ext_error \<Rightarrow> string" where
  "ext_text (KubeError _ t) = t"
| "ext_text (CloudError _ t) = t"
| "ext_text (OtherError t) = t"

text \<open>
  An error of the program: one from outside, one made by \<open>errors.New\<close> or by \<open>fmt.Errorf\<close>
  without \<open>%w\<close> (the site says which message, the strings are the format's arguments), or one that
  wraps another (\<open>fmt.Errorf\<close> with \<open>%w\<close>). The type of sites is declared in theory Errors.
\<close>

datatype 'site go_error =
    External ext_error
  | Errorf 'site "string list"
  | Wrapf 'site "string list" "'site go_error"

text \<open>\<open>errors.As\<close> and \<open>errors.Is\<close> look through the chain of wrapped errors to its root.\<close>

fun root_cause :: "'site go_error \<Rightarrow> 'site go_error" where
  "root_cause (Wrapf _ _ e) = root_cause e"
| "root_cause e = e"

text \<open>\<open>apierrors.IsNotFound\<close> and \<open>client.IgnoreAlreadyExists\<close>, \<open>gophercloud.ResponseCodeIs(err, 404)\<close>.\<close>

definition is_not_found :: "'site go_error \<Rightarrow> bool" where
  "is_not_found e = (case root_cause e of External (KubeError NotFound _) \<Rightarrow> True | _ \<Rightarrow> False)"

definition is_already_exists :: "'site go_error \<Rightarrow> bool" where
  "is_already_exists e =
     (case root_cause e of External (KubeError AlreadyExists _) \<Rightarrow> True | _ \<Rightarrow> False)"

definition response_code_is :: "'site go_error \<Rightarrow> nat \<Rightarrow> bool" where
  "response_code_is e code =
     (case root_cause e of External (CloudError (Some c) _) \<Rightarrow> c = code | _ \<Rightarrow> False)"

lemma error_class_simps [simp]:
  "is_not_found (External (KubeError r t)) = (r = NotFound)"
  "is_already_exists (External (KubeError r t)) = (r = AlreadyExists)"
  "\<not> is_not_found (External (CloudError co t))"
  "\<not> is_not_found (External (OtherError t))"
  "\<not> is_not_found (Errorf s as)"
  "is_not_found (Wrapf s as e) = is_not_found e"
  "is_already_exists (Wrapf s as e) = is_already_exists e"
  "response_code_is (External (CloudError (Some c) t)) d = (c = d)"
  "response_code_is (Wrapf s as e) d = response_code_is e d"
  by (auto simp: is_not_found_def is_already_exists_def response_code_is_def
      split: kube_reason.splits)

text \<open>A run-time panic of Go: the program relies on not dereferencing nil.\<close>

datatype panic = NilDereference | NilMapWrite

datatype ('site, 'a) outcome = Ok 'a | Err "'site go_error" | Panicked panic

subsection \<open>Effects\<close>

type_synonym ('w, 'site, 'a) eff = "'w \<Rightarrow> ('site, 'a) outcome \<times> 'w"

text \<open>
  A call of an outside operation: it may fail with an outside error and it always leaves a
  world, the one after the call and after whatever else happened meanwhile.
\<close>

type_synonym ('w, 'a) ext_call = "'w \<Rightarrow> (ext_error + 'a) \<times> 'w"

definition returnE :: "'a \<Rightarrow> ('w, 's, 'a) eff" where
  "returnE x = (\<lambda>w. (Ok x, w))"

definition failE :: "'s go_error \<Rightarrow> ('w, 's, 'a) eff" where
  "failE e = (\<lambda>w. (Err e, w))"

definition panicE :: "panic \<Rightarrow> ('w, 's, 'a) eff" where
  "panicE p = (\<lambda>w. (Panicked p, w))"

definition callE :: "('w, 'a) ext_call \<Rightarrow> ('w, 's, 'a) eff" where
  "callE c = (\<lambda>w. case c w of (Inl e, w') \<Rightarrow> (Err (External e), w') | (Inr x, w') \<Rightarrow> (Ok x, w'))"

definition bindE :: "('w, 's, 'a) eff \<Rightarrow> ('a \<Rightarrow> ('w, 's, 'b) eff) \<Rightarrow> ('w, 's, 'b) eff" where
  "bindE m f = (\<lambda>w. case m w of
       (Ok x, w') \<Rightarrow> f x w'
     | (Err e, w') \<Rightarrow> (Err e, w')
     | (Panicked p, w') \<Rightarrow> (Panicked p, w'))"

text \<open>
  \<open>if err != nil { return fmt.Errorf("...: %w", err) }\<close> around a call: errors are wrapped,
  panics pass through.
\<close>

definition wrapE :: "'s \<Rightarrow> string list \<Rightarrow> ('w, 's, 'a) eff \<Rightarrow> ('w, 's, 'a) eff" where
  "wrapE s args m = (\<lambda>w. case m w of (Err e, w') \<Rightarrow> (Err (Wrapf s args e), w') | r \<Rightarrow> r)"

text \<open>\<open>if err := m; err != nil { h(err) }\<close> with a value to go on with otherwise.\<close>

definition catchE :: "('w, 's, 'a) eff \<Rightarrow> ('s go_error \<Rightarrow> ('w, 's, 'a) eff) \<Rightarrow> ('w, 's, 'a) eff" where
  "catchE m h = (\<lambda>w. case m w of (Err e, w') \<Rightarrow> h e w' | r \<Rightarrow> r)"

text \<open>Both ways out of a call, for code that goes on after an error.\<close>

definition tryE :: "('w, 's, 'a) eff \<Rightarrow> ('w, 's, 's go_error + 'a) eff" where
  "tryE m = (\<lambda>w. case m w of
       (Ok x, w') \<Rightarrow> (Ok (Inr x), w')
     | (Err e, w') \<Rightarrow> (Ok (Inl e), w')
     | (Panicked p, w') \<Rightarrow> (Panicked p, w'))"

text \<open>An action on the world that cannot fail (a metric, a log of a sink).\<close>

definition doE :: "('w \<Rightarrow> 'w) \<Rightarrow> ('w, 's, unit) eff" where
  "doE f = (\<lambda>w. (Ok (), f w))"

text \<open>A reading of the world that cannot fail (the clock).\<close>

definition readE :: "('w \<Rightarrow> 'a \<times> 'w) \<Rightarrow> ('w, 's, 'a) eff" where
  "readE f = (\<lambda>w. case f w of (x, w') \<Rightarrow> (Ok x, w'))"

text \<open>A pure fallible computation as an effect.\<close>

definition liftE :: "('s, 'a) outcome \<Rightarrow> ('w, 's, 'a) eff" where
  "liftE r = (\<lambda>w. (r, w))"

definition thenE :: "('w, 's, 'a) eff \<Rightarrow> ('w, 's, 'b) eff \<Rightarrow> ('w, 's, 'b) eff" where
  "thenE m k = bindE m (\<lambda>_. k)"

text \<open>\<open>for _, x := range xs { if err := f(x); err != nil { return err } }\<close>\<close>

primrec forE :: "'a list \<Rightarrow> ('a \<Rightarrow> ('w, 's, unit) eff) \<Rightarrow> ('w, 's, unit) eff" where
  "forE [] f = returnE ()"
| "forE (x # xs) f = thenE (f x) (forE xs f)"

text \<open>Pure outcomes compose the same way.\<close>

fun bindR :: "('s, 'a) outcome \<Rightarrow> ('a \<Rightarrow> ('s, 'b) outcome) \<Rightarrow> ('s, 'b) outcome" where
  "bindR (Ok x) f = f x"
| "bindR (Err e) f = Err e"
| "bindR (Panicked p) f = Panicked p"

fun wrapR :: "'s \<Rightarrow> string list \<Rightarrow> ('s, 'a) outcome \<Rightarrow> ('s, 'a) outcome" where
  "wrapR s args (Err e) = Err (Wrapf s args e)"
| "wrapR s args r = r"

lemma bindR_Ok_iff: "bindR r f = Ok y \<longleftrightarrow> (\<exists>x. r = Ok x \<and> f x = Ok y)"
  by (cases r) auto

lemma wrapR_Ok_iff [simp]: "wrapR s as r = Ok y \<longleftrightarrow> r = Ok y"
  by (cases r) auto

subsection \<open>Running effects\<close>

lemma run_simps [io_simps]:
  "returnE x w = (Ok x, w)"
  "failE e w = (Err e, w)"
  "panicE p w = (Panicked p, w)"
  "liftE r w = (r, w)"
  "doE f w = (Ok (), f w)"
  by (simp_all add: returnE_def failE_def panicE_def liftE_def doE_def)

lemma run_bindE [io_simps]:
  "bindE m f w = (case m w of (Ok x, w') \<Rightarrow> f x w' | (Err e, w') \<Rightarrow> (Err e, w')
      | (Panicked p, w') \<Rightarrow> (Panicked p, w'))"
  by (simp add: bindE_def)

lemma run_thenE [io_simps]:
  "thenE m k w = (case m w of (Ok _, w') \<Rightarrow> k w' | (Err e, w') \<Rightarrow> (Err e, w')
      | (Panicked p, w') \<Rightarrow> (Panicked p, w'))"
  by (simp add: thenE_def bindE_def)

lemma run_wrapE [io_simps]:
  "wrapE s as m w = (case m w of (Err e, w') \<Rightarrow> (Err (Wrapf s as e), w')
      | (Ok x, w') \<Rightarrow> (Ok x, w') | (Panicked p, w') \<Rightarrow> (Panicked p, w'))"
  by (simp add: wrapE_def split: prod.splits outcome.splits)

lemma run_catchE [io_simps]:
  "catchE m h w = (case m w of (Err e, w') \<Rightarrow> h e w'
      | (Ok x, w') \<Rightarrow> (Ok x, w') | (Panicked p, w') \<Rightarrow> (Panicked p, w'))"
  by (simp add: catchE_def split: prod.splits outcome.splits)

lemma run_tryE [io_simps]:
  "tryE m w = (case m w of (Ok x, w') \<Rightarrow> (Ok (Inr x), w') | (Err e, w') \<Rightarrow> (Ok (Inl e), w')
      | (Panicked p, w') \<Rightarrow> (Panicked p, w'))"
  by (simp add: tryE_def)

lemma run_callE [io_simps]:
  "callE c w = (case c w of (Inl e, w') \<Rightarrow> (Err (External e), w') | (Inr x, w') \<Rightarrow> (Ok x, w'))"
  by (simp add: callE_def)

lemma run_readE [io_simps]: "readE f w = (case f w of (x, w') \<Rightarrow> (Ok x, w'))"
  by (simp add: readE_def)

lemmas outcome_splits = outcome.splits sum.splits prod.splits option.splits if_splits

subsection \<open>Weakest preconditions\<close>

text \<open>
  \<open>wp m Q w\<close>: running \<open>m\<close> from \<open>w\<close> ends in an outcome and a world that satisfy \<open>Q\<close>. The
  equations below compute it through the combinators, so that a property of a handler reduces to
  the laws of the outside calls it makes.
\<close>

definition wp :: "('w, 's, 'a) eff \<Rightarrow> (('s, 'a) outcome \<Rightarrow> 'w \<Rightarrow> bool) \<Rightarrow> 'w \<Rightarrow> bool" where
  "wp m Q w = Q (fst (m w)) (snd (m w))"

lemma wpI: "(\<And>r w'. m w = (r, w') \<Longrightarrow> Q r w') \<Longrightarrow> wp m Q w"
  by (simp add: wp_def)

lemma wpD: "wp m Q w \<Longrightarrow> m w = (r, w') \<Longrightarrow> Q r w'"
  by (simp add: wp_def)

lemma wp_mono: "wp m Q w \<Longrightarrow> (\<And>r w'. Q r w' \<Longrightarrow> Q' r w') \<Longrightarrow> wp m Q' w"
  by (simp add: wp_def)

lemma wp_conj: "wp m (\<lambda>r w'. Q r w' \<and> Q' r w') w = (wp m Q w \<and> wp m Q' w)"
  by (simp add: wp_def)

lemma wp_basic [wp_simps]:
  "wp (returnE x) Q w = Q (Ok x) w"
  "wp (failE e) Q w = Q (Err e) w"
  "wp (panicE p) Q w = Q (Panicked p) w"
  "wp (liftE r) Q w = Q r w"
  "wp (readE g) Q w = Q (Ok (fst (g w))) (snd (g w))"
  by (simp_all add: wp_def io_simps split: prod.splits)

lemma wp_doE [wp_simps]: "wp (doE f) Q w = Q (Ok ()) (f w)"
  by (simp add: wp_def io_simps)

lemma wp_bindE [wp_simps]:
  "wp (bindE m f) Q w =
     wp m (\<lambda>r w'. case r of Ok x \<Rightarrow> wp (f x) Q w' | Err e \<Rightarrow> Q (Err e) w'
                     | Panicked p \<Rightarrow> Q (Panicked p) w') w"
  by (simp add: wp_def io_simps split: prod.splits outcome.splits)

lemma wp_thenE [wp_simps]:
  "wp (thenE m k) Q w =
     wp m (\<lambda>r w'. case r of Ok x \<Rightarrow> wp k Q w' | Err e \<Rightarrow> Q (Err e) w'
                     | Panicked p \<Rightarrow> Q (Panicked p) w') w"
  by (simp add: thenE_def wp_bindE)

lemma wp_wrapE [wp_simps]:
  "wp (wrapE s as m) Q w =
     wp m (\<lambda>r w'. case r of Ok x \<Rightarrow> Q (Ok x) w' | Err e \<Rightarrow> Q (Err (Wrapf s as e)) w'
                     | Panicked p \<Rightarrow> Q (Panicked p) w') w"
  by (simp add: wp_def io_simps split: prod.splits outcome.splits)

lemma wp_catchE [wp_simps]:
  "wp (catchE m h) Q w =
     wp m (\<lambda>r w'. case r of Ok x \<Rightarrow> Q (Ok x) w' | Err e \<Rightarrow> wp (h e) Q w'
                     | Panicked p \<Rightarrow> Q (Panicked p) w') w"
  by (simp add: wp_def io_simps split: prod.splits outcome.splits)

lemma wp_tryE [wp_simps]:
  "wp (tryE m) Q w =
     wp m (\<lambda>r w'. case r of Ok x \<Rightarrow> Q (Ok (Inr x)) w' | Err e \<Rightarrow> Q (Ok (Inl e)) w'
                     | Panicked p \<Rightarrow> Q (Panicked p) w') w"
  by (simp add: wp_def io_simps split: prod.splits outcome.splits)

text \<open>
  A loop keeps an invariant that its body keeps: after a clean run the invariant holds, and a
  failure of the loop is a failure of one of its bodies.
\<close>

lemma wp_forE:
  assumes "I w"
    and "\<And>x w. x \<in> set xs \<Longrightarrow> I w \<Longrightarrow>
           wp (f x) (\<lambda>r w'. case r of Ok _ \<Rightarrow> I w' | Err e \<Rightarrow> Q (Err e) w'
                               | Panicked p \<Rightarrow> Q (Panicked p) w') w"
    and "\<And>w. I w \<Longrightarrow> Q (Ok ()) w"
  shows "wp (forE xs f) Q w"
  using assms
proof (induction xs arbitrary: w)
  case Nil
  then show ?case by (simp add: wp_simps)
next
  case (Cons x xs)
  have "wp (f x) (\<lambda>r w'. case r of Ok _ \<Rightarrow> I w' | Err e \<Rightarrow> Q (Err e) w'
                               | Panicked p \<Rightarrow> Q (Panicked p) w') w"
    using Cons.prems(1,2) by simp
  then have "wp (f x) (\<lambda>r w'. case r of Ok _ \<Rightarrow> wp (forE xs f) Q w' | Err e \<Rightarrow> Q (Err e) w'
                               | Panicked p \<Rightarrow> Q (Panicked p) w') w"
    by (rule wp_mono) (auto split: outcome.splits intro!: Cons.IH Cons.prems(2,3))
  then show ?case by (simp add: wp_simps)
qed

subsection \<open>Frames\<close>

text \<open>
  \<open>stable I m\<close>: running \<open>m\<close> keeps the property \<open>I\<close> of the world, however it ends. It is closed
  under the combinators, so a property that every outside call of a handler keeps is kept by the
  handler.
\<close>

named_theorems stable_intros \<open>frames of the effect combinators\<close>

definition stable :: "('w \<Rightarrow> bool) \<Rightarrow> ('w, 's, 'a) eff \<Rightarrow> bool" where
  "stable I m \<longleftrightarrow> (\<forall>w. I w \<longrightarrow> I (snd (m w)))"

definition stable_call :: "('w \<Rightarrow> bool) \<Rightarrow> ('w \<Rightarrow> 'a \<times> 'w) \<Rightarrow> bool" where
  "stable_call I f \<longleftrightarrow> (\<forall>w. I w \<longrightarrow> I (snd (f w)))"

lemma stableD: "stable I m \<Longrightarrow> m w = (r, w') \<Longrightarrow> I w \<Longrightarrow> I w'"
  unfolding stable_def by (metis snd_conv)

lemma stable_pure [stable_intros]:
  "stable I (returnE x)" "stable I (failE e)" "stable I (panicE p)" "stable I (liftE r)"
  by (simp_all add: stable_def io_simps)

lemma stable_callE [stable_intros]: "stable_call I c \<Longrightarrow> stable I (callE c)"
  by (auto simp: stable_def stable_call_def callE_def split: prod.splits sum.splits)

lemma stable_readE [stable_intros]: "stable_call I f \<Longrightarrow> stable I (readE f)"
  by (auto simp: stable_def stable_call_def readE_def split: prod.splits)

lemma stable_doE [stable_intros]: "(\<And>w. I w \<Longrightarrow> I (f w)) \<Longrightarrow> stable I (doE f)"
  by (simp add: stable_def io_simps)

lemma stable_bindE [stable_intros]: "stable I m \<Longrightarrow> (\<And>x. stable I (f x)) \<Longrightarrow> stable I (bindE m f)"
  by (auto simp: stable_def bindE_def split: prod.splits outcome.splits)

lemma stable_thenE [stable_intros]: "stable I m \<Longrightarrow> stable I k \<Longrightarrow> stable I (thenE m k)"
  by (simp add: thenE_def stable_bindE)

lemma stable_wrapE [stable_intros]: "stable I m \<Longrightarrow> stable I (wrapE s as m)"
  by (auto simp: stable_def wrapE_def split: prod.splits outcome.splits)

lemma stable_catchE [stable_intros]: "stable I m \<Longrightarrow> (\<And>e. stable I (h e)) \<Longrightarrow> stable I (catchE m h)"
  by (auto simp: stable_def catchE_def split: prod.splits outcome.splits)

lemma stable_tryE [stable_intros]: "stable I m \<Longrightarrow> stable I (tryE m)"
  by (auto simp: stable_def tryE_def split: prod.splits outcome.splits)

lemma stable_forE [stable_intros]: "(\<And>x. x \<in> set xs \<Longrightarrow> stable I (f x)) \<Longrightarrow> stable I (forE xs f)"
  by (induction xs) (simp_all add: stable_pure stable_thenE)

lemma stable_cases [stable_intros]:
  "(b \<Longrightarrow> stable I m) \<Longrightarrow> (\<not> b \<Longrightarrow> stable I k) \<Longrightarrow> stable I (if b then m else k)"
  "stable I n \<Longrightarrow> (\<And>x. stable I (s x)) \<Longrightarrow> stable I (case o' of None \<Rightarrow> n | Some x \<Rightarrow> s x)"
  "(\<And>x y. stable I (g x y)) \<Longrightarrow> stable I (case p of (x, y) \<Rightarrow> g x y)"
  "(\<And>x. stable I (l x)) \<Longrightarrow> (\<And>y. stable I (r y)) \<Longrightarrow> stable I (case z of Inl x \<Rightarrow> l x | Inr y \<Rightarrow> r y)"
  "stable I m \<Longrightarrow> (\<And>x xs. stable I (c x xs)) \<Longrightarrow> stable I (case ys of [] \<Rightarrow> m | x # xs \<Rightarrow> c x xs)"
  by (simp_all split: option.splits prod.splits sum.splits list.splits)

text \<open>What every call leaves of the world in a view, a handler leaves.\<close>

lemma wp_frame:
  assumes "\<And>c. stable (\<lambda>w. view w = c) m"
    and "\<And>r w'. view w' = view w \<Longrightarrow> Q r w'"
  shows "wp m Q w"
  using assms(1) [of "view w"] assms(2) by (simp add: wp_def stable_def)

lemma frameD: "(\<And>c. stable (\<lambda>w. view w = c) m) \<Longrightarrow> m w = (x, w') \<Longrightarrow> view w' = view w"
  using stableD [of "\<lambda>v. view v = view w"] by metis

end
