(* ===== verification/Go_Std.thy ===== *)
theory Go_Std
  imports Prelude "HOL-Library.Sublist"
begin

section \<open>The Go language and standard library, as far as the program uses them\<close>

text \<open>
  Strings are byte strings (\<open>string\<close>, a list of 8-bit \<open>char\<close>s), so \<open>length\<close> is Go's
  \<open>len\<close>. This theory holds the functions of packages \<open>strings\<close>, \<open>strconv\<close>, \<open>unicode/utf8\<close>
  and \<open>time\<close> that the code under src/ calls, and the conversions between integer types.
\<close>

subsection \<open>Package strings\<close>

text \<open>\<open>strings.Split(s, sep)\<close> for a one-byte separator: at least one part, empty parts kept.\<close>

fun split_on :: "char \<Rightarrow> string \<Rightarrow> string list" where
  "split_on c [] = [[]]"
| "split_on c (x # xs) =
     (if x = c then [] # split_on c xs
      else case split_on c xs of [] \<Rightarrow> [[x]] | p # ps \<Rightarrow> (x # p) # ps)"

text \<open>\<open>strings.Join(parts, sep)\<close>\<close>

fun join_with :: "string \<Rightarrow> string list \<Rightarrow> string" where
  "join_with sep [] = []"
| "join_with sep [p] = p"
| "join_with sep (p # q # ps) = p @ sep @ join_with sep (q # ps)"

lemma split_on_nonempty [simp]: "split_on c s \<noteq> []"
  by (cases s) (auto split: list.splits)

lemma length_split_on: "length (split_on c s) = Suc (count_list s c)"
  by (induction s) (auto split: list.splits)

lemma split_on_no_sep: "c \<notin> set s \<Longrightarrow> split_on c s = [s]"
  by (induction s) auto

lemma split_on_sep: "c \<notin> set a \<Longrightarrow> split_on c (a @ c # b) = a # split_on c b"
  by (induction a) auto

lemma split_on_parts: "p \<in> set (split_on c s) \<Longrightarrow> c \<notin> set p"
  by (induction s arbitrary: p) (auto split: list.splits if_splits)

lemma join_with_Cons: "ps \<noteq> [] \<Longrightarrow> join_with sep (p # ps) = p @ sep @ join_with sep ps"
  by (cases ps) auto

lemma join_with_Cons_char: "join_with sep ((x # p) # ps) = x # join_with sep (p # ps)"
  by (cases ps) auto

lemma join_split_on: "join_with [c] (split_on c s) = s"
  by (induction s)
     (auto simp: join_with_Cons join_with_Cons_char split: list.splits)

lemma split_on_pair_iff:
  "split_on c s = [a, b] \<longleftrightarrow> s = a @ c # b \<and> c \<notin> set a \<and> c \<notin> set b"
proof
  assume L: "split_on c s = [a, b]"
  then have "s = a @ c # b"
    using join_split_on [of c s] by simp
  moreover have "c \<notin> set a" "c \<notin> set b"
    using L split_on_parts [of _ c s] by auto
  ultimately show "s = a @ c # b \<and> c \<notin> set a \<and> c \<notin> set b" by simp
next
  assume "s = a @ c # b \<and> c \<notin> set a \<and> c \<notin> set b"
  then show "split_on c s = [a, b]" by (simp add: split_on_sep split_on_no_sep)
qed

text \<open>\<open>strings.HasPrefix\<close> and \<open>strings.Contains\<close>\<close>

definition has_prefix :: "string \<Rightarrow> string \<Rightarrow> bool" where
  "has_prefix s p = (take (length p) s = p)"

fun contains_str :: "string \<Rightarrow> string \<Rightarrow> bool" where
  "contains_str [] sub = (sub = [])"
| "contains_str (x # xs) sub = (has_prefix (x # xs) sub \<or> contains_str xs sub)"

lemma has_prefix_iff: "has_prefix s p \<longleftrightarrow> prefix p s"
  by (auto simp: has_prefix_def prefix_def) (metis append_take_drop_id)

lemma contains_str_iff: "contains_str s sub \<longleftrightarrow> sublist sub s"
  by (induction s) (auto simp: has_prefix_iff sublist_Cons_right)

text \<open>\<open>strings.TrimFunc\<close> and \<open>strings.TrimRightFunc\<close> on strings whose runes are bytes (ASCII)\<close>

definition trim_right_func :: "(char \<Rightarrow> bool) \<Rightarrow> string \<Rightarrow> string" where
  "trim_right_func p s = rev (dropWhile p (rev s))"

definition trim_func :: "(char \<Rightarrow> bool) \<Rightarrow> string \<Rightarrow> string" where
  "trim_func p s = trim_right_func p (dropWhile p s)"

lemma trim_right_func_prefix: "prefix (trim_right_func p s) s"
proof -
  have "s = trim_right_func p s @ rev (takeWhile p (rev s))"
    unfolding trim_right_func_def
    by (metis rev_append rev_rev_ident takeWhile_dropWhile_id)
  then show ?thesis by (metis prefixI)
qed

lemma length_trim_right_func: "length (trim_right_func p s) \<le> length s"
  by (rule prefix_length_le [OF trim_right_func_prefix])

lemma set_trim_right_func: "set (trim_right_func p s) \<subseteq> set s"
  by (rule set_mono_prefix [OF trim_right_func_prefix])

lemma last_trim_right_func: "trim_right_func p s \<noteq> [] \<Longrightarrow> \<not> p (last (trim_right_func p s))"
  by (metis hd_dropWhile last_rev rev_is_Nil_conv trim_right_func_def)

lemma hd_trim_right_func: "trim_right_func p s \<noteq> [] \<Longrightarrow> hd (trim_right_func p s) = hd s"
  by (metis hd_append prefix_def trim_right_func_prefix)

lemma trim_right_func_id: "s = [] \<or> \<not> p (last s) \<Longrightarrow> trim_right_func p s = s"
  by (cases s rule: rev_cases) (auto simp: trim_right_func_def)

lemma trim_right_func_nonempty: "x \<in> set s \<Longrightarrow> \<not> p x \<Longrightarrow> trim_right_func p s \<noteq> []"
  by (auto simp: trim_right_func_def)

lemma set_trim_func: "set (trim_func p s) \<subseteq> set s"
  using set_trim_right_func [of p "dropWhile p s"] set_mono_suffix [OF suffix_dropWhile]
  unfolding trim_func_def by (rule subset_trans)

lemma trim_func_hd: "trim_func p s \<noteq> [] \<Longrightarrow> \<not> p (hd (trim_func p s))"
proof -
  assume ne: "trim_func p s \<noteq> []"
  then have "dropWhile p s \<noteq> []"
    by (metis dropWhile.simps(1) rev.simps(1) trim_func_def trim_right_func_def)
  with ne show ?thesis
    by (simp add: trim_func_def hd_trim_right_func hd_dropWhile)
qed

lemma trim_func_last: "trim_func p s \<noteq> [] \<Longrightarrow> \<not> p (last (trim_func p s))"
  by (simp add: trim_func_def last_trim_right_func)

lemma trim_func_id: "s = [] \<or> (\<not> p (hd s) \<and> \<not> p (last s)) \<Longrightarrow> trim_func p s = s"
  by (cases s) (auto simp: trim_func_def intro: trim_right_func_id)

lemma trim_func_all: "(\<And>x. x \<in> set s \<Longrightarrow> p x) \<Longrightarrow> trim_func p s = []"
  by (metis dropWhile.simps(1) dropWhile_eq_Nil_conv rev.simps(1) trim_func_def trim_right_func_def)

subsection \<open>Runes: package unicode/utf8\<close>

text \<open>
  \<open>range\<close> over a string and \<open>strings.Map\<close> decode UTF-8. A byte that starts no valid
  encoding is one \<open>RuneError\<close> (U+FFFD) of width 1.
\<close>

definition rune_error :: nat where
  "rune_error = 65533"

definition cont_byte :: "nat \<Rightarrow> bool" where
  "cont_byte b = (128 \<le> b \<and> b \<le> 191)"

text \<open>The range of the second byte depends on the first: no overlong form, no surrogate.\<close>

definition second_ok :: "nat \<Rightarrow> nat \<Rightarrow> bool" where
  "second_ok b0 b1 =
     (if b0 = 224 then 160 \<le> b1 \<and> b1 \<le> 191
      else if b0 = 237 then 128 \<le> b1 \<and> b1 \<le> 159
      else if b0 = 240 then 144 \<le> b1 \<and> b1 \<le> 191
      else if b0 = 244 then 128 \<le> b1 \<and> b1 \<le> 143
      else cont_byte b1)"

text \<open>\<open>utf8.DecodeRuneInString\<close> on a non-empty string: the rune and its width in bytes.\<close>

fun decode_rune :: "nat list \<Rightarrow> nat \<times> nat" where
  "decode_rune [] = (rune_error, 0)"
| "decode_rune (b0 # bs) =
     (if b0 < 128 then (b0, 1)
      else case bs of
        b1 # b2 # b3 # _ \<Rightarrow>
          if 194 \<le> b0 \<and> b0 \<le> 223 \<and> second_ok b0 b1 then ((b0 - 192) * 64 + (b1 - 128), 2)
          else if 224 \<le> b0 \<and> b0 \<le> 239 \<and> second_ok b0 b1 \<and> cont_byte b2
          then ((b0 - 224) * 4096 + (b1 - 128) * 64 + (b2 - 128), 3)
          else if 240 \<le> b0 \<and> b0 \<le> 244 \<and> second_ok b0 b1 \<and> cont_byte b2 \<and> cont_byte b3
          then ((b0 - 240) * 262144 + (b1 - 128) * 4096 + (b2 - 128) * 64 + (b3 - 128), 4)
          else (rune_error, 1)
      | [b1, b2] \<Rightarrow>
          if 194 \<le> b0 \<and> b0 \<le> 223 \<and> second_ok b0 b1 then ((b0 - 192) * 64 + (b1 - 128), 2)
          else if 224 \<le> b0 \<and> b0 \<le> 239 \<and> second_ok b0 b1 \<and> cont_byte b2
          then ((b0 - 224) * 4096 + (b1 - 128) * 64 + (b2 - 128), 3)
          else (rune_error, 1)
      | [b1] \<Rightarrow>
          if 194 \<le> b0 \<and> b0 \<le> 223 \<and> second_ok b0 b1 then ((b0 - 192) * 64 + (b1 - 128), 2)
          else (rune_error, 1)
      | [] \<Rightarrow> (rune_error, 1))"

lemma decode_rune_width: "bs \<noteq> [] \<Longrightarrow> 1 \<le> snd (decode_rune bs)"
  by (cases bs rule: decode_rune.cases) (auto split: list.splits)

function decode_runes :: "nat list \<Rightarrow> nat list" where
  "decode_runes bs =
     (if bs = [] then []
      else fst (decode_rune bs) # decode_runes (drop (snd (decode_rune bs)) bs))"
  by pat_completeness auto
termination
  using decode_rune_width by (relation "measure length") (fastforce simp: Suc_le_eq)+

declare decode_runes.simps [simp del]

definition runes :: "string \<Rightarrow> nat list" where
  "runes s = decode_runes (map of_char s)"

lemma decode_runes_Nil [simp]: "decode_runes [] = []"
  by (subst decode_runes.simps) simp

lemma decode_runes_ascii [simp]: "b < 128 \<Longrightarrow> decode_runes (b # bs) = b # decode_runes bs"
  by (subst decode_runes.simps) simp

lemma runes_ascii: "(\<And>c. c \<in> set s \<Longrightarrow> of_char c < (128::nat)) \<Longrightarrow> runes s = map of_char s"
  by (induction s) (auto simp: runes_def)

lemma runes_nonempty: "s \<noteq> [] \<Longrightarrow> runes s \<noteq> []"
  by (simp add: runes_def decode_runes.simps)

subsection \<open>Package strconv\<close>

definition digit_char :: "nat \<Rightarrow> char" where
  "digit_char d = char_of (48 + d)"

fun format_nat :: "nat \<Rightarrow> string" where
  "format_nat n =
     (if n < 10 then [digit_char n] else format_nat (n div 10) @ [digit_char (n mod 10)])"

declare format_nat.simps [simp del]

text \<open>\<open>strconv.FormatInt(i, 10)\<close>\<close>

definition format_int :: "int \<Rightarrow> string" where
  "format_int i = (if i < 0 then CHR ''-'' # format_nat (nat (- i)) else format_nat (nat i))"

definition parse_nat :: "string \<Rightarrow> nat" where
  "parse_nat s = foldl (\<lambda>a c. a * 10 + (of_char c - 48)) 0 s"

lemma of_char_digit [simp]: "d < 10 \<Longrightarrow> of_char (digit_char d) = 48 + d"
  by (simp add: digit_char_def of_char_of)

lemma parse_format_nat: "parse_nat (format_nat n) = n"
proof (induction n rule: format_nat.induct)
  case (1 n)
  then show ?case
    by (subst format_nat.simps) (auto simp: parse_nat_def)
qed

lemma format_nat_inj: "format_nat m = format_nat n \<Longrightarrow> m = n"
  by (metis parse_format_nat)

lemma format_nat_digits: "c \<in> set (format_nat n) \<Longrightarrow> \<exists>d < 10. c = digit_char d"
proof (induction n rule: format_nat.induct)
  case (1 n)
  show ?case
  proof (cases "n < 10")
    case True
    with "1.prems" show ?thesis by (subst (asm) format_nat.simps) auto
  next
    case False
    with "1.prems" have "c \<in> set (format_nat (n div 10)) \<or> c = digit_char (n mod 10)"
      by (subst (asm) format_nat.simps) auto
    with False "1.IH" show ?thesis by (auto intro: exI [of _ "n mod 10"])
  qed
qed

subsection \<open>Integers\<close>

type_synonym uint64 = "64 word"
type_synonym int64 = "64 word" \<comment> \<open>read with \<open>sint\<close>\<close>

text \<open>\<open>math.MaxInt64\<close>; a conversion between \<open>uint64\<close> and \<open>int64\<close> keeps the bits.\<close>

definition max_int64 :: uint64 where
  "max_int64 = 0x7FFFFFFFFFFFFFFF"

definition min_int64_int :: int where
  "min_int64_int = - (2 ^ 63)"

definition max_int64_int :: int where
  "max_int64_int = 2 ^ 63 - 1"

lemma uint_max_int64: "uint max_int64 = 2 ^ 63 - 1"
  by (simp add: max_int64_def)

lemma sint_eq_uint_small:
  fixes q :: "64 word"
  assumes "uint q < 2 ^ 63"
  shows "sint q = uint q"
proof -
  have "- (2 ^ 63) \<le> uint q" by (rule order_trans [of _ 0]) simp_all
  with assms have "signed_take_bit 63 (uint q) = uint q"
    by (simp only: signed_take_bit_int_eq_self_iff)
  then show ?thesis by (simp add: sint_uint)
qed

lemma sint_eq_uint_large:
  fixes q :: "64 word"
  assumes "2 ^ 63 \<le> uint q"
  shows "sint q = uint q - 2 ^ 64"
proof -
  have lt: "uint q < 2 ^ 64" using uint_lt2p [of q] by simp
  with assms have "uint q div 2 ^ 63 = 1" by simp
  then have "bit (uint q) 63" by (simp add: bit_iff_odd)
  moreover have "take_bit 64 (uint q) = uint q"
    using lt by (simp add: take_bit_int_eq_self_iff)
  ultimately show ?thesis
    by (simp add: sint_uint signed_take_bit_eq_take_bit_minus)
qed

end
