(* ===== verification/Go_Time.thy ===== *)
theory Go_Time
  imports Go_Std
begin

section \<open>Package time\<close>

text \<open>
  An instant (\<open>time.Time\<close> in UTC) is the number of nanoseconds since the Unix epoch, a
  \<open>time.Duration\<close> a number of nanoseconds that fits 64 bits. \<open>Sub\<close> saturates, as Go's does;
  \<open>Add\<close> does not overflow on the instants the program handles.
\<close>

type_synonym time = int
type_synonym duration = int

definition second :: duration where "second = 1000000000"
definition minute :: duration where "minute = 60 * second"
definition hour :: duration where "hour = 60 * minute"

text \<open>\<open>time.Time{}\<close>, for which \<open>IsZero\<close> holds: January 1, year 1, 00:00 UTC.\<close>

definition zero_time :: time where
  "zero_time = - 62135596800 * second"

definition max_duration :: duration where "max_duration = 2 ^ 63 - 1"
definition min_duration :: duration where "min_duration = - (2 ^ 63)"

text \<open>\<open>t.Sub(u)\<close>\<close>

definition time_sub :: "time \<Rightarrow> time \<Rightarrow> duration" where
  "time_sub t u = max min_duration (min max_duration (t - u))"

text \<open>\<open>t.Add(d)\<close>, \<open>t.Before(u)\<close>, \<open>t.After(u)\<close>, \<open>t.Equal(u)\<close>, \<open>t.Unix()\<close>\<close>

definition time_add :: "time \<Rightarrow> duration \<Rightarrow> time" where "time_add t d = t + d"
definition time_before :: "time \<Rightarrow> time \<Rightarrow> bool" where "time_before t u = (t < u)"
definition time_after :: "time \<Rightarrow> time \<Rightarrow> bool" where "time_after t u = (u < t)"
definition time_equal :: "time \<Rightarrow> time \<Rightarrow> bool" where "time_equal t u = (t = u)"
definition time_unix :: "time \<Rightarrow> int" where "time_unix t = t div second"

lemmas time_defs = time_add_def time_before_def time_after_def time_equal_def

lemma second_pos [simp]: "0 < second"
  by (simp add: second_def)

lemma minute_pos [simp]: "0 < minute"
  by (simp add: minute_def second_def)

lemma hour_pos [simp]: "0 < hour"
  by (simp add: hour_def minute_def second_def)

lemma time_sub_exact:
  "min_duration \<le> t - u \<Longrightarrow> t - u \<le> max_duration \<Longrightarrow> time_sub t u = t - u"
  by (simp add: time_sub_def)

lemma time_sub_self [simp]: "time_sub t t = 0"
  by (simp add: time_sub_def max_duration_def min_duration_def)

lemma time_sub_nonneg: "u \<le> t \<Longrightarrow> 0 \<le> time_sub t u"
  by (simp add: time_sub_def max_duration_def)

lemma time_sub_le: "u \<le> t \<Longrightarrow> time_sub t u \<le> t - u"
  by (simp add: time_sub_def min_duration_def)

text \<open>
  Division of a duration by an integer truncates towards zero.
\<close>

definition trunc_div :: "int \<Rightarrow> int \<Rightarrow> int" where
  "trunc_div d n = (if (d < 0) = (n < 0) then \<bar>d\<bar> div \<bar>n\<bar> else - (\<bar>d\<bar> div \<bar>n\<bar>))"

lemma trunc_div_nonneg: "0 \<le> a \<Longrightarrow> 0 < b \<Longrightarrow> trunc_div a b = a div b"
  by (simp add: trunc_div_def)

subsection \<open>Floating point\<close>

text \<open>
  \<open>float64(d)\<close> of an integer below \<open>2 ^ 64\<close>: 53 bits of significand, round to nearest, ties
  to even. The result is an integer. \<open>excess_bits\<close> is the number of low bits that do not fit.
\<close>

definition excess_bits :: "int \<Rightarrow> nat" where
  "excess_bits a = length (takeWhile (\<lambda>k. 2 ^ (53 + k) \<le> a) [0..<11])"

definition round_half_even :: "int \<Rightarrow> int \<Rightarrow> int" where
  "round_half_even a m =
     (let q = a div m; r = a mod m
      in if m < 2 * r \<or> (2 * r = m \<and> odd q) then q + 1 else q)"

definition float64_of_int :: "int \<Rightarrow> int" where
  "float64_of_int d =
     (let m = 2 ^ excess_bits \<bar>d\<bar> in sgn d * (round_half_even \<bar>d\<bar> m * m))"

text \<open>\<open>time.Duration(0.5 * float64(d))\<close>: halving is exact, the conversion back truncates.\<close>

definition half_duration :: "duration \<Rightarrow> duration" where
  "half_duration d = trunc_div (float64_of_int d) 2"

lemma round_half_even_1 [simp]: "round_half_even a 1 = a"
  by (simp add: round_half_even_def)

lemma float64_of_int_exact: "\<bar>d\<bar> < 2 ^ 53 \<Longrightarrow> float64_of_int d = d"
proof -
  assume a: "\<bar>d\<bar> < 2 ^ 53"
  have "[0..<11] = 0 # [1..<11::nat]" by (simp add: upt_rec)
  with a have "excess_bits \<bar>d\<bar> = 0"
    by (simp add: excess_bits_def)
  then show ?thesis by (simp add: float64_of_int_def abs_mult_sgn mult.commute)
qed

lemma half_duration_exact: "0 \<le> d \<Longrightarrow> d < 2 ^ 53 \<Longrightarrow> half_duration d = d div 2"
  by (simp add: half_duration_def float64_of_int_exact trunc_div_nonneg)

lemma round_half_even_bound:
  assumes "0 < m"
  shows "2 * (round_half_even a m * m) \<le> 2 * a + m"
proof -
  define q where "q = a div m"
  define r where "r = a mod m"
  have r: "0 \<le> r" "r < m" using assms by (simp_all add: r_def)
  have a: "a = q * m + r" by (simp add: q_def r_def)
  have "round_half_even a m = (if m < 2 * r \<or> 2 * r = m \<and> odd q then q + 1 else q)"
    by (simp add: round_half_even_def q_def r_def Let_def)
  moreover have "2 * (q * m) \<le> 2 * a + m"
    using r assms unfolding a by (simp add: distrib_left)
  moreover have "2 * ((q + 1) * m) \<le> 2 * a + m" if "m \<le> 2 * r"
    using that unfolding a by (simp add: algebra_simps)
  ultimately show ?thesis by auto
qed

lemma takeWhile_upt_last:
  assumes "takeWhile P [0..<n] \<noteq> []"
  shows "P (length (takeWhile P [0..<n]) - 1)"
proof -
  let ?t = "takeWhile P [0..<n]"
  have l: "length ?t - 1 < length ?t" using assms by simp
  then have "?t ! (length ?t - 1) = [0..<n] ! (length ?t - 1)"
    by (rule takeWhile_nth)
  also have "\<dots> = length ?t - 1"
    using l length_takeWhile_le [of P "[0..<n]"] by simp
  finally have "?t ! (length ?t - 1) = length ?t - 1" .
  moreover have "P (?t ! (length ?t - 1))"
    using nth_mem [OF l] set_takeWhileD by fast
  ultimately show ?thesis by simp
qed

lemma excess_bits_le: "0 < excess_bits a \<Longrightarrow> 2 ^ (52 + excess_bits a) \<le> a"
proof -
  assume pos: "0 < excess_bits a"
  then have "2 ^ (53 + (excess_bits a - 1)) \<le> a"
    using takeWhile_upt_last [of "\<lambda>k. 2 ^ (53 + k) \<le> a" 11] by (simp only: excess_bits_def) simp
  moreover have "53 + (excess_bits a - 1) = 52 + excess_bits a"
    using pos by simp
  ultimately show ?thesis by simp
qed

text \<open>
  The rounded half is never later than the whole: the relative error is below \<open>2 ^ -52\<close>.
\<close>

lemma half_duration_bounds:
  assumes "0 \<le> d"
  shows "0 \<le> half_duration d" and "half_duration d \<le> d"
proof -
  let ?k = "excess_bits d"
  let ?m = "(2::int) ^ ?k"
  let ?f = "round_half_even d ?m * ?m"
  have m: "0 < ?m" by simp
  have f: "float64_of_int d = ?f"
  proof (cases "d = 0")
    case True
    then show ?thesis by (simp add: float64_of_int_def round_half_even_def)
  next
    case False
    with assms show ?thesis by (simp add: float64_of_int_def Let_def)
  qed
  have "0 \<le> round_half_even d ?m"
    using assms by (simp add: round_half_even_def Let_def pos_imp_zdiv_nonneg_iff)
  then have f0: "0 \<le> ?f" by simp
  have small: "?m \<le> 2 * d \<or> ?f = d"
  proof (cases "?k = 0")
    case True
    then show ?thesis by simp
  next
    case False
    then have "2 ^ (52 + ?k) \<le> d" using excess_bits_le by blast
    moreover have "?m \<le> 2 ^ (52 + ?k)" by (simp add: power_increasing)
    ultimately show ?thesis using assms by linarith
  qed
  have "2 * ?f \<le> 2 * d + ?m" by (rule round_half_even_bound [OF m])
  with small assms have "?f \<le> 2 * d" by linarith
  then have "?f div 2 \<le> d" by linarith
  moreover have "half_duration d = ?f div 2"
    using f0 by (simp add: half_duration_def f trunc_div_nonneg)
  ultimately show "half_duration d \<le> d" by simp
  show "0 \<le> half_duration d"
    using f0 \<open>half_duration d = ?f div 2\<close> by simp
qed

end
