(* ===== verification/Constants.thy ===== *)
theory Constants
  imports Go_Time
begin

section \<open>Package internal/constants\<close>

text \<open>The label and annotation keys, names and durations of \<open>internal/constants/consts.go\<close>.\<close>

definition ApplicationCredentialsValidity :: duration where
  "ApplicationCredentialsValidity = 24 * 60 * hour"

definition ApplicationCredentialsRenewTime :: duration where
  "ApplicationCredentialsRenewTime = 24 * hour"

definition AnnotationKeyExpiresAt :: string where
  "AnnotationKeyExpiresAt = ''secret.persephone.sci.cloud.sap/expires-at''"

definition AnnotationKeyForceCredentialsBindingUpdate :: string where
  "AnnotationKeyForceCredentialsBindingUpdate =
     ''shoot.persephone.sci.cloud.sap/force-credentials-binding-update''"

definition LabelKeyOpenStackDomainName :: string where
  "LabelKeyOpenStackDomainName = ''sci.cloud.sap/domain-name''"

definition LabelKeyOpenStackDomainID :: string where
  "LabelKeyOpenStackDomainID = ''sci.cloud.sap/domain-id''"

definition LabelKeyOpenStackProjectName :: string where
  "LabelKeyOpenStackProjectName = ''sci.cloud.sap/project-name''"

definition LabelKeyOpenStackProjectID :: string where
  "LabelKeyOpenStackProjectID = ''sci.cloud.sap/project-id''"

definition LabelKeyOpenStackRegion :: string where
  "LabelKeyOpenStackRegion = ''sci.cloud.sap/region''"

definition LabelKeyShootName :: string where
  "LabelKeyShootName = ''persephone.sci.cloud.sap/shoot-name''"

definition ResourceQuotaName :: string where
  "ResourceQuotaName = ''shoot-clusters-quota''"

definition ShootResourceQuotaKey :: string where
  "ShootResourceQuotaKey = ''count/shoots.core.gardener.cloud''"

definition GardenerProviderType :: string where
  "GardenerProviderType = ''openstack''"

definition KeystoneApplicationCredentialAuth :: string where
  "KeystoneApplicationCredentialAuth = ''application-credential-auth''"

definition KeystonePasswordAuth :: string where
  "KeystonePasswordAuth = ''password-auth''"

text \<open>
  The label keys are pairwise different: a label set under one key never shows under another.
\<close>

lemmas label_key_defs =
  LabelKeyOpenStackDomainName_def LabelKeyOpenStackDomainID_def LabelKeyOpenStackProjectName_def
  LabelKeyOpenStackProjectID_def LabelKeyOpenStackRegion_def LabelKeyShootName_def

lemma label_keys_neq [simp]:
  "LabelKeyOpenStackDomainName \<noteq> LabelKeyOpenStackDomainID"
  "LabelKeyOpenStackDomainName \<noteq> LabelKeyOpenStackProjectName"
  "LabelKeyOpenStackDomainName \<noteq> LabelKeyOpenStackProjectID"
  "LabelKeyOpenStackDomainName \<noteq> LabelKeyOpenStackRegion"
  "LabelKeyOpenStackDomainName \<noteq> LabelKeyShootName"
  "LabelKeyOpenStackDomainID \<noteq> LabelKeyOpenStackDomainName"
  "LabelKeyOpenStackDomainID \<noteq> LabelKeyOpenStackProjectName"
  "LabelKeyOpenStackDomainID \<noteq> LabelKeyOpenStackProjectID"
  "LabelKeyOpenStackDomainID \<noteq> LabelKeyOpenStackRegion"
  "LabelKeyOpenStackDomainID \<noteq> LabelKeyShootName"
  "LabelKeyOpenStackProjectName \<noteq> LabelKeyOpenStackDomainName"
  "LabelKeyOpenStackProjectName \<noteq> LabelKeyOpenStackDomainID"
  "LabelKeyOpenStackProjectName \<noteq> LabelKeyOpenStackProjectID"
  "LabelKeyOpenStackProjectName \<noteq> LabelKeyOpenStackRegion"
  "LabelKeyOpenStackProjectName \<noteq> LabelKeyShootName"
  "LabelKeyOpenStackProjectID \<noteq> LabelKeyOpenStackDomainName"
  "LabelKeyOpenStackProjectID \<noteq> LabelKeyOpenStackDomainID"
  "LabelKeyOpenStackProjectID \<noteq> LabelKeyOpenStackProjectName"
  "LabelKeyOpenStackProjectID \<noteq> LabelKeyOpenStackRegion"
  "LabelKeyOpenStackProjectID \<noteq> LabelKeyShootName"
  "LabelKeyOpenStackRegion \<noteq> LabelKeyOpenStackDomainName"
  "LabelKeyOpenStackRegion \<noteq> LabelKeyOpenStackDomainID"
  "LabelKeyOpenStackRegion \<noteq> LabelKeyOpenStackProjectName"
  "LabelKeyOpenStackRegion \<noteq> LabelKeyOpenStackProjectID"
  "LabelKeyOpenStackRegion \<noteq> LabelKeyShootName"
  "LabelKeyShootName \<noteq> LabelKeyOpenStackDomainName"
  "LabelKeyShootName \<noteq> LabelKeyOpenStackDomainID"
  "LabelKeyShootName \<noteq> LabelKeyOpenStackProjectName"
  "LabelKeyShootName \<noteq> LabelKeyOpenStackProjectID"
  "LabelKeyShootName \<noteq> LabelKeyOpenStackRegion"
  by (simp_all add: label_key_defs)

end
