(* ===== verification/Errors.thy ===== *)
theory Errors
  imports Prelude
begin

section \<open>Error sites\<close>

text \<open>
  One constructor for each \<open>errors.New\<close> and \<open>fmt.Errorf\<close> of the modelled packages, grouped by
  package. The message's fixed text is what the constructor stands for (it is quoted beside it
  where the name does not say it); the arguments of the format travel in the \<open>string list\<close> of
  \<open>Errorf\<close> and \<open>Wrapf\<close>, in the order of the format.
\<close>

datatype config_site =
    DefaultRegionUnset        \<comment> \<open>default region needs to be set in config\<close>
  | DefaultRegionInvalid      \<comment> \<open>failed validating regional config for default region\<close>
  | ShootQuotaZero            \<comment> \<open>defaultShootQuota must be greater than 0\<close>
  | IdentityEndpointUnset     \<comment> \<open>default identity endpoint needs to be set in config\<close>
  | AppCredentialsUnset       \<comment> \<open>application credentials need to be set in config\<close>
  | AuditURLInvalid           \<comment> \<open>auditTransportURL is not a valid URL\<close>
  | AuditURLScheme            \<comment> \<open>auditTransportURL must use amqp:// or amqps:// scheme\<close>
  | ConfigUnreadable          \<comment> \<open>failed to read config file\<close>
  | ConfigUnparsable          \<comment> \<open>failed to unmarshal config file\<close>

datatype kubernetes_site =
    KeyNotFound               \<comment> \<open>key not found\<close>
  | ExtractUserInfo           \<comment> \<open>failed extracting ... from user info extras\<close>
  | ReconcileNamespace        \<comment> \<open>failed reconciling project namespace\<close>
  | ReconcileProject          \<comment> \<open>failed reconciling project\<close>
  | ReconcileRole             \<comment> \<open>failed reconciling role\<close>
  | ReconcileRoleBinding      \<comment> \<open>failed reconciling role binding\<close>
  | ReconcileQuota            \<comment> \<open>failed reconciling ResourceQuota\<close>
  | CreateAppCredential       \<comment> \<open>failed creating new a application credential\<close>
  | CreateInternalSecret      \<comment> \<open>failed creating application credential InternalSecret\<close>
  | CreateCredentialsBinding  \<comment> \<open>failed creating CredentialsBinding for application credential secret\<close>
  | ApiEndpointInvalid        \<comment> \<open>API endpoint should be a valid URL\<close>
  | MissingRegionName         \<comment> \<open>missing Keystone RegionName\<close>
  | MissingIdentityEndpoint   \<comment> \<open>missing Keystone IdentityEndpoint\<close>
  | MissingDomainName         \<comment> \<open>missing Keystone DomainName\<close>
  | MissingScope              \<comment> \<open>missing Keystone Scope\<close>
  | MissingScopeProjectID     \<comment> \<open>missing Keystone Scope.ProjectID\<close>
  | MissingScopeProjectName   \<comment> \<open>missing Keystone Scope.ProjectName\<close>
  | AppCredentialRequired     \<comment> \<open>application credential ID/Name/Secret must be provided\<close>
  | UserPasswordRequired      \<comment> \<open>both username and password must be provided\<close>
  | UnsupportedAuthMethod     \<comment> \<open>unsupported Keystone authentication method\<close>
  | LoadGardenKubeconfig      \<comment> \<open>could not load garden cluster kubeconfig\<close>
  | CurrentContextEmpty       \<comment> \<open>kubeconfig current context must not be empty\<close>
  | ContextNamespaceEmpty     \<comment> \<open>kubeconfig current context namespace must not be empty\<close>
  | RestConfigFailed          \<comment> \<open>could not create REST config from garden cluster kubeconfig\<close>
  | GardenClientFailed        \<comment> \<open>could not create garden cluster client from config\<close>
  | AdminKubeconfigFailed     \<comment> \<open>could not create admin kubeconfig for shoot cluster\<close>

datatype openstack_site =
    GetUserFailed             \<comment> \<open>failed to get user ... by name\<close>
  | RandomCredentials         \<comment> \<open>failed to generate random service user credentials\<close>
  | CreateOrUpdateUser        \<comment> \<open>failed to create or update user\<close>
  | AssignRolesFailed         \<comment> \<open>failed to assign roles to service user\<close>
  | GetRoleFailed             \<comment> \<open>failed to get role by name\<close>
  | AssignRoleFailed          \<comment> \<open>failed to assign role ... to user\<close>
  | ListUsersFailed | ExtractUsersFailed
  | MultipleUsers             \<comment> \<open>found multiple users in domain with name\<close>
  | ListRolesFailed | ExtractRolesFailed
  | MultipleRoles             \<comment> \<open>found multiple roles with name\<close>
  | CreateServiceUser         \<comment> \<open>failed to create cluster service user\<close>
  | AwaitServiceUser          \<comment> \<open>failed waiting for service user to be available\<close>
  | ListAppCredentials        \<comment> \<open>error listing application credentials\<close>
  | ExtractAppCredentials     \<comment> \<open>error extracting application credentials\<close>
  | ListDomainsFailed | ExtractDomainsFailed
  | DomainAmbiguous           \<comment> \<open>could not determine domain id\<close>
  | DomainUndetermined        \<comment> \<open>failed to determine domain ID for domain name\<close>
  | IdentityClientFailed | NetworkClientFailed
  | ProviderClientFailed      \<comment> \<open>unable to create OpenStack provider client\<close>
  | AdminClientFailed         \<comment> \<open>unable to create OpenStack admin client\<close>
  | EndpointNotFound          \<comment> \<open>endpoint matching criteria not found\<close>
  | CatalogUnavailable        \<comment> \<open>could not extract service catalog out of auth result\<close>
  | NoMatchingEndpoint        \<comment> \<open>no matching Persephone endpoint found\<close>
  | ManyMatchingEndpoints     \<comment> \<open>more than one Persephone endpoint found\<close>

datatype token_site =
    InvalidTokenFormat        \<comment> \<open>invalid token format\<close>
  | RegionNotConfigured       \<comment> \<open>region not found in config\<close>
  | RegionEndpointEmpty       \<comment> \<open>region found, but identity endpoint is empty\<close>
  | RegionalEndpointFailed    \<comment> \<open>failed to get regional identity endpoint\<close>
  | OpenStackClientFailed     \<comment> \<open>failed to create OpenStack client\<close>
  | TokenUserFailed           \<comment> \<open>failed extracting user\<close>
  | TokenProjectFailed        \<comment> \<open>failed extracting project\<close>
  | TokenRolesFailed          \<comment> \<open>failed extracting roles\<close>

datatype liquid_site =
    NamespaceCheckFailed      \<comment> \<open>failed checking namespace\<close>
  | QuotaMissing              \<comment> \<open>namespace exists but ResourceQuota not found\<close>
  | ClustersResourceMissing   \<comment> \<open>request must include the 'clusters' resource\<close>
  | NamespaceMissing          \<comment> \<open>SetQuota called but namespace does not exist\<close>
  | QuotaObjectMissing        \<comment> \<open>namespace exists but ResourceQuota does not\<close>
  | QuotaCheckFailed          \<comment> \<open>failed checking ResourceQuota in namespace\<close>
  | QuotaReconcileFailed      \<comment> \<open>failed reconciling ResourceQuota for project\<close>
  | ListenAddressMissing      \<comment> \<open>missing required value: DefaultListenAddress\<close>
  | EndpointMissing           \<comment> \<open>missing required value: IdentityEndpoint\<close>
  | InitFailed                \<comment> \<open>during Logic.Init()\<close>
  | ServiceInfoFailed         \<comment> \<open>during Logic.BuildServiceInfo()\<close>
  | WithStatus nat            \<comment> \<open>\<open>respondwith.CustomStatus(code, err)\<close>\<close>

datatype admission_site =
    NotAShoot                 \<comment> \<open>expected Shoot but got another type\<close>
  | UserInfoFromExtras        \<comment> \<open>failed getting OpenStack user info from extras\<close>
  | RegionNotSupported        \<comment> \<open>region not supported\<close>
  | ClusterUserClients        \<comment> \<open>could not create cluster user clients\<close>
  | EnsureCredentials         \<comment> \<open>failed to ensure OpenStack credentials Secret and CredentialsBinding\<close>
  | DecodeInfrastructure      \<comment> \<open>failed decoding infrastructure config from raw extension\<close>
  | ConvertInfrastructure     \<comment> \<open>failed converting internal OpenStack infrastructure config\<close>
  | DetectFloatingPool        \<comment> \<open>error detecting floating pool name\<close>
  | ListShootSecrets          \<comment> \<open>failed listing InternalSecrets for Shoot containing credentials\<close>
  | EnsureNewCredential       \<comment> \<open>failed ensuring a new application credential\<close>
  | ListNetworksFailed        \<comment> \<open>failed listing networks\<close>
  | ExtractNetworksFailed     \<comment> \<open>failed extracting networks\<close>
  | ClientSetFailed           \<comment> \<open>failed creating OpenStack clientset\<close>
  | ExternalNetworkCount      \<comment> \<open>unable to auto-detect external network\<close>

datatype controller_site =
    RetrieveObject            \<comment> \<open>error retrieving object from store\<close>
  | RetrieveShoot             \<comment> \<open>failed to retrieve Shoot for InternalSecret\<close>
  | ParseExpiresAt            \<comment> \<open>failed to parse expires-at annotation on Secret\<close>
  | AddFinalizer              \<comment> \<open>error adding finalizer\<close>
  | EnsureBinding             \<comment> \<open>failed to ensure InternalSecret and CredentialsBinding\<close>
  | ListSecrets               \<comment> \<open>failed to list InternalSecrets for Shoot\<close>
  | UserClients               \<comment> \<open>could not create cluster user clients\<close>
  | NewSecretFailed           \<comment> \<open>failed ensuring a new application credential InternalSecret\<close>
  | UserInfoFromLabels        \<comment> \<open>failed getting OpenStack user info from labels\<close>
  | RegionUnsupported         \<comment> \<open>region not supported\<close>
  | CheckClusterUser          \<comment> \<open>failed to check if cluster service user exists\<close>
  | NewUserClientSet          \<comment> \<open>failed to create new cluster user client set for user\<close>
  | DeleteBinding             \<comment> \<open>failed to delete CredentialsBinding\<close>
  | DeleteAppCredential       \<comment> \<open>failed to delete OpenStack application credential(s)\<close>
  | CheckOwner                \<comment> \<open>failed to check if InternalSecret owns the cluster service user\<close>
  | CheckOnlyRemaining        \<comment> \<open>failed to check if the InternalSecret is the only one remaining\<close>
  | ListAllSecrets            \<comment> \<open>failed to list all InternalSecrets for Shoot\<close>
  | EnsureUserDeleted         \<comment> \<open>failed to ensure that the cluster user is deleted\<close>
  | GetShootNamespace         \<comment> \<open>failed to get namespace\<close>
  | DeleteServiceUser         \<comment> \<open>failed to delete OpenStack cluster service user\<close>
  | DeleteAllSecrets          \<comment> \<open>failed deleting all InternalSecrets for Shoot\<close>
  | RetrieveNamespace         \<comment> \<open>error retrieving project namespace\<close>
  | NamespaceLabels           \<comment> \<open>error retrieving OpenStackUserInfo from Namespace labels\<close>

datatype audit_site =
    RegionNotExtractable      \<comment> \<open>could not extract region from audit event\<close>
  | ExtractRegion             \<comment> \<open>failed to extract region\<close>
  | NoUserExtra               \<comment> \<open>failed to extract region: no user extra fields\<close>
  | RegionFromUserInfo        \<comment> \<open>failed to extract region from user info\<close>
  | RegionEmpty               \<comment> \<open>failed to extract region from user info: region is empty\<close>
  | NoAuditor                 \<comment> \<open>no auditor configured for region\<close>
  | GetAuditorFailed          \<comment> \<open>failed to get auditor for region\<close>
  | CreateAuditor             \<comment> \<open>failed to create auditor for region\<close>

datatype auth_site =
    KeyringUnsupported        \<comment> \<open>keyring storage not yet implemented\<close>
  | StorageUnknown            \<comment> \<open>unknown storage type\<close>
  | CacheKeyMissing           \<comment> \<open>ErrCacheKeyNotFound: cache key not found\<close>
  | CacheUnreadable           \<comment> \<open>unreadableCachedExecCredentialError\<close>
  | CacheStatFailed           \<comment> \<open>unable to perform os.Stat\<close>
  | CacheUnsafe               \<comment> \<open>unsafeCachedExecCredentialError\<close>
  | CacheInvalid              \<comment> \<open>invalidCachedExecCredentialError\<close>
  | TokenIDMissing            \<comment> \<open>missing token ID\<close>
  | TokenExpirationMissing    \<comment> \<open>missing token expiration timestamp\<close>
  | CacheExpired              \<comment> \<open>ExpiredCachedExecCredentialError\<close>
  | CacheDirFailed            \<comment> \<open>could not create cache directory\<close>
  | CacheEncodeFailed         \<comment> \<open>could not encode exec credential as JSON\<close>
  | CacheWriteFailed          \<comment> \<open>could not write exec credential cache file\<close>
  | AuthProviderFailed        \<comment> \<open>could not create provider client\<close>
  | AuthIdentityFailed        \<comment> \<open>could not create identity v3 client\<close>
  | AuthTokenFailed           \<comment> \<open>could not extract token\<close>
  | AuthCatalogFailed         \<comment> \<open>could not extract service catalog\<close>
  | KeyEncodeFailed           \<comment> \<open>could not encode the key\<close>

datatype scikube_site =
    AuthURLMissing            \<comment> \<open>--os-auth-url/OS_AUTH_URL is required\<close>
  | PasswordAuthIncomplete    \<comment> \<open>when using password auth, please provide ...\<close>
  | AppCredentialsMissing     \<comment> \<open>application credentials missing\<close>
  | KeystoneAuthFailed        \<comment> \<open>keystoneAuthError\<close>
  | MarshalCredentials        \<comment> \<open>could not marshal fresh credentials to JSON\<close>
  | WriteCredentials          \<comment> \<open>could not write fresh credentials to cache storage\<close>
  | ProjectIDWithCatalog      \<comment> \<open>when the openstack catalog is queried, --project-id cannot be used\<close>
  | ScikubeProviderFailed     \<comment> \<open>could not create provider client\<close>
  | AuthResultUnknown         \<comment> \<open>could not get result from auth request\<close>
  | ProjectExtractFailed      \<comment> \<open>could not extract project from project result\<close>
  | ProjectIDRequired         \<comment> \<open>when --url is set, --project-id must be set, too\<close>
  | KubeconfigFailed          \<comment> \<open>could not create KUBECONFIG\<close>
  | KubeconfigMarshal         \<comment> \<open>could not marshal kubeconfig as YAML\<close>
  | ScikubeNotInPath          \<comment> \<open>command 'scikube' must be in PATH\<close>
  | KubeconfigPathEmpty       \<comment> \<open>--kubeconfig/KUBECONFIG must not be empty\<close>
  | ShootNameEmpty            \<comment> \<open>--name/SCIKUBE_SHOOT_NAME must not be empty\<close>

datatype cert_site =
    GetCertSecret             \<comment> \<open>failed to get certificate secret\<close>
  | GenerateCerts             \<comment> \<open>failed to generate certificates\<close>
  | GenerateCA | GenerateServer | GenerateClient
  | CertDirFailed             \<comment> \<open>failed to create cert directory\<close>
  | CertDataEmpty             \<comment> \<open>certificate data is empty\<close>
  | CertWriteFailed           \<comment> \<open>failed to write\<close>
  | CheckCertSecret           \<comment> \<open>failed to check for existing certificate secret\<close>
  | UncachedClient            \<comment> \<open>failed to create uncached client\<close>
  | InitialCerts              \<comment> \<open>failed to generate initial certificates\<close>
  | InitialLoad               \<comment> \<open>initial certificate load failed\<close>
  | CertControllerFailed      \<comment> \<open>failed to create certificate reconciler\<close>
  | CertWatchFailed           \<comment> \<open>failed to set up watch for certificate reconciler\<close>
  | CertReloaderFailed        \<comment> \<open>failed to add certificate reloader\<close>
  | WebhookServerUnknown      \<comment> \<open>expected *webhook.DefaultServer, got\<close>

datatype options_site =
    ConfigFlagMissing         \<comment> \<open>config flag must be provided\<close>
  | CertSecretNameMissing     \<comment> \<open>cert-secret-name flag must be provided\<close>

datatype startup_site =
    OptionsInvalid            \<comment> \<open>failed to validate options\<close>
  | ConfigLoadFailed          \<comment> \<open>failed to load config\<close>
  | ConfigInvalid             \<comment> \<open>failed to validate config\<close>
  | StartRestConfig           \<comment> \<open>failed getting REST config\<close>
  | ManagerFailed             \<comment> \<open>failed to create manager, failed creating manager\<close>
  | HealthCheckFailed         \<comment> \<open>failed to setup health check\<close>
  | ReadyCheckFailed          \<comment> \<open>failed to setup readiness check\<close>
  | ControllersFailed         \<comment> \<open>failed adding controllers to manager\<close>
  | StartClientSet            \<comment> \<open>failed creating OpenStack clientset\<close>
  | ControllerFailed          \<comment> \<open>failed adding %s controller\<close>
  | WebhookCertsFailed        \<comment> \<open>failed adding webhook certificate management to manager\<close>
  | WebhooksFailed            \<comment> \<open>failed adding webhooks to manager\<close>
  | CertManagementFailed      \<comment> \<open>failed adding certificate management to manager\<close>
  | CertWatcherFailed         \<comment> \<open>failed to create certificate watcher\<close>
  | CAPoolFailed              \<comment> \<open>failed to load initial client CA pool\<close>
  | CAReadFailed              \<comment> \<open>failed to read CA certificate\<close>
  | CAParseFailed             \<comment> \<open>failed to parse CA certificate\<close>
  | CertFileNotReady          \<comment> \<open>certificate file %s not ready\<close>
  | AddWatcherFailed          \<comment> \<open>failed to add certificate watcher to manager\<close>
  | HostnameMissing           \<comment> \<open>HOSTNAME environment variable must be set for audit observer identification\<close>
  | AuditorsFailed            \<comment> \<open>failed creating region auditor set\<close>
  | AuditHandlerFailed        \<comment> \<open>failed adding audit handler\<close>
  | RegionFlagMissing         \<comment> \<open>-region flag is required\<close>
  | CacheSyncFailed           \<comment> \<open>failed waiting for cache sync\<close>
  | LogicFailed               \<comment> \<open>failed initializing Liquid logic\<close>
  | IdentityEndpointMissing   \<comment> \<open>OS_AUTH_URL environment variable is required\<close>

datatype site =
    ConfigPkg config_site
  | KubernetesPkg kubernetes_site
  | OpenStackPkg openstack_site
  | TokenPkg token_site
  | LiquidPkg liquid_site
  | AdmissionPkg admission_site
  | ControllerPkg controller_site
  | AuditPkg audit_site
  | AuthPkg auth_site
  | ScikubePkg scikube_site
  | CertPkg cert_site
  | OptionsPkg options_site
  | StartupPkg startup_site

type_synonym error = "site go_error"
type_synonym 'a res = "(site, 'a) outcome"
type_synonym ('w, 'a) io = "('w, site, 'a) eff"

text \<open>\<open>errors.New\<close> and \<open>fmt.Errorf\<close> in each package\<close>

abbreviation kube_err :: "kubernetes_site \<Rightarrow> string list \<Rightarrow> error" where
  "kube_err s \<equiv> Errorf (KubernetesPkg s)"

abbreviation token_err :: "token_site \<Rightarrow> string list \<Rightarrow> error" where
  "token_err s \<equiv> Errorf (TokenPkg s)"

abbreviation config_err :: "config_site \<Rightarrow> string list \<Rightarrow> error" where
  "config_err s \<equiv> Errorf (ConfigPkg s)"

end
