(* ===== verification/User_Info.thy ===== *)
theory User_Info
  imports Constants Errors
begin

section \<open>OpenStack user info\<close>

text \<open>
  \<open>internal/kubernetes/userinfo.go\<close>: what the webhooks know of an OpenStack user, how it is put
  into the extras of a Kubernetes user (token webhook) and read back (shoot admission, audit), and
  how it is read from the labels of a namespace or of an InternalSecret (operator).
\<close>

subsection \<open>The model\<close>

record OpenStackUserInfo =
  ProjectDomainID :: string
  ProjectDomainName :: string
  ProjectID :: string
  ProjectName :: string
  UserDomainID :: string
  UserDomainName :: string
  Region :: string

type_synonym extra = "string \<rightharpoonup> string list"
type_synonym labels = "string \<rightharpoonup> string"

definition OpenStackProjectDomainID :: string where
  "OpenStackProjectDomainID = ''project_domain_id''"
definition OpenStackProjectDomainName :: string where
  "OpenStackProjectDomainName = ''project_domain_name''"
definition OpenStackProjectID :: string where
  "OpenStackProjectID = ''project_id''"
definition OpenStackProjectName :: string where
  "OpenStackProjectName = ''project_name''"
definition OpenStackUserDomainID :: string where
  "OpenStackUserDomainID = ''user_domain_id''"
definition OpenStackUserDomainName :: string where
  "OpenStackUserDomainName = ''user_domain_name''"
definition OpenStackRegion :: string where
  "OpenStackRegion = ''region''"

lemmas extra_key_defs =
  OpenStackProjectDomainID_def OpenStackProjectDomainName_def OpenStackProjectID_def
  OpenStackProjectName_def OpenStackUserDomainID_def OpenStackUserDomainName_def
  OpenStackRegion_def

definition emptyUserInfo :: OpenStackUserInfo where
  "emptyUserInfo = \<lparr>ProjectDomainID = [], ProjectDomainName = [], ProjectID = [], ProjectName = [],
     UserDomainID = [], UserDomainName = [], Region = []\<rparr>"

definition ToExtra :: "OpenStackUserInfo \<Rightarrow> extra" where
  "ToExtra u =
     [OpenStackProjectDomainID \<mapsto> [ProjectDomainID u],
      OpenStackProjectDomainName \<mapsto> [ProjectDomainName u],
      OpenStackProjectID \<mapsto> [ProjectID u],
      OpenStackProjectName \<mapsto> [ProjectName u],
      OpenStackUserDomainID \<mapsto> [UserDomainID u],
      OpenStackUserDomainName \<mapsto> [UserDomainName u],
      OpenStackRegion \<mapsto> [Region u]]"

definition userInfoFields :: "string list" where
  "userInfoFields = [OpenStackProjectDomainID, OpenStackProjectDomainName, OpenStackProjectID,
     OpenStackProjectName, OpenStackUserDomainID, OpenStackUserDomainName, OpenStackRegion]"

definition HasOpenStackUserInfo :: "extra \<Rightarrow> bool" where
  "HasOpenStackUserInfo extra = list_all (\<lambda>field. extra field \<noteq> None) userInfoFields"

definition getFirstValueForKey :: "extra \<Rightarrow> string \<Rightarrow> string res" where
  "getFirstValueForKey extra key =
     (case extra key of Some (v # _) \<Rightarrow> Ok v | _ \<Rightarrow> Err (kube_err KeyNotFound [key]))"

definition extractExtra :: "extra \<Rightarrow> string \<Rightarrow> string res" where
  "extractExtra extra key =
     wrapR (KubernetesPkg ExtractUserInfo) [key] (getFirstValueForKey extra key)"

definition OpenStackUserInfoFromExtra :: "extra \<Rightarrow> OpenStackUserInfo res" where
  "OpenStackUserInfoFromExtra extra =
     bindR (extractExtra extra OpenStackProjectDomainID) (\<lambda>projectDomainID.
     bindR (extractExtra extra OpenStackProjectDomainName) (\<lambda>projectDomainName.
     bindR (extractExtra extra OpenStackProjectID) (\<lambda>projectID.
     bindR (extractExtra extra OpenStackProjectName) (\<lambda>projectName.
     bindR (extractExtra extra OpenStackUserDomainID) (\<lambda>userDomainID.
     bindR (extractExtra extra OpenStackUserDomainName) (\<lambda>userDomainName.
     bindR (extractExtra extra OpenStackRegion) (\<lambda>region.
       Ok \<lparr>ProjectDomainID = projectDomainID, ProjectDomainName = projectDomainName,
           ProjectID = projectID, ProjectName = projectName, UserDomainID = userDomainID,
           UserDomainName = userDomainName, Region = region\<rparr>)))))))"

definition getLabelValueForKey :: "labels \<Rightarrow> string \<Rightarrow> string res" where
  "getLabelValueForKey labels key =
     (case labels key of
        Some v \<Rightarrow> if v \<noteq> [] then Ok v else Err (kube_err KeyNotFound [key])
      | None \<Rightarrow> Err (kube_err KeyNotFound [key]))"

definition extractLabel :: "labels \<Rightarrow> string \<Rightarrow> string \<Rightarrow> string res" where
  "extractLabel labels key field =
     wrapR (KubernetesPkg ExtractUserInfo) [field] (getLabelValueForKey labels key)"

definition OpenStackUserInfoFromLabels :: "labels \<Rightarrow> OpenStackUserInfo res" where
  "OpenStackUserInfoFromLabels labels =
     bindR (extractLabel labels LabelKeyOpenStackDomainID OpenStackProjectDomainID) (\<lambda>domainID.
     bindR (extractLabel labels LabelKeyOpenStackDomainName OpenStackProjectDomainName) (\<lambda>domainName.
     bindR (extractLabel labels LabelKeyOpenStackProjectID OpenStackProjectID) (\<lambda>projectID.
     bindR (extractLabel labels LabelKeyOpenStackProjectName OpenStackProjectName) (\<lambda>projectName.
     bindR (extractLabel labels LabelKeyOpenStackRegion OpenStackRegion) (\<lambda>region.
       Ok (emptyUserInfo\<lparr>ProjectDomainID := domainID, ProjectDomainName := domainName,
             ProjectID := projectID, ProjectName := projectName, Region := region\<rparr>))))))"

subsection \<open>Reading the extras\<close>

lemma getFirstValueForKey_Ok_iff:
  "getFirstValueForKey e k = Ok v \<longleftrightarrow> (\<exists>vs. e k = Some (v # vs))"
  by (auto simp: getFirstValueForKey_def split: option.splits list.splits)

lemma extractExtra_Ok_iff: "extractExtra e k = Ok v \<longleftrightarrow> (\<exists>vs. e k = Some (v # vs))"
  by (simp add: extractExtra_def getFirstValueForKey_Ok_iff)

lemma extractExtra_Err:
  "(\<nexists>v vs. e k = Some (v # vs)) \<Longrightarrow>
     extractExtra e k = Err (Wrapf (KubernetesPkg ExtractUserInfo) [k] (kube_err KeyNotFound [k]))"
  by (auto simp: extractExtra_def getFirstValueForKey_def split: option.splits list.splits)

lemma extractExtra_not_panic: "extractExtra e k \<noteq> Panicked p"
  by (auto simp: extractExtra_def getFirstValueForKey_def split: option.splits list.splits)

text \<open>
  A value can be decoded if and only if each of the seven keys is there with a first value; the
  decoded fields are these first values.
\<close>

lemma from_extra_Ok_iff:
  "OpenStackUserInfoFromExtra e = Ok u \<longleftrightarrow>
     (\<exists>vs. e OpenStackProjectDomainID = Some (ProjectDomainID u # vs)) \<and>
     (\<exists>vs. e OpenStackProjectDomainName = Some (ProjectDomainName u # vs)) \<and>
     (\<exists>vs. e OpenStackProjectID = Some (ProjectID u # vs)) \<and>
     (\<exists>vs. e OpenStackProjectName = Some (ProjectName u # vs)) \<and>
     (\<exists>vs. e OpenStackUserDomainID = Some (UserDomainID u # vs)) \<and>
     (\<exists>vs. e OpenStackUserDomainName = Some (UserDomainName u # vs)) \<and>
     (\<exists>vs. e OpenStackRegion = Some (Region u # vs))"
  by (cases u) (auto simp: OpenStackUserInfoFromExtra_def bindR_Ok_iff extractExtra_Ok_iff)

text \<open>The interface the callers rely on: what one side encodes, the other side decodes.\<close>

locale user_info_codec =
  fixes encode :: "'i \<Rightarrow> 'e"
    and has :: "'e \<Rightarrow> bool"
    and decode :: "'e \<Rightarrow> 'i res"
  assumes decode_encode: "decode (encode i) = Ok i"
    and decoded_has: "decode e = Ok i \<Longrightarrow> has e"
begin

lemma encode_inj: "encode i = encode j \<Longrightarrow> i = j"
  by (metis decode_encode outcome.inject(1))

lemma has_encode: "has (encode i)"
  using decode_encode by (rule decoded_has)

lemma not_has_fails: "\<not> has e \<Longrightarrow> decode e \<noteq> Ok i"
  using decoded_has by blast

end

lemma to_extra_keys:
  "ToExtra u OpenStackProjectDomainID = Some [ProjectDomainID u]"
  "ToExtra u OpenStackProjectDomainName = Some [ProjectDomainName u]"
  "ToExtra u OpenStackProjectID = Some [ProjectID u]"
  "ToExtra u OpenStackProjectName = Some [ProjectName u]"
  "ToExtra u OpenStackUserDomainID = Some [UserDomainID u]"
  "ToExtra u OpenStackUserDomainName = Some [UserDomainName u]"
  "ToExtra u OpenStackRegion = Some [Region u]"
  by (simp_all add: ToExtra_def extra_key_defs)

lemma has_user_info_iff: "HasOpenStackUserInfo e \<longleftrightarrow> set userInfoFields \<subseteq> dom e"
  by (auto simp: HasOpenStackUserInfo_def list_all_iff)

interpretation extras: user_info_codec ToExtra HasOpenStackUserInfo OpenStackUserInfoFromExtra
proof unfold_locales
  fix u
  show "OpenStackUserInfoFromExtra (ToExtra u) = Ok u"
    by (simp add: from_extra_Ok_iff to_extra_keys)
next
  fix e u
  assume "OpenStackUserInfoFromExtra e = Ok u"
  then show "HasOpenStackUserInfo e"
    by (auto simp: from_extra_Ok_iff has_user_info_iff userInfoFields_def)
qed

lemma from_extra_first_missing:
  assumes "OpenStackUserInfoFromExtra e = Err err"
  shows "\<exists>k \<in> set userInfoFields. (\<nexists>v vs. e k = Some (v # vs)) \<and>
           err = Wrapf (KubernetesPkg ExtractUserInfo) [k] (kube_err KeyNotFound [k])"
proof -
  have step: "(\<exists>v. extractExtra e k = Ok v) \<or> ((\<nexists>v vs. e k = Some (v # vs)) \<and>
      extractExtra e k = Err (Wrapf (KubernetesPkg ExtractUserInfo) [k] (kube_err KeyNotFound [k])))" for k
    using extractExtra_Err [of e k] extractExtra_Ok_iff [of e k] by blast
  show ?thesis
    using assms step [of OpenStackProjectDomainID] step [of OpenStackProjectDomainName]
      step [of OpenStackProjectID] step [of OpenStackProjectName] step [of OpenStackUserDomainID]
      step [of OpenStackUserDomainName] step [of OpenStackRegion]
    unfolding OpenStackUserInfoFromExtra_def userInfoFields_def by (elim disjE exE conjE) auto
qed

lemma from_extra_not_panic: "OpenStackUserInfoFromExtra e \<noteq> Panicked p"
proof -
  have step: "(\<exists>v. extractExtra e k = Ok v) \<or> (\<exists>err. extractExtra e k = Err err)" for k
    using extractExtra_not_panic [of e k] by (cases "extractExtra e k") auto
  show ?thesis
    using step [of OpenStackProjectDomainID] step [of OpenStackProjectDomainName]
      step [of OpenStackProjectID] step [of OpenStackProjectName] step [of OpenStackUserDomainID]
      step [of OpenStackUserDomainName] step [of OpenStackRegion]
    unfolding OpenStackUserInfoFromExtra_def by (elim disjE exE) auto
qed

subsection \<open>Reading the labels\<close>

lemma extractLabel_Ok_iff: "extractLabel l k f = Ok v \<longleftrightarrow> l k = Some v \<and> v \<noteq> []"
  by (auto simp: extractLabel_def getLabelValueForKey_def split: option.splits if_splits)

lemma from_labels_Ok_iff:
  "OpenStackUserInfoFromLabels l = Ok u \<longleftrightarrow>
     l LabelKeyOpenStackDomainID = Some (ProjectDomainID u) \<and> ProjectDomainID u \<noteq> [] \<and>
     l LabelKeyOpenStackDomainName = Some (ProjectDomainName u) \<and> ProjectDomainName u \<noteq> [] \<and>
     l LabelKeyOpenStackProjectID = Some (ProjectID u) \<and> ProjectID u \<noteq> [] \<and>
     l LabelKeyOpenStackProjectName = Some (ProjectName u) \<and> ProjectName u \<noteq> [] \<and>
     l LabelKeyOpenStackRegion = Some (Region u) \<and> Region u \<noteq> [] \<and>
     UserDomainID u = [] \<and> UserDomainName u = []"
  by (cases u)
     (auto simp: OpenStackUserInfoFromLabels_def bindR_Ok_iff extractLabel_Ok_iff emptyUserInfo_def)

lemma from_labels_cases:
  obtains (ok) u where "OpenStackUserInfoFromLabels l = Ok u"
  | (error) err where "OpenStackUserInfoFromLabels l = Err err"
proof -
  have step: "(\<exists>v. extractLabel l k f = Ok v) \<or> (\<exists>err. extractLabel l k f = Err err)" for k f
    by (auto simp: extractLabel_def getLabelValueForKey_def split: option.splits)
  have "(\<exists>u. OpenStackUserInfoFromLabels l = Ok u) \<or> (\<exists>err. OpenStackUserInfoFromLabels l = Err err)"
    using step [of LabelKeyOpenStackDomainID OpenStackProjectDomainID]
      step [of LabelKeyOpenStackDomainName OpenStackProjectDomainName]
      step [of LabelKeyOpenStackProjectID OpenStackProjectID]
      step [of LabelKeyOpenStackProjectName OpenStackProjectName]
      step [of LabelKeyOpenStackRegion OpenStackRegion]
    unfolding OpenStackUserInfoFromLabels_def by (elim disjE exE) auto
  then show ?thesis using that by blast
qed

end
