(* ===== verification/Cluster.thy ===== *)
theory Cluster
  imports Go_Time User_Info
begin

section \<open>Kubernetes objects and the client\<close>

text \<open>
  The objects of the virtual garden cluster, with the fields the program reads or writes, and the
  client (controller-runtime's \<open>client.Client\<close> with Gardener's helper functions) as a record of
  operations on the world. The API server and these libraries are not part of the program: the
  record is a parameter of every definition that talks to the cluster.

  A nil map is \<open>None\<close> where the code distinguishes it (writing to it panics).
\<close>

subsection \<open>Objects\<close>

record Namespace =
  nsName :: string
  nsLabels :: labels

record Project =
  pjName :: string
  pjNamespace :: "string option"
  pjDeletionTimestamp :: "time option"

record PolicyRule =
  APIGroups :: "string list"
  Resources :: "string list"
  Verbs :: "string list"

record Role =
  roName :: string
  roNamespace :: string
  Rules :: "PolicyRule list"

record Subject =
  sjAPIGroup :: string
  sjKind :: string
  sjName :: string

record RoleRef =
  rrAPIGroup :: string
  rrKind :: string
  rrName :: string

record RoleBinding =
  rbName :: string
  rbNamespace :: string
  Subjects :: "Subject list"
  RoleRefOf :: RoleRef

text \<open>A resource list maps a resource to the \<open>int64\<close> value of its quantity.\<close>

type_synonym resource_list = "string \<rightharpoonup> int64"

record ResourceQuota =
  rqName :: string
  rqNamespace :: string
  rqCreationTimestamp :: time
  Hard :: "resource_list option"
  Used :: "resource_list option"

record InternalSecret =
  isName :: string
  isNamespace :: string
  isUID :: string
  isCreationTimestamp :: time
  isDeletionTimestamp :: "time option"
  isFinalizers :: "string list"
  isAnnotations :: labels
  isLabels :: labels
  isType :: string
  isImmutable :: "bool option"
  isStringData :: labels
  isData :: labels

record ObjectReference =
  orAPIVersion :: string
  orKind :: string
  orName :: string
  orNamespace :: string

record CredentialsBinding =
  cbName :: string
  cbNamespace :: string
  cbDeletionTimestamp :: "time option"
  cbFinalizers :: "string list"
  cbProviderType :: string
  cbCredentialsRef :: ObjectReference

record LastOperation =
  loType :: string
  loState :: string

record InfrastructureConfig =
  icAPIVersion :: string
  icKind :: string
  FloatingPoolName :: string
  NetworksWorkers :: string
  icRest :: string \<comment> \<open>the fields the program does not touch\<close>

record ControlPlaneConfig =
  cpAPIVersion :: string
  cpKind :: string
  LoadBalancerProvider :: string

datatype RawExtension =
    RawBytes string
  | RawInfrastructure InfrastructureConfig
  | RawControlPlane ControlPlaneConfig

record Networking =
  netType :: "string option"
  Pods :: "string option"
  Services :: "string option"
  Nodes :: "string option"

record Maintenance =
  ConfineSpecUpdateRollout :: "bool option"
  TimeWindow :: "(string \<times> string) option"

record Shoot =
  shName :: string
  shNamespace :: string
  shUID :: string
  shGeneration :: int
  shDeletionTimestamp :: "time option"
  shFinalizers :: "string list"
  shAnnotations :: labels
  shLabels :: labels
  shMetaRest :: string \<comment> \<open>the other metadata: owner references, managed fields, resource version\<close>
  shCloudProfile :: "(string \<times> string) option" \<comment> \<open>kind and name\<close>
  shProviderType :: string
  shWorkers :: "string list" \<comment> \<open>the worker pools\<close>
  shInfrastructureConfig :: "RawExtension option"
  shControlPlaneConfig :: "RawExtension option"
  shNetworking :: "Networking option"
  shMaintenance :: "Maintenance option"
  shRegion :: string
  shSeedSelector :: "labels option"
  shCredentialsBindingName :: "string option"
  shSpecRest :: string \<comment> \<open>the spec fields the program does not touch\<close>
  shLastOperation :: "LastOperation option"
  shStatusRest :: string \<comment> \<open>the status fields the program does not read\<close>

text \<open>An object literal that only names the object: every other field has its zero value.\<close>

definition namedNamespace :: "string \<Rightarrow> Namespace" where
  "namedNamespace name = \<lparr>nsName = name, nsLabels = Map.empty\<rparr>"

definition namedProject :: "string \<Rightarrow> Project" where
  "namedProject name = \<lparr>pjName = name, pjNamespace = None, pjDeletionTimestamp = None\<rparr>"

definition namedRole :: "string \<Rightarrow> string \<Rightarrow> Role" where
  "namedRole ns name = \<lparr>roName = name, roNamespace = ns, Rules = []\<rparr>"

definition namedRoleBinding :: "string \<Rightarrow> string \<Rightarrow> RoleBinding" where
  "namedRoleBinding ns name = \<lparr>rbName = name, rbNamespace = ns, Subjects = [],
     RoleRefOf = \<lparr>rrAPIGroup = [], rrKind = [], rrName = []\<rparr>\<rparr>"

definition namedResourceQuota :: "string \<Rightarrow> string \<Rightarrow> ResourceQuota" where
  "namedResourceQuota ns name = \<lparr>rqName = name, rqNamespace = ns,
     rqCreationTimestamp = zero_time, Hard = None, Used = None\<rparr>"

definition namedShoot :: "string \<Rightarrow> string \<Rightarrow> Shoot" where
  "namedShoot ns name = \<lparr>shName = name, shNamespace = ns, shUID = [], shGeneration = 0,
     shDeletionTimestamp = None, shFinalizers = [], shAnnotations = Map.empty,
     shLabels = Map.empty, shMetaRest = [], shCloudProfile = None, shProviderType = [], shWorkers = [],
     shInfrastructureConfig = None, shControlPlaneConfig = None, shNetworking = None,
     shMaintenance = None, shRegion = [], shSeedSelector = None, shCredentialsBindingName = None,
     shSpecRest = [], shLastOperation = None, shStatusRest = []\<rparr>"

subsection \<open>The client\<close>

text \<open>
  \<open>controllerutil.CreateOrPatch(ctx, c, obj, f)\<close> reads the object, applies \<open>f\<close> to it (to the bare
  object if there is none) and creates or patches it; an error of \<open>f\<close> is its error.
  \<open>newest_secret\<close> is gardener's \<open>kubernetesutils.NewestObject\<close> over the InternalSecrets of a
  namespace that carry a label.
\<close>

type_synonym ('w, 'o) mutation = "('o \<Rightarrow> 'o res) \<Rightarrow> ('w, unit) io"

record 'w kube =
  get_namespace :: "string \<Rightarrow> ('w, Namespace) ext_call"
  upsert_namespace :: "string \<Rightarrow> ('w, Namespace) mutation"
  get_project :: "string \<Rightarrow> ('w, Project) ext_call"
  upsert_project :: "string \<Rightarrow> ('w, Project) mutation"
  upsert_role :: "string \<times> string \<Rightarrow> ('w, Role) mutation"
  upsert_role_binding :: "string \<times> string \<Rightarrow> ('w, RoleBinding) mutation"
  get_quota :: "string \<times> string \<Rightarrow> ('w, ResourceQuota) ext_call"
  upsert_quota :: "string \<times> string \<Rightarrow> ('w, ResourceQuota) mutation"
  get_secret :: "string \<times> string \<Rightarrow> ('w, InternalSecret) ext_call"
  list_secrets :: "string \<Rightarrow> string \<Rightarrow> string \<Rightarrow> ('w, InternalSecret list) ext_call"
  newest_secret :: "(InternalSecret \<Rightarrow> bool) \<Rightarrow> string \<Rightarrow> string \<Rightarrow> string \<Rightarrow>
                      ('w, InternalSecret option) ext_call"
  create_secret :: "InternalSecret \<Rightarrow> ('w, InternalSecret) ext_call"
  delete_secret :: "string \<times> string \<Rightarrow> ('w, unit) ext_call"
  delete_all_secrets :: "string \<Rightarrow> string \<Rightarrow> string \<Rightarrow> ('w, unit) ext_call"
  add_secret_finalizer :: "string \<times> string \<Rightarrow> string \<Rightarrow> ('w, unit) ext_call"
  remove_secret_finalizer :: "string \<times> string \<Rightarrow> string \<Rightarrow> ('w, unit) ext_call"
  get_shoot :: "string \<times> string \<Rightarrow> ('w, Shoot) ext_call"
  patch_shoot :: "Shoot \<Rightarrow> Shoot \<Rightarrow> ('w, unit) ext_call"
  add_shoot_finalizer :: "string \<times> string \<Rightarrow> string \<Rightarrow> ('w, unit) ext_call"
  remove_shoot_finalizer :: "string \<times> string \<Rightarrow> string \<Rightarrow> ('w, unit) ext_call"
  create_binding :: "CredentialsBinding \<Rightarrow> ('w, unit) ext_call"
  delete_binding :: "string \<times> string \<Rightarrow> ('w, unit) ext_call"

subsection \<open>What the API server promises\<close>

text \<open>
  The laws are stated over a view of the world as a collection of stores. They are the documented
  behaviour of the API server towards one caller: a read returns what is stored and changes
  nothing, a write that reports success has happened.
\<close>

record cluster =
  namespaces :: "string \<rightharpoonup> Namespace"
  projects :: "string \<rightharpoonup> Project"
  roles :: "string \<times> string \<rightharpoonup> Role"
  roleBindings :: "string \<times> string \<rightharpoonup> RoleBinding"
  quotas :: "string \<times> string \<rightharpoonup> ResourceQuota"
  secrets :: "string \<times> string \<rightharpoonup> InternalSecret"
  shoots :: "string \<times> string \<rightharpoonup> Shoot"
  bindings :: "string \<times> string \<rightharpoonup> CredentialsBinding"

text \<open>A read: the object, or NotFound, or some other failure; the cluster is unchanged.\<close>

definition reads :: "('w \<Rightarrow> 'c) \<Rightarrow> ('c \<Rightarrow> 'k \<rightharpoonup> 'o) \<Rightarrow> ('k \<Rightarrow> ('w, 'o) ext_call) \<Rightarrow> bool" where
  "reads view sel op \<longleftrightarrow> (\<forall>k w. view (snd (op k w)) = view w \<and>
     (\<forall>x. fst (op k w) = Inr x \<longrightarrow> sel (view w) k = Some x) \<and>
     (\<forall>t. fst (op k w) = Inl (KubeError NotFound t) \<longrightarrow> sel (view w) k = None))"

text \<open>
  \<open>CreateOrPatch\<close>: on success the object is what the mutation made of the stored object, or of the
  bare object, which is then stamped by the server. On an error the write may or may not have
  happened (the answer to a successful write can be lost); a panic is the mutation's own.
\<close>

definition upserted ::
    "('c \<Rightarrow> 'k \<rightharpoonup> 'o) \<Rightarrow> (('k \<rightharpoonup> 'o) \<Rightarrow> 'c \<Rightarrow> 'c) \<Rightarrow> ('k \<Rightarrow> 'o) \<Rightarrow> ('o \<Rightarrow> 'o \<Rightarrow> bool) \<Rightarrow>
     'k \<Rightarrow> ('o \<Rightarrow> 'o res) \<Rightarrow> 'c \<Rightarrow> 'c \<Rightarrow> bool" where
  "upserted sel upd bare stamped k f c c' \<longleftrightarrow>
     (case sel c k of
        None \<Rightarrow> (\<exists>y z. f (bare k) = Ok y \<and> stamped y z \<and> c' = upd ((sel c)(k \<mapsto> z)) c)
      | Some x \<Rightarrow> (\<exists>y. f x = Ok y \<and> c' = upd ((sel c)(k \<mapsto> y)) c))"

definition upserts ::
    "('w \<Rightarrow> 'c) \<Rightarrow> ('c \<Rightarrow> 'k \<rightharpoonup> 'o) \<Rightarrow> (('k \<rightharpoonup> 'o) \<Rightarrow> 'c \<Rightarrow> 'c) \<Rightarrow> ('k \<Rightarrow> 'o) \<Rightarrow> ('o \<Rightarrow> 'o \<Rightarrow> bool) \<Rightarrow>
     ('k \<Rightarrow> ('w, 'o) mutation) \<Rightarrow> bool" where
  "upserts view sel upd bare stamped op \<longleftrightarrow> (\<forall>k f w.
     (case op k f w of
        (Ok _, w') \<Rightarrow> upserted sel upd bare stamped k f (view w) (view w')
      | (Err e, w') \<Rightarrow>
          view w' = view w \<or> upserted sel upd bare stamped k f (view w) (view w')
      | (Panicked p, w') \<Rightarrow> view w' = view w \<and>
          f (case sel (view w) k of None \<Rightarrow> bare k | Some x \<Rightarrow> x) = Panicked p))"

lemma readsD:
  assumes "reads view sel op" and "op k w = (r, w')"
  shows "view w' = view w" and "r = Inr x \<Longrightarrow> sel (view w) k = Some x"
    and "r = Inl (KubeError NotFound t) \<Longrightarrow> sel (view w) k = None"
  using assms unfolding reads_def by (metis snd_conv, metis fst_conv, metis fst_conv)

lemma wp_reads:
  fixes Q :: "('s, 'o) outcome \<Rightarrow> 'w \<Rightarrow> bool"
  assumes "reads view sel op"
    and "\<And>x w'. sel (view w) k = Some x \<Longrightarrow> view w' = view w \<Longrightarrow> Q (Ok x) w'"
    and "\<And>e w'. view w' = view w \<Longrightarrow> (is_not_found (External e :: 's go_error) \<Longrightarrow> sel (view w) k = None) \<Longrightarrow>
           Q (Err (External e)) w'"
  shows "wp (callE (op k)) Q w"
proof (rule wpI)
  fix r :: "('s, 'o) outcome" and w'
  assume run: "callE (op k) w = (r, w')"
  obtain o' w'' where o: "op k w = (o', w'')" by fastforce
  show "Q r w'"
  proof (cases o')
    case (Inl e)
    have "is_not_found (External e :: 's go_error) \<Longrightarrow> sel (view w) k = None"
      using readsD(3) [OF assms(1) o] Inl by (cases e) auto
    moreover have "r = Err (External e)" "w'' = w'"
      using run o Inl by (simp_all add: io_simps)
    ultimately show ?thesis
      using assms(3) readsD(1) [OF assms(1) o] by simp
  next
    case (Inr x)
    have "r = Ok x" "w'' = w'"
      using run o Inr by (simp_all add: io_simps)
    then show ?thesis
      using assms(2) readsD(1,2) [OF assms(1) o] Inr by simp
  qed
qed

lemma wp_upserts:
  assumes "upserts view sel upd bare stamped op"
    and "\<And>c'. upserted sel upd bare stamped k f (view w) c' \<Longrightarrow> P c'"
    and "\<And>w'. P (view w') \<Longrightarrow> Q (Ok ()) w'"
    and "\<And>e w'. view w' = view w \<or> P (view w') \<Longrightarrow> Q (Err e) w'"
    and "\<And>x p. f x \<noteq> Panicked p"
  shows "wp (op k f) Q w"
proof (rule wpI)
  fix r w'
  assume "op k f w = (r, w')"
  with assms(1) have "case r of
      Ok _ \<Rightarrow> upserted sel upd bare stamped k f (view w) (view w')
    | Err e \<Rightarrow> view w' = view w \<or> upserted sel upd bare stamped k f (view w) (view w')
    | Panicked p \<Rightarrow> view w' = view w \<and>
          f (case sel (view w) k of None \<Rightarrow> bare k | Some x \<Rightarrow> x) = Panicked p"
    unfolding upserts_def by (elim allE [of _ k] allE [of _ f] allE [of _ w]) simp
  then show "Q r w'"
    using assms(2-5) by (auto split: outcome.splits)
qed

end
