(* ===== verification/Config.thy ===== *)
theory Config
  imports Go_Std Errors
begin

section \<open>Configuration\<close>

text \<open>
  \<open>internal/config\<close>: the configuration record, its loading and its validation. The map of regions
  is an association list with distinct keys; its order is the order in which a \<open>range\<close> visits
  it, which Go leaves open. \<open>os.ReadFile\<close>, \<open>yaml.Unmarshal\<close> and \<open>url.Parse\<close> (the scheme of the
  parsed URL) are parameters.
\<close>

subsection \<open>The model\<close>

record RegionalConfig =
  Enabled :: bool
  IdentityEndpoint :: string
  ApplicationCredentialID :: string
  ApplicationCredentialSecret :: string
  AuditTransportURL :: string

record PersephoneConfig =
  ClusterUsersDomain :: string
  Regions :: "(string \<times> RegionalConfig) list"
  DefaultRegion :: string
  LandscapeName :: string
  DefaultCloudProfileName :: string
  DefaultProviderType :: string
  DefaultShootQuota :: uint64

text \<open>A map lookup of an absent key gives the zero value.\<close>

definition zeroRegionalConfig :: RegionalConfig where
  "zeroRegionalConfig = \<lparr>Enabled = False, IdentityEndpoint = [], ApplicationCredentialID = [],
     ApplicationCredentialSecret = [], AuditTransportURL = []\<rparr>"

definition regionalConfig :: "PersephoneConfig \<Rightarrow> string \<Rightarrow> RegionalConfig" where
  "regionalConfig cfg region =
     (case map_of (Regions cfg) region of None \<Rightarrow> zeroRegionalConfig | Some rc \<Rightarrow> rc)"

definition LoadConfig ::
    "('w \<Rightarrow> string \<Rightarrow> ext_error + string) \<Rightarrow> (string \<Rightarrow> ext_error + PersephoneConfig) \<Rightarrow>
     string \<Rightarrow> 'w \<Rightarrow> PersephoneConfig res" where
  "LoadConfig readFile unmarshal path w =
     (case readFile w path of
        Inl e \<Rightarrow> Err (Wrapf (ConfigPkg ConfigUnreadable) [path] (External e))
      | Inr configBytes \<Rightarrow>
          (case unmarshal configBytes of
             Inl e \<Rightarrow> Err (Wrapf (ConfigPkg ConfigUnparsable) [path] (External e))
           | Inr config \<Rightarrow> Ok config))"

definition validateRegionalConfig ::
    "(string \<Rightarrow> ext_error + string) \<Rightarrow> RegionalConfig \<Rightarrow> unit res" where
  "validateRegionalConfig urlScheme rc =
     (if IdentityEndpoint rc = [] then Err (config_err IdentityEndpointUnset [])
      else if ApplicationCredentialID rc = [] \<or> ApplicationCredentialSecret rc = []
      then Err (config_err AppCredentialsUnset [])
      else if AuditTransportURL rc \<noteq> []
      then (case urlScheme (AuditTransportURL rc) of
              Inl e \<Rightarrow> Err (Wrapf (ConfigPkg AuditURLInvalid) [] (External e))
            | Inr scheme \<Rightarrow>
                if scheme \<noteq> ''amqp'' \<and> scheme \<noteq> ''amqps''
                then Err (config_err AuditURLScheme [scheme]) else Ok ())
      else Ok ())"

definition ValidateConfig ::
    "(string \<Rightarrow> ext_error + string) \<Rightarrow> PersephoneConfig \<Rightarrow> unit res" where
  "ValidateConfig urlScheme cfg =
     (if DefaultRegion cfg = [] then Err (config_err DefaultRegionUnset [])
      else bindR (wrapR (ConfigPkg DefaultRegionInvalid) [DefaultRegion cfg]
                    (validateRegionalConfig urlScheme (regionalConfig cfg (DefaultRegion cfg))))
        (\<lambda>_. if DefaultShootQuota cfg = 0 then Err (config_err ShootQuotaZero []) else Ok ()))"

subsection \<open>What a validated configuration has\<close>

definition auditURLAccepted :: "(string \<Rightarrow> ext_error + string) \<Rightarrow> string \<Rightarrow> bool" where
  "auditURLAccepted urlScheme url =
     (url = [] \<or> urlScheme url = Inr ''amqp'' \<or> urlScheme url = Inr ''amqps'')"

lemma validateRegionalConfig_Ok_iff:
  "validateRegionalConfig urlScheme rc = Ok () \<longleftrightarrow>
     IdentityEndpoint rc \<noteq> [] \<and> ApplicationCredentialID rc \<noteq> [] \<and>
     ApplicationCredentialSecret rc \<noteq> [] \<and> auditURLAccepted urlScheme (AuditTransportURL rc)"
  by (auto simp: validateRegionalConfig_def auditURLAccepted_def split: sum.splits if_splits)

lemma zeroRegionalConfig_invalid: "validateRegionalConfig urlScheme zeroRegionalConfig \<noteq> Ok ()"
  by (simp add: validateRegionalConfig_Ok_iff) (simp add: zeroRegionalConfig_def)

lemma validateConfig_Ok_iff:
  "ValidateConfig urlScheme cfg = Ok () \<longleftrightarrow>
     DefaultRegion cfg \<noteq> [] \<and> DefaultShootQuota cfg \<noteq> 0 \<and>
     (\<exists>rc. map_of (Regions cfg) (DefaultRegion cfg) = Some rc \<and>
        IdentityEndpoint rc \<noteq> [] \<and> ApplicationCredentialID rc \<noteq> [] \<and>
        ApplicationCredentialSecret rc \<noteq> [] \<and> auditURLAccepted urlScheme (AuditTransportURL rc))"
proof (cases "map_of (Regions cfg) (DefaultRegion cfg)")
  case None
  then show ?thesis
    by (auto simp: ValidateConfig_def bindR_Ok_iff regionalConfig_def zeroRegionalConfig_invalid)
next
  case (Some rc)
  then show ?thesis
    by (auto simp: ValidateConfig_def bindR_Ok_iff regionalConfig_def validateRegionalConfig_Ok_iff)
qed

end
