(* ===== verification/OpenStack.thy ===== *)
theory OpenStack
  imports Config Constants
begin

section \<open>OpenStack clients and cluster users\<close>

text \<open>
  \<open>internal/openstack\<close>: the client sets of the regions and the service user that exists for each
  shoot cluster, whose application credentials the cluster uses. The Keystone and Neutron calls of
  gophercloud are the fields of a record of operations, a parameter. A paged list call returns
  pages that are extracted in a second, fallible step, as in the code; an absent user, role or domain is a nil
  pointer there and \<open>None\<close> here.
\<close>

subsection \<open>Data\<close>

record ProviderClient =
  pcIdentityBase :: string
  pcTokenID :: string
  pcIdentityEndpoint :: string
  pcSession :: string

text \<open>\<open>&gophercloud.ProviderClient{}\<close>, not logged in to anything\<close>

definition emptyProvider :: ProviderClient where
  "emptyProvider = \<lparr>pcIdentityBase = [], pcTokenID = [], pcIdentityEndpoint = [], pcSession = []\<rparr>"

record ServiceClient =
  scProvider :: ProviderClient
  scService :: string

record AuthOptions =
  aoIdentityEndpoint :: string
  aoApplicationCredentialID :: string
  aoApplicationCredentialSecret :: string
  aoAllowReauth :: bool
  aoUsername :: string
  aoPassword :: string
  aoDomainID :: string
  aoScopeProjectID :: "string option"

record Domain =
  dmID :: string

record User =
  usID :: string
  usName :: string

record KeystoneRole =
  krID :: string

record Network =
  nwName :: string
  nwExternal :: bool
  nwShared :: bool

record UserCreateOpts =
  ucName :: string
  ucDomainID :: string
  ucPassword :: string
  ucDefaultProjectID :: string
  ucDescription :: string

record ApplicationCredential =
  acID :: string
  acName :: string
  acSecret :: string
  acExpiresAt :: time

record ApplicationCredentialCreateOpts =
  ccName :: string
  ccExpiresAt :: time
  ccRoles :: "string list"

text \<open>The pages of a list call: the items that extracting them gives, or its failure.\<close>

type_synonym 'a pages = "ext_error + 'a list"

text \<open>
  The calls of gophercloud, of the password generator and of the clock. \<open>poll_until\<close> is
  \<open>wait.PollUntilContextCancel\<close> on a context with a timeout: given the timeout, the interval and the
  condition, which leaves the clients it has made in variables and here returns them, it ends with
  what the last condition has made, or with an error.
\<close>

record 'w cloud =
  authenticate :: "AuthOptions \<Rightarrow> ('w, ProviderClient) ext_call"
  new_identity_v3 :: "ProviderClient \<Rightarrow> ext_error + ServiceClient"
  new_network_v2 :: "ProviderClient \<Rightarrow> ext_error + ServiceClient"
  list_domains :: "ServiceClient \<Rightarrow> string \<Rightarrow> ('w, Domain pages) ext_call"
  list_users :: "ServiceClient \<Rightarrow> string \<Rightarrow> string \<Rightarrow> ('w, User pages) ext_call"
  list_roles :: "ServiceClient \<Rightarrow> string \<Rightarrow> ('w, KeystoneRole pages) ext_call"
  update_password :: "ServiceClient \<Rightarrow> string \<Rightarrow> string \<Rightarrow> ('w, unit) ext_call"
  create_user :: "ServiceClient \<Rightarrow> UserCreateOpts \<Rightarrow> ('w, User) ext_call"
  delete_user :: "ServiceClient \<Rightarrow> string \<Rightarrow> ('w, unit) ext_call"
  assign_role :: "ServiceClient \<Rightarrow> string \<Rightarrow> string \<Rightarrow> string \<Rightarrow> ('w, unit) ext_call"
  list_credentials :: "ServiceClient \<Rightarrow> string \<Rightarrow> ('w, ApplicationCredential pages) ext_call"
  create_credential :: "ServiceClient \<Rightarrow> string \<Rightarrow> ApplicationCredentialCreateOpts \<Rightarrow>
                          ('w, ApplicationCredential) ext_call"
  delete_credential :: "ServiceClient \<Rightarrow> string \<Rightarrow> string \<Rightarrow> ('w, unit) ext_call"
  list_networks :: "ServiceClient \<Rightarrow> ('w, Network pages) ext_call"
  random_password :: "('w, string) ext_call"
  clock_now :: "'w \<Rightarrow> time \<times> 'w"
  poll_until :: "duration \<Rightarrow> duration \<Rightarrow>
     ('w, site, (ProviderClient \<times> ServiceClient \<times> ServiceClient) option) eff \<Rightarrow>
     ('w, site, ProviderClient \<times> ServiceClient \<times> ServiceClient) eff"

record ClientSet =
  csProviderClient :: ProviderClient
  csIdentityClient :: ServiceClient
  csNetworkClient :: ServiceClient
  csDomainID :: string

text \<open>A \<open>ClusterUserClientSet\<close> embeds a \<open>ClientSet\<close>.\<close>

record ClusterUserClientSet = ClientSet +
  cuProjectID :: string
  cuUser :: User

type_synonym RegionOpenStackClientSet = "string \<rightharpoonup> ClientSet"

text \<open>A pure call of a library that can fail, with its error wrapped or not.\<close>

definition extE :: "ext_error + 'a \<Rightarrow> ('w, site, 'a) eff" where
  "extE r = (case r of Inl e \<Rightarrow> failE (External e) | Inr x \<Rightarrow> returnE x)"

lemma wp_extE [wp_simps]:
  "wp (extE r) Q w = (case r of Inl e \<Rightarrow> Q (Err (External e)) w | Inr x \<Rightarrow> Q (Ok x) w)"
  by (simp add: extE_def wp_simps split: sum.splits)

lemma run_extE [io_simps]:
  "extE r w = (case r of Inl e \<Rightarrow> (Err (External e), w) | Inr x \<Rightarrow> (Ok x, w))"
  by (simp add: extE_def io_simps split: sum.splits)

abbreviation os_site :: "openstack_site \<Rightarrow> site" where "os_site \<equiv> OpenStackPkg"

subsection \<open>Client sets of the regions\<close>

definition getDomainByName :: "'w cloud \<Rightarrow> ServiceClient \<Rightarrow> string \<Rightarrow> ('w, Domain option) io" where
  "getDomainByName os identityClient domainName =
     bindE (wrapE (os_site ListDomainsFailed) [domainName]
              (callE (list_domains os identityClient domainName))) (\<lambda>pages.
     bindE (wrapE (os_site ExtractDomainsFailed) [] (extE pages)) (\<lambda>domainList.
       case domainList of
         [] \<Rightarrow> returnE None
       | [d] \<Rightarrow> returnE (Some d)
       | _ \<Rightarrow> failE (Errorf (os_site DomainAmbiguous) [domainName])))"

definition NewClientSet :: "'w cloud \<Rightarrow> ProviderClient \<Rightarrow> string \<Rightarrow> ('w, ClientSet) io" where
  "NewClientSet os providerClient domainName =
     bindE (wrapE (os_site IdentityClientFailed) [] (extE (new_identity_v3 os providerClient)))
       (\<lambda>identityClient.
     bindE (wrapE (os_site NetworkClientFailed) [] (extE (new_network_v2 os providerClient)))
       (\<lambda>networkClient.
     bindE (wrapE (os_site DomainUndetermined) [domainName]
              (getDomainByName os identityClient domainName)) (\<lambda>domain.
       case domain of
         None \<Rightarrow> failE (Errorf (os_site DomainUndetermined) [domainName])
       | Some d \<Rightarrow> returnE \<lparr>csProviderClient = providerClient, csIdentityClient = identityClient,
                      csNetworkClient = networkClient, csDomainID = dmID d\<rparr>)))"

definition adminAuthOptions :: "RegionalConfig \<Rightarrow> AuthOptions" where
  "adminAuthOptions rc = \<lparr>aoIdentityEndpoint = IdentityEndpoint rc,
     aoApplicationCredentialID = ApplicationCredentialID rc,
     aoApplicationCredentialSecret = ApplicationCredentialSecret rc, aoAllowReauth = True,
     aoUsername = [], aoPassword = [], aoDomainID = [], aoScopeProjectID = None\<rparr>"

primrec fillRegions ::
    "'w cloud \<Rightarrow> string \<Rightarrow> (string \<times> RegionalConfig) list \<Rightarrow> RegionOpenStackClientSet \<Rightarrow>
     ('w, RegionOpenStackClientSet) io" where
  "fillRegions os clusterUsersDomain [] clients = returnE clients"
| "fillRegions os clusterUsersDomain (rc # rcs) clients =
     (if \<not> Enabled (snd rc) then fillRegions os clusterUsersDomain rcs clients
      else bindE (wrapE (os_site ProviderClientFailed) []
                    (callE (authenticate os (adminAuthOptions (snd rc))))) (\<lambda>providerClient.
           bindE (wrapE (os_site AdminClientFailed) []
                    (NewClientSet os providerClient clusterUsersDomain)) (\<lambda>clientSet.
             fillRegions os clusterUsersDomain rcs (clients(fst rc \<mapsto> clientSet)))))"

definition NewRegionOpenStackClientSet ::
    "'w cloud \<Rightarrow> (string \<times> RegionalConfig) list \<Rightarrow> string \<Rightarrow> ('w, RegionOpenStackClientSet) io" where
  "NewRegionOpenStackClientSet os regions clusterUsersDomain =
     fillRegions os clusterUsersDomain regions Map.empty"

subsection \<open>The cluster service user\<close>

definition GetUserByName :: "'w cloud \<Rightarrow> ('x ClientSet_scheme) \<Rightarrow> string \<Rightarrow> ('w, User option) io" where
  "GetUserByName os c username =
     bindE (wrapE (os_site ListUsersFailed) [csDomainID c, username]
              (callE (list_users os (csIdentityClient c) username (csDomainID c)))) (\<lambda>pages.
     bindE (wrapE (os_site ExtractUsersFailed) [] (extE pages)) (\<lambda>userList.
       case userList of
         [] \<Rightarrow> returnE None
       | [u] \<Rightarrow> returnE (Some u)
       | _ \<Rightarrow> failE (Errorf (os_site MultipleUsers)
                [format_nat (length userList), csDomainID c, username])))"

definition getRoleByName ::
    "'w cloud \<Rightarrow> ('x ClientSet_scheme) \<Rightarrow> string \<Rightarrow> ('w, KeystoneRole option) io" where
  "getRoleByName os c roleName =
     bindE (wrapE (os_site ListRolesFailed) [roleName]
              (callE (list_roles os (csIdentityClient c) roleName))) (\<lambda>pages.
     bindE (wrapE (os_site ExtractRolesFailed) [] (extE pages)) (\<lambda>roleList.
       case roleList of
         [] \<Rightarrow> returnE None
       | [r] \<Rightarrow> returnE (Some r)
       | _ \<Rightarrow> failE (Errorf (os_site MultipleRoles) [format_nat (length roleList), roleName])))"

definition GetDefaultServiceUserRoles :: "string list" where
  "GetDefaultServiceUserRoles =
     [''compute_admin'', ''member'', ''network_admin'', ''objectstore_admin'',
      ''sharedfilesystem_admin'', ''volume_admin'']"

definition assignUserRole ::
    "'w cloud \<Rightarrow> ('x ClientSet_scheme) \<Rightarrow> User \<Rightarrow> string \<Rightarrow> string \<Rightarrow> ('w, unit) io" where
  "assignUserRole os c user projectID roleName =
     bindE (wrapE (os_site GetRoleFailed) [roleName] (getRoleByName os c roleName)) (\<lambda>role.
       case role of
         None \<Rightarrow> failE (Errorf (os_site GetRoleFailed) [roleName])
       | Some r \<Rightarrow> wrapE (os_site AssignRoleFailed) [roleName, usName user]
                     (callE (assign_role os (csIdentityClient c) (krID r) (usID user) projectID)))"

definition assignUserRoles ::
    "'w cloud \<Rightarrow> ('x ClientSet_scheme) \<Rightarrow> User \<Rightarrow> string \<Rightarrow> ('w, unit) io" where
  "assignUserRoles os c user projectID =
     forE GetDefaultServiceUserRoles (assignUserRole os c user projectID)"

definition reconcileClusterServiceUser ::
    "'w cloud \<Rightarrow> ('x ClientSet_scheme) \<Rightarrow> string \<Rightarrow> string \<Rightarrow> ('w, User \<times> string) io" where
  "reconcileClusterServiceUser os c username projectID =
     bindE (wrapE (os_site GetUserFailed) [username] (GetUserByName os c username)) (\<lambda>user.
     bindE (wrapE (os_site RandomCredentials) [] (callE (random_password os))) (\<lambda>password.
     bindE (wrapE (os_site CreateOrUpdateUser) []
       (case user of
          Some u \<Rightarrow> thenE (callE (update_password os (csIdentityClient c) (usID u) password)) (returnE u)
        | None \<Rightarrow> callE (create_user os (csIdentityClient c)
            \<lparr>ucName = username, ucDomainID = csDomainID c, ucPassword = password,
             ucDefaultProjectID = projectID,
             ucDescription = ''Gardener customer shoot service user''\<rparr>))) (\<lambda>user.
     thenE (wrapE (os_site AssignRolesFailed) [] (assignUserRoles os c user projectID))
       (returnE (user, password)))))"

definition DeleteClusterServiceUser ::
    "'w cloud \<Rightarrow> ('x ClientSet_scheme) \<Rightarrow> string \<Rightarrow> ('w, unit) io" where
  "DeleteClusterServiceUser os c username =
     bindE (wrapE (os_site GetUserFailed) [username] (GetUserByName os c username)) (\<lambda>user.
       case user of
         None \<Rightarrow> returnE ()
       | Some u \<Rightarrow> callE (delete_user os (csIdentityClient c) (usID u)))"

text \<open>How long, and how often, a new user is tried until it can log in.\<close>

definition pollInterval :: duration where "pollInterval = 3 * second"
definition pollTimeout :: duration where "pollTimeout = 5 * minute"

definition userAuthOptions :: "('x ClientSet_scheme) \<Rightarrow> string \<Rightarrow> string \<Rightarrow> string \<Rightarrow> AuthOptions" where
  "userAuthOptions c username password projectID =
     \<lparr>aoIdentityEndpoint = pcIdentityEndpoint (csProviderClient c),
      aoApplicationCredentialID = [], aoApplicationCredentialSecret = [], aoAllowReauth = False,
      aoUsername = username, aoPassword = password, aoDomainID = csDomainID c,
      aoScopeProjectID = Some projectID\<rparr>"

text \<open>One attempt: any error means to try again.\<close>

definition tryUserClients ::
    "'w cloud \<Rightarrow> AuthOptions \<Rightarrow>
     ('w, (ProviderClient \<times> ServiceClient \<times> ServiceClient) option) io" where
  "tryUserClients os opts =
     catchE
       (bindE (callE (authenticate os opts)) (\<lambda>providerClient.
        bindE (extE (new_identity_v3 os providerClient)) (\<lambda>identityClient.
        bindE (extE (new_network_v2 os providerClient)) (\<lambda>networkClient.
          returnE (Some (providerClient, identityClient, networkClient))))))
       (\<lambda>_. returnE None)"

definition NewClusterUserClientSet ::
    "'w cloud \<Rightarrow> ClientSet \<Rightarrow> string \<Rightarrow> string \<Rightarrow> ('w, ClusterUserClientSet) io" where
  "NewClusterUserClientSet os clientSet username projectID =
     bindE (wrapE (os_site CreateServiceUser) []
              (reconcileClusterServiceUser os clientSet username projectID)) (\<lambda>(user, password).
     bindE (wrapE (os_site AwaitServiceUser) []
              (poll_until os pollTimeout pollInterval
                 (tryUserClients os (userAuthOptions clientSet username password projectID))))
       (\<lambda>(providerClient, identityClient, networkClient).
       returnE \<lparr>csProviderClient = providerClient, csIdentityClient = identityClient,
          csNetworkClient = networkClient, csDomainID = csDomainID clientSet,
          cuProjectID = projectID, cuUser = user\<rparr>))"

subsection \<open>Application credentials\<close>

text \<open>
  \<open>slices.SortFunc\<close> leaves the order of credentials with the same expiration open; the stable sort
  is one of its results. The clock is read anew for each credential looked at.
\<close>

primrec firstValid ::
    "('w \<Rightarrow> time \<times> 'w) \<Rightarrow> ApplicationCredential list \<Rightarrow> ('w, ApplicationCredential option) io" where
  "firstValid clock [] = returnE None"
| "firstValid clock (credential # cs) =
     bindE (readE clock) (\<lambda>t.
       if time_after (acExpiresAt credential) (time_add t ApplicationCredentialsRenewTime)
       then returnE (Some credential)
       else firstValid clock cs)"

definition GetValidApplicationCredential ::
    "'w cloud \<Rightarrow> ClusterUserClientSet \<Rightarrow> string \<Rightarrow> ('w, ApplicationCredential option) io" where
  "GetValidApplicationCredential os c namePrefix =
     bindE (wrapE (os_site ListAppCredentials) []
              (callE (list_credentials os (csIdentityClient c) (usID (cuUser c))))) (\<lambda>pages.
     bindE (wrapE (os_site ExtractAppCredentials) [] (extE pages))
       (\<lambda>applicationCredentials.
       if applicationCredentials = [] then returnE None
       else firstValid (clock_now os) (sort_key acExpiresAt
              (filter (\<lambda>appCred. has_prefix (acName appCred) namePrefix) applicationCredentials))))"

definition CreateApplicationCredential ::
    "'w cloud \<Rightarrow> ClusterUserClientSet \<Rightarrow> string \<Rightarrow> string list \<Rightarrow> ('w, ApplicationCredential) io" where
  "CreateApplicationCredential os c name roleList =
     bindE (readE (clock_now os)) (\<lambda>t.
       callE (create_credential os (csIdentityClient c) (usID (cuUser c))
         \<lparr>ccName = name, ccExpiresAt = time_add t ApplicationCredentialsValidity,
          ccRoles = roleList\<rparr>))"

definition DeleteApplicationCredential ::
    "'w cloud \<Rightarrow> ClusterUserClientSet \<Rightarrow> string \<Rightarrow> ('w, unit) io" where
  "DeleteApplicationCredential os c credentialID =
     callE (delete_credential os (csIdentityClient c) (usID (cuUser c)) credentialID)"

subsection \<open>What Keystone promises\<close>

text \<open>
  The laws are stated over a view of the world as Keystone's users, passwords, roles and role
  assignments. A list call returns what matches and changes nothing; a write that reports success
  has happened; one that reports an error may have happened.
\<close>

record keystone =
  ksUsers :: "string \<rightharpoonup> string \<times> string" \<comment> \<open>ID to name and domain\<close>
  ksPasswords :: "string \<rightharpoonup> string"
  ksRoles :: "string \<Rightarrow> string set" \<comment> \<open>name to IDs\<close>
  ksGrants :: "(string \<times> string \<times> string) set" \<comment> \<open>role, user and project ID\<close>

definition usersNamed :: "keystone \<Rightarrow> string \<Rightarrow> string \<Rightarrow> string set" where
  "usersNamed ks name domain = {i. ksUsers ks i = Some (name, domain)}"

definition lists ::
    "('w \<Rightarrow> keystone) \<Rightarrow> ('w, 'a pages) ext_call \<Rightarrow> ('a \<Rightarrow> string) \<Rightarrow>
     (keystone \<Rightarrow> string set) \<Rightarrow> bool" where
  "lists view op ident matching \<longleftrightarrow> (\<forall>w. view (snd (op w)) = view w \<and>
     (\<forall>xs. fst (op w) = Inr (Inr xs) \<longrightarrow>
        distinct (map ident xs) \<and> ident ` set xs = matching (view w)))"

definition writes :: "('w \<Rightarrow> 'c) \<Rightarrow> ('w, 'a) ext_call \<Rightarrow> ('a option \<Rightarrow> 'c \<Rightarrow> 'c \<Rightarrow> bool) \<Rightarrow> bool" where
  "writes view op effect \<longleftrightarrow> (\<forall>w. case op w of
       (Inr x, w') \<Rightarrow> effect (Some x) (view w) (view w')
     | (Inl e, w') \<Rightarrow> view w' = view w \<or> effect None (view w) (view w'))"

definition userCreated :: "UserCreateOpts \<Rightarrow> User option \<Rightarrow> keystone \<Rightarrow> keystone \<Rightarrow> bool" where
  "userCreated opts u ks ks' \<longleftrightarrow> (\<exists>i. (\<forall>x. u = Some x \<longrightarrow> usID x = i) \<and> ksUsers ks i = None \<and>
     ks' = ks\<lparr>ksUsers := (ksUsers ks)(i \<mapsto> (ucName opts, ucDomainID opts)),
              ksPasswords := (ksPasswords ks)(i \<mapsto> ucPassword opts)\<rparr>)"

definition userDeleted :: "string \<Rightarrow> unit option \<Rightarrow> keystone \<Rightarrow> keystone \<Rightarrow> bool" where
  "userDeleted i r ks ks' \<longleftrightarrow> ks' = ks\<lparr>ksUsers := (ksUsers ks)(i := None),
     ksPasswords := (ksPasswords ks)(i := None),
     ksGrants := {(r, u, p) \<in> ksGrants ks. u \<noteq> i}\<rparr>"

definition passwordSet :: "string \<Rightarrow> string \<Rightarrow> unit option \<Rightarrow> keystone \<Rightarrow> keystone \<Rightarrow> bool" where
  "passwordSet i pw r ks ks' \<longleftrightarrow> ks' = ks\<lparr>ksPasswords := (ksPasswords ks)(i \<mapsto> pw)\<rparr>"

definition roleAssigned :: "string \<Rightarrow> string \<Rightarrow> string \<Rightarrow> unit option \<Rightarrow> keystone \<Rightarrow> keystone \<Rightarrow> bool" where
  "roleAssigned r i p x ks ks' \<longleftrightarrow> ks' = ks\<lparr>ksGrants := insert (r, i, p) (ksGrants ks)\<rparr>"

definition keystone_laws :: "('w \<Rightarrow> keystone) \<Rightarrow> 'w cloud \<Rightarrow> bool" where
  "keystone_laws view os \<longleftrightarrow>
     (\<forall>c n d. lists view (list_users os c n d) usID (\<lambda>ks. usersNamed ks n d)) \<and>
     (\<forall>c n. lists view (list_roles os c n) krID (\<lambda>ks. ksRoles ks n)) \<and>
     (\<forall>c i pw. writes view (update_password os c i pw) (passwordSet i pw)) \<and>
     (\<forall>c opts. writes view (create_user os c opts) (userCreated opts)) \<and>
     (\<forall>c i. writes view (delete_user os c i) (userDeleted i)) \<and>
     (\<forall>c r i p. writes view (assign_role os c r i p) (roleAssigned r i p)) \<and>
     (\<forall>w. view (snd (random_password os w)) = view w)"

lemma keystone_lawsD:
  assumes "keystone_laws view os"
  shows "lists view (list_users os c n d) usID (\<lambda>ks. usersNamed ks n d)"
    and "lists view (list_roles os c n) krID (\<lambda>ks. ksRoles ks n)"
    and "writes view (update_password os c i pw) (passwordSet i pw)"
    and "writes view (create_user os c opts) (userCreated opts)"
    and "writes view (delete_user os c i) (userDeleted i)"
    and "writes view (assign_role os c r i p) (roleAssigned r i p)"
    and "view (snd (random_password os w)) = view w"
  using assms by (simp_all add: keystone_laws_def)

lemma wp_callE: "wp (callE op) Q w = (case op w of
    (Inl e, w') \<Rightarrow> Q (Err (External e)) w' | (Inr x, w') \<Rightarrow> Q (Ok x) w')"
  by (simp add: wp_def io_simps split: prod.splits sum.splits)

lemma wp_writes:
  assumes "writes view op effect"
    and "\<And>x w'. effect (Some x) (view w) (view w') \<Longrightarrow> Q (Ok x) w'"
    and "\<And>e w'. view w' = view w \<or> effect None (view w) (view w') \<Longrightarrow> Q (Err (External e)) w'"
  shows "wp (callE op) Q w"
proof -
  have "case op w of
       (Inr x, w') \<Rightarrow> effect (Some x) (view w) (view w')
     | (Inl e, w') \<Rightarrow> view w' = view w \<or> effect None (view w) (view w')"
    using assms(1) by (simp add: writes_def)
  then show ?thesis
    using assms(2,3) by (auto simp: wp_callE split: prod.splits sum.splits)
qed

text \<open>A list call with its extraction, as the two lookups by name use them.\<close>

lemma wp_lists:
  assumes "lists view op ident matching"
    and "\<And>xs w'. view w' = view w \<Longrightarrow> distinct (map ident xs) \<Longrightarrow>
           ident ` set xs = matching (view w) \<Longrightarrow> wp (f xs) Q w'"
    and "\<And>e w'. view w' = view w \<Longrightarrow> Q (Err e) w'"
  shows "wp (bindE (wrapE s as (callE op)) (\<lambda>pages.
             bindE (wrapE s' as' (extE pages)) f)) Q w"
proof -
  have *: "view (snd (op w)) = view w \<and> (\<forall>xs. fst (op w) = Inr (Inr xs) \<longrightarrow>
      distinct (map ident xs) \<and> ident ` set xs = matching (view w))"
    using assms(1) unfolding lists_def by blast
  then show ?thesis
    using assms(2,3) by (auto simp: wp_simps wp_callE split: prod.splits sum.splits)
qed

lemma wp_GetUserByName:
  assumes "keystone_laws view os"
    and "\<And>w'. view w' = view w \<Longrightarrow> usersNamed (view w) name (csDomainID c) = {} \<Longrightarrow> Q (Ok None) w'"
    and "\<And>u w'. view w' = view w \<Longrightarrow> usersNamed (view w) name (csDomainID c) = {usID u} \<Longrightarrow>
           Q (Ok (Some u)) w'"
    and "\<And>e w'. view w' = view w \<Longrightarrow> Q (Err e) w'"
  shows "wp (GetUserByName os c name) Q w"
  unfolding GetUserByName_def
  by (rule wp_lists [OF keystone_lawsD(1) [OF assms(1)]])
    (auto simp: wp_simps assms(4) intro: assms(2) assms(3) [OF _ sym] split: list.splits)

lemma wp_getRoleByName:
  assumes "keystone_laws view os"
    and "\<And>w'. view w' = view w \<Longrightarrow> ksRoles (view w) name = {} \<Longrightarrow> Q (Ok None) w'"
    and "\<And>r w'. view w' = view w \<Longrightarrow> ksRoles (view w) name = {krID r} \<Longrightarrow> Q (Ok (Some r)) w'"
    and "\<And>e w'. view w' = view w \<Longrightarrow> Q (Err e) w'"
  shows "wp (getRoleByName os c name) Q w"
  unfolding getRoleByName_def
  by (rule wp_lists [OF keystone_lawsD(2) [OF assms(1)]])
    (auto simp: wp_simps assms(4) intro: assms(2) assms(3) [OF _ sym] split: list.splits)

subsection \<open>The cluster user after reconciling it\<close>

definition roleGranted :: "keystone \<Rightarrow> string \<Rightarrow> string \<Rightarrow> string \<Rightarrow> bool" where
  "roleGranted ks userID projectID roleName \<longleftrightarrow>
     (\<exists>r. ksRoles ks roleName = {r} \<and> (r, userID, projectID) \<in> ksGrants ks)"

definition serviceUserReady ::
    "keystone \<Rightarrow> string \<Rightarrow> string \<Rightarrow> string \<Rightarrow> User \<Rightarrow> string \<Rightarrow> bool" where
  "serviceUserReady ks domain username projectID user password \<longleftrightarrow>
     usersNamed ks username domain = {usID user} \<and> ksPasswords ks (usID user) = Some password \<and>
     list_all (roleGranted ks (usID user) projectID) GetDefaultServiceUserRoles"

definition onlyGrants :: "keystone \<Rightarrow> keystone \<Rightarrow> bool" where
  "onlyGrants ks ks' \<longleftrightarrow> ksUsers ks' = ksUsers ks \<and> ksPasswords ks' = ksPasswords ks \<and>
     ksRoles ks' = ksRoles ks \<and> ksGrants ks \<subseteq> ksGrants ks'"

lemma onlyGrants_refl [simp]: "onlyGrants ks ks"
  by (simp add: onlyGrants_def)

lemma onlyGrants_trans: "onlyGrants a b \<Longrightarrow> onlyGrants b c \<Longrightarrow> onlyGrants a c"
  by (auto simp: onlyGrants_def)

lemma roleGranted_mono: "roleGranted ks u p n \<Longrightarrow> onlyGrants ks ks' \<Longrightarrow> roleGranted ks' u p n"
  by (auto simp: roleGranted_def onlyGrants_def)

lemma roleAssigned_effect:
  "roleAssigned r i p x ks ks' \<Longrightarrow> onlyGrants ks ks' \<and> (r, i, p) \<in> ksGrants ks'"
  by (auto simp: roleAssigned_def onlyGrants_def)

lemma roleGrantedI:
  "onlyGrants ks ks' \<Longrightarrow> ksRoles ks n = {r} \<Longrightarrow> (r, i, p) \<in> ksGrants ks' \<Longrightarrow> roleGranted ks' i p n"
  by (simp add: onlyGrants_def roleGranted_def)

lemma assign_role_outcome:
  assumes "keystone_laws view os"
  shows "wp (assignUserRole os c user p n) (\<lambda>r w'. onlyGrants (view w) (view w') \<and>
     (case r of Ok _ \<Rightarrow> roleGranted (view w') (usID user) p n | Err _ \<Rightarrow> True | Panicked _ \<Rightarrow> False)) w"
  unfolding assignUserRole_def wp_simps
  apply (rule wp_getRoleByName [OF assms])
    apply (simp add: wp_simps)
   apply (simp add: wp_simps)
   apply (rule wp_writes [OF keystone_lawsD(6) [OF assms]])
    apply (simp, drule roleAssigned_effect, metis roleGrantedI)
   apply (simp, metis onlyGrants_refl roleAssigned_effect)
  apply simp
  done

lemma assign_roles_outcome:
  assumes "keystone_laws view os"
  shows "wp (forE ns (assignUserRole os c user p)) (\<lambda>r w'. onlyGrants (view w) (view w') \<and>
     (case r of Ok _ \<Rightarrow> list_all (roleGranted (view w') (usID user) p) ns | Err _ \<Rightarrow> True
      | Panicked _ \<Rightarrow> False)) w"
proof (induction ns arbitrary: w)
  case Nil
  then show ?case by (simp add: wp_simps)
next
  case (Cons n ns)
  show ?case
    unfolding forE.simps wp_thenE
  proof (rule wp_mono [OF assign_role_outcome [OF assms]])
    fix r :: "unit res" and w'
    assume r: "onlyGrants (view w) (view w') \<and> (case r of
        Ok _ \<Rightarrow> roleGranted (view w') (usID user) p n | Err _ \<Rightarrow> True | Panicked _ \<Rightarrow> False)"
    show "case r of
        Ok x \<Rightarrow> wp (forE ns (assignUserRole os c user p)) (\<lambda>r w'. onlyGrants (view w) (view w') \<and>
          (case r of Ok _ \<Rightarrow> list_all (roleGranted (view w') (usID user) p) (n # ns) | Err _ \<Rightarrow> True
           | Panicked _ \<Rightarrow> False)) w'
      | Err e \<Rightarrow> onlyGrants (view w) (view w') \<and> (case Err e of
          Ok _ \<Rightarrow> list_all (roleGranted (view w') (usID user) p) (n # ns) | Err _ \<Rightarrow> True
          | Panicked _ \<Rightarrow> False)
      | Panicked q \<Rightarrow> onlyGrants (view w) (view w') \<and> (case Panicked q of
          Ok _ \<Rightarrow> list_all (roleGranted (view w') (usID user) p) (n # ns) | Err _ \<Rightarrow> True
          | Panicked _ \<Rightarrow> False)"
    proof (cases r)
      case (Ok x)
      then show ?thesis
        using r by (auto intro!: wp_mono [OF Cons.IH]
            intro: onlyGrants_trans roleGranted_mono split: outcome.splits)
    qed (use r in auto)
  qed
qed

lemma serviceUserReadyI:
  assumes "usersNamed ks username domain = {usID u}" and "ksPasswords ks (usID u) = Some pw"
    and "onlyGrants ks ks'" and "list_all (roleGranted ks' (usID u) p) GetDefaultServiceUserRoles"
  shows "serviceUserReady ks' domain username p u pw"
  using assms by (simp add: serviceUserReady_def onlyGrants_def usersNamed_def)

lemma wp_roles_then_ready:
  assumes laws: "keystone_laws view os"
    and "usersNamed (view w) username (csDomainID c) = {usID u}"
    and "ksPasswords (view w) (usID u) = Some pw"
    and "\<And>w'. serviceUserReady (view w') (csDomainID c) username projectID u pw \<Longrightarrow> Q (Ok (u, pw)) w'"
    and "\<And>e w'. Q (Err e) w'"
  shows "wp (thenE (wrapE s as (assignUserRoles os c u projectID)) (returnE (u, pw))) Q w"
  unfolding wp_simps assignUserRoles_def
proof (rule wp_mono [OF assign_roles_outcome [OF laws]])
  fix r :: "unit res" and w'
  assume r: "onlyGrants (view w) (view w') \<and> (case r of
      Ok _ \<Rightarrow> list_all (roleGranted (view w') (usID u) projectID) GetDefaultServiceUserRoles
    | Err _ \<Rightarrow> True | Panicked _ \<Rightarrow> False)"
  then show "case r of
      Ok x \<Rightarrow> (case Ok x of Ok x \<Rightarrow> Q (Ok (u, pw)) w' | Err e \<Rightarrow> Q (Err e) w' | Panicked p \<Rightarrow> Q (Panicked p) w')
    | Err e \<Rightarrow> (case Err (Wrapf s as e) of Ok x \<Rightarrow> Q (Ok (u, pw)) w' | Err e \<Rightarrow> Q (Err e) w'
        | Panicked p \<Rightarrow> Q (Panicked p) w')
    | Panicked p \<Rightarrow> (case Panicked p of Ok x \<Rightarrow> Q (Ok (u, pw)) w' | Err e \<Rightarrow> Q (Err e) w'
        | Panicked p \<Rightarrow> Q (Panicked p) w')"
    by (cases r) (simp_all add: assms(4,5) serviceUserReadyI [OF assms(2,3)])
qed

lemma passwordSet_effect:
  "passwordSet i pw r ks ks' \<Longrightarrow> usersNamed ks' = usersNamed ks \<and> ksPasswords ks' i = Some pw"
  by (simp add: passwordSet_def usersNamed_def fun_eq_iff)

lemma userCreated_effect:
  "userCreated opts (Some u) ks ks' \<Longrightarrow>
   usersNamed ks' (ucName opts) (ucDomainID opts) =
     insert (usID u) (usersNamed ks (ucName opts) (ucDomainID opts)) \<and>
   ksPasswords ks' (usID u) = Some (ucPassword opts)"
  by (auto simp: userCreated_def usersNamed_def)

lemma wp_random:
  assumes "keystone_laws view os"
    and "\<And>pw w'. view w' = view w \<Longrightarrow> Q (Ok pw) w'" and "\<And>e w'. Q (Err e) w'"
  shows "wp (callE (random_password os)) Q w"
  using keystone_lawsD(7) [OF assms(1), of w] assms(2,3)
  by (cases "random_password os w") (auto simp: wp_callE split: sum.splits)

lemma service_user_outcome:
  assumes laws: "keystone_laws view os"
  shows "wp (reconcileClusterServiceUser os c username projectID) (\<lambda>r w'.
     case r of
       Ok (user, password) \<Rightarrow>
         serviceUserReady (view w') (csDomainID c) username projectID user password
     | Err _ \<Rightarrow> True | Panicked _ \<Rightarrow> False) w"
proof -
  let ?Q = "\<lambda>r w'. case r of Ok (user, password) \<Rightarrow>
         serviceUserReady (view w') (csDomainID c) username projectID user password
     | Err _ \<Rightarrow> True | Panicked _ \<Rightarrow> False"
  show ?thesis
    unfolding reconcileClusterServiceUser_def wp_bindE wp_wrapE
    apply (rule wp_GetUserByName [OF laws]; simp only: outcome.case option.case)
     apply (rule wp_random [OF laws]; simp only: outcome.case)
     apply (rule wp_writes [OF keystone_lawsD(4) [OF laws]]; simp only: outcome.case)
     apply (rule wp_roles_then_ready [OF laws]; (drule userCreated_effect)?; simp)
    apply (rule wp_random [OF laws]; simp only: outcome.case)
    apply (simp only: wp_thenE [of "callE c" for c])
    apply (rule wp_writes [OF keystone_lawsD(3) [OF laws]]; simp only: outcome.case wp_basic)
    apply (rule wp_roles_then_ready [OF laws]; (drule passwordSet_effect)?; simp)
    done
qed

subsection \<open>Deleting the cluster user\<close>

lemma userDeleted_effect:
  "userDeleted i r ks ks' \<Longrightarrow> usersNamed ks' n d = usersNamed ks n d - {i}"
  by (auto simp: userDeleted_def usersNamed_def split: if_splits)

lemma delete_user_outcome:
  assumes laws: "keystone_laws view os"
  shows "wp (DeleteClusterServiceUser os c username) (\<lambda>r w'.
     case r of
       Ok _ \<Rightarrow> usersNamed (view w') username (csDomainID c) = {}
     | Err _ \<Rightarrow> True | Panicked _ \<Rightarrow> False) w"
  unfolding DeleteClusterServiceUser_def wp_bindE wp_wrapE
  apply (rule wp_GetUserByName [OF laws]; simp only: outcome.case option.case wp_basic)
  apply (rule wp_writes [OF keystone_lawsD(5) [OF laws]]; simp only: outcome.case)
  apply (simp add: userDeleted_effect)
  done

subsection \<open>Which credential is chosen\<close>

text \<open>The clock's readings are between the world's time before and after them.\<close>

definition clock_law :: "('w \<Rightarrow> time) \<Rightarrow> ('w \<Rightarrow> time \<times> 'w) \<Rightarrow> bool" where
  "clock_law timeOf clock \<longleftrightarrow> (\<forall>w. timeOf w \<le> fst (clock w) \<and> fst (clock w) \<le> timeOf (snd (clock w)))"

lemma first_valid_outcome:
  assumes clock: "clock_law timeOf clock" and "sorted (map acExpiresAt cs)"
  shows "wp (firstValid clock cs) (\<lambda>r w'. timeOf w \<le> timeOf w' \<and>
     (case r of
        Ok None \<Rightarrow> (\<forall>c \<in> set cs. acExpiresAt c \<le> timeOf w' + ApplicationCredentialsRenewTime)
      | Ok (Some c) \<Rightarrow> c \<in> set cs \<and> timeOf w + ApplicationCredentialsRenewTime < acExpiresAt c \<and>
          (\<forall>d \<in> set cs. acExpiresAt d < acExpiresAt c \<longrightarrow>
             acExpiresAt d \<le> timeOf w' + ApplicationCredentialsRenewTime)
      | _ \<Rightarrow> False)) w"
  using assms(2)
proof (induction cs arbitrary: w)
  case Nil
  then show ?case by (simp add: wp_simps)
next
  case (Cons c cs)
  obtain t w1 where t: "clock w = (t, w1)" by fastforce
  have le: "timeOf w \<le> t" "t \<le> timeOf w1"
    using clock t unfolding clock_law_def by (metis fst_conv, metis fst_conv snd_conv)
  show ?case
  proof (cases "acExpiresAt c > t + ApplicationCredentialsRenewTime")
    case True
    then show ?thesis
      using le Cons.prems by (auto simp: wp_simps t time_defs)
  next
    case False
    have sorted: "sorted (map acExpiresAt cs)" using Cons.prems by simp
    have "wp (firstValid clock cs) (\<lambda>r w'. timeOf w \<le> timeOf w' \<and>
     (case r of
        Ok None \<Rightarrow> (\<forall>c \<in> set (c # cs). acExpiresAt c \<le> timeOf w' + ApplicationCredentialsRenewTime)
      | Ok (Some x) \<Rightarrow> x \<in> set (c # cs) \<and> timeOf w + ApplicationCredentialsRenewTime < acExpiresAt x \<and>
          (\<forall>d \<in> set (c # cs). acExpiresAt d < acExpiresAt x \<longrightarrow>
             acExpiresAt d \<le> timeOf w' + ApplicationCredentialsRenewTime)
      | _ \<Rightarrow> False)) w1"
      by (rule wp_mono [OF Cons.IH [OF sorted]])
        (use le False in \<open>auto split: outcome.splits option.splits\<close>)
    with False show ?thesis by (simp add: wp_simps t time_defs)
  qed
qed

subsection \<open>Regions\<close>

text \<open>The client sets are those of the enabled regions.\<close>

lemma fill_regions_dom:
  "fillRegions os d rcs m w = (Ok m', w') \<Longrightarrow>
   dom m' = dom m \<union> {fst rc |rc. rc \<in> set rcs \<and> Enabled (snd rc)}"
proof (induction rcs arbitrary: m w)
  case Nil
  then show ?case by (simp add: io_simps)
next
  case (Cons rc rcs)
  show ?case
  proof (cases "Enabled (snd rc)")
    case False
    with Cons.prems Cons.IH [of m w] show ?thesis by auto
  next
    case True
    with Cons.prems obtain c w1 where "fillRegions os d rcs (m(fst rc \<mapsto> c)) w1 = (Ok m', w')"
      by (auto simp: io_simps split: outcome_splits)
    from Cons.IH [OF this] True show ?thesis by (cases rc) (simp only: dom_fun_upd; auto)
  qed
qed

subsection \<open>Frames\<close>

text \<open>
  A property of the world that every call of the cloud keeps is kept by the client functions; waiting
  does nothing but run the condition.
\<close>

definition cloud_keeps :: "('w \<Rightarrow> bool) \<Rightarrow> 'w cloud \<Rightarrow> bool" where
  "cloud_keeps I os \<longleftrightarrow>
     (\<forall>a. stable_call I (authenticate os a)) \<and> (\<forall>c n. stable_call I (list_domains os c n)) \<and>
     (\<forall>c n d. stable_call I (list_users os c n d)) \<and> (\<forall>c n. stable_call I (list_roles os c n)) \<and>
     (\<forall>c i pw. stable_call I (update_password os c i pw)) \<and>
     (\<forall>c u. stable_call I (create_user os c u)) \<and> (\<forall>c i. stable_call I (delete_user os c i)) \<and>
     (\<forall>c r i p. stable_call I (assign_role os c r i p)) \<and>
     (\<forall>c i. stable_call I (list_credentials os c i)) \<and>
     (\<forall>c i a. stable_call I (create_credential os c i a)) \<and>
     (\<forall>c i a. stable_call I (delete_credential os c i a)) \<and>
     (\<forall>c. stable_call I (list_networks os c)) \<and> stable_call I (random_password os) \<and>
     stable_call I (clock_now os) \<and>
     (\<forall>t d cond. stable I cond \<longrightarrow> stable I (poll_until os t d cond))"

lemma cloud_keepsD:
  assumes "cloud_keeps I os"
  shows "stable_call I (authenticate os a)" "stable_call I (list_domains os c n)"
    "stable_call I (list_users os c n d)" "stable_call I (list_roles os c n)"
    "stable_call I (update_password os c i pw)" "stable_call I (create_user os c u)"
    "stable_call I (delete_user os c i)" "stable_call I (assign_role os c r i p)"
    "stable_call I (list_credentials os c i)" "stable_call I (create_credential os c i cc)"
    "stable_call I (delete_credential os c i x)" "stable_call I (list_networks os c)"
    "stable_call I (random_password os)" "stable_call I (clock_now os)"
    "stable I cond \<Longrightarrow> stable I (poll_until os t dur cond)"
  using assms by (simp_all add: cloud_keeps_def)

lemma stable_extE [stable_intros]: "stable I (extE r)"
  by (simp add: extE_def stable_intros)

lemma stable_GetUserByName [stable_intros]: "cloud_keeps I os \<Longrightarrow> stable I (GetUserByName os c n)"
  unfolding GetUserByName_def by (intro stable_intros cloud_keepsD)

lemma stable_getRoleByName: "cloud_keeps I os \<Longrightarrow> stable I (getRoleByName os c n)"
  unfolding getRoleByName_def by (intro stable_intros cloud_keepsD)

lemma stable_NewClusterUserClientSet [stable_intros]:
  "cloud_keeps I os \<Longrightarrow> stable I (NewClusterUserClientSet os c n p)"
  unfolding NewClusterUserClientSet_def reconcileClusterServiceUser_def assignUserRoles_def
    assignUserRole_def tryUserClients_def
  by (intro stable_intros cloud_keepsD stable_getRoleByName)

lemma stable_DeleteClusterServiceUser [stable_intros]:
  "cloud_keeps I os \<Longrightarrow> stable I (DeleteClusterServiceUser os c n)"
  unfolding DeleteClusterServiceUser_def by (intro stable_intros cloud_keepsD)

lemma stable_credentials [stable_intros]:
  "cloud_keeps I os \<Longrightarrow> stable I (CreateApplicationCredential os cu n rs)"
  "cloud_keeps I os \<Longrightarrow> stable I (DeleteApplicationCredential os cu i)"
  unfolding CreateApplicationCredential_def DeleteApplicationCredential_def
  by (intro stable_intros cloud_keepsD; assumption)+

end
