(* ===== verification/Sample_Cluster.thy ===== *)
theory Sample_Cluster
  imports Cluster OpenStack "HOL-Library.AList"
begin

section \<open>An in-memory cluster\<close>

text \<open>
  A concrete client: a cluster and a Keystone held in memory, a schedule of failures and a clock. It models no
  code of the program. It shows that the laws assumed of the real client are consistent, and the
  witnesses of the properties run the program's operations on it. Each call consumes one entry of
  the schedule: \<open>True\<close> makes it fail with a server error before it has any effect.

  The InternalSecrets are kept as an association list, so that listing them computes.
\<close>

record sim =
  simCluster :: cluster
  simSecrets :: "((string \<times> string) \<times> InternalSecret) list"
  simFaults :: "bool list"
  simClock :: time
  simUsers :: "(string \<times> string \<times> string \<times> string) list" \<comment> \<open>ID, name, domain, password\<close>
  simGrants :: "(string \<times> string \<times> string) list" \<comment> \<open>role, user and project ID\<close>
  simCredentials :: "(string \<times> ApplicationCredential) list" \<comment> \<open>user ID and credential\<close>
  simEvents :: "string list list" \<comment> \<open>metrics and audit events, last first\<close>

definition simView :: "sim \<Rightarrow> cluster" where
  "simView s = (simCluster s)\<lparr>secrets := map_of (simSecrets s)\<rparr>"

definition emptyCluster :: cluster where
  "emptyCluster = \<lparr>namespaces = Map.empty, projects = Map.empty, roles = Map.empty,
     roleBindings = Map.empty, quotas = Map.empty, secrets = Map.empty, shoots = Map.empty,
     bindings = Map.empty\<rparr>"

definition emptySim :: "bool list \<Rightarrow> time \<Rightarrow> sim" where
  "emptySim faults now =
     \<lparr>simCluster = emptyCluster, simSecrets = [], simFaults = faults, simClock = now, simUsers = [],
      simGrants = [], simCredentials = [], simEvents = []\<rparr>"

definition simUnavailable :: ext_error where
  "simUnavailable = KubeError OtherReason ''server unavailable''"

definition simMissing :: ext_error where
  "simMissing = KubeError NotFound ''not found''"

definition simExists :: ext_error where
  "simExists = KubeError AlreadyExists ''already exists''"

text \<open>A call that the schedule may fail.\<close>

definition simCall :: "(sim \<Rightarrow> (ext_error + 'a) \<times> sim) \<Rightarrow> (sim, 'a) ext_call" where
  "simCall f s =
     (case simFaults s of
        [] \<Rightarrow> f s
      | b # bs \<Rightarrow> if b then (Inl simUnavailable, s\<lparr>simFaults := bs\<rparr>) else f (s\<lparr>simFaults := bs\<rparr>))"

definition simGet :: "(cluster \<Rightarrow> 'k \<rightharpoonup> 'o) \<Rightarrow> 'k \<Rightarrow> (sim, 'o) ext_call" where
  "simGet sel k = simCall (\<lambda>s. (case sel (simView s) k of
      None \<Rightarrow> Inl simMissing | Some x \<Rightarrow> Inr x, s))"

definition simUpsert ::
    "(cluster \<Rightarrow> 'k \<rightharpoonup> 'o) \<Rightarrow> (('k \<rightharpoonup> 'o) \<Rightarrow> cluster \<Rightarrow> cluster) \<Rightarrow> ('k \<Rightarrow> 'o) \<Rightarrow> ('o \<Rightarrow> 'o) \<Rightarrow>
     'k \<Rightarrow> (sim, 'o) mutation" where
  "simUpsert sel upd bare stamp k f s =
     (case simCall (\<lambda>s. (Inr (), s)) s of
        (Inl e, s) \<Rightarrow> (Err (External e), s)
      | (Inr _, s) \<Rightarrow>
          (case f (case sel (simView s) k of None \<Rightarrow> bare k | Some x \<Rightarrow> x) of
             Ok y \<Rightarrow> (Ok (), s\<lparr>simCluster := upd ((sel (simView s))(k \<mapsto>
                 (if sel (simView s) k = None then stamp y else y))) (simCluster s)\<rparr>)
           | Err e \<Rightarrow> (Err e, s)
           | Panicked p \<Rightarrow> (Panicked p, s)))"

definition simStampQuota :: "ResourceQuota \<Rightarrow> ResourceQuota" where
  "simStampQuota rq = rq\<lparr>rqCreationTimestamp := 1\<rparr>"

definition simListSecrets :: "string \<Rightarrow> string \<Rightarrow> string \<Rightarrow> sim \<Rightarrow> InternalSecret list" where
  "simListSecrets ns key v s = map snd (filter (\<lambda>((n, _), x). n = ns \<and> isLabels x key = Some v)
     (AList.clearjunk (simSecrets s)))"

primrec simNewest :: "InternalSecret list \<Rightarrow> InternalSecret option" where
  "simNewest [] = None"
| "simNewest (x # xs) = (case simNewest xs of
      None \<Rightarrow> Some x
    | Some y \<Rightarrow> if isCreationTimestamp x < isCreationTimestamp y then Some y else Some x)"

definition simDropSecrets :: "((string \<times> string) \<Rightarrow> InternalSecret \<Rightarrow> bool) \<Rightarrow> sim \<Rightarrow> sim" where
  "simDropSecrets p s = s\<lparr>simSecrets := filter (\<lambda>(k, x). \<not> p k x) (AList.clearjunk (simSecrets s))\<rparr>"

definition simCreateSecret :: "InternalSecret \<Rightarrow> (sim, InternalSecret) ext_call" where
  "simCreateSecret x = simCall (\<lambda>s.
     (let key = (isNamespace x, isName x);
          y = x\<lparr>isUID := isName x, isCreationTimestamp := simClock s,
                 isData := isData x ++ isStringData x, isStringData := Map.empty\<rparr>
      in if map_of (simSecrets s) key \<noteq> None then (Inl simExists, s)
         else (Inr y, s\<lparr>simSecrets := (key, y) # simSecrets s\<rparr>)))"

definition simUpdateSecret ::
    "(InternalSecret \<Rightarrow> InternalSecret) \<Rightarrow> string \<times> string \<Rightarrow> (sim, unit) ext_call" where
  "simUpdateSecret f key = simCall (\<lambda>s.
     case map_of (simSecrets s) key of
       None \<Rightarrow> (Inl simMissing, s)
     | Some x \<Rightarrow> (Inr (), s\<lparr>simSecrets := (key, f x) # simSecrets s\<rparr>))"

definition simUpdateShoot :: "(Shoot \<Rightarrow> Shoot) \<Rightarrow> string \<times> string \<Rightarrow> (sim, unit) ext_call" where
  "simUpdateShoot f key = simCall (\<lambda>s.
     case shoots (simCluster s) key of
       None \<Rightarrow> (Inl simMissing, s)
     | Some x \<Rightarrow> (Inr (), s\<lparr>simCluster :=
         (simCluster s)\<lparr>shoots := (shoots (simCluster s))(key \<mapsto> f x)\<rparr>\<rparr>))"

text \<open>A deletion marks an object that carries finalizers and removes any other.\<close>

definition simDeleteSecret :: "string \<times> string \<Rightarrow> (sim, unit) ext_call" where
  "simDeleteSecret key = simCall (\<lambda>s.
     case map_of (simSecrets s) key of
       None \<Rightarrow> (Inl simMissing, s)
     | Some x \<Rightarrow> if isFinalizers x = [] then (Inr (), simDropSecrets (\<lambda>k _. k = key) s)
                 else (Inr (), s\<lparr>simSecrets :=
                        (key, x\<lparr>isDeletionTimestamp := Some (simClock s)\<rparr>) # simSecrets s\<rparr>))"

definition simDeleteAllSecrets :: "string \<Rightarrow> string \<Rightarrow> string \<Rightarrow> (sim, unit) ext_call" where
  "simDeleteAllSecrets ns key v = simCall (\<lambda>s.
     (Inr (), simDropSecrets (\<lambda>(n, _) x. n = ns \<and> isLabels x key = Some v) s))"

definition simCreateBinding :: "CredentialsBinding \<Rightarrow> (sim, unit) ext_call" where
  "simCreateBinding b = simCall (\<lambda>s.
     (let key = (cbNamespace b, cbName b)
      in if bindings (simCluster s) key \<noteq> None then (Inl simExists, s)
         else (Inr (), s\<lparr>simCluster :=
           (simCluster s)\<lparr>bindings := (bindings (simCluster s))(key \<mapsto> b)\<rparr>\<rparr>)))"

definition simDeleteBinding :: "string \<times> string \<Rightarrow> (sim, unit) ext_call" where
  "simDeleteBinding key = simCall (\<lambda>s.
     case bindings (simCluster s) key of
       None \<Rightarrow> (Inl simMissing, s)
     | Some b \<Rightarrow> (Inr (), s\<lparr>simCluster := (simCluster s)\<lparr>bindings := (bindings (simCluster s))(key :=
         (if cbFinalizers b = [] then None else Some (b\<lparr>cbDeletionTimestamp := Some (simClock s)\<rparr>)))\<rparr>\<rparr>))"

text \<open>An object's namespace and name are its key.\<close>

definition simGetShoot :: "string \<times> string \<Rightarrow> (sim, Shoot) ext_call" where
  "simGetShoot k = simCall (\<lambda>s. (case shoots (simCluster s) k of
      None \<Rightarrow> Inl simMissing | Some x \<Rightarrow> Inr (x\<lparr>shNamespace := fst k, shName := snd k\<rparr>), s))"

definition simKube :: "sim kube" where
  "simKube = \<lparr>
     get_namespace = simGet namespaces,
     upsert_namespace = simUpsert namespaces (\<lambda>m. namespaces_update (\<lambda>_. m)) namedNamespace id,
     get_project = simGet projects,
     upsert_project = simUpsert projects (\<lambda>m. projects_update (\<lambda>_. m)) namedProject id,
     upsert_role = simUpsert roles (\<lambda>m. roles_update (\<lambda>_. m)) (\<lambda>(ns, n). namedRole ns n) id,
     upsert_role_binding = simUpsert roleBindings (\<lambda>m. roleBindings_update (\<lambda>_. m))
       (\<lambda>(ns, n). namedRoleBinding ns n) id,
     get_quota = simGet quotas,
     upsert_quota = simUpsert quotas (\<lambda>m. quotas_update (\<lambda>_. m))
       (\<lambda>(ns, n). namedResourceQuota ns n) simStampQuota,
     get_secret = simGet secrets,
     list_secrets = (\<lambda>ns key v. simCall (\<lambda>s. (Inr (simListSecrets ns key v s), s))),
     newest_secret = (\<lambda>p ns key v. simCall (\<lambda>s.
        (Inr (simNewest (filter p (simListSecrets ns key v s))), s))),
     create_secret = simCreateSecret,
     delete_secret = simDeleteSecret,
     delete_all_secrets = simDeleteAllSecrets,
     add_secret_finalizer = (\<lambda>key f. simUpdateSecret (\<lambda>x. x\<lparr>isFinalizers := f # isFinalizers x\<rparr>) key),
     remove_secret_finalizer = (\<lambda>key f.
        simUpdateSecret (\<lambda>x. x\<lparr>isFinalizers := removeAll f (isFinalizers x)\<rparr>) key),
     get_shoot = simGetShoot,
     patch_shoot = (\<lambda>old new. simUpdateShoot (\<lambda>_. new) (shNamespace old, shName old)),
     add_shoot_finalizer = (\<lambda>key f. simUpdateShoot (\<lambda>x. x\<lparr>shFinalizers := f # shFinalizers x\<rparr>) key),
     remove_shoot_finalizer = (\<lambda>key f.
        simUpdateShoot (\<lambda>x. x\<lparr>shFinalizers := removeAll f (shFinalizers x)\<rparr>) key),
     create_binding = simCreateBinding,
     delete_binding = simDeleteBinding\<rparr>"

lemmas sim_defs = simGet_def simUpsert_def simCall_def simView_def emptySim_def emptyCluster_def
  simMissing_def simUnavailable_def simExists_def simStampQuota_def

lemma simCall_view:
  assumes "\<And>s. simView (snd (f s)) = simView s"
  shows "simView (snd (simCall f s)) = simView s"
  using assms [of "s\<lparr>simFaults := []\<rparr>"] assms
  by (auto simp: simCall_def simView_def split: list.splits)

lemma sim_reads: "reads simView sel (simGet sel)"
  by (auto simp: reads_def sim_defs split: list.splits option.splits)

lemma sim_upserts:
  assumes "\<And>y. stamped y (stamp y)"
    and "\<And>m c S. (upd m c)\<lparr>secrets := S\<rparr> = upd m (c\<lparr>secrets := S\<rparr>)"
  shows "upserts simView sel upd bare stamped (simUpsert sel upd bare stamp)"
  using assms(1)
  by (auto simp: upserts_def upserted_def sim_defs assms(2) split: list.splits option.splits outcome.splits)

text \<open>Runs without failures.\<close>

definition sim_total :: "('k \<Rightarrow> (sim, 'o) mutation) \<Rightarrow> bool" where
  "sim_total op \<longleftrightarrow> (\<forall>key f s. simFaults s = [] \<longrightarrow> (\<forall>x. \<exists>y. f x = Ok y) \<longrightarrow>
     (\<exists>s'. op key f s = (Ok (), s') \<and> simFaults s' = []))"

lemma simUpsert_total: "sim_total (simUpsert sel upd bare stamp :: 'k \<Rightarrow> (sim, 'o) mutation)"
  unfolding sim_total_def
proof (intro allI impI)
  fix key :: 'k and f :: "'o \<Rightarrow> 'o res" and s :: sim
  assume "simFaults s = []" and total: "\<forall>x. \<exists>y. f x = Ok y"
  moreover obtain y where "f (case sel (simView s) key of None \<Rightarrow> bare key | Some x \<Rightarrow> x) = Ok y"
    using total by blast
  ultimately show "\<exists>s'. simUpsert sel upd bare stamp key f s = (Ok (), s') \<and> simFaults s' = []"
    by (simp add: simUpsert_def simCall_def)
qed

lemma simKube_total:
  "sim_total (upsert_namespace simKube)" "sim_total (upsert_project simKube)"
  "sim_total (upsert_role simKube)" "sim_total (upsert_role_binding simKube)"
  "sim_total (upsert_quota simKube)"
  by (simp_all add: simKube_def simUpsert_total)

lemma sim_total_ok:
  assumes "sim_total op" and "simFaults s = []" and "\<And>x. \<exists>y. f x = Ok y"
    and "\<And>s'. simFaults s' = [] \<Longrightarrow> Q (Ok ()) s'"
  shows "wp (op key f) Q s"
proof -
  have "\<exists>s'. op key f s = (Ok (), s') \<and> simFaults s' = []"
    using assms(1-3) unfolding sim_total_def by blast
  with assms(4) show ?thesis by (auto simp: wp_def)
qed

text \<open>Each operation by itself, for runs of a few calls.\<close>

lemma sim_kube_ops:
  "get_namespace simKube = simGet namespaces" "get_secret simKube = simGet secrets"
  "get_shoot simKube = simGetShoot" "get_project simKube = simGet projects"
  "create_secret simKube = simCreateSecret" "delete_secret simKube = simDeleteSecret"
  "delete_all_secrets simKube = simDeleteAllSecrets"
  "create_binding simKube = simCreateBinding" "delete_binding simKube = simDeleteBinding"
  "list_secrets simKube ns key v = simCall (\<lambda>s. (Inr (simListSecrets ns key v s), s))"
  "newest_secret simKube p ns key v =
     simCall (\<lambda>s. (Inr (simNewest (filter p (simListSecrets ns key v s))), s))"
  "add_secret_finalizer simKube k f = simUpdateSecret (\<lambda>x. x\<lparr>isFinalizers := f # isFinalizers x\<rparr>) k"
  "remove_secret_finalizer simKube k f =
     simUpdateSecret (\<lambda>x. x\<lparr>isFinalizers := removeAll f (isFinalizers x)\<rparr>) k"
  "patch_shoot simKube old new = simUpdateShoot (\<lambda>_. new) (shNamespace old, shName old)"
  "add_shoot_finalizer simKube k f = simUpdateShoot (\<lambda>x. x\<lparr>shFinalizers := f # shFinalizers x\<rparr>) k"
  "remove_shoot_finalizer simKube k f =
     simUpdateShoot (\<lambda>x. x\<lparr>shFinalizers := removeAll f (shFinalizers x)\<rparr>) k"
  by (simp_all add: simKube_def)

end
