(* ===== verification/Labels.thy ===== *)
theory Labels
  imports Go_Std
begin

section \<open>Label values\<close>

text \<open>
  \<open>sanitizeLabelValue\<close> of \<open>internal/kubernetes/gardener.go\<close> turns any OpenStack name into a
  Kubernetes label value. Here: the function on byte strings with their UTF-8 decoding, the
  grammar of label values, and the two facts its callers need (the result is always a valid value;
  a valid value is left alone), packaged as an interface from which idempotence follows.
\<close>

subsection \<open>The model\<close>

text \<open>\<open>validation.LabelValueMaxLength\<close> of Kubernetes\<close>

definition LabelValueMaxLength :: nat where
  "LabelValueMaxLength = 63"

definition isAlphanumeric :: "nat \<Rightarrow> bool" where
  "isAlphanumeric r = ((65 \<le> r \<and> r \<le> 90) \<or> (97 \<le> r \<and> r \<le> 122) \<or> (48 \<le> r \<and> r \<le> 57))"

text \<open>The mapping passed to \<open>strings.Map\<close>: 45 is a dash, 95 an underscore, 46 a dot.\<close>

definition labelRune :: "nat \<Rightarrow> nat" where
  "labelRune r = (if isAlphanumeric r \<or> r = 45 \<or> r = 95 \<or> r = 46 then r else 95)"

definition notAlphanumeric :: "char \<Rightarrow> bool" where
  "notAlphanumeric c = (\<not> isAlphanumeric (of_char c))"

definition sanitizeLabelValue :: "string \<Rightarrow> string" where
  "sanitizeLabelValue s =
     (let result = map (\<lambda>r. char_of (labelRune r)) (runes s);
          result = trim_func notAlphanumeric result
      in if LabelValueMaxLength < length result
         then trim_right_func notAlphanumeric (take LabelValueMaxLength result)
         else result)"

text \<open>
  The grammar of a label value, \<open>(([A-Za-z0-9][-A-Za-z0-9_.]*)?[A-Za-z0-9])?\<close> with at most 63
  characters.
\<close>

definition labelChar :: "char \<Rightarrow> bool" where
  "labelChar c = (isAlphanumeric (of_char c) \<or> c = CHR ''-'' \<or> c = CHR ''_'' \<or> c = CHR ''.'')"

definition validLabelValue :: "string \<Rightarrow> bool" where
  "validLabelValue s =
     (length s \<le> LabelValueMaxLength \<and> list_all labelChar s \<and>
      (s = [] \<or> (isAlphanumeric (of_char (hd s)) \<and> isAlphanumeric (of_char (last s)))))"

subsection \<open>Characters\<close>

lemma isAlphanumeric_lt: "isAlphanumeric r \<Longrightarrow> r < 128"
  by (auto simp: isAlphanumeric_def)

lemma labelRune_lt: "labelRune r < 128"
  using isAlphanumeric_lt by (auto simp: labelRune_def)

lemma labelRune_mod [simp]: "labelRune r mod 256 = labelRune r"
  using labelRune_lt [of r] by simp

lemma labelChar_code: "labelChar c \<longleftrightarrow>
    isAlphanumeric (of_char c) \<or> of_char c = (45::nat) \<or> of_char c = (95::nat) \<or> of_char c = (46::nat)"
proof -
  have "c = CHR ''-'' \<longleftrightarrow> of_char c = (45::nat)" "c = CHR ''_'' \<longleftrightarrow> of_char c = (95::nat)"
    "c = CHR ''.'' \<longleftrightarrow> of_char c = (46::nat)"
    by (simp_all add: of_char_eq_iff [symmetric, where 'a = nat] del: of_char_eq_iff)
  then show ?thesis by (simp add: labelChar_def)
qed

lemma labelChar_labelRune: "labelChar (char_of (labelRune r))"
proof -
  have "isAlphanumeric (labelRune r) \<or> labelRune r = 45 \<or> labelRune r = 95 \<or> labelRune r = 46"
    by (simp add: labelRune_def)
  then show ?thesis by (simp add: labelChar_code)
qed

lemma labelRune_id: "labelChar c \<Longrightarrow> labelRune (of_char c) = of_char c"
  by (auto simp: labelChar_code labelRune_def)

lemma labelChar_ascii: "labelChar c \<Longrightarrow> of_char c < (128::nat)"
  using isAlphanumeric_lt by (auto simp: labelChar_code)

lemma map_label_id: "list_all labelChar s \<Longrightarrow> map (\<lambda>r. char_of (labelRune r)) (runes s) = s"
  by (induction s) (auto simp: runes_def labelChar_ascii labelRune_id)

lemma isAlphanumeric_labelRune: "isAlphanumeric (labelRune r) = isAlphanumeric r"
  by (auto simp: labelRune_def isAlphanumeric_def)

subsection \<open>What sanitising gives\<close>

lemma list_all_subset: "set xs \<subseteq> set ys \<Longrightarrow> list_all P ys \<Longrightarrow> list_all P xs"
  by (auto simp: list_all_iff)

lemma hd_in_set_take: "xs \<noteq> [] \<Longrightarrow> 0 < n \<Longrightarrow> hd xs \<in> set (take n xs)"
  by (cases xs; cases n) auto

lemma in_set_dropWhile: "x \<in> set xs \<Longrightarrow> \<not> p x \<Longrightarrow> x \<in> set (dropWhile p xs)"
  by (induction xs) auto

lemma sanitize_chars: "list_all labelChar (sanitizeLabelValue s)"
proof -
  let ?r = "map (\<lambda>r. char_of (labelRune r)) (runes s)"
  let ?t = "trim_func notAlphanumeric ?r"
  have "list_all labelChar ?r" by (simp add: list_all_iff labelChar_labelRune)
  then have t: "list_all labelChar ?t" by (rule list_all_subset [OF set_trim_func])
  have "set (trim_right_func notAlphanumeric (take LabelValueMaxLength ?t)) \<subseteq> set ?t"
    using set_trim_right_func set_take_subset by (rule subset_trans)
  then have "list_all labelChar (trim_right_func notAlphanumeric (take LabelValueMaxLength ?t))"
    using t by (rule list_all_subset)
  with t show ?thesis by (simp add: sanitizeLabelValue_def Let_def)
qed

lemma sanitize_length: "length (sanitizeLabelValue s) \<le> LabelValueMaxLength"
proof -
  have "length (trim_right_func p (take n t)) \<le> n" for p n and t :: string
    using length_trim_right_func [of p "take n t"] by simp
  then show ?thesis by (simp add: sanitizeLabelValue_def Let_def)
qed

lemma sanitize_ends:
  assumes "sanitizeLabelValue s \<noteq> []"
  shows "isAlphanumeric (of_char (hd (sanitizeLabelValue s)))"
    and "isAlphanumeric (of_char (last (sanitizeLabelValue s)))"
proof -
  let ?t = "trim_func notAlphanumeric (map (\<lambda>r. char_of (labelRune r)) (runes s))"
  let ?u = "trim_right_func notAlphanumeric (take LabelValueMaxLength ?t)"
  have hd_t: "isAlphanumeric (of_char (hd ?t))" if "?t \<noteq> []"
    using trim_func_hd [OF that] by (simp add: notAlphanumeric_def)
  have last_t: "isAlphanumeric (of_char (last ?t))" if "?t \<noteq> []"
    using trim_func_last [OF that] by (simp add: notAlphanumeric_def)
  have ne: "?t \<noteq> []"
    using assms by (auto simp: sanitizeLabelValue_def Let_def trim_right_func_def)
  have "isAlphanumeric (of_char (hd (sanitizeLabelValue s))) \<and>
        isAlphanumeric (of_char (last (sanitizeLabelValue s)))"
  proof (cases "LabelValueMaxLength < length ?t")
    case True
    then have s: "sanitizeLabelValue s = ?u" by (simp add: sanitizeLabelValue_def Let_def)
    with assms have u: "?u \<noteq> []" by simp
    have "hd ?u = hd ?t"
      using u by (simp add: hd_trim_right_func hd_take LabelValueMaxLength_def)
    moreover have "\<not> notAlphanumeric (last ?u)" using u by (rule last_trim_right_func)
    ultimately show ?thesis using hd_t [OF ne] by (simp add: s notAlphanumeric_def)
  next
    case False
    then have "sanitizeLabelValue s = ?t" by (simp add: sanitizeLabelValue_def Let_def)
    then show ?thesis using hd_t last_t ne by simp
  qed
  then show "isAlphanumeric (of_char (hd (sanitizeLabelValue s)))"
    and "isAlphanumeric (of_char (last (sanitizeLabelValue s)))" by simp_all
qed

lemma sanitize_valid: "validLabelValue (sanitizeLabelValue s)"
  using sanitize_chars sanitize_length sanitize_ends by (auto simp: validLabelValue_def)

lemma sanitize_id:
  assumes "validLabelValue s"
  shows "sanitizeLabelValue s = s"
proof -
  have "map (\<lambda>r. char_of (labelRune r)) (runes s) = s"
    using assms by (simp add: map_label_id validLabelValue_def)
  moreover have "trim_func notAlphanumeric s = s"
    using assms by (intro trim_func_id) (auto simp: validLabelValue_def notAlphanumeric_def)
  ultimately show ?thesis
    using assms by (simp add: sanitizeLabelValue_def validLabelValue_def)
qed

text \<open>The result is empty exactly when no rune of the input is a letter or digit of ASCII.\<close>

lemma sanitize_empty_iff: "sanitizeLabelValue s = [] \<longleftrightarrow> (\<forall>r \<in> set (runes s). \<not> isAlphanumeric r)"
proof
  let ?r = "map (\<lambda>r. char_of (labelRune r)) (runes s)"
  let ?t = "trim_func notAlphanumeric ?r"
  assume none: "\<forall>r \<in> set (runes s). \<not> isAlphanumeric r"
  have "?t = []"
    by (rule trim_func_all) (use none in \<open>auto simp: notAlphanumeric_def isAlphanumeric_labelRune\<close>)
  then show "sanitizeLabelValue s = []" by (simp add: sanitizeLabelValue_def)
next
  let ?r = "map (\<lambda>r. char_of (labelRune r)) (runes s)"
  let ?t = "trim_func notAlphanumeric ?r"
  assume empty: "sanitizeLabelValue s = []"
  show "\<forall>r \<in> set (runes s). \<not> isAlphanumeric r"
  proof (rule ccontr)
    assume "\<not> ?thesis"
    then obtain r where r: "r \<in> set (runes s)" "isAlphanumeric r" by blast
    then have c: "char_of (labelRune r) \<in> set ?r" "\<not> notAlphanumeric (char_of (labelRune r))"
      by (auto simp: notAlphanumeric_def isAlphanumeric_labelRune)
    then have "char_of (labelRune r) \<in> set (dropWhile notAlphanumeric ?r)"
      by (rule in_set_dropWhile)
    then have ne: "?t \<noteq> []"
      using c(2) unfolding trim_func_def by (rule trim_right_func_nonempty)
    have "hd ?t \<in> set (take LabelValueMaxLength ?t)"
      using ne by (rule hd_in_set_take) (simp add: LabelValueMaxLength_def)
    moreover have "\<not> notAlphanumeric (hd ?t)" using ne by (rule trim_func_hd)
    ultimately have "trim_right_func notAlphanumeric (take LabelValueMaxLength ?t) \<noteq> []"
      by (rule trim_right_func_nonempty)
    with ne empty show False by (simp add: sanitizeLabelValue_def Let_def split: if_splits)
  qed
qed

text \<open>The interface of a normaliser onto a set of valid values.\<close>

locale normaliser =
  fixes norm :: "'a \<Rightarrow> 'a"
    and valid :: "'a \<Rightarrow> bool"
  assumes norm_valid: "valid (norm x)"
    and norm_id: "valid x \<Longrightarrow> norm x = x"
begin

lemma norm_idem: "norm (norm x) = norm x"
  by (rule norm_id [OF norm_valid])

lemma norm_fixpoint_iff: "norm x = x \<longleftrightarrow> valid x"
  by (metis norm_id norm_valid)

lemma norm_range: "range norm = {x. valid x}"
  by (metis (mono_tags, lifting) UNIV_I equalityI imageI image_subset_iff mem_Collect_eq
      norm_id norm_valid subsetI)

end

interpretation label: normaliser sanitizeLabelValue validLabelValue
  by unfold_locales (rule sanitize_valid, rule sanitize_id)

end
