(* ===== verification/Names.thy ===== *)
theory Names
  imports Go_Time
begin

section \<open>Names of namespaces, projects, users and secrets\<close>

text \<open>
  The naming functions of \<open>internal/kubernetes/gardener.go\<close>. The Kubernetes and OpenStack objects
  of different tenants are told apart by these names alone, so what matters is when two inputs get
  the same name. The SHA-256 function of \<open>GetGardenerProjectName\<close> (gardener's
  \<open>utils.ComputeSHA256Hex\<close>) is a parameter.
\<close>

subsection \<open>The model\<close>

definition GetGardenerProjectNamespaceName :: "string \<Rightarrow> string \<Rightarrow> string" where
  "GetGardenerProjectNamespaceName region projectID =
     ''garden-'' @ region @ ''-'' @ projectID"

definition GetGardenerProjectName ::
    "(string \<Rightarrow> string) \<Rightarrow> string \<Rightarrow> string \<Rightarrow> string \<Rightarrow> string" where
  "GetGardenerProjectName sha256hex region projectID landscapeName =
     take 10 (sha256hex (region @ projectID @ landscapeName))"

definition delimiter :: string where
  "delimiter = ''--''"

definition GetClusterUserName :: "string \<Rightarrow> string \<Rightarrow> string \<Rightarrow> string" where
  "GetClusterUserName landscapeName shootName projectID =
     ''gardener'' @ delimiter @ landscapeName @ delimiter @ shootName @ delimiter @ projectID"

text \<open>The clock's reading is the argument.\<close>

definition NewApplicationCredentialName :: "time \<Rightarrow> string" where
  "NewApplicationCredentialName now = ''shoot-'' @ format_int (time_unix now)"

definition GetApplicationCredentialInternalSecretName :: "string \<Rightarrow> string \<Rightarrow> string \<Rightarrow> string" where
  "GetApplicationCredentialInternalSecretName projectID shootName applicationCredentialName =
     projectID @ delimiter @ shootName @ delimiter @ applicationCredentialName"

subsection \<open>When names coincide\<close>

lemma append_eq_same_length:
  "length a = length b \<Longrightarrow> xs @ a = ys @ b \<longleftrightarrow> xs = ys \<and> a = b"
  by simp

lemma last_sep_unique:
  "c \<notin> set d \<Longrightarrow> c \<notin> set e \<Longrightarrow> xs @ c # d = ys @ c # e \<Longrightarrow> xs = ys \<and> d = e"
proof (induction d arbitrary: e rule: rev_induct)
  case Nil
  then show ?case by (cases e rule: rev_cases) auto
next
  case (snoc x d)
  then show ?case by (cases e rule: rev_cases) auto
qed

lemma namespace_name_inj:
  assumes "length p = length q"
  shows "GetGardenerProjectNamespaceName r p = GetGardenerProjectNamespaceName s q \<longleftrightarrow> r = s \<and> p = q"
proof -
  have "GetGardenerProjectNamespaceName r p = (''garden-'' @ r @ ''-'') @ p"
    and "GetGardenerProjectNamespaceName s q = (''garden-'' @ s @ ''-'') @ q"
    by (simp_all add: GetGardenerProjectNamespaceName_def)
  then show ?thesis by (simp only: append_eq_same_length [OF assms]) simp
qed

lemma cluster_user_name_inj:
  assumes "length p = length q"
  shows "GetClusterUserName l s p = GetClusterUserName l t q \<longleftrightarrow> s = t \<and> p = q"
proof -
  have "GetClusterUserName l s p = (''gardener--'' @ l @ ''--'' @ s @ ''--'') @ p"
    and "GetClusterUserName l t q = (''gardener--'' @ l @ ''--'' @ t @ ''--'') @ q"
    by (simp_all add: GetClusterUserName_def delimiter_def)
  then show ?thesis by (simp only: append_eq_same_length [OF assms]) simp
qed

lemma dash_not_digit: "CHR ''-'' \<notin> set (format_nat n)"
proof
  assume "CHR ''-'' \<in> set (format_nat n)"
  then obtain d where d: "d < 10" "CHR ''-'' = digit_char d" using format_nat_digits by blast
  then have "of_char (CHR ''-'') = 48 + d" by (metis of_char_digit)
  then show False by simp
qed

lemma credential_name_inj:
  assumes "0 \<le> s" "0 \<le> t"
  shows "NewApplicationCredentialName s = NewApplicationCredentialName t \<longleftrightarrow> time_unix s = time_unix t"
proof
  have n: "0 \<le> time_unix s" "0 \<le> time_unix t"
    using assms by (simp_all add: time_unix_def second_def pos_imp_zdiv_nonneg_iff)
  assume "NewApplicationCredentialName s = NewApplicationCredentialName t"
  then have "format_nat (nat (time_unix s)) = format_nat (nat (time_unix t))"
    using n by (simp add: NewApplicationCredentialName_def format_int_def)
  then show "time_unix s = time_unix t"
    using n by (metis format_nat_inj eq_nat_nat_iff)
qed (simp add: NewApplicationCredentialName_def)

lemma secret_name_inj:
  assumes "length p = length q" and "0 \<le> s" and "0 \<le> t"
  shows "GetApplicationCredentialInternalSecretName p a (NewApplicationCredentialName s) =
         GetApplicationCredentialInternalSecretName q b (NewApplicationCredentialName t)
       \<longleftrightarrow> p = q \<and> a = b \<and> time_unix s = time_unix t"
    (is "?l = ?r \<longleftrightarrow> _")
proof
  have n: "0 \<le> time_unix s" "0 \<le> time_unix t"
    using assms by (simp_all add: time_unix_def second_def pos_imp_zdiv_nonneg_iff)
  let ?ds = "format_nat (nat (time_unix s))" and ?dt = "format_nat (nat (time_unix t))"
  assume "?l = ?r"
  then have "(p @ ''--'' @ a @ ''--shoot'') @ CHR ''-'' # ?ds =
             (q @ ''--'' @ b @ ''--shoot'') @ CHR ''-'' # ?dt"
    using n by (simp add: GetApplicationCredentialInternalSecretName_def delimiter_def
        NewApplicationCredentialName_def format_int_def)
  then have 1: "p @ ''--'' @ a @ ''--shoot'' = q @ ''--'' @ b @ ''--shoot''" and 2: "?ds = ?dt"
    using last_sep_unique [OF dash_not_digit dash_not_digit] by blast+
  from 1 assms(1) have "p = q" and "a @ ''--shoot'' = b @ ''--shoot''" by simp_all
  then have "p = q \<and> a = b" by simp
  moreover from 2 n have "time_unix s = time_unix t" by (metis format_nat_inj eq_nat_nat_iff)
  ultimately show "p = q \<and> a = b \<and> time_unix s = time_unix t" by simp
next
  assume "p = q \<and> a = b \<and> time_unix s = time_unix t"
  then show "?l = ?r" by (simp add: NewApplicationCredentialName_def)
qed

text \<open>
  The interface of a naming scheme: on well-formed keys, the name determines the key. A component
  that stores objects under such names never mixes up two keys.
\<close>

locale naming =
  fixes name :: "'k \<Rightarrow> string"
    and wf :: "'k \<Rightarrow> bool"
  assumes name_inj: "wf k \<Longrightarrow> wf l \<Longrightarrow> name k = name l \<Longrightarrow> k = l"
begin

lemma names_distinct: "distinct ks \<Longrightarrow> (\<And>k. k \<in> set ks \<Longrightarrow> wf k) \<Longrightarrow> distinct (map name ks)"
  by (auto simp: distinct_map inj_on_def intro: name_inj)

lemma other_key_untouched:
  "wf k \<Longrightarrow> wf l \<Longrightarrow> k \<noteq> l \<Longrightarrow> (store(name k \<mapsto> x)) (name l) = store (name l)"
  using name_inj by auto

end

text \<open>Keystone's project IDs are 32 hexadecimal digits: all of one length.\<close>

definition projectIDLength :: nat where
  "projectIDLength = 32"

interpretation namespace_names:
  naming "\<lambda>(region, projectID). GetGardenerProjectNamespaceName region projectID"
    "\<lambda>(region, projectID). length projectID = projectIDLength"
  by unfold_locales (auto simp: namespace_name_inj)

interpretation cluster_user_names:
  naming "\<lambda>(shootName, projectID). GetClusterUserName landscapeName shootName projectID"
    "\<lambda>(shootName, projectID). length projectID = projectIDLength"
  for landscapeName
  by unfold_locales (auto simp: cluster_user_name_inj)

end
