(* ===== verification/Provision.thy ===== *)
theory Provision
  imports Sample_Cluster Config Labels Names
begin

section \<open>Provisioning the Gardener project of an OpenStack project\<close>

text \<open>
  \<open>ReconcileGardenerProjectResources\<close> of \<open>internal/kubernetes/gardener.go\<close>, called by the token
  webhook and by the project controller: five \<open>CreateOrPatch\<close> calls, for the namespace, the
  Gardener project, the role, the role binding and the resource quota.
\<close>

subsection \<open>The model\<close>

text \<open>Gardener's label keys and values for project namespaces, and Kubernetes API groups\<close>

definition GardenRole :: string where "GardenRole = ''gardener.cloud/role''"
definition GardenRoleProject :: string where "GardenRoleProject = ''project''"
definition GardenProjectName :: string where "GardenProjectName = ''project.gardener.cloud/name''"
definition gardenerGroupName :: string where "gardenerGroupName = ''core.gardener.cloud''"
definition rbacGroupName :: string where "rbacGroupName = ''rbac.authorization.k8s.io''"

text \<open>\<open>metav1.SetMetaDataLabel\<close>\<close>

definition setLabel :: "string \<Rightarrow> string \<Rightarrow> Namespace \<Rightarrow> Namespace" where
  "setLabel key v ns = ns\<lparr>nsLabels := (nsLabels ns)(key \<mapsto> v)\<rparr>"

definition mutateNamespace :: "string \<Rightarrow> OpenStackUserInfo \<Rightarrow> Namespace \<Rightarrow> Namespace res" where
  "mutateNamespace gardenerProjectName u ns =
     (let ns = setLabel GardenRole GardenRoleProject ns;
          ns = setLabel GardenProjectName gardenerProjectName ns;
          ns = setLabel LabelKeyOpenStackProjectID (ProjectID u) ns;
          ns = setLabel LabelKeyOpenStackProjectName (sanitizeLabelValue (ProjectName u)) ns;
          ns = setLabel LabelKeyOpenStackDomainID (ProjectDomainID u) ns;
          ns = setLabel LabelKeyOpenStackDomainName (sanitizeLabelValue (ProjectDomainName u)) ns;
          ns = setLabel LabelKeyOpenStackRegion (Region u) ns
      in Ok ns)"

definition mutateProject :: "string \<Rightarrow> Project \<Rightarrow> Project res" where
  "mutateProject namespaceName pj = Ok (pj\<lparr>pjNamespace := Some namespaceName\<rparr>)"

definition kubernetesAdminRole :: string where
  "kubernetesAdminRole = ''persephone.sci.cloud.sap:openstack-project-kubernetes-admin''"

definition kubernetesAdminRules :: "PolicyRule list" where
  "kubernetesAdminRules =
     [\<lparr>APIGroups = [gardenerGroupName], Resources = [''shoots''],
       Verbs = [''get'', ''list'', ''watch'', ''create'', ''update'', ''patch'', ''delete'']\<rparr>,
      \<lparr>APIGroups = [gardenerGroupName], Resources = [''shoots/adminkubeconfig''],
       Verbs = [''create'']\<rparr>,
      \<lparr>APIGroups = [''''], Resources = [''configmaps'', ''secrets''],
       Verbs = [''get'', ''list'', ''watch'', ''create'', ''update'', ''patch'', ''delete'']\<rparr>,
      \<lparr>APIGroups = [''''], Resources = [''resourcequotas''], Verbs = [''get'', ''list'']\<rparr>]"

definition mutateRole :: "Role \<Rightarrow> Role res" where
  "mutateRole r = Ok (r\<lparr>Rules := kubernetesAdminRules\<rparr>)"

definition kubernetesAdminGroup :: "string \<Rightarrow> string" where
  "kubernetesAdminGroup projectID = projectID @ '':kubernetes_admin''"

definition mutateRoleBinding :: "OpenStackUserInfo \<Rightarrow> RoleBinding \<Rightarrow> RoleBinding res" where
  "mutateRoleBinding u rb =
     Ok (rb\<lparr>Subjects := [\<lparr>sjAPIGroup = rbacGroupName, sjKind = ''Group'',
                          sjName = kubernetesAdminGroup (ProjectID u)\<rparr>],
            RoleRefOf := \<lparr>rrAPIGroup = rbacGroupName, rrKind = ''Role'',
                          rrName = kubernetesAdminRole\<rparr>\<rparr>)"

text \<open>\<open>if rq.Spec.Hard == nil { rq.Spec.Hard = make(...) }\<close> and the write, which panics on nil\<close>

definition makeHard :: "ResourceQuota \<Rightarrow> ResourceQuota" where
  "makeHard rq = (if Hard rq = None then rq\<lparr>Hard := Some Map.empty\<rparr> else rq)"

definition setHard :: "string \<Rightarrow> int64 \<Rightarrow> ResourceQuota \<Rightarrow> ResourceQuota res" where
  "setHard key q rq =
     (case Hard rq of
        None \<Rightarrow> Panicked NilMapWrite
      | Some hard \<Rightarrow> Ok (rq\<lparr>Hard := Some (hard(key \<mapsto> q))\<rparr>))"

text \<open>\<open>int64(cfg.DefaultShootQuota)\<close> keeps the bits.\<close>

definition mutateNewQuota :: "uint64 \<Rightarrow> ResourceQuota \<Rightarrow> ResourceQuota res" where
  "mutateNewQuota defaultShootQuota rq =
     (if rqCreationTimestamp rq = zero_time
      then setHard ShootResourceQuotaKey (defaultShootQuota :: int64) (makeHard rq)
      else Ok rq)"

definition ReconcileGardenerProjectResources ::
    "'w kube \<Rightarrow> (string \<Rightarrow> string) \<Rightarrow> PersephoneConfig \<Rightarrow> OpenStackUserInfo \<Rightarrow> ('w, unit) io" where
  "ReconcileGardenerProjectResources k sha256hex cfg u =
     (let gardenerProjectName =
            GetGardenerProjectName sha256hex (Region u) (ProjectID u) (LandscapeName cfg);
          namespace = GetGardenerProjectNamespaceName (Region u) (ProjectID u)
      in
      thenE (wrapE (KubernetesPkg ReconcileNamespace) [namespace]
               (upsert_namespace k namespace (mutateNamespace gardenerProjectName u)))
     (thenE (wrapE (KubernetesPkg ReconcileProject) [gardenerProjectName]
               (upsert_project k gardenerProjectName (mutateProject namespace)))
     (thenE (wrapE (KubernetesPkg ReconcileRole) [namespace, kubernetesAdminRole]
               (upsert_role k (namespace, kubernetesAdminRole) mutateRole))
     (thenE (wrapE (KubernetesPkg ReconcileRoleBinding) [namespace, kubernetesAdminRole]
               (upsert_role_binding k (namespace, kubernetesAdminRole) (mutateRoleBinding u)))
            (wrapE (KubernetesPkg ReconcileQuota) [namespace]
               (upsert_quota k (namespace, ResourceQuotaName)
                  (mutateNewQuota (DefaultShootQuota cfg))))))))"

subsection \<open>The laws of the calls it makes\<close>

text \<open>
  A stored object always has a creation timestamp, which the server sets when it creates the
  object and nothing changes later; otherwise the server stores what it is given.
\<close>

definition stampedQuota :: "ResourceQuota \<Rightarrow> ResourceQuota \<Rightarrow> bool" where
  "stampedQuota y z \<longleftrightarrow> (\<exists>t. t \<noteq> zero_time \<and> z = y\<lparr>rqCreationTimestamp := t\<rparr>)"

definition provision_laws :: "('w \<Rightarrow> cluster) \<Rightarrow> 'w kube \<Rightarrow> bool" where
  "provision_laws view k \<longleftrightarrow>
     upserts view namespaces (\<lambda>m. namespaces_update (\<lambda>_. m)) namedNamespace (=) (upsert_namespace k) \<and>
     upserts view projects (\<lambda>m. projects_update (\<lambda>_. m)) namedProject (=) (upsert_project k) \<and>
     upserts view roles (\<lambda>m. roles_update (\<lambda>_. m)) (\<lambda>(ns, n). namedRole ns n) (=) (upsert_role k) \<and>
     upserts view roleBindings (\<lambda>m. roleBindings_update (\<lambda>_. m)) (\<lambda>(ns, n). namedRoleBinding ns n) (=)
       (upsert_role_binding k) \<and>
     upserts view quotas (\<lambda>m. quotas_update (\<lambda>_. m)) (\<lambda>(ns, n). namedResourceQuota ns n) stampedQuota
       (upsert_quota k)"

definition quotas_stamped :: "cluster \<Rightarrow> bool" where
  "quotas_stamped c \<longleftrightarrow> (\<forall>key rq. quotas c key = Some rq \<longrightarrow> rqCreationTimestamp rq \<noteq> zero_time)"

subsection \<open>What provisioning leaves behind\<close>

definition projectLabels :: "string \<Rightarrow> OpenStackUserInfo \<Rightarrow> labels \<Rightarrow> labels" where
  "projectLabels gardenerProjectName u l =
     l(GardenRole \<mapsto> GardenRoleProject,
       GardenProjectName \<mapsto> gardenerProjectName,
       LabelKeyOpenStackProjectID \<mapsto> ProjectID u,
       LabelKeyOpenStackProjectName \<mapsto> sanitizeLabelValue (ProjectName u),
       LabelKeyOpenStackDomainID \<mapsto> ProjectDomainID u,
       LabelKeyOpenStackDomainName \<mapsto> sanitizeLabelValue (ProjectDomainName u),
       LabelKeyOpenStackRegion \<mapsto> Region u)"

lemma mutateNamespace_eq:
  "mutateNamespace g u ns = Ok (ns\<lparr>nsLabels := projectLabels g u (nsLabels ns)\<rparr>)"
  by (simp add: mutateNamespace_def setLabel_def projectLabels_def)

definition withNamespace :: "string \<Rightarrow> OpenStackUserInfo \<Rightarrow> string \<Rightarrow> cluster \<Rightarrow> cluster" where
  "withNamespace g u ns c = c\<lparr>namespaces := (namespaces c)(ns \<mapsto>
     (let x = case namespaces c ns of None \<Rightarrow> namedNamespace ns | Some x \<Rightarrow> x
      in x\<lparr>nsLabels := projectLabels g u (nsLabels x)\<rparr>))\<rparr>"

definition withProject :: "string \<Rightarrow> string \<Rightarrow> cluster \<Rightarrow> cluster" where
  "withProject g ns c = c\<lparr>projects := (projects c)(g \<mapsto>
     (case projects c g of None \<Rightarrow> namedProject g | Some x \<Rightarrow> x)\<lparr>pjNamespace := Some ns\<rparr>)\<rparr>"

definition withRole :: "string \<Rightarrow> cluster \<Rightarrow> cluster" where
  "withRole ns c = c\<lparr>roles := (roles c)((ns, kubernetesAdminRole) \<mapsto>
     (case roles c (ns, kubernetesAdminRole) of
        None \<Rightarrow> namedRole ns kubernetesAdminRole | Some x \<Rightarrow> x)\<lparr>Rules := kubernetesAdminRules\<rparr>)\<rparr>"

definition adminSubject :: "OpenStackUserInfo \<Rightarrow> Subject" where
  "adminSubject u = \<lparr>sjAPIGroup = rbacGroupName, sjKind = ''Group'',
     sjName = kubernetesAdminGroup (ProjectID u)\<rparr>"

definition adminRoleRef :: RoleRef where
  "adminRoleRef = \<lparr>rrAPIGroup = rbacGroupName, rrKind = ''Role'', rrName = kubernetesAdminRole\<rparr>"

definition withRoleBinding :: "OpenStackUserInfo \<Rightarrow> string \<Rightarrow> cluster \<Rightarrow> cluster" where
  "withRoleBinding u ns c = c\<lparr>roleBindings := (roleBindings c)((ns, kubernetesAdminRole) \<mapsto>
     (case roleBindings c (ns, kubernetesAdminRole) of
        None \<Rightarrow> namedRoleBinding ns kubernetesAdminRole | Some x \<Rightarrow> x)
       \<lparr>Subjects := [adminSubject u], RoleRefOf := adminRoleRef\<rparr>)\<rparr>"

lemmas with_defs = withNamespace_def withProject_def withRole_def withRoleBinding_def

lemma with_frame [simp]:
  "quotas (withNamespace g u ns c) = quotas c" "quotas (withProject g ns c) = quotas c"
  "quotas (withRole ns c) = quotas c" "quotas (withRoleBinding u ns c) = quotas c"
  "namespaces (withProject g ns c) = namespaces c" "namespaces (withRole ns c) = namespaces c"
  "namespaces (withRoleBinding u ns c) = namespaces c"
  "projects (withNamespace g u ns c) = projects c"
  "projects (withRole ns c) = projects c" "projects (withRoleBinding u ns c) = projects c"
  by (simp_all add: with_defs)

lemma namespaces_withNamespace:
  "namespaces (withNamespace g u ns c) ns =
     Some (let x = case namespaces c ns of None \<Rightarrow> namedNamespace ns | Some x \<Rightarrow> x
           in x\<lparr>nsLabels := projectLabels g u (nsLabels x)\<rparr>)"
  by (simp add: withNamespace_def)

text \<open>The quota step: a fresh quota gets the default, an existing one is left alone.\<close>

definition freshQuota :: "uint64 \<Rightarrow> string \<Rightarrow> time \<Rightarrow> ResourceQuota" where
  "freshQuota q ns t = \<lparr>rqName = ResourceQuotaName, rqNamespace = ns, rqCreationTimestamp = t,
     Hard = Some [ShootResourceQuotaKey \<mapsto> q], Used = None\<rparr>"

definition quotaEnsured :: "uint64 \<Rightarrow> string \<Rightarrow> cluster \<Rightarrow> cluster \<Rightarrow> bool" where
  "quotaEnsured q ns c c' \<longleftrightarrow>
     (case quotas c (ns, ResourceQuotaName) of
        Some rq \<Rightarrow> c' = c
      | None \<Rightarrow> (\<exists>t. t \<noteq> zero_time \<and>
          c' = c\<lparr>quotas := (quotas c)((ns, ResourceQuotaName) \<mapsto> freshQuota q ns t)\<rparr>))"

lemma mutateNewQuota_bare:
  "mutateNewQuota q (namedResourceQuota ns ResourceQuotaName) = Ok (freshQuota q ns zero_time)"
  by (simp add: mutateNewQuota_def setHard_def makeHard_def namedResourceQuota_def freshQuota_def)

lemma mutateNewQuota_old: "rqCreationTimestamp rq \<noteq> zero_time \<Longrightarrow> mutateNewQuota q rq = Ok rq"
  by (simp add: mutateNewQuota_def)

lemma mutateNewQuota_no_panic: "mutateNewQuota q rq \<noteq> Panicked p"
  by (simp add: mutateNewQuota_def setHard_def makeHard_def split: option.splits)

text \<open>Each call, as a weakest-precondition rule.\<close>

lemma upserted_steps:
  "upserted namespaces (\<lambda>m. namespaces_update (\<lambda>_. m)) namedNamespace (=) ns (mutateNamespace g u) c c'
     \<longleftrightarrow> c' = withNamespace g u ns c"
  "upserted projects (\<lambda>m. projects_update (\<lambda>_. m)) namedProject (=) g (mutateProject ns) c c'
     \<longleftrightarrow> c' = withProject g ns c"
  "upserted roles (\<lambda>m. roles_update (\<lambda>_. m)) (\<lambda>(ns, n). namedRole ns n) (=)
     (ns, kubernetesAdminRole) mutateRole c c' \<longleftrightarrow> c' = withRole ns c"
  "upserted roleBindings (\<lambda>m. roleBindings_update (\<lambda>_. m)) (\<lambda>(ns, n). namedRoleBinding ns n) (=)
     (ns, kubernetesAdminRole) (mutateRoleBinding u) c c' \<longleftrightarrow> c' = withRoleBinding u ns c"
  by (simp_all add: upserted_def mutateNamespace_eq mutateProject_def mutateRole_def
      mutateRoleBinding_def with_defs Let_def adminSubject_def adminRoleRef_def split: option.splits)

lemma upserted_quota:
  assumes "quotas_stamped c"
  shows "upserted quotas (\<lambda>m. quotas_update (\<lambda>_. m)) (\<lambda>(ns, n). namedResourceQuota ns n) stampedQuota
     (ns, ResourceQuotaName) (mutateNewQuota q) c c' \<longleftrightarrow> quotaEnsured q ns c c'"
proof (cases "quotas c (ns, ResourceQuotaName)")
  case None
  then show ?thesis
    by (auto simp: upserted_def quotaEnsured_def mutateNewQuota_bare stampedQuota_def freshQuota_def)
next
  case (Some x)
  with assms have "mutateNewQuota q x = Ok x"
    by (simp add: mutateNewQuota_old quotas_stamped_def)
  with Some show ?thesis
    by (simp add: upserted_def quotaEnsured_def fun_upd_idem)
qed

lemma mutations_no_panic:
  "mutateNamespace g u ns \<noteq> Panicked p" "mutateProject n pj \<noteq> Panicked p"
  "mutateRole r \<noteq> Panicked p" "mutateRoleBinding u rb \<noteq> Panicked p"
  by (simp_all add: mutateNamespace_def mutateProject_def mutateRole_def mutateRoleBinding_def)

lemma provision_lawsD:
  assumes "provision_laws view k"
  shows "upserts view namespaces (\<lambda>m. namespaces_update (\<lambda>_. m)) namedNamespace (=) (upsert_namespace k)"
    and "upserts view projects (\<lambda>m. projects_update (\<lambda>_. m)) namedProject (=) (upsert_project k)"
    and "upserts view roles (\<lambda>m. roles_update (\<lambda>_. m)) (\<lambda>(ns, n). namedRole ns n) (=) (upsert_role k)"
    and "upserts view roleBindings (\<lambda>m. roleBindings_update (\<lambda>_. m)) (\<lambda>(ns, n). namedRoleBinding ns n)
           (=) (upsert_role_binding k)"
    and "upserts view quotas (\<lambda>m. quotas_update (\<lambda>_. m)) (\<lambda>(ns, n). namedResourceQuota ns n)
           stampedQuota (upsert_quota k)"
  using assms by (simp_all add: provision_laws_def)

lemma wp_stage:
  assumes "upserts view sel upd bare stamped op" and "\<And>x p. f x \<noteq> Panicked p"
    and "\<And>c'. upserted sel upd bare stamped key f (view w) c' \<longleftrightarrow> c' = g (view w)"
    and "\<And>w'. view w' = g (view w) \<Longrightarrow> wp m Q w'"
    and "\<And>e w'. view w' = view w \<or> view w' = g (view w) \<Longrightarrow> Q (Err (Wrapf s args e)) w'"
  shows "wp (thenE (wrapE s args (op key f)) m) Q w"
  unfolding wp_thenE wp_wrapE
  by (rule wp_upserts [OF assms(1), where P = "\<lambda>c'. c' = g (view w)"])
    (use assms in auto)

lemma wp_namespace_stage:
  assumes "provision_laws view k" and "\<And>w'. view w' = withNamespace g u ns (view w) \<Longrightarrow> wp m Q w'"
    and "\<And>e w'. view w' = view w \<or> view w' = withNamespace g u ns (view w) \<Longrightarrow> Q (Err (Wrapf s args e)) w'"
  shows "wp (thenE (wrapE s args (upsert_namespace k ns (mutateNamespace g u))) m) Q w"
  by (rule wp_stage [where g = "withNamespace g u ns", OF provision_lawsD(1) [OF assms(1)]])
    (simp_all add: mutations_no_panic upserted_steps assms(2,3))

lemma wp_project_stage:
  assumes "provision_laws view k" and "\<And>w'. view w' = withProject g ns (view w) \<Longrightarrow> wp m Q w'"
    and "\<And>e w'. view w' = view w \<or> view w' = withProject g ns (view w) \<Longrightarrow> Q (Err (Wrapf s args e)) w'"
  shows "wp (thenE (wrapE s args (upsert_project k g (mutateProject ns))) m) Q w"
  by (rule wp_stage [where g = "withProject g ns", OF provision_lawsD(2) [OF assms(1)]])
    (simp_all add: mutations_no_panic upserted_steps assms(2,3))

lemma wp_role_stage:
  assumes "provision_laws view k" and "\<And>w'. view w' = withRole ns (view w) \<Longrightarrow> wp m Q w'"
    and "\<And>e w'. view w' = view w \<or> view w' = withRole ns (view w) \<Longrightarrow> Q (Err (Wrapf s args e)) w'"
  shows "wp (thenE (wrapE s args (upsert_role k (ns, kubernetesAdminRole) mutateRole)) m) Q w"
  by (rule wp_stage [where g = "withRole ns", OF provision_lawsD(3) [OF assms(1)]])
    (simp_all add: mutations_no_panic upserted_steps assms(2,3))

lemma wp_role_binding_stage:
  assumes "provision_laws view k" and "\<And>w'. view w' = withRoleBinding u ns (view w) \<Longrightarrow> wp m Q w'"
    and "\<And>e w'. view w' = view w \<or> view w' = withRoleBinding u ns (view w) \<Longrightarrow> Q (Err (Wrapf s args e)) w'"
  shows "wp (thenE (wrapE s args (upsert_role_binding k (ns, kubernetesAdminRole) (mutateRoleBinding u))) m) Q w"
  by (rule wp_stage [where g = "withRoleBinding u ns", OF provision_lawsD(4) [OF assms(1)]])
    (simp_all add: mutations_no_panic upserted_steps assms(2,3))

lemma wp_quota_step:
  assumes "provision_laws view k" and "quotas_stamped (view w)"
    and "\<And>w'. quotaEnsured q ns (view w) (view w') \<Longrightarrow> Q (Ok ()) w'"
    and "\<And>e w'. view w' = view w \<or> quotaEnsured q ns (view w) (view w') \<Longrightarrow> Q (Err e) w'"
  shows "wp (upsert_quota k (ns, ResourceQuotaName) (mutateNewQuota q)) Q w"
  by (rule wp_upserts [OF provision_lawsD(5) [OF assms(1)],
        where P = "quotaEnsured q ns (view w)"])
    (use assms in \<open>auto simp: upserted_quota mutateNewQuota_no_panic\<close>)

text \<open>
  The outcomes of a run: it succeeds with all five objects in place, or it fails at one of the
  five calls, with the calls before it done and that one done or not. It never panics.
  \<open>provisionedUpto n c c'\<close>: from \<open>c\<close> to \<open>c'\<close> the first \<open>n\<close> of the five objects have been put in
  place and nothing else has changed.
\<close>

definition provisionSteps :: "string \<Rightarrow> string \<Rightarrow> OpenStackUserInfo \<Rightarrow> (cluster \<Rightarrow> cluster) list" where
  "provisionSteps g ns u =
     [withNamespace g u ns, withProject g ns, withRole ns, withRoleBinding u ns]"

primrec provisionStage :: "string \<Rightarrow> string \<Rightarrow> OpenStackUserInfo \<Rightarrow> nat \<Rightarrow> cluster \<Rightarrow> cluster" where
  "provisionStage g ns u 0 c = c"
| "provisionStage g ns u (Suc n) c = (provisionSteps g ns u ! n) (provisionStage g ns u n c)"

lemma provisionStage_simps [simp]:
  "provisionStage g ns u (Suc 0) c = withNamespace g u ns c"
  "provisionStage g ns u 1 c = withNamespace g u ns c"
  "provisionStage g ns u (Suc (Suc 0)) c = withProject g ns (withNamespace g u ns c)"
  "provisionStage g ns u 2 c = withProject g ns (withNamespace g u ns c)"
  "provisionStage g ns u 3 c = withRole ns (withProject g ns (withNamespace g u ns c))"
  "provisionStage g ns u 4 c =
     withRoleBinding u ns (withRole ns (withProject g ns (withNamespace g u ns c)))"
  by (simp_all add: provisionSteps_def eval_nat_numeral)

declare provisionStage.simps(2) [simp del]

definition provisionedUpto ::
    "uint64 \<Rightarrow> string \<Rightarrow> string \<Rightarrow> OpenStackUserInfo \<Rightarrow> nat \<Rightarrow> cluster \<Rightarrow> cluster \<Rightarrow> bool" where
  "provisionedUpto q g ns u n c c' \<longleftrightarrow>
     (if n \<le> 4 then c' = provisionStage g ns u n c
      else quotaEnsured q ns (provisionStage g ns u 4 c) c')"

definition provisionSites :: "kubernetes_site list" where
  "provisionSites =
     [ReconcileNamespace, ReconcileProject, ReconcileRole, ReconcileRoleBinding, ReconcileQuota]"

lemma quotas_stamped_cong: "quotas c' = quotas c \<Longrightarrow> quotas_stamped c' = quotas_stamped c"
  by (simp add: quotas_stamped_def)

lemma provision_outcome:
  fixes cfg u sha
  defines "g \<equiv> GetGardenerProjectName sha (Region u) (ProjectID u) (LandscapeName cfg)"
    and "ns \<equiv> GetGardenerProjectNamespaceName (Region u) (ProjectID u)"
  assumes laws: "provision_laws view k" and "quotas_stamped (view w)"
  shows "wp (ReconcileGardenerProjectResources k sha cfg u) (\<lambda>r w'.
     case r of
       Ok _ \<Rightarrow> provisionedUpto (DefaultShootQuota cfg) g ns u 5 (view w) (view w')
     | Err (Wrapf s _ _) \<Rightarrow> (\<exists>n<5. s = KubernetesPkg (provisionSites ! n) \<and>
         (provisionedUpto (DefaultShootQuota cfg) g ns u n (view w) (view w') \<or>
          provisionedUpto (DefaultShootQuota cfg) g ns u (Suc n) (view w) (view w')))
     | _ \<Rightarrow> False) w"
proof -
  have at: "\<exists>n<5. KubernetesPkg s = KubernetesPkg (provisionSites ! n) \<and> (A n \<or> A (Suc n))"
    if "m < 5" "s = provisionSites ! m" "A m \<or> A (Suc m)" for m s and A :: "nat \<Rightarrow> bool"
    using that by blast
  note sites = provisionSites_def provisionedUpto_def
  show ?thesis
    unfolding ReconcileGardenerProjectResources_def Let_def g_def [symmetric] ns_def [symmetric]
    apply (rule wp_namespace_stage [OF laws])
     apply (rule wp_project_stage [OF laws])
      apply (rule wp_role_stage [OF laws])
       apply (rule wp_role_binding_stage [OF laws])
        apply (unfold wp_wrapE)
        apply (rule wp_quota_step [OF laws])
          apply (simp_all only: outcome.case go_error.case)
          apply (simp add: assms(4) quotas_stamped_cong)
         apply (simp add: sites)
        apply (rule at [of 4], simp, simp add: sites, simp add: sites)
       apply (rule at [of 3], simp, simp add: sites, simp add: sites)
      apply (rule at [of 2], simp, simp add: sites, simp add: sites)
     apply (rule at [of 1], simp, simp add: sites, simp add: sites)
    apply (rule at [of 0], simp, simp add: sites, simp add: sites)
    done
qed

subsection \<open>Repeating and retrying a run\<close>

lemma projectLabels_idem [simp]: "projectLabels g u (projectLabels g u l) = projectLabels g u l"
  by (auto simp: projectLabels_def fun_eq_iff)

lemma stage_cases:
  assumes "n \<le> (4 :: nat)"
  obtains "n = 0" | "n = 1" | "n = 2" | "n = 3" | "n = 4"
  using assms by linarith

text \<open>Going through the four stages again after any prefix of them changes what is missing only.\<close>

lemma provisionStage_again:
  assumes "n \<le> 4"
  shows "provisionStage g ns u 4 (provisionStage g ns u n c) = provisionStage g ns u 4 c"
proof -
  from assms show ?thesis by (cases rule: stage_cases) (simp_all add: with_defs Let_def)
qed

lemma provisionStage_quota_update:
  "provisionStage g ns u 4 (c\<lparr>quotas := m\<rparr>) = (provisionStage g ns u 4 c)\<lparr>quotas := m\<rparr>"
  by (simp add: with_defs)

lemma quotas_provisionStage:
  "n \<le> 4 \<Longrightarrow> quotas (provisionStage g ns u n c) = quotas c"
proof -
  assume "n \<le> 4"
  then show ?thesis by (cases rule: stage_cases) simp_all
qed

lemma quotaEnsured_form:
  assumes "quotaEnsured q ns c c'"
  shows "\<exists>m. c' = c\<lparr>quotas := m\<rparr> \<and> m (ns, ResourceQuotaName) \<noteq> None"
proof (cases "quotas c (ns, ResourceQuotaName)")
  case None
  with assms show ?thesis by (auto simp: quotaEnsured_def)
next
  case (Some rq)
  with assms have "c' = c\<lparr>quotas := quotas c\<rparr>" by (simp add: quotaEnsured_def)
  with Some show ?thesis by blast
qed

lemma provisionedUpto_retry:
  assumes "provisionedUpto q g ns u n c c'" and "provisionedUpto q g ns u 5 c' c''"
  shows "provisionedUpto q g ns u 5 c c''"
proof (cases "n \<le> 4")
  case True
  with assms show ?thesis by (simp add: provisionedUpto_def provisionStage_again del: provisionStage_simps)
next
  case False
  with assms(1) have 1: "quotaEnsured q ns (provisionStage g ns u 4 c) c'"
    by (simp add: provisionedUpto_def)
  obtain m where m: "c' = (provisionStage g ns u 4 c)\<lparr>quotas := m\<rparr>" "m (ns, ResourceQuotaName) \<noteq> None"
    using quotaEnsured_form [OF 1] by blast
  then have "provisionStage g ns u 4 c' = c'"
    using provisionStage_again [of 4 g ns u c]
    by (simp add: provisionStage_quota_update del: provisionStage_simps)
  with assms(2) m have "c'' = c'"
    by (auto simp: provisionedUpto_def quotaEnsured_def split: option.splits)
  with 1 show ?thesis by (simp add: provisionedUpto_def)
qed

lemma quotaEnsured_stamped: "quotaEnsured q ns c c' \<Longrightarrow> quotas_stamped c \<Longrightarrow> quotas_stamped c'"
  by (cases "quotas c (ns, ResourceQuotaName)")
    (auto simp: quotaEnsured_def quotas_stamped_def freshQuota_def split: if_splits)

lemma provisionStage_stamped:
  assumes "n \<le> 4" "quotas_stamped c"
  shows "quotas_stamped (provisionStage g ns u n c)"
  using assms(2) quotas_stamped_cong [OF quotas_provisionStage [OF assms(1)], of g ns u c] by blast

lemma provisionedUpto_stamped:
  assumes "provisionedUpto q g ns u n c c'" "quotas_stamped c"
  shows "quotas_stamped c'"
proof (cases "n \<le> 4")
  case True
  with assms show ?thesis
    by (simp add: provisionedUpto_def provisionStage_stamped del: provisionStage_simps)
next
  case False
  with assms(1) have "quotaEnsured q ns (provisionStage g ns u 4 c) c'"
    by (simp only: provisionedUpto_def if_False)
  moreover have "quotas_stamped (provisionStage g ns u 4 c)"
    by (rule provisionStage_stamped [OF order_refl assms(2)])
  ultimately show ?thesis by (rule quotaEnsured_stamped)
qed

text \<open>What any number of the stages leaves alone: whatever belongs to another namespace.\<close>

definition onlyProject :: "string \<Rightarrow> string \<Rightarrow> cluster \<Rightarrow> cluster \<Rightarrow> bool" where
  "onlyProject g ns c c' \<longleftrightarrow>
     (\<forall>x. x \<noteq> ns \<longrightarrow> namespaces c' x = namespaces c x) \<and>
     (\<forall>x. x \<noteq> g \<longrightarrow> projects c' x = projects c x) \<and>
     (\<forall>x y. x \<noteq> ns \<longrightarrow> roles c' (x, y) = roles c (x, y)) \<and>
     (\<forall>x y. x \<noteq> ns \<longrightarrow> roleBindings c' (x, y) = roleBindings c (x, y)) \<and>
     (\<forall>x y. x \<noteq> ns \<longrightarrow> quotas c' (x, y) = quotas c (x, y)) \<and>
     secrets c' = secrets c \<and> shoots c' = shoots c \<and> bindings c' = bindings c"

lemma onlyProject_refl [simp]: "onlyProject g ns c c"
  by (simp add: onlyProject_def)

lemma onlyProject_steps [simp]:
  "onlyProject g ns c (withNamespace g u ns c')  = onlyProject g ns c c'"
  "onlyProject g ns c (withProject g ns c') = onlyProject g ns c c'"
  "onlyProject g ns c (withRole ns c') = onlyProject g ns c c'"
  "onlyProject g ns c (withRoleBinding u ns c') = onlyProject g ns c c'"
  by (simp_all add: onlyProject_def with_defs)

lemma onlyProject_quota: "quotaEnsured q ns c c' \<Longrightarrow> onlyProject g ns c c'"
  by (cases "quotas c (ns, ResourceQuotaName)") (auto simp: onlyProject_def quotaEnsured_def)

lemma onlyProject_trans: "onlyProject g ns a b \<Longrightarrow> onlyProject g ns b c \<Longrightarrow> onlyProject g ns a c"
  by (simp add: onlyProject_def)

lemma provisionStage_labels:
  assumes "1 \<le> n" and "n \<le> 4"
  shows "\<exists>x. namespaces (provisionStage g ns u n c) ns = Some x \<and> nsLabels x =
    projectLabels g u (case namespaces c ns of None \<Rightarrow> Map.empty | Some y \<Rightarrow> nsLabels y)"
proof -
  consider "n = 1" | "n = 2" | "n = 3" | "n = 4" using assms by linarith
  then show ?thesis
    by cases (auto simp: with_defs Let_def namedNamespace_def split: option.splits)
qed

lemma provisionStage_onlyProject: "n \<le> 4 \<Longrightarrow> onlyProject g ns c (provisionStage g ns u n c)"
proof -
  assume "n \<le> 4"
  then show ?thesis by (cases rule: stage_cases) simp_all
qed

lemma provisionedUpto_onlyProject:
  assumes "provisionedUpto q g ns u n c c'"
  shows "onlyProject g ns c c'"
proof (cases "n \<le> 4")
  case True
  with assms show ?thesis by (simp only: provisionedUpto_def if_True provisionStage_onlyProject)
next
  case False
  with assms have "quotaEnsured q ns (provisionStage g ns u 4 c) c'"
    by (simp only: provisionedUpto_def if_False)
  from onlyProject_trans [OF provisionStage_onlyProject onlyProject_quota, OF order_refl this]
  show ?thesis .
qed

lemma provisionedUpto_quota_kept:
  assumes "provisionedUpto q g ns u n c c'" and "quotas c k = Some rq"
  shows "quotas c' k = Some rq"
proof (cases "n \<le> 4")
  case True
  with assms show ?thesis by (simp add: provisionedUpto_def quotas_provisionStage)
next
  case False
  with assms(1) have "quotaEnsured q ns (provisionStage g ns u 4 c) c'"
    by (simp only: provisionedUpto_def if_False)
  moreover have "quotas (provisionStage g ns u 4 c) = quotas c"
    by (simp only: quotas_provisionStage order_refl)
  ultimately show ?thesis
    using assms(2) by (auto simp: quotaEnsured_def split: option.splits)
qed

lemma provisionedUpto_namespaces:
  assumes "provisionedUpto q g ns u n c c'" and "namespaces c x \<noteq> None"
  shows "namespaces c' x \<noteq> None"
proof -
  have stage: "namespaces (provisionStage g ns u n c) x \<noteq> None" if "n \<le> 4" for n
  proof -
    from that show ?thesis
      by (cases rule: stage_cases) (use assms(2) in \<open>simp_all add: withNamespace_def\<close>)
  qed
  show ?thesis
  proof (cases "n \<le> 4")
    case True
    with assms(1) have "c' = provisionStage g ns u n c" by (simp only: provisionedUpto_def if_True)
    with stage [OF True] show ?thesis by simp
  next
    case False
    with assms(1) have "quotaEnsured q ns (provisionStage g ns u 4 c) c'"
      by (simp only: provisionedUpto_def if_False)
    from quotaEnsured_form [OF this] stage [of 4] show ?thesis by auto
  qed
qed

text \<open>What all of them leave behind.\<close>

definition provisioned :: "uint64 \<Rightarrow> string \<Rightarrow> string \<Rightarrow> OpenStackUserInfo \<Rightarrow> cluster \<Rightarrow> cluster \<Rightarrow> bool" where
  "provisioned q g ns u c c' \<longleftrightarrow>
     (\<exists>x. namespaces c' ns = Some x \<and> nsLabels x = projectLabels g u
        (case namespaces c ns of None \<Rightarrow> Map.empty | Some y \<Rightarrow> nsLabels y)) \<and>
     (\<exists>p. projects c' g = Some p \<and> pjNamespace p = Some ns) \<and>
     (\<exists>r. roles c' (ns, kubernetesAdminRole) = Some r \<and> Rules r = kubernetesAdminRules) \<and>
     (\<exists>b. roleBindings c' (ns, kubernetesAdminRole) = Some b \<and> Subjects b = [adminSubject u] \<and>
        RoleRefOf b = adminRoleRef) \<and>
     (case quotas c (ns, ResourceQuotaName) of
        Some rq \<Rightarrow> quotas c' (ns, ResourceQuotaName) = Some rq
      | None \<Rightarrow> (\<exists>rq. quotas c' (ns, ResourceQuotaName) = Some rq \<and>
                    Hard rq = Some [ShootResourceQuotaKey \<mapsto> q]))"

lemma provisionedUpto_all: "provisionedUpto q g ns u 5 c c' \<Longrightarrow> provisioned q g ns u c c'"
  by (auto simp: provisionedUpto_def provisioned_def quotaEnsured_def with_defs Let_def
      namedNamespace_def freshQuota_def split: option.splits)

text \<open>The in-memory cluster obeys the laws; a run on it, for the witnesses below.\<close>

lemma sim_provision_laws: "provision_laws simView simKube"
  unfolding provision_laws_def simKube_def kube.select_convs id_def
  by (intro conjI sim_upserts)
    (auto simp: stampedQuota_def simStampQuota_def zero_time_def second_def intro: exI [of _ 1])

lemma sim_stamped [simp]: "quotas_stamped (simView (emptySim fs t))"
  by (simp add: quotas_stamped_def sim_defs)

definition sampleUser :: OpenStackUserInfo where
  "sampleUser = \<lparr>ProjectDomainID = ''d0'', ProjectDomainName = ''acme'',
     ProjectID = replicate 32 CHR ''a'', ProjectName = ''My Project'',
     UserDomainID = ''d1'', UserDomainName = ''acme'', Region = ''eu-1''\<rparr>"

definition sampleConfig :: PersephoneConfig where
  "sampleConfig = \<lparr>ClusterUsersDomain = ''kubernetes'',
     Regions = [(''eu-1'', \<lparr>Enabled = True, IdentityEndpoint = ''https://id.eu-1'',
       ApplicationCredentialID = ''app'', ApplicationCredentialSecret = ''s'', AuditTransportURL = ''''\<rparr>)],
     DefaultRegion = ''eu-1'', LandscapeName = ''live'', DefaultCloudProfileName = ''sci'',
     DefaultProviderType = ''openstack'', DefaultShootQuota = 5\<rparr>"

definition sampleHash :: "string \<Rightarrow> string" where
  "sampleHash s = ''0123456789abcdef''"

definition sampleRun :: "bool list \<Rightarrow> unit res \<times> sim" where
  "sampleRun faults =
     ReconcileGardenerProjectResources simKube sampleHash sampleConfig sampleUser (emptySim faults 0)"

lemma sim_stage:
  assumes "sim_total op" and "\<And>x. \<exists>y. f x = Ok y" and "simFaults s = []"
    and "\<And>s'. simFaults s' = [] \<Longrightarrow> wp m Q s'"
  shows "wp (thenE (wrapE site args (op key f)) m) Q s"
  unfolding wp_thenE wp_wrapE
  by (rule sim_total_ok [OF assms(1,3,2)]) (simp add: assms(4))

lemma sim_run_total:
  assumes "simFaults s = []"
  shows "\<exists>s'. ReconcileGardenerProjectResources simKube sha cfg u s = (Ok (), s') \<and> simFaults s' = []"
proof -
  have q: "\<exists>y. mutateNewQuota q x = Ok y" for q x
    by (cases "Hard x") (simp_all add: mutateNewQuota_def setHard_def makeHard_def)
  have "wp (ReconcileGardenerProjectResources simKube sha cfg u)
      (\<lambda>r s. r = Ok () \<and> simFaults s = []) s"
    unfolding ReconcileGardenerProjectResources_def Let_def
    apply (rule sim_stage [OF simKube_total(1)], simp add: mutateNamespace_eq, rule assms)
    apply (rule sim_stage [OF simKube_total(2)], simp add: mutateProject_def, assumption)
    apply (rule sim_stage [OF simKube_total(3)], simp add: mutateRole_def, assumption)
    apply (rule sim_stage [OF simKube_total(4)], simp add: mutateRoleBinding_def, assumption)
    apply (unfold wp_wrapE, rule sim_total_ok [OF simKube_total(5)], assumption, rule q, simp)
    done
  then show ?thesis by (auto simp: wp_def intro!: exI prod_eqI)
qed

lemmas sample_run_from = sim_run_total [of _ sampleHash sampleConfig sampleUser]

lemma sampleRun_ok: "sampleRun [] = (Ok (), snd (sampleRun []))"
proof -
  have "simFaults (emptySim [] 0) = []" by (simp add: emptySim_def)
  from sample_run_from [OF this] show ?thesis unfolding sampleRun_def by (metis snd_conv)
qed

definition lookupHard :: "ResourceQuota \<Rightarrow> int64 option" where
  "lookupHard rq = Option.bind (Hard rq) (\<lambda>h. h ShootResourceQuotaKey)"

subsection \<open>Properties\<close>

text \<open>C1. When reconciling a project's resources returns no error, the namespace carries the
  project's labels, the Gardener project is bound to it, the admin role and its binding to the
  project's group are in place, and the quota exists: an existing one as it was, a new one with the
  default. Nothing outside this namespace and this Gardener project has changed.\<close>

theorem reconcile_establishes_project:
  assumes "provision_laws view k" and "quotas_stamped (view w)"
    and "ReconcileGardenerProjectResources k sha cfg u w = (Ok (), w')"
  shows "provisioned (DefaultShootQuota cfg)
           (GetGardenerProjectName sha (Region u) (ProjectID u) (LandscapeName cfg))
           (GetGardenerProjectNamespaceName (Region u) (ProjectID u)) u (view w) (view w') \<and>
         onlyProject (GetGardenerProjectName sha (Region u) (ProjectID u) (LandscapeName cfg))
           (GetGardenerProjectNamespaceName (Region u) (ProjectID u)) (view w) (view w')"
  using wpD [OF provision_outcome [OF assms(1,2)] assms(3)]
  by (simp add: provisionedUpto_all provisionedUpto_onlyProject)

theorem reconcile_establishes_project_witness:
  "provisioned 5
     (GetGardenerProjectName sampleHash (Region sampleUser) (ProjectID sampleUser) (LandscapeName sampleConfig))
     (GetGardenerProjectNamespaceName (Region sampleUser) (ProjectID sampleUser)) sampleUser
     (simView (emptySim [] 0)) (simView (snd (sampleRun [])))"
  using reconcile_establishes_project [OF sim_provision_laws sim_stamped
      sampleRun_ok [unfolded sampleRun_def]]
  by (simp add: sampleRun_def sampleConfig_def)

text \<open>C25. A run that ends with an error failed at one of the five calls: the objects of the calls before
  it have been written, its own perhaps (the answer to a write can be lost), and nothing else; a run
  that returns no error has written all five. It never panics.\<close>

theorem reconcile_fails_at_a_stage:
  assumes "provision_laws view k" and "quotas_stamped (view w)"
    and "ReconcileGardenerProjectResources k sha cfg u w = (r, w')"
  shows "let upto = provisionedUpto (DefaultShootQuota cfg)
               (GetGardenerProjectName sha (Region u) (ProjectID u) (LandscapeName cfg))
               (GetGardenerProjectNamespaceName (Region u) (ProjectID u)) u
         in (r = Ok () \<and> upto 5 (view w) (view w')) \<or>
            (\<exists>n<5. \<exists>args e. r = Err (Wrapf (KubernetesPkg (provisionSites ! n)) args e) \<and>
               (upto n (view w) (view w') \<or> upto (Suc n) (view w) (view w')))"
  using wpD [OF provision_outcome [OF assms(1,2)] assms(3)]
  by (auto simp: Let_def split: outcome.splits go_error.splits)

theorem reconcile_fails_at_a_stage_witness:
  "\<exists>n<5. \<exists>args e. fst (sampleRun [False, True]) =
     Err (Wrapf (KubernetesPkg (provisionSites ! n)) args e)"
proof -
  have "fst (sampleRun [False, True]) \<noteq> Ok ()"
    by (simp add: sampleRun_def ReconcileGardenerProjectResources_def Let_def io_simps simKube_def
        simUpsert_def simCall_def emptySim_def mutateNamespace_eq)
  then show ?thesis
    using reconcile_fails_at_a_stage [OF sim_provision_laws sim_stamped,
        of sampleHash sampleConfig sampleUser "[False, True]" 0 "fst (sampleRun [False, True])"
          "snd (sampleRun [False, True])"]
    unfolding sampleRun_def Let_def by (metis prod.collapse)
qed

text \<open>C19. Retrying converges: after a run with any outcome, a later run that succeeds leaves the
  cluster in a state that one successful run from the start could have left; so a run that is
  repeated after a success changes nothing of what the first run established.\<close>

theorem reconcile_retry_converges:
  assumes "provision_laws view k" and "quotas_stamped (view w)"
    and "ReconcileGardenerProjectResources k sha cfg u w = (r, w1)"
    and "ReconcileGardenerProjectResources k sha cfg u w1 = (Ok (), w2)"
  shows "provisionedUpto (DefaultShootQuota cfg)
           (GetGardenerProjectName sha (Region u) (ProjectID u) (LandscapeName cfg))
           (GetGardenerProjectNamespaceName (Region u) (ProjectID u)) u 5 (view w) (view w2)"
proof -
  let ?upto = "provisionedUpto (DefaultShootQuota cfg)
    (GetGardenerProjectName sha (Region u) (ProjectID u) (LandscapeName cfg))
    (GetGardenerProjectNamespaceName (Region u) (ProjectID u)) u"
  obtain n where 1: "?upto n (view w) (view w1)"
    using wpD [OF provision_outcome [OF assms(1,2)] assms(3)]
    by (auto split: outcome.splits go_error.splits)
  from provisionedUpto_stamped [OF 1 assms(2)] have "?upto 5 (view w1) (view w2)"
    using wpD [OF provision_outcome [OF assms(1)] assms(4)] by simp
  from provisionedUpto_retry [OF 1 this] show ?thesis .
qed

theorem reconcile_retry_converges_witness:
  "\<exists>s2. provisionedUpto 5
     (GetGardenerProjectName sampleHash (Region sampleUser) (ProjectID sampleUser) (LandscapeName sampleConfig))
     (GetGardenerProjectNamespaceName (Region sampleUser) (ProjectID sampleUser)) sampleUser 5
     (simView (emptySim [False, True] 0)) (simView s2)"
proof -
  let ?run = "ReconcileGardenerProjectResources simKube sampleHash sampleConfig sampleUser"
  have "simFaults (snd (?run (emptySim [False, True] 0))) = []"
    by (simp add: ReconcileGardenerProjectResources_def Let_def io_simps simKube_def
        simUpsert_def simCall_def emptySim_def mutateNamespace_eq)
  from sample_run_from [OF this] obtain s2 where
    "?run (snd (?run (emptySim [False, True] 0))) = (Ok (), s2)" by blast
  from reconcile_retry_converges [OF sim_provision_laws sim_stamped prod.collapse [symmetric] this]
  show ?thesis by (auto simp: sampleConfig_def)
qed

text \<open>C26. Projects are isolated: with Keystone's project IDs of fixed length, reconciling one
  project leaves the namespace of every other project, its role and its role binding untouched,
  whatever the outcome, even for regions whose names contain dashes.\<close>

theorem reconcile_isolates_projects:
  assumes "provision_laws view k" and "quotas_stamped (view w)"
    and "ReconcileGardenerProjectResources k sha cfg u w = (r, w')"
    and "length (ProjectID u) = projectIDLength" and "length p = projectIDLength"
    and "(reg, p) \<noteq> (Region u, ProjectID u)"
  defines "other \<equiv> GetGardenerProjectNamespaceName reg p"
  shows "namespaces (view w') other = namespaces (view w) other \<and>
         roles (view w') (other, kubernetesAdminRole) = roles (view w) (other, kubernetesAdminRole) \<and>
         roleBindings (view w') (other, kubernetesAdminRole) =
           roleBindings (view w) (other, kubernetesAdminRole) \<and>
         quotas (view w') (other, ResourceQuotaName) = quotas (view w) (other, ResourceQuotaName)"
proof -
  have "other \<noteq> GetGardenerProjectNamespaceName (Region u) (ProjectID u)"
    using namespace_names.name_inj [of "(reg, p)" "(Region u, ProjectID u)"] assms(4-6)
    by (auto simp: other_def)
  moreover obtain g n where "provisionedUpto (DefaultShootQuota cfg) g
      (GetGardenerProjectNamespaceName (Region u) (ProjectID u)) u n (view w) (view w')"
    using wpD [OF provision_outcome [OF assms(1,2)] assms(3)]
    by (auto split: outcome.splits go_error.splits)
  ultimately show ?thesis
    using provisionedUpto_onlyProject unfolding onlyProject_def by metis
qed

theorem reconcile_isolates_projects_witness:
  "namespaces (simView (snd (sampleRun [])))
     (GetGardenerProjectNamespaceName ''eu-2'' (replicate 32 CHR ''b'')) = None"
proof -
  have "namespaces (simView (snd (sampleRun [])))
      (GetGardenerProjectNamespaceName ''eu-2'' (replicate 32 CHR ''b'')) =
    namespaces (simView (emptySim [] 0))
      (GetGardenerProjectNamespaceName ''eu-2'' (replicate 32 CHR ''b''))"
    using reconcile_isolates_projects [OF sim_provision_laws sim_stamped
        sampleRun_ok [unfolded sampleRun_def], of "replicate 32 CHR ''b''" "''eu-2''"]
    by (simp add: sampleRun_def sampleUser_def projectIDLength_def)
  then show ?thesis by (simp add: sim_defs)
qed

text \<open>C27. The validation bounds the default quota from below only: a configuration that is valid stays
  valid with any other default except 0. Below 2^63 the quota object made from the default holds it;
  from 2^63 on, what is validated becomes a negative quota.\<close>

theorem default_quota_sign:
  assumes "ValidateConfig urlScheme cfg = Ok ()"
  shows "(ValidateConfig urlScheme (cfg\<lparr>DefaultShootQuota := q\<rparr>) = Ok () \<longleftrightarrow> q \<noteq> 0) \<and>
     (q \<noteq> 0 \<longrightarrow> (\<exists>rq v. mutateNewQuota q (namedResourceQuota ns ResourceQuotaName) = Ok rq \<and>
        lookupHard rq = Some v \<and>
        (if uint q < 2 ^ 63 then 0 < sint v \<and> sint v = uint q else sint v < 0)))"
proof (intro conjI impI)
  show "ValidateConfig urlScheme (cfg\<lparr>DefaultShootQuota := q\<rparr>) = Ok () \<longleftrightarrow> q \<noteq> 0"
    using assms by (simp add: validateConfig_Ok_iff)
next
  assume "q \<noteq> 0"
  then have "0 < uint q" by (simp add: word_neq_0_conv word_less_def)
  then show "\<exists>rq v. mutateNewQuota q (namedResourceQuota ns ResourceQuotaName) = Ok rq \<and>
      lookupHard rq = Some v \<and> (if uint q < 2 ^ 63 then 0 < sint v \<and> sint v = uint q else sint v < 0)"
    using sint_eq_uint_small [of q] sint_eq_uint_large [of q] uint_lt2p [of q]
    by (auto simp: mutateNewQuota_bare freshQuota_def lookupHard_def)
qed

theorem default_quota_sign_witness:
  "\<exists>v rq. ValidateConfig (\<lambda>_. Inr []) (sampleConfig\<lparr>DefaultShootQuota := 2 ^ 63\<rparr>) = Ok () \<and>
     mutateNewQuota (2 ^ 63) (namedResourceQuota ''n'' ResourceQuotaName) = Ok rq \<and>
     lookupHard rq = Some v \<and> sint v < 0"
proof -
  have "ValidateConfig (\<lambda>_. Inr []) sampleConfig = Ok ()"
    by (simp add: validateConfig_Ok_iff sampleConfig_def auditURLAccepted_def)
  from default_quota_sign [OF this, of "2 ^ 63" "''n''"] show ?thesis by auto
qed


end
