(* ===== verification/Liquid.thy ===== *)
theory Liquid
  imports Provision
begin

section \<open>The liquid API: usage and quota of Gardener clusters\<close>

text \<open>
  \<open>internal/liquidserver/logic.go\<close>. Limes scans a project's usage and sets its quota through these
  operations; both read and write the resource quota that provisioning creates. The report types
  of \<open>go-api-declarations/liquid\<close> are records with the fields the code fills; a usage report has
  one entry for any availability zone, so \<open>PerAZ\<close> is its usage.
\<close>

subsection \<open>The model\<close>

record Logic =
  logicRegion :: string

record ResourceInfo =
  DisplayName :: string
  HasQuota :: bool
  HasCapacity :: bool

record ServiceInfo =
  siVersion :: int64
  siDisplayName :: string
  siResources :: "string \<rightharpoonup> ResourceInfo"

record ResourceUsageReport =
  Forbidden :: bool
  Quota :: "int64 option"
  PerAZ :: uint64

record ServiceUsageReport =
  surInfoVersion :: int64
  surResources :: "string \<rightharpoonup> ResourceUsageReport"

text \<open>The zero report that accompanies an error is not modelled: the caller drops it.\<close>

definition clusters :: string where "clusters = ''clusters''"

definition BuildServiceInfo :: "('w \<Rightarrow> time \<times> 'w) \<Rightarrow> ('w, ServiceInfo) io" where
  "BuildServiceInfo now =
     bindE (readE now) (\<lambda>t. returnE
       \<lparr>siVersion = word_of_int (time_unix t),
        siDisplayName = ''Managed Kubernetes clusters on SCI'',
        siResources = [clusters \<mapsto> \<lparr>DisplayName = ''Managed Kubernetes clusters'',
                                   HasQuota = True, HasCapacity = False\<rparr>]\<rparr>)"

definition lookupQuantity :: "resource_list option \<Rightarrow> string \<Rightarrow> int64 option" where
  "lookupQuantity m key = (case m of None \<Rightarrow> None | Some m \<Rightarrow> m key)"

definition ScanUsage ::
    "'w kube \<Rightarrow> Logic \<Rightarrow> string \<Rightarrow> ServiceInfo \<Rightarrow> ('w, ServiceUsageReport) io" where
  "ScanUsage k l projectUUID serviceInfo =
     (let namespace = GetGardenerProjectNamespaceName (logicRegion l) projectUUID in
      bindE (tryE (callE (get_namespace k namespace))) (\<lambda>r.
        case r of
          Inl err \<Rightarrow>
            if is_not_found err
            then returnE \<lparr>surInfoVersion = siVersion serviceInfo,
                   surResources = [clusters \<mapsto> \<lparr>Forbidden = True, Quota = Some 0, PerAZ = 0\<rparr>]\<rparr>
            else failE (Wrapf (LiquidPkg NamespaceCheckFailed) [namespace] err)
        | Inr _ \<Rightarrow>
            bindE (wrapE (LiquidPkg QuotaMissing) [namespace, ResourceQuotaName]
                     (callE (get_quota k (namespace, ResourceQuotaName)))) (\<lambda>rq.
              let usage = (case lookupQuantity (Used rq) ShootResourceQuotaKey of
                             Some usedQty \<Rightarrow> usedQty | None \<Rightarrow> 0);
                  quota = (case lookupQuantity (Hard rq) ShootResourceQuotaKey of
                             Some q \<Rightarrow> Some q | None \<Rightarrow> Some (- 1))
              in returnE \<lparr>surInfoVersion = siVersion serviceInfo,
                   surResources = [clusters \<mapsto> \<lparr>Forbidden = False, Quota = quota, PerAZ = usage\<rparr>]\<rparr>)))"

text \<open>\<open>respondwith.CustomStatus(code, err)\<close>\<close>

definition customStatus :: "nat \<Rightarrow> error \<Rightarrow> error" where
  "customStatus code err = Wrapf (LiquidPkg (WithStatus code)) [] err"

text \<open>\<open>min(quotaReq.Quota, math.MaxInt64)\<close> compares as \<open>uint64\<close>; the cast keeps the bits.\<close>

definition mutateSetQuota :: "uint64 \<Rightarrow> ResourceQuota \<Rightarrow> ResourceQuota res" where
  "mutateSetQuota q rq = setHard ShootResourceQuotaKey (min q max_int64 :: int64) (makeHard rq)"

definition SetQuota ::
    "'w kube \<Rightarrow> Logic \<Rightarrow> string \<Rightarrow> (string \<rightharpoonup> uint64) \<Rightarrow> ServiceInfo \<Rightarrow> ('w, unit) io" where
  "SetQuota k l projectUUID reqResources serviceInfo =
     (case reqResources clusters of
        None \<Rightarrow> failE (customStatus 400 (Errorf (LiquidPkg ClustersResourceMissing) []))
      | Some quotaReq \<Rightarrow>
          (let namespace = GetGardenerProjectNamespaceName (logicRegion l) projectUUID in
           bindE (tryE (callE (get_namespace k namespace))) (\<lambda>r.
             case r of
               Inl err \<Rightarrow>
                 if is_not_found err
                 then failE (customStatus 422
                        (Errorf (LiquidPkg NamespaceMissing) [projectUUID, namespace]))
                 else failE (Wrapf (LiquidPkg NamespaceCheckFailed) [namespace] err)
             | Inr _ \<Rightarrow>
                 bindE (tryE (callE (get_quota k (namespace, ResourceQuotaName)))) (\<lambda>r.
                   case r of
                     Inl err \<Rightarrow>
                       if is_not_found err
                       then failE (customStatus 422 (Errorf (LiquidPkg QuotaObjectMissing)
                              [projectUUID, namespace, ResourceQuotaName]))
                       else failE (Wrapf (LiquidPkg QuotaCheckFailed) [namespace] err)
                   | Inr _ \<Rightarrow>
                       wrapE (LiquidPkg QuotaReconcileFailed) [projectUUID, namespace]
                         (upsert_quota k (namespace, ResourceQuotaName) (mutateSetQuota quotaReq))))))"

text \<open>Capacity has no ceiling, and every commitment change is accepted.\<close>

definition ScanCapacity :: "ServiceInfo \<Rightarrow> ('w, int64) io" where
  "ScanCapacity serviceInfo = returnE (siVersion serviceInfo)"

definition ReviewCommitmentChange :: "ServiceInfo \<Rightarrow> ('w, unit) io" where
  "ReviewCommitmentChange serviceInfo = returnE ()"

subsection \<open>The laws of the calls it makes\<close>

definition liquid_laws :: "('w \<Rightarrow> cluster) \<Rightarrow> 'w kube \<Rightarrow> bool" where
  "liquid_laws view k \<longleftrightarrow> reads view namespaces (get_namespace k) \<and> reads view quotas (get_quota k) \<and>
     upserts view quotas (\<lambda>m. quotas_update (\<lambda>_. m)) (\<lambda>(ns, n). namedResourceQuota ns n)
       stampedQuota (upsert_quota k)"

lemma liquid_lawsD:
  assumes "liquid_laws view k"
  shows "reads view namespaces (get_namespace k)" "reads view quotas (get_quota k)"
    "upserts view quotas (\<lambda>m. quotas_update (\<lambda>_. m)) (\<lambda>(ns, n). namedResourceQuota ns n)
       stampedQuota (upsert_quota k)"
  using assms by (simp_all add: liquid_laws_def)

subsection \<open>What a scan reports\<close>

text \<open>The report as a function of what the cluster holds.\<close>

definition quotaReported :: "ResourceQuota \<Rightarrow> int64" where
  "quotaReported rq = (case lookupQuantity (Hard rq) ShootResourceQuotaKey of
     Some q \<Rightarrow> q | None \<Rightarrow> - 1)"

definition usageReported :: "ResourceQuota \<Rightarrow> uint64" where
  "usageReported rq = (case lookupQuantity (Used rq) ShootResourceQuotaKey of
     Some u \<Rightarrow> u | None \<Rightarrow> 0)"

definition forbiddenReport :: "int64 \<Rightarrow> ServiceUsageReport" where
  "forbiddenReport v = \<lparr>surInfoVersion = v,
     surResources = [clusters \<mapsto> \<lparr>Forbidden = True, Quota = Some 0, PerAZ = 0\<rparr>]\<rparr>"

definition usageReport :: "int64 \<Rightarrow> ResourceQuota \<Rightarrow> ServiceUsageReport" where
  "usageReport v rq = \<lparr>surInfoVersion = v,
     surResources = [clusters \<mapsto>
       \<lparr>Forbidden = False, Quota = Some (quotaReported rq), PerAZ = usageReported rq\<rparr>]\<rparr>"

lemma reports_differ [simp]:
  "forbiddenReport v \<noteq> usageReport v' rq" "usageReport v' rq \<noteq> forbiddenReport v"
proof -
  have "surResources (forbiddenReport v) \<noteq> surResources (usageReport v' rq)"
    by (auto simp: forbiddenReport_def usageReport_def dest: fun_cong [of _ _ clusters])
  then show "forbiddenReport v \<noteq> usageReport v' rq" "usageReport v' rq \<noteq> forbiddenReport v"
    by metis+
qed

lemma usageReport_quota:
  "usageReport v rq = usageReport v rq' \<Longrightarrow> quotaReported rq = quotaReported rq'"
  by (auto simp: usageReport_def dest: fun_cong [of _ _ clusters])

lemma scan_usage_outcome:
  fixes l p
  defines "ns \<equiv> GetGardenerProjectNamespaceName (logicRegion l) p"
  assumes laws: "liquid_laws view k"
  shows "wp (ScanUsage k l p si) (\<lambda>r w'. view w' = view w \<and>
     (case r of
        Ok rep \<Rightarrow>
          (namespaces (view w) ns = None \<and> rep = forbiddenReport (siVersion si)) \<or>
          (\<exists>rq. namespaces (view w) ns \<noteq> None \<and>
             quotas (view w) (ns, ResourceQuotaName) = Some rq \<and>
             rep = usageReport (siVersion si) rq)
      | Err (Wrapf s _ (External e)) \<Rightarrow>
          (s = LiquidPkg NamespaceCheckFailed \<and> \<not> is_not_found (External e :: error)) \<or>
          (s = LiquidPkg QuotaMissing \<and> namespaces (view w) ns \<noteq> None \<and>
             (is_not_found (External e :: error) \<longrightarrow> quotas (view w) (ns, ResourceQuotaName) = None))
      | _ \<Rightarrow> False)) w"
  unfolding ScanUsage_def Let_def ns_def [symmetric]
  apply (simp only: wp_simps)
  apply (rule wp_reads [OF liquid_lawsD(1) [OF laws]])
   apply (simp add: wp_simps)
   apply (rule wp_reads [OF liquid_lawsD(2) [OF laws]])
    apply (auto simp: wp_simps usageReport_def quotaReported_def usageReported_def Let_def
      split: option.splits)[1]
   apply (auto simp: wp_simps)[1]
  apply (auto simp: wp_simps forbiddenReport_def)
  done

subsection \<open>What setting the quota does\<close>

definition quotaSet :: "uint64 \<Rightarrow> ResourceQuota \<Rightarrow> ResourceQuota" where
  "quotaSet q rq = rq\<lparr>Hard := Some ((case Hard rq of None \<Rightarrow> Map.empty | Some h \<Rightarrow> h)
     (ShootResourceQuotaKey \<mapsto> min q max_int64))\<rparr>"

lemma mutateSetQuota_eq: "mutateSetQuota q rq = Ok (quotaSet q rq)"
  by (cases "Hard rq") (simp_all add: mutateSetQuota_def setHard_def makeHard_def quotaSet_def)

lemma quotaReported_set [simp]: "quotaReported (quotaSet q rq) = min q max_int64"
  by (simp add: quotaReported_def quotaSet_def lookupQuantity_def)

lemma usageReported_set [simp]: "usageReported (quotaSet q rq) = usageReported rq"
  by (simp add: usageReported_def quotaSet_def)

definition withQuota :: "string \<Rightarrow> ResourceQuota \<Rightarrow> cluster \<Rightarrow> cluster" where
  "withQuota ns rq c = c\<lparr>quotas := (quotas c)((ns, ResourceQuotaName) \<mapsto> rq)\<rparr>"

lemma upserted_set_quota:
  "quotas c (ns, ResourceQuotaName) = Some rq \<Longrightarrow>
   upserted quotas (\<lambda>m. quotas_update (\<lambda>_. m)) bare stamped (ns, ResourceQuotaName) (mutateSetQuota q) c c'
     \<longleftrightarrow> c' = withQuota ns (quotaSet q rq) c"
  by (simp add: upserted_def mutateSetQuota_eq withQuota_def)

lemma set_quota_outcome:
  fixes l p si
  defines "ns \<equiv> GetGardenerProjectNamespaceName (logicRegion l) p"
  assumes laws: "liquid_laws view k"
  shows "wp (SetQuota k l p req si) (\<lambda>r w'.
     case r of
       Ok _ \<Rightarrow> (\<exists>q rq. req clusters = Some q \<and> namespaces (view w) ns \<noteq> None \<and>
           quotas (view w) (ns, ResourceQuotaName) = Some rq \<and>
           view w' = withQuota ns (quotaSet q rq) (view w))
     | Err (Wrapf (LiquidPkg (WithStatus c)) _ _) \<Rightarrow> view w' = view w \<and>
         ((c = 400 \<and> req clusters = None) \<or>
          (c = 422 \<and> req clusters \<noteq> None \<and>
             (namespaces (view w) ns = None \<or> quotas (view w) (ns, ResourceQuotaName) = None)))
     | Err _ \<Rightarrow> view w' = view w \<or> (\<exists>q rq. req clusters = Some q \<and>
           quotas (view w) (ns, ResourceQuotaName) = Some rq \<and>
           view w' = withQuota ns (quotaSet q rq) (view w))
     | Panicked _ \<Rightarrow> False) w"
proof (cases "req clusters")
  case None
  then show ?thesis by (simp add: SetQuota_def wp_simps customStatus_def)
next
  case (Some q)
  show ?thesis
    unfolding SetQuota_def Let_def ns_def [symmetric] Some option.case
    apply (simp only: wp_simps)
    apply (rule wp_reads [OF liquid_lawsD(1) [OF laws]])
     apply (simp add: wp_simps)
     apply (rule wp_reads [OF liquid_lawsD(2) [OF laws]])
      apply (simp add: wp_simps)
      apply (rule wp_upserts [OF liquid_lawsD(3) [OF laws]])
         apply (auto simp: upserted_set_quota mutateSetQuota_eq wp_simps customStatus_def)
    done
qed

subsection \<open>Properties\<close>

lemma sim_liquid_laws: "liquid_laws simView simKube"
  unfolding liquid_laws_def simKube_def kube.select_convs
  by (intro conjI sim_reads sim_upserts)
    (auto simp: stampedQuota_def simStampQuota_def zero_time_def second_def intro: exI [of _ 1])

text \<open>An in-memory cluster that holds one project's namespace and quota.\<close>

definition sampleLogic :: Logic where "sampleLogic = \<lparr>logicRegion = ''eu-1''\<rparr>"

definition sampleInfo :: ServiceInfo where
  "sampleInfo = \<lparr>siVersion = 7, siDisplayName = [], siResources = Map.empty\<rparr>"

definition sampleProject :: string where "sampleProject = ProjectID sampleUser"

definition sampleNs :: string where
  "sampleNs = GetGardenerProjectNamespaceName ''eu-1'' sampleProject"

definition quotaSim :: "bool list \<Rightarrow> sim" where
  "quotaSim faults = (emptySim faults 0)\<lparr>simCluster := emptyCluster
       \<lparr>namespaces := [sampleNs \<mapsto> namedNamespace sampleNs],
        quotas := [(sampleNs, ResourceQuotaName) \<mapsto> freshQuota 5 sampleNs 1]\<rparr>\<rparr>"

lemmas quota_sim_simps = quotaSim_def sampleLogic_def sampleInfo_def io_simps simKube_def sim_defs
  sampleNs_def Let_def

text \<open>C28. A usage scan changes nothing, and its report says what the cluster holds: the project is
  forbidden, with quota and usage zero, exactly if it has no namespace; otherwise the report has the
  quota's hard limit (-1 when it has none) and the used count. An error comes from one of the two
  reads: of the namespace, for another reason than NotFound, or of the quota of an existing
  namespace.\<close>

theorem scan_usage_reports:
  assumes "liquid_laws view k" and "ScanUsage k l p si w = (r, w')"
  defines "ns \<equiv> GetGardenerProjectNamespaceName (logicRegion l) p"
  shows "view w' = view w \<and>
    (case r of
       Ok rep \<Rightarrow> (if namespaces (view w) ns = None then rep = forbiddenReport (siVersion si)
          else \<exists>rq. quotas (view w) (ns, ResourceQuotaName) = Some rq \<and>
                 rep = usageReport (siVersion si) rq)
     | Err e \<Rightarrow> (\<exists>args x. e = Wrapf (LiquidPkg NamespaceCheckFailed) args (External x) \<and>
            \<not> is_not_found e) \<or>
         (\<exists>args x. e = Wrapf (LiquidPkg QuotaMissing) args (External x) \<and>
            namespaces (view w) ns \<noteq> None)
     | Panicked _ \<Rightarrow> False)"
  using wpD [OF scan_usage_outcome [OF assms(1)] assms(2)] unfolding ns_def
  by (auto split: outcome.splits go_error.splits)

theorem scan_usage_reports_witness:
  "ScanUsage simKube sampleLogic sampleProject sampleInfo (quotaSim []) =
     (Ok (usageReport 7 (freshQuota 5 sampleNs 1)), quotaSim []) \<and>
   simView (snd (ScanUsage simKube sampleLogic sampleProject sampleInfo (quotaSim []))) = simView (quotaSim [])"
proof -
  have run: "ScanUsage simKube sampleLogic sampleProject sampleInfo (quotaSim []) =
     (Ok (usageReport 7 (freshQuota 5 sampleNs 1)), quotaSim [])"
    by (simp add: ScanUsage_def quota_sim_simps usageReport_def quotaReported_def usageReported_def
        freshQuota_def lookupQuantity_def)
  from scan_usage_reports [OF sim_liquid_laws run] run show ?thesis by simp
qed

text \<open>C17. Setting a quota: without the resource in the request it is refused with status 400, for a
  project without namespace or without quota with status 422, both before anything is written. If it
  returns no error, the project's quota object has the requested value, capped at the largest
  \<open>int64\<close>, and nothing else in the cluster differs.\<close>

theorem set_quota_effect:
  assumes "liquid_laws view k" and "SetQuota k l p req si w = (r, w')"
  defines "ns \<equiv> GetGardenerProjectNamespaceName (logicRegion l) p"
  shows "case r of
       Ok _ \<Rightarrow> (\<exists>q rq. req clusters = Some q \<and> namespaces (view w) ns \<noteq> None \<and>
           quotas (view w) (ns, ResourceQuotaName) = Some rq \<and>
           view w' = withQuota ns (quotaSet q rq) (view w))
     | Err (Wrapf (LiquidPkg (WithStatus c)) _ _) \<Rightarrow> view w' = view w \<and>
         ((c = 400 \<and> req clusters = None) \<or>
          (c = 422 \<and> req clusters \<noteq> None \<and>
             (namespaces (view w) ns = None \<or> quotas (view w) (ns, ResourceQuotaName) = None)))
     | Err _ \<Rightarrow> view w' = view w \<or> (\<exists>q rq. req clusters = Some q \<and>
           quotas (view w) (ns, ResourceQuotaName) = Some rq \<and>
           view w' = withQuota ns (quotaSet q rq) (view w))
     | Panicked _ \<Rightarrow> False"
  using wpD [OF set_quota_outcome [OF assms(1)] assms(2)] unfolding ns_def .

theorem set_quota_effect_witness:
  "simView (snd (SetQuota simKube sampleLogic sampleProject [clusters \<mapsto> 2 ^ 64 - 1] sampleInfo (quotaSim []))) =
     withQuota sampleNs (quotaSet (2 ^ 64 - 1) (freshQuota 5 sampleNs 1)) (simView (quotaSim []))"
proof -
  have ok: "fst (SetQuota simKube sampleLogic sampleProject [clusters \<mapsto> 2 ^ 64 - 1] sampleInfo (quotaSim [])) = Ok ()"
    by (simp add: SetQuota_def quota_sim_simps mutateSetQuota_eq)
  from set_quota_effect [OF sim_liquid_laws, of sampleLogic sampleProject "[clusters \<mapsto> 2 ^ 64 - 1]" sampleInfo
      "quotaSim []", OF prod.collapse [symmetric]]
  show ?thesis unfolding ok by (auto simp: quota_sim_simps sampleNs_def)
qed

end
