(* ===== verification/Quota_Contract.thy ===== *)
theory Quota_Contract
  imports Liquid
begin

section \<open>The contract between provisioning and the liquid API\<close>

text \<open>
  Provisioning (\<open>internal/kubernetes/gardener.go\<close>) and the liquid API
  (\<open>internal/liquidserver/logic.go\<close>) share the namespace and the resource quota of a project, and
  the comments of both files state a contract: a namespace has its quota, and after the creation of
  the quota its value belongs to Limes. Here both run as steps of one state machine, in any order,
  for any projects, with any outcome.
\<close>

subsection \<open>Steps\<close>

datatype quota_op =
    Provision OpenStackUserInfo
  | SetProjectQuota string "string \<rightharpoonup> uint64"
  | Scan string

inductive quota_step ::
    "'w kube \<Rightarrow> (string \<Rightarrow> string) \<Rightarrow> PersephoneConfig \<Rightarrow> Logic \<Rightarrow> ServiceInfo \<Rightarrow>
     quota_op \<Rightarrow> 'w \<Rightarrow> 'w \<Rightarrow> bool"
  for k :: "'w kube" and sha cfg l si where
  provision_step: "ReconcileGardenerProjectResources k sha cfg u w = (r, w') \<Longrightarrow>
     quota_step k sha cfg l si (Provision u) w w'"
| set_step: "SetQuota k l p req si w = (r, w') \<Longrightarrow>
     quota_step k sha cfg l si (SetProjectQuota p req) w w'"
| scan_step: "ScanUsage k l p si w = (r, w') \<Longrightarrow> quota_step k sha cfg l si (Scan p) w w'"

inductive_cases quota_stepE: "quota_step k sha cfg l si op w w'"
inductive_simps quota_step_simps:
  "quota_step k sha cfg l si (Provision u) w w'"
  "quota_step k sha cfg l si (SetProjectQuota p req) w w'"
  "quota_step k sha cfg l si (Scan p) w w'"

text \<open>A run of a step relation along a list of operations.\<close>

inductive steps :: "('op \<Rightarrow> 's \<Rightarrow> 's \<Rightarrow> bool) \<Rightarrow> 'op list \<Rightarrow> 's \<Rightarrow> 's \<Rightarrow> bool"
  for step :: "'op \<Rightarrow> 's \<Rightarrow> 's \<Rightarrow> bool" where
  steps_Nil: "steps step [] s s"
| steps_Cons: "step op s s' \<Longrightarrow> steps step ops s' s'' \<Longrightarrow> steps step (op # ops) s s''"

inductive_simps steps_simps: "steps step [] s s'" "steps step (op # ops) s s'"

subsection \<open>Cells with an owner\<close>

text \<open>
  A value that once set is changed by the owner's operations only, whatever the others do.
\<close>

locale owned_cell =
  fixes step :: "'op \<Rightarrow> 's \<Rightarrow> 's \<Rightarrow> bool"
    and inv :: "'s \<Rightarrow> bool"
    and owns :: "'op \<Rightarrow> bool"
    and cell :: "'s \<Rightarrow> 'v option"
  assumes inv_step: "inv s \<Longrightarrow> step op s s' \<Longrightarrow> inv s'"
    and cell_kept: "inv s \<Longrightarrow> step op s s' \<Longrightarrow> \<not> owns op \<Longrightarrow> cell s = Some v \<Longrightarrow> cell s' = Some v"
begin

lemma inv_steps: "steps step ops s s' \<Longrightarrow> inv s \<Longrightarrow> inv s'"
  by (induction rule: steps.induct) (auto intro: inv_step)

lemma cell_kept_steps:
  "steps step ops s s' \<Longrightarrow> inv s \<Longrightarrow> (\<And>op. op \<in> set ops \<Longrightarrow> \<not> owns op) \<Longrightarrow> cell s = Some v \<Longrightarrow>
   cell s' = Some v"
proof (induction rule: steps.induct)
  case (steps_Cons op s s' ops s'')
  then have "cell s' = Some v" using cell_kept by simp
  with steps_Cons show ?case using inv_step by simp
qed

end

text \<open>The hypotheses about the cluster, as an invariant of the runs.\<close>

definition contract_laws :: "('w \<Rightarrow> cluster) \<Rightarrow> 'w kube \<Rightarrow> 'w \<Rightarrow> bool" where
  "contract_laws view k w \<longleftrightarrow> provision_laws view k \<and> liquid_laws view k \<and> quotas_stamped (view w)"

lemma contract_lawsD:
  assumes "contract_laws view k w"
  shows "provision_laws view k" "liquid_laws view k" "quotas_stamped (view w)"
  using assms by (simp_all add: contract_laws_def)

text \<open>What a step can do to the cluster.\<close>

lemma provision_effect:
  assumes "ReconcileGardenerProjectResources k sha cfg u w = (r, w')"
    and "provision_laws view k" "quotas_stamped (view w)"
  shows "\<exists>n. provisionedUpto (DefaultShootQuota cfg)
     (GetGardenerProjectName sha (Region u) (ProjectID u) (LandscapeName cfg))
     (GetGardenerProjectNamespaceName (Region u) (ProjectID u)) u n (view w) (view w')"
  using wpD [OF provision_outcome [OF assms(2,3)] assms(1)]
  by (auto split: outcome.splits go_error.splits)

lemma scan_effect:
  "ScanUsage k l p si w = (r, w') \<Longrightarrow> liquid_laws view k \<Longrightarrow> view w' = view w"
  using wpD [OF scan_usage_outcome, of view k l p si w r w'] by simp

lemma set_effect:
  assumes "SetQuota k l p req si w = (r, w')" and "liquid_laws view k"
  shows "view w' = view w \<or> (\<exists>q rq. req clusters = Some q \<and>
     quotas (view w) (GetGardenerProjectNamespaceName (logicRegion l) p, ResourceQuotaName) = Some rq \<and>
     view w' = withQuota (GetGardenerProjectNamespaceName (logicRegion l) p) (quotaSet q rq) (view w))"
  using wpD [OF set_quota_outcome [OF assms(2)] assms(1)]
  by (auto split: outcome.splits go_error.splits site.splits liquid_site.splits)

lemma contract_inv_step:
  assumes "contract_laws view k w" and "quota_step k sha cfg l si op w w'"
  shows "contract_laws view k w'"
proof -
  note laws = contract_lawsD [OF assms(1)]
  from assms(2) have "quotas_stamped (view w')"
  proof cases
    case (provision_step u r)
    then obtain n where "provisionedUpto (DefaultShootQuota cfg)
       (GetGardenerProjectName sha (Region u) (ProjectID u) (LandscapeName cfg))
       (GetGardenerProjectNamespaceName (Region u) (ProjectID u)) u n (view w) (view w')"
      using provision_effect [OF provision_step(2) laws(1,3)] by blast
    then show ?thesis using provisionedUpto_stamped laws(3) by blast
  next
    case (set_step p req r)
    from set_effect [OF set_step(2) laws(2)] laws(3) show ?thesis
      by (auto simp: quotas_stamped_def withQuota_def quotaSet_def split: if_splits)
  next
    case (scan_step p r)
    with scan_effect [OF scan_step(2) laws(2)] laws(3) show ?thesis by simp
  qed
  with laws show ?thesis by (simp add: contract_laws_def)
qed

lemma contract_cell_kept:
  assumes "contract_laws view k w" and "quota_step k sha cfg l si op w w'"
    and "\<not> (\<exists>p req. op = SetProjectQuota p req \<and>
            GetGardenerProjectNamespaceName (logicRegion l) p = ns)"
    and "quotas (view w) (ns, ResourceQuotaName) = Some rq"
  shows "quotas (view w') (ns, ResourceQuotaName) = Some rq"
proof -
  note laws = contract_lawsD [OF assms(1)]
  from assms(2) show ?thesis
  proof cases
    case (provision_step u r)
    show ?thesis
      using provision_effect [OF provision_step(2) laws(1,3)] provisionedUpto_quota_kept assms(4)
      by blast
  next
    case (set_step p req r)
    from set_effect [OF set_step(2) laws(2)] set_step(1) assms(3,4) show ?thesis
      by (auto simp: withQuota_def)
  next
    case (scan_step p r)
    with scan_effect [OF scan_step(2) laws(2)] assms(4) show ?thesis by simp
  qed
qed

interpretation project_quota: owned_cell
    "quota_step k sha cfg l si" "contract_laws view k"
    "\<lambda>op. \<exists>p req. op = SetProjectQuota p req \<and>
        GetGardenerProjectNamespaceName (logicRegion l) p = ns"
    "\<lambda>w. quotas (view w) (ns, ResourceQuotaName)"
  for k :: "'w kube" and view sha cfg l si ns
  by unfold_locales (rule contract_inv_step contract_cell_kept; assumption)+

text \<open>
  When no provisioning run fails, every project namespace has its quota: the other half of the
  contract. A namespace is a project's when it has the label of the OpenStack project; the other
  namespaces of the garden are not Persephone's.
\<close>

definition projectNamespace :: "cluster \<Rightarrow> string \<Rightarrow> bool" where
  "projectNamespace c ns \<longleftrightarrow>
     (case namespaces c ns of None \<Rightarrow> False | Some x \<Rightarrow> nsLabels x LabelKeyOpenStackProjectID \<noteq> None)"

definition namespaces_have_quota :: "cluster \<Rightarrow> bool" where
  "namespaces_have_quota c \<longleftrightarrow>
     (\<forall>ns. projectNamespace c ns \<longrightarrow> quotas c (ns, ResourceQuotaName) \<noteq> None)"

inductive clean_step ::
    "'w kube \<Rightarrow> (string \<Rightarrow> string) \<Rightarrow> PersephoneConfig \<Rightarrow> Logic \<Rightarrow> ServiceInfo \<Rightarrow>
     quota_op \<Rightarrow> 'w \<Rightarrow> 'w \<Rightarrow> bool"
  for k :: "'w kube" and sha cfg l si where
  clean_provision: "ReconcileGardenerProjectResources k sha cfg u w = (Ok (), w') \<Longrightarrow>
     clean_step k sha cfg l si (Provision u) w w'"
| clean_set: "SetQuota k l p req si w = (r, w') \<Longrightarrow>
     clean_step k sha cfg l si (SetProjectQuota p req) w w'"
| clean_scan: "ScanUsage k l p si w = (r, w') \<Longrightarrow> clean_step k sha cfg l si (Scan p) w w'"

inductive_cases clean_stepE: "clean_step k sha cfg l si op w w'"

lemma clean_is_step: "clean_step k sha cfg l si op w w' \<Longrightarrow> quota_step k sha cfg l si op w w'"
  by (erule clean_step.cases) (auto simp: quota_step_simps)

lemma have_quota_step:
  assumes "contract_laws view k w" "namespaces_have_quota (view w)" "clean_step k sha cfg l si op w w'"
  shows "namespaces_have_quota (view w')"
proof -
  note laws = contract_lawsD [OF assms(1)]
  from assms(3) show ?thesis
  proof cases
    case (clean_provision u)
    let ?ns = "GetGardenerProjectNamespaceName (Region u) (ProjectID u)"
    have up: "provisionedUpto (DefaultShootQuota cfg)
       (GetGardenerProjectName sha (Region u) (ProjectID u) (LandscapeName cfg)) ?ns u 5 (view w) (view w')"
      using wpD [OF provision_outcome [OF laws(1,3)] clean_provision(2)] by simp
    show ?thesis
      unfolding namespaces_have_quota_def
    proof (intro allI impI)
      fix ns assume ns: "projectNamespace (view w') ns"
      show "quotas (view w') (ns, ResourceQuotaName) \<noteq> None"
      proof (cases "ns = ?ns")
        case True
        with provisionedUpto_all [OF up] show ?thesis
          by (auto simp: provisioned_def split: option.splits)
      next
        case False
        with provisionedUpto_onlyProject [OF up] ns assms(2) show ?thesis
          by (simp add: onlyProject_def namespaces_have_quota_def projectNamespace_def)
      qed
    qed
  next
    case (clean_set p req r)
    from set_effect [OF clean_set(2) laws(2)] assms(2) show ?thesis
      by (auto simp: namespaces_have_quota_def projectNamespace_def withQuota_def)
  next
    case (clean_scan p r)
    with scan_effect [OF clean_scan(2) laws(2)] assms(2) show ?thesis by simp
  qed
qed

lemma have_quota_steps:
  "steps (clean_step k sha cfg l si) ops w w' \<Longrightarrow> contract_laws view k w \<Longrightarrow>
   namespaces_have_quota (view w) \<Longrightarrow>
   contract_laws view k w' \<and> namespaces_have_quota (view w')"
proof (induction rule: steps.induct)
  case (steps_Cons op w1 w2 ops w3)
  then show ?case using contract_inv_step clean_is_step have_quota_step by metis
qed simp

text \<open>Namespaces stay: nobody owns them.\<close>

lemma namespace_kept:
  assumes "contract_laws view k w" and "quota_step k sha cfg l si op w w'"
    and "namespaces (view w) ns \<noteq> None"
  shows "namespaces (view w') ns \<noteq> None"
proof -
  note laws = contract_lawsD [OF assms(1)]
  from assms(2) show ?thesis
  proof cases
    case (provision_step u r)
    then obtain n where "provisionedUpto (DefaultShootQuota cfg)
       (GetGardenerProjectName sha (Region u) (ProjectID u) (LandscapeName cfg))
       (GetGardenerProjectNamespaceName (Region u) (ProjectID u)) u n (view w) (view w')"
      using provision_effect [OF provision_step(2) laws(1,3)] by blast
    then show ?thesis using provisionedUpto_namespaces assms(3) by blast
  next
    case (set_step p req r)
    from set_effect [OF set_step(2) laws(2)] assms(3) show ?thesis
      by (auto simp: withQuota_def)
  next
    case (scan_step p r)
    with scan_effect [OF scan_step(2) laws(2)] assms(3) show ?thesis by simp
  qed
qed

interpretation project_namespace: owned_cell
    "quota_step k sha cfg l si" "contract_laws view k" "\<lambda>_. False"
    "\<lambda>w. map_option (\<lambda>_. ()) (namespaces (view w) ns)"
  for k :: "'w kube" and view sha cfg l si ns
proof unfold_locales
  fix op w w' and v :: unit
  assume "contract_laws view k w" "quota_step k sha cfg l si op w w'"
    and "map_option (\<lambda>_. ()) (namespaces (view w) ns) = Some v"
  then show "map_option (\<lambda>_. ()) (namespaces (view w') ns) = Some v"
    using namespace_kept [of view k w sha cfg l si op w' ns] by auto
qed (rule contract_inv_step; assumption)

lemma same_region_name_iff:
  "GetGardenerProjectNamespaceName r p = GetGardenerProjectNamespaceName r q \<longleftrightarrow> p = q"
  by (simp add: GetGardenerProjectNamespaceName_def)

lemma quota_kept_steps:
  assumes "contract_laws view k w" and "steps (quota_step k sha cfg l si) ops w w'"
    and "\<And>req. SetProjectQuota p req \<notin> set ops"
    and "quotas (view w) (GetGardenerProjectNamespaceName (logicRegion l) p, ResourceQuotaName) = Some rq"
  shows "quotas (view w') (GetGardenerProjectNamespaceName (logicRegion l) p, ResourceQuotaName) = Some rq"
  by (rule project_quota.cell_kept_steps [OF assms(2,1)])
    (use assms(3,4) in \<open>auto simp: same_region_name_iff\<close>)

lemma namespace_kept_steps:
  assumes "contract_laws view k w" and "steps (quota_step k sha cfg l si) ops w w'"
    and "namespaces (view w) ns \<noteq> None"
  shows "namespaces (view w') ns \<noteq> None"
  using project_namespace.cell_kept_steps [OF assms(2,1), of ns "()"] assms(3) by auto

subsection \<open>Properties\<close>

text \<open>C4. Limes owns the quota: after a successful SetQuota, however many provisioning runs, scans
  and SetQuota calls for other projects follow, with whatever outcomes, a usage scan that succeeds
  reports the value that was set, capped at the largest \<open>int64\<close>, and the project is not forbidden.\<close>

theorem limes_owns_quota:
  assumes "contract_laws view k w"
    and "SetQuota k l p req si w = (Ok (), w1)" and "req clusters = Some q"
    and "steps (quota_step k sha cfg l si) ops w1 w2"
    and "\<And>req'. SetProjectQuota p req' \<notin> set ops"
    and "ScanUsage k l p si w2 = (Ok rep, w3)"
  shows "\<exists>usage. surResources rep =
    [clusters \<mapsto> \<lparr>Forbidden = False, Quota = Some (min q max_int64), PerAZ = usage\<rparr>]"
proof -
  let ?ns = "GetGardenerProjectNamespaceName (logicRegion l) p"
  have laws: "contract_laws view k w1"
    by (rule contract_inv_step [OF assms(1) set_step [OF assms(2)]])
  obtain rq where rq: "quotas (view w1) (?ns, ResourceQuotaName) = Some (quotaSet q rq)"
    and ns: "namespaces (view w1) ?ns \<noteq> None"
    using wpD [OF set_quota_outcome [OF contract_lawsD(2) [OF assms(1)]] assms(2)] assms(3)
    by (auto simp: withQuota_def)
  have "quotas (view w2) (?ns, ResourceQuotaName) = Some (quotaSet q rq)"
    by (rule quota_kept_steps [OF laws assms(4,5) rq])
  moreover have "namespaces (view w2) ?ns \<noteq> None"
    by (rule namespace_kept_steps [OF laws assms(4) ns])
  ultimately have "rep = usageReport (siVersion si) (quotaSet q rq)"
    using wpD [OF scan_usage_outcome [OF contract_lawsD(2) [OF assms(1)]] assms(6)] by auto
  then show ?thesis
    by (intro exI [of _ "usageReported rq"]) (simp add: usageReport_def)
qed

lemma contract_quotaSim: "contract_laws simView simKube (quotaSim [])"
  by (simp add: contract_laws_def sim_provision_laws sim_liquid_laws)
    (simp add: quotas_stamped_def quota_sim_simps freshQuota_def zero_time_def second_def)

theorem limes_owns_quota_witness:
  "\<exists>w1 w2 rep usage w3.
     SetQuota simKube sampleLogic sampleProject [clusters \<mapsto> 2 ^ 64 - 1] sampleInfo (quotaSim []) = (Ok (), w1) \<and>
     ReconcileGardenerProjectResources simKube sampleHash sampleConfig sampleUser w1 = (Ok (), w2) \<and>
     ScanUsage simKube sampleLogic sampleProject sampleInfo w2 = (Ok rep, w3) \<and>
     surResources rep =
       [clusters \<mapsto> \<lparr>Forbidden = False, Quota = Some max_int64, PerAZ = usage\<rparr>]"
proof -
  let ?req = "[clusters \<mapsto> 2 ^ 64 - 1] :: string \<rightharpoonup> uint64"
  let ?ns = "GetGardenerProjectNamespaceName ''eu-1'' sampleProject"
  obtain w1 where set: "SetQuota simKube sampleLogic sampleProject ?req sampleInfo (quotaSim []) = (Ok (), w1)"
    and f1: "simFaults w1 = []"
    by (simp add: SetQuota_def quota_sim_simps mutateSetQuota_eq)
  obtain w2 where run: "ReconcileGardenerProjectResources simKube sampleHash sampleConfig sampleUser w1 = (Ok (), w2)"
    and f2: "simFaults w2 = []"
    using sample_run_from [OF f1] by blast
  let ?step = "quota_step simKube sampleHash sampleConfig sampleLogic sampleInfo"
  have steps: "steps ?step [Provision sampleUser] w1 w2"
    using run by (auto simp: steps_simps quota_step_simps)
  have laws: "contract_laws simView simKube w1"
    by (rule contract_inv_step [OF contract_quotaSim set_step [OF set]])
  have "\<exists>rq. quotas (simView w2) (?ns, ResourceQuotaName) = Some rq" "namespaces (simView w2) ?ns \<noteq> None"
    using provisionedUpto_all [OF wpD [OF provision_outcome [OF contract_lawsD(1,3) [OF laws]] run,
          unfolded outcome.case]]
    by (auto simp: provisioned_def sampleProject_def sampleUser_def split: option.splits)
  then obtain rep where scan: "ScanUsage simKube sampleLogic sampleProject sampleInfo w2 = (Ok rep, w2)"
    using f2 by (auto simp: ScanUsage_def Let_def io_simps simKube_def simGet_def simCall_def
        sampleLogic_def)
  from limes_owns_quota [OF contract_quotaSim set _ steps _ scan, of "2 ^ 64 - 1"]
  obtain usage where "surResources rep =
      [clusters \<mapsto> \<lparr>Forbidden = False, Quota = Some (min (2 ^ 64 - 1) max_int64), PerAZ = usage\<rparr>]"
    by auto
  moreover have "min (2 ^ 64 - 1) max_int64 = max_int64" by (simp add: max_int64_def min_def)
  ultimately show ?thesis using set run scan by auto
qed

text \<open>C29. The contract's other half holds as long as no provisioning run fails: from a cluster where
  every project namespace has its quota, any sequence of successful provisioning runs, scans and
  SetQuota calls keeps it so, and a scan of a project whose namespace is there then never fails
  because the quota is not found.\<close>

theorem clean_runs_keep_contract:
  assumes "contract_laws view k w" and "namespaces_have_quota (view w)"
    and "steps (clean_step k sha cfg l si) ops w w'"
  shows "namespaces_have_quota (view w') \<and>
    (projectNamespace (view w') (GetGardenerProjectNamespaceName (logicRegion l) p) \<longrightarrow>
       (\<forall>args e w''. ScanUsage k l p si w' = (Err (Wrapf (LiquidPkg QuotaMissing) args e), w'') \<longrightarrow>
          \<not> is_not_found e))"
proof (intro conjI impI allI notI)
  show kept: "namespaces_have_quota (view w')"
    using have_quota_steps [OF assms(3,1,2)] by simp
  fix args e w''
  assume there: "projectNamespace (view w') (GetGardenerProjectNamespaceName (logicRegion l) p)"
    and scan: "ScanUsage k l p si w' = (Err (Wrapf (LiquidPkg QuotaMissing) args e), w'')"
    and "is_not_found e"
  with wpD [OF scan_usage_outcome [OF contract_lawsD(2) [OF assms(1)]] scan]
  have "quotas (view w') (GetGardenerProjectNamespaceName (logicRegion l) p, ResourceQuotaName) = None"
    by (auto split: go_error.splits)
  with kept there show False unfolding namespaces_have_quota_def by blast
qed

theorem clean_runs_keep_contract_witness:
  "namespaces_have_quota (simView (snd (sampleRun [])))"
proof -
  have "contract_laws simView simKube (emptySim [] 0)"
    by (simp add: contract_laws_def sim_provision_laws sim_liquid_laws)
  moreover have "namespaces_have_quota (simView (emptySim [] 0))"
    by (simp add: namespaces_have_quota_def projectNamespace_def sim_defs)
  moreover have "steps (clean_step simKube sampleHash sampleConfig sampleLogic sampleInfo)
      [Provision sampleUser] (emptySim [] 0) (snd (sampleRun []))"
    using clean_provision [OF sampleRun_ok [unfolded sampleRun_def]]
    by (auto simp: steps_simps sampleRun_def)
  ultimately show ?thesis by (rule clean_runs_keep_contract [THEN conjunct1])
qed

text \<open>
  A quota that is missing stays so until the project is provisioned again: no scan, no SetQuota and no
  other project's provisioning creates it.
\<close>

lemma quota_missing_step:
  assumes "contract_laws view k w" and "quota_step k sha cfg l si op w w'"
    and "\<And>u. op = Provision u \<Longrightarrow> GetGardenerProjectNamespaceName (Region u) (ProjectID u) \<noteq> ns"
    and "quotas (view w) (ns, ResourceQuotaName) = None"
  shows "quotas (view w') (ns, ResourceQuotaName) = None"
proof -
  note laws = contract_lawsD [OF assms(1)]
  from assms(2) show ?thesis
  proof cases
    case (provision_step u r)
    with provision_effect [OF provision_step(2) laws(1,3)] provisionedUpto_onlyProject assms(3) [of u] assms(4)
    show ?thesis unfolding onlyProject_def by metis
  next
    case (set_step p req r)
    from set_effect [OF set_step(2) laws(2)] assms(4) show ?thesis
      by (auto simp: withQuota_def)
  next
    case (scan_step p r)
    with scan_effect [OF scan_step(2) laws(2)] assms(4) show ?thesis by simp
  qed
qed

lemma quota_missing_steps:
  "steps (quota_step k sha cfg l si) ops w w' \<Longrightarrow> contract_laws view k w \<Longrightarrow>
   (\<And>u. Provision u \<in> set ops \<Longrightarrow> GetGardenerProjectNamespaceName (Region u) (ProjectID u) \<noteq> ns) \<Longrightarrow>
   quotas (view w) (ns, ResourceQuotaName) = None \<Longrightarrow>
   contract_laws view k w' \<and> quotas (view w') (ns, ResourceQuotaName) = None"
proof (induction rule: steps.induct)
  case (steps_Cons op w1 w2 ops w3)
  then have "contract_laws view k w2" "quotas (view w2) (ns, ResourceQuotaName) = None"
    using contract_inv_step quota_missing_step by (metis list.set_intros(1))+
  with steps_Cons show ?case by simp
qed simp

text \<open>C30. It does not hold after a failed run: when a project without a quota is provisioned and the run
  fails at the project, the role or the role binding, its namespace is there without a quota. Until the
  project is provisioned again, every scan of it fails and no SetQuota for it succeeds, whatever runs,
  scans and SetQuota calls come in between.\<close>

theorem failed_run_breaks_contract:
  assumes "contract_laws view k w" and "logicRegion l = Region u"
    and "ReconcileGardenerProjectResources k sha cfg u w = (Err (Wrapf (KubernetesPkg site) args e), w1)"
    and "site \<in> {ReconcileProject, ReconcileRole, ReconcileRoleBinding}"
    and "ns = GetGardenerProjectNamespaceName (Region u) (ProjectID u)"
    and "quotas (view w) (ns, ResourceQuotaName) = None"
    and "steps (quota_step k sha cfg l si) ops w1 w2"
    and "\<And>v. Provision v \<in> set ops \<Longrightarrow> GetGardenerProjectNamespaceName (Region v) (ProjectID v) \<noteq> ns"
  shows "projectNamespace (view w1) ns \<and> \<not> namespaces_have_quota (view w1) \<and>
    (\<exists>e. fst (ScanUsage k l (ProjectID u) si w2) = Err e) \<and>
    fst (SetQuota k l (ProjectID u) req si w2) \<noteq> Ok ()"
proof -
  note laws = contract_lawsD [OF assms(1)]
  let ?g = "GetGardenerProjectName sha (Region u) (ProjectID u) (LandscapeName cfg)"
  obtain n where n: "n < 5" "site = provisionSites ! n"
    and upto: "provisionedUpto (DefaultShootQuota cfg) ?g ns u n (view w) (view w1) \<or>
      provisionedUpto (DefaultShootQuota cfg) ?g ns u (Suc n) (view w) (view w1)"
    using wpD [OF provision_outcome [OF laws(1,3)] assms(3)] assms(5) by auto
  have "1 \<le> n \<and> n \<le> 3"
    using n assms(4) by (auto simp: provisionSites_def less_Suc_eq eval_nat_numeral)
  then have "1 \<le> n" "n \<le> 4" "1 \<le> Suc n" "Suc n \<le> 4" by simp_all
  with upto obtain m where m: "1 \<le> m" "m \<le> 4" "view w1 = provisionStage ?g ns u m (view w)"
    unfolding provisionedUpto_def by metis
  have none: "quotas (view w1) (ns, ResourceQuotaName) = None"
    using assms(6) m by (simp add: quotas_provisionStage)
  have there: "projectNamespace (view w1) ns"
    using m provisionStage_labels [of m ?g ns u "view w"] by (auto simp: projectNamespace_def projectLabels_def)
  have inv: "contract_laws view k w1"
    by (rule contract_inv_step [OF assms(1) provision_step [OF assms(3)]])
  have none2: "quotas (view w2) (ns, ResourceQuotaName) = None" and inv2: "contract_laws view k w2"
    using quota_missing_steps [OF assms(7) inv assms(8) none] by simp_all
  have there2: "namespaces (view w2) ns \<noteq> None"
    using namespace_kept_steps [OF inv assms(7)] there by (auto simp: projectNamespace_def split: option.splits)
  obtain r w3 where scan: "ScanUsage k l (ProjectID u) si w2 = (r, w3)" by fastforce
  have "\<exists>e. r = Err e"
    using wpD [OF scan_usage_outcome [OF contract_lawsD(2) [OF inv2]] scan]
      none2 there2 assms(2,5) by (cases r) auto
  moreover obtain r' w4 where set: "SetQuota k l (ProjectID u) req si w2 = (r', w4)" by fastforce
  have "r' \<noteq> Ok ()"
    using wpD [OF set_quota_outcome [OF contract_lawsD(2) [OF inv2]] set]
      none2 assms(2,5) by (cases r') auto
  moreover note scan set
  ultimately show ?thesis
    using there none by (auto simp: namespaces_have_quota_def)
qed

theorem failed_run_breaks_contract_witness:
  "\<exists>e w1. ReconcileGardenerProjectResources simKube sampleHash sampleConfig sampleUser (emptySim [False, True] 0) =
      (Err e, w1) \<and> \<not> namespaces_have_quota (simView w1) \<and>
    (\<exists>e. fst (ScanUsage simKube sampleLogic (ProjectID sampleUser) sampleInfo w1) = Err e)"
proof -
  let ?w = "emptySim [False, True] 0"
  obtain args e w1 where run: "ReconcileGardenerProjectResources simKube sampleHash sampleConfig sampleUser ?w =
      (Err (Wrapf (KubernetesPkg ReconcileProject) args e), w1)"
    by (simp add: ReconcileGardenerProjectResources_def Let_def io_simps simKube_def
        simUpsert_def simCall_def emptySim_def mutateNamespace_eq)
  have "contract_laws simView simKube ?w"
    by (simp add: contract_laws_def sim_provision_laws sim_liquid_laws)
  moreover have "logicRegion sampleLogic = Region sampleUser" by (simp add: sampleLogic_def sampleUser_def)
  moreover have "quotas (simView ?w) (GetGardenerProjectNamespaceName (Region sampleUser) (ProjectID sampleUser),
      ResourceQuotaName) = None"
    by (simp add: sim_defs)
  ultimately show ?thesis
    using failed_run_breaks_contract [OF _ _ run _ refl _ steps_Nil, where view = simView and l = sampleLogic
        and si = sampleInfo] run by fastforce
qed

end
