(* ===== verification/Sample_Cloud.thy ===== *)
theory Sample_Cloud
  imports Sample_Cluster
begin

section \<open>An in-memory Keystone\<close>

text \<open>
  Concrete OpenStack operations on the same in-memory world: users with names, domains and
  passwords, one role per role name whose ID is its name, role assignments and application
  credentials. IDs are counted. They model no code of the program.
\<close>

definition simKeystone :: "sim \<Rightarrow> keystone" where
  "simKeystone s = \<lparr>
     ksUsers = map_of (map (\<lambda>(i, n, d, pw). (i, n, d)) (simUsers s)),
     ksPasswords = map_of (map (\<lambda>(i, n, d, pw). (i, pw)) (simUsers s)),
     ksRoles = (\<lambda>n. {n}),
     ksGrants = set (simGrants s)\<rparr>"

definition freshID :: "sim \<Rightarrow> string" where
  "freshID s = ''user'' @ concat (map fst (simUsers s))"

definition simListUsers :: "string \<Rightarrow> string \<Rightarrow> (sim, User pages) ext_call" where
  "simListUsers n d = simCall (\<lambda>s. (Inr (Inr (map (\<lambda>(i, n, d, pw). \<lparr>usID = i, usName = n\<rparr>)
     (filter (\<lambda>(i, n', d', pw). n' = n \<and> d' = d) (AList.clearjunk (simUsers s))))), s))"

definition simSetPassword :: "string \<Rightarrow> string \<Rightarrow> (sim, unit) ext_call" where
  "simSetPassword i pw = simCall (\<lambda>s. (case map_of (simUsers s) i of
       None \<Rightarrow> (Inl (CloudError (Some 404) ''no user''), s)
     | Some (n, d, _) \<Rightarrow> (Inr (), s\<lparr>simUsers := (i, n, d, pw) # simUsers s\<rparr>)))"

definition simCreateUser :: "UserCreateOpts \<Rightarrow> (sim, User) ext_call" where
  "simCreateUser opts = simCall (\<lambda>s. (Inr \<lparr>usID = freshID s, usName = ucName opts\<rparr>,
     s\<lparr>simUsers := (freshID s, ucName opts, ucDomainID opts, ucPassword opts) # simUsers s\<rparr>))"

definition simDeleteUser :: "string \<Rightarrow> (sim, unit) ext_call" where
  "simDeleteUser i = simCall (\<lambda>s. (Inr (), s\<lparr>
     simUsers := filter (\<lambda>(j, _). j \<noteq> i) (simUsers s),
     simGrants := filter (\<lambda>(r, u, p). u \<noteq> i) (simGrants s)\<rparr>))"

definition simCreateCredential ::
    "string \<Rightarrow> ApplicationCredentialCreateOpts \<Rightarrow> (sim, ApplicationCredential) ext_call" where
  "simCreateCredential i opts = simCall (\<lambda>s.
     (let c = \<lparr>acID = ''cred'' @ concat (map (acID \<circ> snd) (simCredentials s)), acName = ccName opts,
               acSecret = ''secret'', acExpiresAt = ccExpiresAt opts\<rparr>
      in (Inr c, s\<lparr>simCredentials := (i, c) # simCredentials s\<rparr>)))"

definition simDeleteCredential :: "string \<Rightarrow> string \<Rightarrow> (sim, unit) ext_call" where
  "simDeleteCredential i cid = simCall (\<lambda>s.
     if \<exists>x \<in> set (simCredentials s). fst x = i \<and> acID (snd x) = cid
     then (Inr (), s\<lparr>simCredentials :=
            filter (\<lambda>x. \<not> (fst x = i \<and> acID (snd x) = cid)) (simCredentials s)\<rparr>)
     else (Inl (CloudError (Some 404) ''no credential''), s))"

text \<open>A poller whose timeout passes while it waits for the second try.\<close>

definition simPoll ::
    "duration \<Rightarrow> duration \<Rightarrow> ('w, site, 'a option) eff \<Rightarrow> ('w, site, 'a) eff" where
  "simPoll t d cond = bindE cond (\<lambda>r.
     case r of Some x \<Rightarrow> returnE x | None \<Rightarrow> failE (External (OtherError ''context deadline exceeded'')))"

lemma stable_simPoll [stable_intros]: "stable I cond \<Longrightarrow> stable I (simPoll t d cond)"
  unfolding simPoll_def by (intro stable_intros)

definition simCloud :: "sim cloud" where
  "simCloud = \<lparr>
     authenticate = (\<lambda>opts. simCall (\<lambda>s. (Inr \<lparr>pcIdentityBase = [], pcTokenID = [], pcIdentityEndpoint = aoIdentityEndpoint opts,
        pcSession = aoApplicationCredentialID opts @ aoUsername opts\<rparr>, s))),
     new_identity_v3 = (\<lambda>p. Inr \<lparr>scProvider = p, scService = ''identity''\<rparr>),
     new_network_v2 = (\<lambda>p. Inr \<lparr>scProvider = p, scService = ''network''\<rparr>),
     list_domains = (\<lambda>c n. simCall (\<lambda>s. (Inr (Inr [\<lparr>dmID = n\<rparr>]), s))),
     list_users = (\<lambda>c. simListUsers),
     list_roles = (\<lambda>c n. simCall (\<lambda>s. (Inr (Inr [\<lparr>krID = n\<rparr>]), s))),
     update_password = (\<lambda>c. simSetPassword),
     create_user = (\<lambda>c. simCreateUser),
     delete_user = (\<lambda>c. simDeleteUser),
     assign_role = (\<lambda>c r i p. simCall (\<lambda>s. (Inr (), s\<lparr>simGrants := (r, i, p) # simGrants s\<rparr>))),
     list_credentials = (\<lambda>c i. simCall (\<lambda>s. (Inr (Inr (map snd (filter (\<lambda>x. fst x = i) (simCredentials s)))), s))),
     create_credential = (\<lambda>c. simCreateCredential),
     delete_credential = (\<lambda>c. simDeleteCredential),
     list_networks = (\<lambda>c. simCall (\<lambda>s. (Inr (Inr [\<lparr>nwName = ''FloatingIP-external'', nwExternal = True, nwShared = True\<rparr>]), s))),
     random_password = simCall (\<lambda>s. (Inr ''password'', s)),
     clock_now = (\<lambda>s. (simClock s, s\<lparr>simClock := simClock s + 1\<rparr>)),
     poll_until = simPoll\<rparr>"

lemma sim_cloud_ops:
  "authenticate simCloud a = simCall (\<lambda>s. (Inr \<lparr>pcIdentityBase = [], pcTokenID = [], pcIdentityEndpoint = aoIdentityEndpoint a,
     pcSession = aoApplicationCredentialID a @ aoUsername a\<rparr>, s))"
  "new_identity_v3 simCloud p = Inr \<lparr>scProvider = p, scService = ''identity''\<rparr>"
  "new_network_v2 simCloud p = Inr \<lparr>scProvider = p, scService = ''network''\<rparr>"
  "list_users simCloud c = simListUsers"
  "list_roles simCloud c n = simCall (\<lambda>s. (Inr (Inr [\<lparr>krID = n\<rparr>]), s))"
  "update_password simCloud c = simSetPassword" "create_user simCloud c = simCreateUser"
  "delete_user simCloud c = simDeleteUser" "create_credential simCloud c = simCreateCredential"
  "assign_role simCloud c r i p' = simCall (\<lambda>s. (Inr (), s\<lparr>simGrants := (r, i, p') # simGrants s\<rparr>))"
  "delete_credential simCloud c = simDeleteCredential"
  "random_password simCloud = simCall (\<lambda>s. (Inr ''password'', s))"
  "clock_now simCloud s = (simClock s, s\<lparr>simClock := simClock s + 1\<rparr>)"
  "poll_until simCloud = simPoll"
  by (simp_all add: simCloud_def)

lemma length_concat_in: "x \<in> set xs \<Longrightarrow> length x \<le> length (concat xs)"
  by (induction xs) auto

lemma freshID_fresh: "map_of (map (\<lambda>(i, n, d, pw). (i, n, d)) (simUsers s)) (freshID s) = None"
proof -
  have "freshID s \<notin> set (map fst (simUsers s))"
  proof
    assume "freshID s \<in> set (map fst (simUsers s))"
    from length_concat_in [OF this] show False by (simp add: freshID_def)
  qed
  then show ?thesis by (auto simp: map_of_eq_None_iff image_iff)
qed

text \<open>Keystone's laws hold of it.\<close>

lemma simKeystone_faults [simp]: "simKeystone (s\<lparr>simFaults := fs\<rparr>) = simKeystone s"
  by (simp add: simKeystone_def)

lemma simCall_lists:
  assumes "\<And>s. \<exists>xs. f s = (Inr (Inr xs), s) \<and> distinct (map ident xs) \<and>
      ident ` set xs = matching (simKeystone s)"
  shows "lists simKeystone (simCall f) ident matching"
  unfolding lists_def
proof (intro allI conjI impI)
  fix s :: sim
  have inner: "simKeystone (snd (f s)) = simKeystone s" for s
    using assms [of s] by auto
  show "simKeystone (snd (simCall f s)) = simKeystone s"
    by (auto simp: simCall_def inner split: list.splits)
  let ?s = "if simFaults s = [] then s else s\<lparr>simFaults := tl (simFaults s)\<rparr>"
  fix xs
  assume "fst (simCall f s) = Inr (Inr xs)"
  then have "fst (f ?s) = Inr (Inr xs)"
    by (auto simp: simCall_def split: list.splits if_splits)
  moreover have "simKeystone ?s = simKeystone s" by simp
  ultimately show "distinct (map ident xs)" and "ident ` set xs = matching (simKeystone s)"
    using assms [of ?s] by (auto split: if_splits)
qed

lemma simCall_writes:
  assumes "\<And>s. (case f s of (Inr x, s') \<Rightarrow> effect (Some x) (simKeystone s) (simKeystone s')
      | (Inl e, s') \<Rightarrow> simKeystone s' = simKeystone s)"
  shows "writes simKeystone (simCall f) effect"
  unfolding writes_def
proof
  fix s :: sim
  show "case simCall f s of (Inl e, w') \<Rightarrow> simKeystone w' = simKeystone s \<or>
        effect None (simKeystone s) (simKeystone w')
    | (Inr x, w') \<Rightarrow> effect (Some x) (simKeystone s) (simKeystone w')"
    using assms [of s] assms [of "s\<lparr>simFaults := tl (simFaults s)\<rparr>"]
    by (cases "simFaults s") (auto simp: simCall_def split: prod.splits sum.splits)
qed

lemma map_of_user: "map_of (map (\<lambda>(i, n, d, pw). (i, n, d)) xs) i = Some (n, d) \<longleftrightarrow>
    (\<exists>pw. map_of xs i = Some (n, d, pw))"
  by (induction xs) auto

lemma map_of_userI: "map_of xs i = Some (n, d, pw) \<Longrightarrow>
    map_of (map (\<lambda>(i, n, d, pw). (i, n, d)) xs) i = Some (n, d)"
  by (simp add: map_of_user)

lemma map_of_drop: "map_of (map (\<lambda>(i, n, d, pw). (i, g n d pw)) (filter (\<lambda>(j, _). j \<noteq> i) xs)) =
    (map_of (map (\<lambda>(i, n, d, pw). (i, g n d pw)) xs))(i := None)"
  by (induction xs) (auto simp: fun_eq_iff)

lemma sim_keystone_laws: "keystone_laws simKeystone simCloud"
  unfolding keystone_laws_def simCloud_def cloud.select_convs
proof (intro conjI allI)
  fix n d
  show "lists simKeystone (simListUsers n d) usID (\<lambda>ks. usersNamed ks n d)"
    unfolding simListUsers_def
  proof (rule simCall_lists)
    fix s :: sim
    let ?l = "filter (\<lambda>(i, n', d', pw). n' = n \<and> d' = d) (AList.clearjunk (simUsers s))"
    have "distinct (map fst (AList.clearjunk (simUsers s)))" by (rule distinct_clearjunk)
    then have "distinct (map fst ?l)" by (rule distinct_map_filter)
    moreover have "map usID (map (\<lambda>(i, n, d, pw). \<lparr>usID = i, usName = n\<rparr>) ?l) = map fst ?l" by auto
    moreover have "fst ` set ?l = usersNamed (simKeystone s) n d"
      by (force simp: usersNamed_def simKeystone_def map_of_user map_of_clearjunk
          simp flip: map_of_eq_Some_iff [OF distinct_clearjunk])
    ultimately show "\<exists>xs. (Inr (Inr (map (\<lambda>(i, n, d, pw). \<lparr>usID = i, usName = n\<rparr>) ?l)), s) =
        (Inr (Inr xs), s) \<and> distinct (map usID xs) \<and> usID ` set xs = usersNamed (simKeystone s) n d"
      by (metis (no_types, lifting) set_map)
  qed
next
  fix n
  show "lists simKeystone (simCall (\<lambda>s. (Inr (Inr [\<lparr>krID = n\<rparr>]), s))) krID (\<lambda>ks. ksRoles ks n)"
    by (rule simCall_lists) (simp add: simKeystone_def)
next
  fix i pw
  show "writes simKeystone (simSetPassword i pw) (passwordSet i pw)"
    unfolding simSetPassword_def
    by (rule simCall_writes)
      (auto simp: passwordSet_def simKeystone_def map_of_userI fun_eq_iff split: option.splits)
next
  fix opts
  show "writes simKeystone (simCreateUser opts) (userCreated opts)"
    unfolding simCreateUser_def
    by (rule simCall_writes)
      (use freshID_fresh in \<open>auto simp: userCreated_def simKeystone_def\<close>)
next
  fix i
  show "writes simKeystone (simDeleteUser i) (userDeleted i)"
    unfolding simDeleteUser_def
    by (rule simCall_writes)
      (auto simp: userDeleted_def simKeystone_def map_of_drop)
next
  fix r i p
  show "writes simKeystone (simCall (\<lambda>s. (Inr (), s\<lparr>simGrants := (r, i, p) # simGrants s\<rparr>)))
      (roleAssigned r i p)"
    by (rule simCall_writes) (simp add: roleAssigned_def simKeystone_def)
next
  fix s
  show "simKeystone (snd (simCall (\<lambda>s. (Inr ''password'', s)) s)) = simKeystone s"
    by (auto simp: simCall_def split: list.splits)
qed

end
