(* ===== verification/Cloud_Properties.thy ===== *)
theory Cloud_Properties
  imports Sample_Cloud
begin

section \<open>Properties of the OpenStack clients\<close>

text \<open>
  What \<open>internal/openstack\<close> guarantees its callers, with witnesses on the in-memory Keystone of
  theory Sample_Cloud.
\<close>

definition sampleClients :: ClientSet where
  "sampleClients = \<lparr>csProviderClient = \<lparr>pcIdentityBase = [], pcTokenID = [], pcIdentityEndpoint = ''https://id'', pcSession = ''admin''\<rparr>,
     csIdentityClient = \<lparr>scProvider = \<lparr>pcIdentityBase = [], pcTokenID = [], pcIdentityEndpoint = ''https://id'', pcSession = ''admin''\<rparr>,
       scService = ''identity''\<rparr>,
     csNetworkClient = \<lparr>scProvider = \<lparr>pcIdentityBase = [], pcTokenID = [], pcIdentityEndpoint = ''https://id'', pcSession = ''admin''\<rparr>,
       scService = ''network''\<rparr>,
     csDomainID = ''kubernetes''\<rparr>"

lemmas cloud_run = io_simps simCloud_def simCall_def emptySim_def

text \<open>C14. When reconciling a cluster's service user returns no error, exactly one user of the cluster
  domain has its name, the returned password is that user's, and each of the default roles exists
  once and is assigned to the user in the project.\<close>

theorem reconcile_user_ready:
  assumes "keystone_laws view os"
    and "reconcileClusterServiceUser os c username projectID w = (Ok (user, password), w')"
  shows "serviceUserReady (view w') (csDomainID c) username projectID user password"
  using wpD [OF service_user_outcome [OF assms(1)] assms(2)] by simp

lemma sim_assign_roles:
  "simFaults s = [] \<Longrightarrow> \<exists>g. forE ns (assignUserRole simCloud c u p) s = (Ok (), s\<lparr>simGrants := g\<rparr>)"
proof (induction ns arbitrary: s)
  case Nil
  then show ?case by (auto simp: io_simps intro!: exI [of _ "simGrants s"])
next
  case (Cons n ns)
  let ?s = "s\<lparr>simGrants := (n, usID u, p) # simGrants s\<rparr>"
  have "assignUserRole simCloud c u p n s = (Ok (), ?s)"
    using Cons.prems by (simp add: assignUserRole_def getRoleByName_def io_simps simCloud_def simCall_def)
  with Cons.IH [of ?s] Cons.prems show ?case by (simp add: io_simps)
qed

lemma sample_user_run:
  "\<exists>u s'. reconcileClusterServiceUser simCloud sampleClients ''gardener--x'' ''p'' (emptySim [] 0) =
     (Ok (u, ''password''), s')"
proof -
  let ?s = "emptySim [] 0" and ?u = "\<lparr>usID = freshID (emptySim [] 0), usName = ''gardener--x''\<rparr>"
  let ?s1 = "?s\<lparr>simUsers := [(freshID ?s, ''gardener--x'', ''kubernetes'', ''password'')]\<rparr>"
  have f: "simFaults ?s = []" by (simp add: emptySim_def)
  have "GetUserByName simCloud sampleClients ''gardener--x'' ?s = (Ok None, ?s)"
    "random_password simCloud ?s = (Inr ''password'', ?s)"
    by (simp_all add: GetUserByName_def cloud_run simListUsers_def)
  moreover have "create_user simCloud c \<lparr>ucName = ''gardener--x'', ucDomainID = ''kubernetes'',
      ucPassword = ''password'', ucDefaultProjectID = p, ucDescription = d\<rparr> ?s = (Inr ?u, ?s1)" for c p d
    by (simp add: simCloud_def simCall_def simCreateUser_def f) (simp add: emptySim_def)
  moreover obtain g where "assignUserRoles simCloud sampleClients ?u ''p'' ?s1 = (Ok (), ?s1\<lparr>simGrants := g\<rparr>)"
    using sim_assign_roles [of ?s1 GetDefaultServiceUserRoles sampleClients ?u "''p''"] f
    unfolding assignUserRoles_def by auto
  moreover have "csDomainID sampleClients = ''kubernetes''" by (simp add: sampleClients_def)
  ultimately show ?thesis
    by (intro exI [of _ ?u] exI [of _ "?s1\<lparr>simGrants := g\<rparr>"]) (simp add: reconcileClusterServiceUser_def io_simps)
qed

theorem reconcile_user_ready_witness:
  "\<exists>u s'. serviceUserReady (simKeystone s') ''kubernetes'' ''gardener--x'' ''p'' u ''password''"
proof -
  obtain u s' where
    "reconcileClusterServiceUser simCloud sampleClients ''gardener--x'' ''p'' (emptySim [] 0) =
     (Ok (u, ''password''), s')" using sample_user_run by blast
  from reconcile_user_ready [OF sim_keystone_laws this] show ?thesis
    by (auto simp: sampleClients_def)
qed

text \<open>C31. When deleting a cluster's service user returns no error, no user of the cluster domain has
  its name, whether there was one before or not.\<close>

theorem delete_user_gone:
  assumes "keystone_laws view os" and "DeleteClusterServiceUser os c username w = (Ok (), w')"
  shows "usersNamed (view w') username (csDomainID c) = {}"
  using wpD [OF delete_user_outcome [OF assms(1)] assms(2)] by simp

theorem delete_user_gone_witness:
  "let s = (emptySim [] 0)\<lparr>simUsers := [(''u1'', ''gardener--x'', ''kubernetes'', ''pw'')]\<rparr>
   in usersNamed (simKeystone s) ''gardener--x'' ''kubernetes'' = {''u1''} \<and>
      usersNamed (simKeystone (snd (DeleteClusterServiceUser simCloud sampleClients ''gardener--x'' s)))
        ''gardener--x'' ''kubernetes'' = {}"
proof -
  let ?s = "(emptySim [] 0)\<lparr>simUsers := [(''u1'', ''gardener--x'', ''kubernetes'', ''pw'')]\<rparr>"
  have run: "DeleteClusterServiceUser simCloud sampleClients ''gardener--x'' ?s =
      (Ok (), snd (DeleteClusterServiceUser simCloud sampleClients ''gardener--x'' ?s))"
    by (simp add: DeleteClusterServiceUser_def GetUserByName_def cloud_run simListUsers_def
        simDeleteUser_def sampleClients_def)
  from delete_user_gone [OF sim_keystone_laws run]
  show ?thesis by (simp add: Let_def sampleClients_def usersNamed_def simKeystone_def emptySim_def)
qed

text \<open>C10. The credential that is chosen carries the name prefix and does not expire within the next
  24 hours, and every listed credential with the prefix that expires earlier does; if none is
  chosen, all with the prefix expire within 24 hours.\<close>

theorem valid_credential_choice:
  assumes "clock_law timeOf (clock_now os)"
    and "list_credentials os (csIdentityClient c) (usID (cuUser c)) w = (Inr (Inr cs), w1)"
    and "GetValidApplicationCredential os c namePrefix w = (r, w2)"
  defines "candidates \<equiv> {x \<in> set cs. has_prefix (acName x) namePrefix}"
  shows "case r of
      Ok None \<Rightarrow> cs \<noteq> [] \<longrightarrow>
        (\<forall>x \<in> candidates. acExpiresAt x \<le> timeOf w2 + ApplicationCredentialsRenewTime)
    | Ok (Some x) \<Rightarrow> x \<in> candidates \<and> timeOf w1 + ApplicationCredentialsRenewTime < acExpiresAt x \<and>
        (\<forall>y \<in> candidates. acExpiresAt y < acExpiresAt x \<longrightarrow>
           acExpiresAt y \<le> timeOf w2 + ApplicationCredentialsRenewTime)
    | _ \<Rightarrow> False"
proof (cases "cs = []")
  case True
  with assms(2,3) show ?thesis by (auto simp: GetValidApplicationCredential_def io_simps)
next
  case False
  let ?l = "sort_key acExpiresAt (filter (\<lambda>x. has_prefix (acName x) namePrefix) cs)"
  from False assms(2,3) have "firstValid (clock_now os) ?l w1 = (r, w2)"
    by (simp add: GetValidApplicationCredential_def io_simps)
  from wpD [OF first_valid_outcome [OF assms(1)] this] False show ?thesis
    by (auto simp: candidates_def split: outcome.splits option.splits)
qed

text \<open>The client sets of the regions are exactly those of the enabled regions of the
  configuration; one failing region fails them all.\<close>

theorem region_clients_enabled:
  assumes "NewRegionOpenStackClientSet os regions domain w = (Ok clients, w')"
  shows "dom clients = {fst rc |rc. rc \<in> set regions \<and> Enabled (snd rc)}"
  using fill_regions_dom assms unfolding NewRegionOpenStackClientSet_def by fastforce

definition sampleRegions :: "(string \<times> RegionalConfig) list" where
  "sampleRegions = [(''a'', zeroRegionalConfig), (''b'', zeroRegionalConfig\<lparr>Enabled := True\<rparr>)]"

lemma sim_new_clients:
  assumes "simFaults s = []"
  shows "\<exists>c. NewClientSet simCloud p d s = (Ok c, s)"
  using assms by (simp add: NewClientSet_def getDomainByName_def io_simps simCloud_def simCall_def)

lemma sim_fill_regions:
  "simFaults s = [] \<Longrightarrow> \<exists>m'. fillRegions simCloud d rcs m s = (Ok m', s)"
proof (induction rcs arbitrary: m)
  case (Cons rc rcs)
  have "\<exists>p. authenticate simCloud opts s = (Inr p, s)" for opts
    using Cons.prems by (simp add: simCloud_def simCall_def)
  then obtain p where p: "authenticate simCloud (adminAuthOptions (snd rc)) s = (Inr p, s)" by blast
  obtain c where c: "NewClientSet simCloud p d s = (Ok c, s)"
    using sim_new_clients [OF Cons.prems] by blast
  obtain m1 m2 where "fillRegions simCloud d rcs m s = (Ok m1, s)"
    "fillRegions simCloud d rcs (m(fst rc \<mapsto> c)) s = (Ok m2, s)"
    using Cons.IH [OF Cons.prems] by blast
  with p c show ?case by (simp add: io_simps)
qed (simp add: io_simps)

theorem region_clients_enabled_witness:
  "\<exists>clients s'. NewRegionOpenStackClientSet simCloud sampleRegions ''kubernetes'' (emptySim [] 0) =
     (Ok clients, s') \<and> dom clients = {''b''}"
proof -
  have "simFaults (emptySim [] 0) = []" by (simp add: emptySim_def)
  from sim_fill_regions [OF this] obtain clients s' where run:
    "NewRegionOpenStackClientSet simCloud sampleRegions ''kubernetes'' (emptySim [] 0) = (Ok clients, s')"
    unfolding NewRegionOpenStackClientSet_def by blast
  have "{fst rc |rc. rc \<in> set sampleRegions \<and> Enabled (snd rc)} = {''b''}"
    by (rule set_eqI) (simp add: sampleRegions_def zeroRegionalConfig_def conj_disj_distribR ex_disj_distrib)
  then have "dom clients = {''b''}"
    using region_clients_enabled [OF run] by (simp only:)
  with run show ?thesis by (intro exI conjI)
qed

definition sampleUserClients :: ClusterUserClientSet where
  "sampleUserClients = ClientSet.extend sampleClients \<lparr>cuProjectID = ''p'', cuUser = \<lparr>usID = ''u1'', usName = ''n''\<rparr>\<rparr>"

definition sampleCredential :: "string \<Rightarrow> string \<Rightarrow> int \<Rightarrow> ApplicationCredential" where
  "sampleCredential i n t = \<lparr>acID = i, acName = n, acSecret = ''s'', acExpiresAt = t * hour\<rparr>"

lemma sample_first_valid:
  assumes "simClock s = 0"
  shows "\<exists>x s'. firstValid (clock_now simCloud)
     [sampleCredential i n 10, sampleCredential i' n' 30, y] s = (Ok (Some x), s')"
proof -
  have clock: "clock_now simCloud s = (simClock s, s\<lparr>simClock := simClock s + 1\<rparr>)" for s
    by (simp add: simCloud_def)
  have "1 < 6 * hour" by (simp add: hour_def minute_def second_def)
  then show ?thesis
    by (simp add: io_simps clock assms sampleCredential_def time_defs ApplicationCredentialsRenewTime_def)
qed

theorem valid_credential_choice_witness:
  "let cs = [sampleCredential ''1'' ''shoot-1'' 50, sampleCredential ''2'' ''shoot-2'' 30,
             sampleCredential ''3'' ''shoot-3'' 10];
       s = (emptySim [] 0)\<lparr>simCredentials := map (Pair ''u1'') cs\<rparr>
   in \<exists>x s'. GetValidApplicationCredential simCloud sampleUserClients ''shoot-'' s = (Ok (Some x), s') \<and>
      x \<in> set cs \<and> 24 * hour < acExpiresAt x"
proof -
  let ?cs = "[sampleCredential ''1'' ''shoot-1'' 50, sampleCredential ''2'' ''shoot-2'' 30,
      sampleCredential ''3'' ''shoot-3'' 10]"
  let ?s = "(emptySim [] 0)\<lparr>simCredentials := map (Pair ''u1'') ?cs\<rparr>"
  have clock: "clock_law simClock (clock_now simCloud)"
    by (simp add: clock_law_def simCloud_def)
  have listed: "list_credentials simCloud (csIdentityClient sampleUserClients) (usID (cuUser sampleUserClients)) ?s =
      (Inr (Inr ?cs), ?s)"
    by (simp add: simCloud_def simCall_def emptySim_def sampleUserClients_def ClientSet.extend_def
        sampleClients_def)
  let ?sorted = "sort_key acExpiresAt (filter (\<lambda>a. has_prefix (acName a) ''shoot-'') ?cs)"
  have "GetValidApplicationCredential simCloud sampleUserClients ''shoot-'' ?s =
      firstValid (clock_now simCloud) ?sorted ?s"
    unfolding GetValidApplicationCredential_def run_bindE run_wrapE run_callE listed
    by (simp add: io_simps)
  moreover have "filter (\<lambda>a. has_prefix (acName a) ''shoot-'') ?cs = ?cs"
    by (simp add: sampleCredential_def has_prefix_def)
  moreover have "sort_key acExpiresAt ?cs = rev ?cs"
    by (simp add: sampleCredential_def)
  moreover have "simClock ?s = 0" by (simp add: emptySim_def)
  from sample_first_valid [OF this] obtain x s' where
    "firstValid (clock_now simCloud) [sampleCredential ''3'' ''shoot-3'' 10,
       sampleCredential ''2'' ''shoot-2'' 30, sampleCredential ''1'' ''shoot-1'' 50] ?s = (Ok (Some x), s')"
    by blast
  moreover have "rev ?cs = [sampleCredential ''3'' ''shoot-3'' 10,
       sampleCredential ''2'' ''shoot-2'' 30, sampleCredential ''1'' ''shoot-1'' 50]" by simp
  ultimately have run:
    "GetValidApplicationCredential simCloud sampleUserClients ''shoot-'' ?s = (Ok (Some x), s')"
    by (simp only:)
  have "x \<in> set ?cs \<and> simClock ?s + ApplicationCredentialsRenewTime < acExpiresAt x"
    using valid_credential_choice [OF clock listed run] by (simp del: set_simps)
  then show ?thesis
    unfolding Let_def using run by (auto simp: emptySim_def ApplicationCredentialsRenewTime_def)
qed

end
