(* ===== verification/Liquid_Server.thy ===== *)
theory Liquid_Server
  imports Liquid OpenStack
begin

section \<open>The server of the liquid API\<close>

text \<open>
  \<open>internal/liquidserver/server.go\<close>: five HTTP endpoints over the operations of theory Liquid. Each
  checks the caller's token against Keystone and a policy rule, decodes the request, runs the
  operation and encodes its result.

  Parameters are the record \<open>HttpLib\<close>: gophercloud's identity client, gopherpolicy's token check and
  policy enforcement, the JSON decoders and the rendering of errors. \<open>Require\<close> gives the response it
  has written when it refuses. A handler's value is the response it writes.
\<close>

subsection \<open>The model\<close>

datatype body =
    NoBody
  | Text string
  | InfoBody ServiceInfo
  | CapacityBody int64
  | UsageBody ServiceUsageReport
  | CommitmentBody

record response =
  status :: nat
  content :: body

record request =
  rqMethod :: string
  rqPath :: string
  rqToken :: string \<comment> \<open>the header X-Auth-Token\<close>
  rqBody :: string

text \<open>The decoders reject unknown fields; their error is the text that is printed.\<close>

record ('w, 't) HttpLib =
  normalizeURL :: "string \<Rightarrow> string"
  newIdentityV3 :: "ProviderClient \<Rightarrow> ext_error + ServiceClient" \<comment> \<open>with empty endpoint options\<close>
  checkCredentials :: "ServiceClient \<Rightarrow> string \<Rightarrow> 'w \<Rightarrow> 't \<times> 'w"
  require :: "'t \<Rightarrow> (string \<rightharpoonup> string) \<Rightarrow> string \<Rightarrow> response option"
  decodeCapacity :: "string \<Rightarrow> string + unit"
  decodeUsage :: "string \<Rightarrow> string + unit"
  decodeQuota :: "string \<Rightarrow> string + (string \<rightharpoonup> uint64)"
  decodeCommitments :: "string \<Rightarrow> string + int64" \<comment> \<open>the request's InfoVersion\<close>
  errorText :: "error \<Rightarrow> response"

record RunOpts =
  DefaultListenAddress :: string
  roIdentityEndpoint :: string

record server =
  svLogic :: Logic
  svServiceInfo :: ServiceInfo
  svIdentityEndpoint :: string

definition httpError :: "string \<Rightarrow> nat \<Rightarrow> response" where
  "httpError msg code = \<lparr>status = code, content = Text msg\<rparr>"

definition newIdentityClient :: "('w, 't) HttpLib \<Rightarrow> string \<Rightarrow> string \<Rightarrow> ext_error + ServiceClient" where
  "newIdentityClient h identityEndpoint tokenID =
     newIdentityV3 h (emptyProvider\<lparr>pcIdentityBase := normalizeURL h identityEndpoint, pcTokenID := tokenID\<rparr>)"

text \<open>\<open>requireToken\<close> writes a response only if it refuses.\<close>

definition requireToken ::
    "('w, 't) HttpLib \<Rightarrow> server \<Rightarrow> request \<Rightarrow> (string \<rightharpoonup> string) \<Rightarrow> string \<Rightarrow> ('w, response option) io" where
  "requireToken h s r vars policyRule =
     (if rqToken r = [] then returnE (Some (httpError ''Unauthorized'' 401))
      else case newIdentityClient h (svIdentityEndpoint s) (rqToken r) of
             Inl _ \<Rightarrow> returnE (Some (httpError ''Unauthorized'' 401))
           | Inr identityClient \<Rightarrow>
               bindE (readE (checkCredentials h identityClient (rqToken r))) (\<lambda>t.
                 returnE (require h t vars policyRule)))"

definition requireJSON :: "string \<Rightarrow> (string \<Rightarrow> string + 'a) \<Rightarrow> string \<Rightarrow> response + 'a" where
  "requireJSON target decode text =
     (case decode text of
        Inr x \<Rightarrow> Inr x
      | Inl err \<Rightarrow> Inl (httpError
          (''request body is not a valid JSON representation of '' @ target @ '': '' @ err) 400))"

text \<open>\<open>if respondwith.ErrorText(w, err) { return }\<close> and the success response\<close>

definition respond :: "('w, 't) HttpLib \<Rightarrow> ('w, 'a) io \<Rightarrow> ('a \<Rightarrow> response) \<Rightarrow> ('w, response) io" where
  "respond h m ok = bindE (tryE m) (\<lambda>r.
     case r of Inl err \<Rightarrow> returnE (errorText h err) | Inr x \<Rightarrow> returnE (ok x))"

text \<open>\<open>if !s.requireToken(...) { return }\<close> and \<open>if !requireJSON(...) { return }\<close>\<close>

definition authorised ::
    "('w, 't) HttpLib \<Rightarrow> server \<Rightarrow> request \<Rightarrow> (string \<rightharpoonup> string) \<Rightarrow> string \<Rightarrow> ('w, response) io \<Rightarrow>
     ('w, response) io" where
  "authorised h s r vars rule handle =
     bindE (requireToken h s r vars rule) (\<lambda>refusal.
       case refusal of Some resp \<Rightarrow> returnE resp | None \<Rightarrow> handle)"

definition decoded :: "response + 'a \<Rightarrow> ('a \<Rightarrow> ('w, response) io) \<Rightarrow> ('w, response) io" where
  "decoded d handle = (case d of Inl resp \<Rightarrow> returnE resp | Inr req \<Rightarrow> handle req)"

definition handleGetInfo :: "('w, 't) HttpLib \<Rightarrow> server \<Rightarrow> request \<Rightarrow> (string \<rightharpoonup> string) \<Rightarrow> ('w, response) io" where
  "handleGetInfo h s r vars =
     authorised h s r vars ''liquid:get_info''
       (returnE \<lparr>status = 200, content = InfoBody (svServiceInfo s)\<rparr>)"

definition handleReportCapacity ::
    "('w, 't) HttpLib \<Rightarrow> server \<Rightarrow> request \<Rightarrow> (string \<rightharpoonup> string) \<Rightarrow> ('w, response) io" where
  "handleReportCapacity h s r vars =
     authorised h s r vars ''liquid:get_capacity''
       (decoded (requireJSON ''*liquid.ServiceCapacityRequest'' (decodeCapacity h) (rqBody r)) (\<lambda>_.
          respond h (ScanCapacity (svServiceInfo s)) (\<lambda>v. \<lparr>status = 200, content = CapacityBody v\<rparr>)))"

definition handleReportUsage ::
    "'w kube \<Rightarrow> ('w, 't) HttpLib \<Rightarrow> server \<Rightarrow> request \<Rightarrow> (string \<rightharpoonup> string) \<Rightarrow> ('w, response) io" where
  "handleReportUsage k h s r vars =
     authorised h s r vars ''liquid:get_usage''
       (decoded (requireJSON ''*liquid.ServiceUsageRequest'' (decodeUsage h) (rqBody r)) (\<lambda>_.
          respond h (ScanUsage k (svLogic s) (case vars ''project_id'' of None \<Rightarrow> [] | Some p \<Rightarrow> p) (svServiceInfo s))
            (\<lambda>report. \<lparr>status = 200, content = UsageBody report\<rparr>)))"

definition handleSetQuota ::
    "'w kube \<Rightarrow> ('w, 't) HttpLib \<Rightarrow> server \<Rightarrow> request \<Rightarrow> (string \<rightharpoonup> string) \<Rightarrow> ('w, response) io" where
  "handleSetQuota k h s r vars =
     authorised h s r vars ''liquid:set_quota''
       (decoded (requireJSON ''*liquid.ServiceQuotaRequest'' (decodeQuota h) (rqBody r)) (\<lambda>req.
          respond h (SetQuota k (svLogic s) (case vars ''project_id'' of None \<Rightarrow> [] | Some p \<Rightarrow> p) req (svServiceInfo s))
            (\<lambda>_. \<lparr>status = 204, content = NoBody\<rparr>)))"

definition handleChangeCommitments ::
    "('w, 't) HttpLib \<Rightarrow> server \<Rightarrow> request \<Rightarrow> (string \<rightharpoonup> string) \<Rightarrow> ('w, response) io" where
  "handleChangeCommitments h s r vars =
     authorised h s r vars ''liquid:change_commitments''
       (decoded (requireJSON ''*liquid.CommitmentChangeRequest'' (decodeCommitments h) (rqBody r)) (\<lambda>infoVersion.
          if siVersion (svServiceInfo s) \<noteq> infoVersion
          then returnE (httpError (''request was for InfoVersion = '' @ format_int (sint infoVersion) @
                 '', but current ServiceInfo.Version is '' @ format_int (sint (siVersion (svServiceInfo s)))) 400)
          else respond h (ReviewCommitmentChange (svServiceInfo s))
                 (\<lambda>_. \<lparr>status = 200, content = CommitmentBody\<rparr>)))"

text \<open>The routes of \<open>AddTo\<close>; \<open>{project_id}\<close> matches one path segment that is not empty.\<close>

definition AddTo ::
    "'w kube \<Rightarrow> ('w, 't) HttpLib \<Rightarrow> server \<Rightarrow> request \<Rightarrow> ('w, response) io option" where
  "AddTo k h s r =
     (case (rqMethod r, split_on CHR ''/'' (rqPath r)) of
        (m, [[], v1, p]) \<Rightarrow>
          if v1 \<noteq> ''v1'' then None
          else if m = ''GET'' \<and> p = ''info'' then Some (handleGetInfo h s r Map.empty)
          else if m = ''POST'' \<and> p = ''report-capacity'' then Some (handleReportCapacity h s r Map.empty)
          else if m = ''POST'' \<and> p = ''change-commitments'' then Some (handleChangeCommitments h s r Map.empty)
          else None
      | (m, [[], v1, ps, project, p]) \<Rightarrow>
          if v1 \<noteq> ''v1'' \<or> ps \<noteq> ''projects'' \<or> project = [] then None
          else if m = ''POST'' \<and> p = ''report-usage''
          then Some (handleReportUsage k h s r [''project_id'' \<mapsto> project])
          else if m = ''PUT'' \<and> p = ''quota''
          then Some (handleSetQuota k h s r [''project_id'' \<mapsto> project])
          else None
      | _ \<Rightarrow> None)"

text \<open>\<open>Run\<close> up to the point where it listens: the environment and the policy file are parameters.\<close>

definition Run ::
    "('w, string) ext_call \<Rightarrow> (string \<Rightarrow> ('w, unit) ext_call) \<Rightarrow> ('w \<Rightarrow> time \<times> 'w) \<Rightarrow> Logic \<Rightarrow> RunOpts \<Rightarrow>
     ('w, server) io" where
  "Run policyPathEnv loadPolicyFile clock logic opts =
     (if DefaultListenAddress opts = [] then failE (Errorf (LiquidPkg ListenAddressMissing) [])
      else if roIdentityEndpoint opts = [] then failE (Errorf (LiquidPkg EndpointMissing) [])
      else
        bindE (callE policyPathEnv) (\<lambda>policyPath.
        thenE (callE (loadPolicyFile policyPath))
        (thenE (wrapE (LiquidPkg InitFailed) [] (returnE ()))
        (bindE (wrapE (LiquidPkg ServiceInfoFailed) [] (BuildServiceInfo clock)) (\<lambda>serviceInfo.
          returnE \<lparr>svLogic = logic, svServiceInfo = serviceInfo,
                   svIdentityEndpoint = roIdentityEndpoint opts\<rparr>)))))"

subsection \<open>Routes and their policy rules\<close>

text \<open>The rule that guards a request and the variables the policy sees, as the API documents them.\<close>

definition projectOf :: "request \<Rightarrow> string" where
  "projectOf r = (case split_on CHR ''/'' (rqPath r) of [_, _, _, p, _] \<Rightarrow> p | _ \<Rightarrow> [])"

definition pathVars :: "request \<Rightarrow> string \<rightharpoonup> string" where
  "pathVars r = (case split_on CHR ''/'' (rqPath r) of
     [_, _, _, p, _] \<Rightarrow> [''project_id'' \<mapsto> p] | _ \<Rightarrow> Map.empty)"

definition endpointRule :: "request \<Rightarrow> string" where
  "endpointRule r = (case rev (split_on CHR ''/'' (rqPath r)) of
     p # _ \<Rightarrow>
       if p = ''info'' then ''liquid:get_info''
       else if p = ''report-capacity'' then ''liquid:get_capacity''
       else if p = ''report-usage'' then ''liquid:get_usage''
       else if p = ''quota'' then ''liquid:set_quota''
       else ''liquid:change_commitments''
   | [] \<Rightarrow> [])"

lemma path_parts:
  "split_on CHR ''/'' (rqPath r) = [[], v, p] \<Longrightarrow> rqPath r = ''/'' @ v @ ''/'' @ p"
  "split_on CHR ''/'' (rqPath r) = [[], v, ps, q, p] \<Longrightarrow>
     rqPath r = ''/'' @ v @ ''/'' @ ps @ ''/'' @ q @ ''/'' @ p"
  using join_split_on [of "CHR ''/''" "rqPath r"] by simp_all

text \<open>Every route is guarded by its rule, over the variables of its own path.\<close>

lemma route_cases:
  assumes "AddTo k h s r = Some handle"
  obtains m where "handle = authorised h s r (pathVars r) (endpointRule r) m"
proof -
  consider v p where "split_on CHR ''/'' (rqPath r) = [[], v, p]"
    | v ps q p where "split_on CHR ''/'' (rqPath r) = [[], v, ps, q, p]"
    using assms by (auto simp: AddTo_def split: list.splits)
  then show thesis
  proof cases
    case 1
    with assms that show thesis
      by (auto simp: AddTo_def handleGetInfo_def handleReportCapacity_def handleChangeCommitments_def
          pathVars_def endpointRule_def split: if_splits)
  next
    case 2
    with assms that show thesis
      by (auto simp: AddTo_def handleReportUsage_def handleSetQuota_def pathVars_def endpointRule_def
          split: if_splits)
  qed
qed

lemma authorised_cases:
  assumes "authorised h s r vars rule m w = (x, w')"
  obtains (refused) "x = Ok (httpError ''Unauthorized'' 401)" "w' = w"
  | (denied) c resp where "newIdentityClient h (svIdentityEndpoint s) (rqToken r) = Inr c"
      "require h (fst (checkCredentials h c (rqToken r) w)) vars rule = Some resp"
      "x = Ok resp" "w' = snd (checkCredentials h c (rqToken r) w)"
  | (granted) c where "rqToken r \<noteq> []"
      "newIdentityClient h (svIdentityEndpoint s) (rqToken r) = Inr c"
      "require h (fst (checkCredentials h c (rqToken r) w)) vars rule = None"
      "m (snd (checkCredentials h c (rqToken r) w)) = (x, w')"
proof (cases "rqToken r = []")
  case True
  with assms refused show thesis by (simp add: authorised_def requireToken_def io_simps)
next
  case False
  note nonempty = this
  show thesis
  proof (cases "newIdentityClient h (svIdentityEndpoint s) (rqToken r)")
    case (Inl e)
    with assms False refused show thesis by (simp add: authorised_def requireToken_def io_simps)
  next
    case (Inr c)
    obtain t w1 where t: "checkCredentials h c (rqToken r) w = (t, w1)" by fastforce
    show thesis
    proof (cases "require h t vars rule")
      case None
      with assms nonempty Inr t show thesis
        by (intro granted [of c]) (simp_all add: authorised_def requireToken_def io_simps)
    next
      case (Some resp)
      with assms nonempty Inr t show thesis
        by (intro denied [of c resp]) (simp_all add: authorised_def requireToken_def io_simps)
    qed
  qed
qed

subsection \<open>What the libraries promise\<close>

text \<open>
  \<open>respondwith.ErrorText\<close> answers with the status that \<open>CustomStatus\<close> put into the chain of
  wrapped errors, or with 500.
\<close>

fun customStatusOf :: "error \<Rightarrow> nat option" where
  "customStatusOf (Wrapf s as e) =
     (case s of
        LiquidPkg l \<Rightarrow> (case l of WithStatus c \<Rightarrow> Some c | _ \<Rightarrow> customStatusOf e)
      | _ \<Rightarrow> customStatusOf e)"
| "customStatusOf e = None"

definition http_laws :: "('w \<Rightarrow> 'c) \<Rightarrow> ('w, 't) HttpLib \<Rightarrow> bool" where
  "http_laws view h \<longleftrightarrow>
     (\<forall>c tok w. view (snd (checkCredentials h c tok w)) = view w) \<and>
     (\<forall>t vars rule resp. require h t vars rule = Some resp \<longrightarrow>
        status resp \<in> {401, 403} \<and> (\<exists>msg. content resp = Text msg)) \<and>
     (\<forall>e. status (errorText h e) = (case customStatusOf e of Some c \<Rightarrow> c | None \<Rightarrow> 500) \<and>
        (\<exists>msg. content (errorText h e) = Text msg))"

lemma http_lawsD:
  assumes "http_laws view h"
  shows "view (snd (checkCredentials h c tok w)) = view w"
    and "require h t vars rule = Some resp \<Longrightarrow> status resp \<in> {401, 403}"
    and "status (errorText h e) = (case customStatusOf e of Some c \<Rightarrow> c | None \<Rightarrow> 500)"
    and "require h t vars rule = Some resp \<Longrightarrow> content resp \<noteq> UsageBody report"
    and "content (errorText h e) \<noteq> UsageBody report"
proof -
  show "view (snd (checkCredentials h c tok w)) = view w"
    using assms by (simp add: http_laws_def)
  show "require h t vars rule = Some resp \<Longrightarrow> status resp \<in> {401, 403}"
    using assms unfolding http_laws_def by blast
  show "status (errorText h e) = (case customStatusOf e of Some c \<Rightarrow> c | None \<Rightarrow> 500)"
    using assms by (simp add: http_laws_def)
  have "\<exists>msg. content (errorText h e) = Text msg" using assms by (simp add: http_laws_def)
  then show "content (errorText h e) \<noteq> UsageBody report" by auto
  assume "require h t vars rule = Some resp"
  then have "\<exists>msg. content resp = Text msg" using assms unfolding http_laws_def by blast
  then show "content resp \<noteq> UsageBody report" by auto
qed

subsection \<open>Properties\<close>

text \<open>C3. No request gets past the policy: if a routed request is answered with success, or changes
  anything that the token check itself leaves alone, then it carried a token and the policy granted
  that token the rule of the endpoint, for the project named in the request's own path. The token was
  checked by the configured Keystone, with no authentication but the token itself.\<close>

theorem request_needs_policy:
  assumes "AddTo k h s r = Some handle" and "handle w = (Ok resp, w')"
    and "http_laws view h" and "status resp < 400 \<or> view w' \<noteq> view w"
  shows "rqToken r \<noteq> [] \<and>
    (\<exists>c. newIdentityV3 h (emptyProvider\<lparr>pcIdentityBase := normalizeURL h (svIdentityEndpoint s),
         pcTokenID := rqToken r\<rparr>) = Inr c \<and>
       require h (fst (checkCredentials h c (rqToken r) w)) (pathVars r) (endpointRule r) = None)"
proof -
  obtain m where m: "handle = authorised h s r (pathVars r) (endpointRule r) m"
    using route_cases [OF assms(1)] .
  from assms(2) have "authorised h s r (pathVars r) (endpointRule r) m w = (Ok resp, w')"
    unfolding m .
  then show ?thesis
  proof (cases rule: authorised_cases)
    case refused
    with assms(4) show ?thesis by (auto simp: httpError_def)
  next
    case (denied c resp')
    with http_lawsD(1) [OF assms(3), of c "rqToken r" w] http_lawsD(2) [OF assms(3) denied(2)] assms(4)
    show ?thesis by auto
  next
    case (granted c)
    then show ?thesis unfolding newIdentityClient_def by blast
  qed
qed

text \<open>A token check and a policy for the in-memory world: one token, which may do everything.\<close>

definition sampleHttp :: "(sim, bool) HttpLib" where
  "sampleHttp = \<lparr>
     normalizeURL = (\<lambda>u. u @ ''/''),
     newIdentityV3 = (\<lambda>p. Inr \<lparr>scProvider = p, scService = ''identity''\<rparr>),
     checkCredentials = (\<lambda>c tok s. (tok = ''admin'', s)),
     require = (\<lambda>t vars rule. if t then None else Some (httpError ''Forbidden'' 403)),
     decodeCapacity = (\<lambda>_. Inr ()), decodeUsage = (\<lambda>_. Inr ()),
     decodeQuota = (\<lambda>b. if b = ''{}'' then Inr Map.empty else Inr [clusters \<mapsto> 3]),
     decodeCommitments = (\<lambda>_. Inr 7),
     errorText = (\<lambda>e. httpError ''error'' (case customStatusOf e of Some c \<Rightarrow> c | None \<Rightarrow> 500))\<rparr>"

definition sampleServer :: server where
  "sampleServer = \<lparr>svLogic = sampleLogic, svServiceInfo = sampleInfo, svIdentityEndpoint = ''https://id''\<rparr>"

definition quotaRequest :: "string \<Rightarrow> request" where
  "quotaRequest b = \<lparr>rqMethod = ''PUT'', rqPath = ''/v1/projects/'' @ sampleProject @ ''/quota'',
     rqToken = ''admin'', rqBody = b\<rparr>"

definition usageRequest :: request where
  "usageRequest = \<lparr>rqMethod = ''POST'', rqPath = ''/v1/projects/'' @ sampleProject @ ''/report-usage'',
     rqToken = ''admin'', rqBody = ''{}''\<rparr>"

lemma project_path:
  assumes "CHR ''/'' \<notin> set p"
  shows "split_on CHR ''/'' (''/v1/projects/'' @ p @ ''/quota'') = [[], ''v1'', ''projects'', p, ''quota'']"
    and "split_on CHR ''/'' (''/v1/projects/'' @ p @ ''/report-usage'') =
      [[], ''v1'', ''projects'', p, ''report-usage'']"
  using assms by (simp_all add: split_on_sep split_on_no_sep)

lemma route_quota:
  assumes "CHR ''/'' \<notin> set p" "p \<noteq> []" "rqMethod r = ''PUT''"
    and "rqPath r = ''/v1/projects/'' @ p @ ''/quota''"
  shows "AddTo k h s r = Some (handleSetQuota k h s r [''project_id'' \<mapsto> p])"
  unfolding AddTo_def assms(3,4) project_path [OF assms(1)] using assms(2) by simp

lemma route_usage:
  assumes "CHR ''/'' \<notin> set p" "p \<noteq> []" "rqMethod r = ''POST''"
    and "rqPath r = ''/v1/projects/'' @ p @ ''/report-usage''"
  shows "AddTo k h s r = Some (handleReportUsage k h s r [''project_id'' \<mapsto> p])"
  unfolding AddTo_def assms(3,4) project_path [OF assms(1)] using assms(2) by simp

lemma sampleProject_segment: "CHR ''/'' \<notin> set sampleProject" "sampleProject \<noteq> []"
  by (simp_all add: sampleProject_def sampleUser_def)

lemmas sample_http_simps = authorised_def requireToken_def newIdentityClient_def sampleHttp_def sampleServer_def io_simps

lemma sample_http_laws: "http_laws simView sampleHttp"
  by (simp add: http_laws_def sampleHttp_def httpError_def)

lemma sample_put_run:
  "handleSetQuota simKube sampleHttp sampleServer (quotaRequest ''[3]'') [''project_id'' \<mapsto> sampleProject]
     (quotaSim []) = (Ok \<lparr>status = 204, content = NoBody\<rparr>,
       snd (SetQuota simKube sampleLogic sampleProject [clusters \<mapsto> 3] sampleInfo (quotaSim [])))"
proof -
  have "\<exists>s. SetQuota simKube sampleLogic sampleProject [clusters \<mapsto> 3] sampleInfo (quotaSim []) = (Ok (), s)"
    by (simp add: SetQuota_def quota_sim_simps mutateSetQuota_eq)
  then obtain s where
    "SetQuota simKube sampleLogic sampleProject [clusters \<mapsto> 3] sampleInfo (quotaSim []) = (Ok (), s)"
    by blast
  then show ?thesis
    by (simp add: handleSetQuota_def sample_http_simps quotaRequest_def decoded_def requireJSON_def respond_def)
qed

theorem request_needs_policy_witness:
  "rqToken (quotaRequest ''[3]'') \<noteq> [] \<and>
    (\<exists>c. newIdentityV3 sampleHttp (emptyProvider\<lparr>pcIdentityBase := normalizeURL sampleHttp (svIdentityEndpoint sampleServer),
         pcTokenID := rqToken (quotaRequest ''[3]'')\<rparr>) = Inr c \<and>
       require sampleHttp (fst (checkCredentials sampleHttp c (rqToken (quotaRequest ''[3]'')) (quotaSim [])))
         (pathVars (quotaRequest ''[3]'')) (endpointRule (quotaRequest ''[3]'')) = None)"
proof -
  have route: "AddTo simKube sampleHttp sampleServer (quotaRequest ''[3]'') =
      Some (handleSetQuota simKube sampleHttp sampleServer (quotaRequest ''[3]'') [''project_id'' \<mapsto> sampleProject])"
    by (rule route_quota [OF sampleProject_segment]) (simp_all add: quotaRequest_def)
  show ?thesis
    by (rule request_needs_policy [OF route sample_put_run sample_http_laws]) simp
qed

text \<open>The success response of an operation, or its error's.\<close>

lemma respond_run:
  "respond h m ok w = (case m w of
     (Ok x, w') \<Rightarrow> (Ok (ok x), w')
   | (Err e, w') \<Rightarrow> (Ok (errorText h e), w')
   | (Panicked p, w') \<Rightarrow> (Panicked p, w'))"
  by (simp add: respond_def io_simps split: prod.splits outcome.splits)

lemma handle_set_quota_cases:
  assumes "http_laws view h" and "handleSetQuota k h s r vars w = (Ok resp, w')"
  obtains (refused) "status resp \<in> {400, 401, 403}" "view w' = view w"
  | (ran) req w1 where "decodeQuota h (rqBody r) = Inr req" "view w1 = view w"
      "respond h (SetQuota k (svLogic s) (case vars ''project_id'' of None \<Rightarrow> [] | Some p \<Rightarrow> p) req (svServiceInfo s))
         (\<lambda>_. \<lparr>status = 204, content = NoBody\<rparr>) w1 = (Ok resp, w')"
proof -
  note keeps = http_lawsD(1) [OF assms(1)]
  from assms(2) show thesis
    unfolding handleSetQuota_def
  proof (cases rule: authorised_cases)
    case refused
    with that(1) show thesis by (simp add: httpError_def)
  next
    case (denied c resp')
    with that(1) keeps http_lawsD(2) [OF assms(1) denied(2)] show thesis by auto
  next
    case (granted c)
    show thesis
    proof (cases "decodeQuota h (rqBody r)")
      case (Inl e)
      with granted(4) that(1) keeps show thesis
        by (auto simp: decoded_def requireJSON_def io_simps httpError_def)
    next
      case (Inr req)
      with granted(4) show thesis
        by (intro that(2) [OF Inr keeps]) (simp add: decoded_def requireJSON_def)
    qed
  qed
qed

text \<open>The errors of \<open>CreateOrPatch\<close> are those of the client or of the mutation.\<close>

definition plain_errors :: "('k \<Rightarrow> ('w, 'o) mutation) \<Rightarrow> bool" where
  "plain_errors op \<longleftrightarrow> (\<forall>key f w e w'. op key f w = (Err e, w') \<longrightarrow> (\<exists>x. e = External x) \<or> (\<exists>y. f y = Err e))"

lemma plain_quota_errors:
  assumes "plain_errors (upsert_quota k)" and "upsert_quota k key (mutateSetQuota q) w = (Err e, w')"
  shows "\<exists>x. e = External x"
  using assms unfolding plain_errors_def by (metis mutateSetQuota_eq outcome.distinct(1))

lemma set_quota_errors:
  assumes "plain_errors (upsert_quota k)" and "SetQuota k l p req si w = (Err e, w')"
  shows "(\<exists>c args x. e = Wrapf (LiquidPkg (WithStatus c)) args x) \<or> customStatusOf e = None"
  using assms(2) plain_quota_errors [OF assms(1)]
  by (fastforce simp: SetQuota_def io_simps Let_def customStatus_def split: outcome_splits)

lemma set_quota_response:
  assumes laws: "liquid_laws view k" "http_laws view h" "plain_errors (upsert_quota k)"
    and "respond h (SetQuota k l p req si) (\<lambda>_. \<lparr>status = 204, content = NoBody\<rparr>) w = (Ok resp, w')"
  defines "ns \<equiv> GetGardenerProjectNamespaceName (logicRegion l) p"
  shows "status resp = 204 \<and> (\<exists>q rq. req clusters = Some q \<and> quotas (view w) (ns, ResourceQuotaName) = Some rq \<and>
        view w' = withQuota ns (quotaSet q rq) (view w)) \<or>
     status resp = 400 \<and> view w' = view w \<and> req clusters = None \<or>
     status resp = 422 \<and> view w' = view w \<and>
        (namespaces (view w) ns = None \<or> quotas (view w) (ns, ResourceQuotaName) = None) \<or>
     status resp = 500"
proof -
  obtain x w1 where run: "SetQuota k l p req si w = (x, w1)" by fastforce
  note outcome = wpD [OF set_quota_outcome [OF laws(1)] run, folded ns_def]
  show ?thesis
  proof (cases x)
    case (Ok u)
    with assms(4) run outcome show ?thesis by (auto simp: respond_run)
  next
    case (Err e)
    with assms(4) run have resp: "resp = errorText h e" "w' = w1" by (simp_all add: respond_run)
    from set_quota_errors [OF laws(3) run [unfolded Err]] show ?thesis
    proof
      assume "customStatusOf e = None"
      then show ?thesis by (simp add: resp http_lawsD(3) [OF laws(2)])
    next
      assume "\<exists>c args x. e = Wrapf (LiquidPkg (WithStatus c)) args x"
      then obtain c args y where "e = Wrapf (LiquidPkg (WithStatus c)) args y" by blast
      with outcome Err show ?thesis by (auto simp: resp http_lawsD(3) [OF laws(2)])
    qed
  next
    case (Panicked q)
    with outcome show ?thesis by simp
  qed
qed

text \<open>C32. The status codes of a quota request: 204 says that the project's quota now has the requested
  value (capped) and nothing else has changed; 400, 401, 403 and 422 say that nothing has changed, 422
  that the project has no namespace or no quota object; the only other status is 500.\<close>

theorem quota_request_status:
  assumes "liquid_laws view k" "http_laws view h" "plain_errors (upsert_quota k)"
    and "handleSetQuota k h s r [''project_id'' \<mapsto> p] w = (Ok resp, w')"
  defines "ns \<equiv> GetGardenerProjectNamespaceName (logicRegion (svLogic s)) p"
  shows "status resp \<in> {204, 400, 401, 403, 422, 500} \<and>
    (status resp = 204 \<longrightarrow> (\<exists>req q rq. decodeQuota h (rqBody r) = Inr req \<and> req clusters = Some q \<and>
       quotas (view w) (ns, ResourceQuotaName) = Some rq \<and> view w' = withQuota ns (quotaSet q rq) (view w))) \<and>
    (status resp \<notin> {204, 500} \<longrightarrow> view w' = view w) \<and>
    (status resp = 422 \<longrightarrow> namespaces (view w) ns = None \<or> quotas (view w) (ns, ResourceQuotaName) = None)"
  using assms(2,4)
proof (cases rule: handle_set_quota_cases)
  case refused
  then show ?thesis by auto
next
  case (ran req w1)
  then show ?thesis
    using set_quota_response [OF assms(1-3), of "svLogic s" p req "svServiceInfo s" w1 resp w']
    unfolding ns_def by fastforce
qed

lemma sim_plain_errors: "plain_errors (upsert_quota simKube)"
  by (auto simp: plain_errors_def simKube_def simUpsert_def simCall_def
      split: prod.splits sum.splits outcome.splits list.splits if_splits)

theorem quota_request_status_witness:
  "\<exists>req q rq. decodeQuota sampleHttp (rqBody (quotaRequest ''[3]'')) = Inr req \<and> req clusters = Some q \<and>
     quotas (simView (quotaSim [])) (sampleNs, ResourceQuotaName) = Some rq"
proof -
  have ns: "GetGardenerProjectNamespaceName (logicRegion (svLogic sampleServer)) sampleProject = sampleNs"
    by (simp add: sampleServer_def sampleLogic_def sampleNs_def)
  from quota_request_status [OF sim_liquid_laws sample_http_laws sim_plain_errors sample_put_run]
  show ?thesis unfolding ns by auto
qed

lemma put_effect:
  assumes "liquid_laws view k" "http_laws view h" "plain_errors (upsert_quota k)"
    and "handleSetQuota k h s r [''project_id'' \<mapsto> p] w = (Ok resp, w')" and "status resp = 204"
  defines "ns \<equiv> GetGardenerProjectNamespaceName (logicRegion (svLogic s)) p"
  obtains req q rq where "decodeQuota h (rqBody r) = Inr req" "req clusters = Some q"
    "view w' = withQuota ns (quotaSet q rq) (view w)" "namespaces (view w) ns \<noteq> None"
  using assms(2,4)
proof (cases rule: handle_set_quota_cases)
  case refused
  with assms(5) show thesis by simp
next
  case (ran req w1)
  obtain x w2 where run: "SetQuota k (svLogic s) p req (svServiceInfo s) w1 = (x, w2)" by fastforce
  note outcome = wpD [OF set_quota_outcome [OF assms(1)] run, folded ns_def]
  from ran(3) have resp: "respond h (SetQuota k (svLogic s) p req (svServiceInfo s))
      (\<lambda>_. \<lparr>status = 204, content = NoBody\<rparr>) w1 = (Ok resp, w')" by simp
  show thesis
  proof (cases x)
    case (Ok u)
    with resp run outcome ran(1,2) that show thesis by (auto simp: respond_run)
  next
    case (Err e)
    with resp run have "resp = errorText h e" by (simp add: respond_run)
    with assms(5) http_lawsD(3) [OF assms(2), of e] have "customStatusOf e = Some 204"
      by (simp split: option.splits)
    with set_quota_errors [OF assms(3) run [unfolded Err]] outcome Err show thesis by auto
  next
    case (Panicked q)
    with outcome show thesis by simp
  qed
qed

lemma report_effect:
  assumes "liquid_laws view k" "http_laws view h"
    and "handleReportUsage k h s r [''project_id'' \<mapsto> p] w = (Ok resp, w')" and "content resp = UsageBody report"
  shows "\<exists>w1 w2. view w1 = view w \<and> ScanUsage k (svLogic s) p (svServiceInfo s) w1 = (Ok report, w2)"
  using assms(3) unfolding handleReportUsage_def
proof (cases rule: authorised_cases)
  case refused
  with assms(4) show ?thesis by (simp add: httpError_def)
next
  case (denied c resp')
  with assms(4) http_lawsD(4) [OF assms(2) denied(2)] show ?thesis by simp
next
  case (granted c)
  let ?w1 = "snd (checkCredentials h c (rqToken r) w)"
  show ?thesis
  proof (cases "decodeUsage h (rqBody r)")
    case (Inl e)
    with granted(4) assms(4) show ?thesis
      by (auto simp: decoded_def requireJSON_def io_simps httpError_def)
  next
    case (Inr u)
    with granted(4) have run: "respond h (ScanUsage k (svLogic s) p (svServiceInfo s))
        (\<lambda>report. \<lparr>status = 200, content = UsageBody report\<rparr>) ?w1 = (Ok resp, w')"
      by (simp add: decoded_def requireJSON_def)
    obtain x w2 where scan: "ScanUsage k (svLogic s) p (svServiceInfo s) ?w1 = (x, w2)" by fastforce
    have "x = Ok report"
      using run assms(4) http_lawsD(5) [OF assms(2)] by (cases x) (auto simp: respond_run scan)
    with scan http_lawsD(1) [OF assms(2)] show ?thesis by blast
  qed
qed

text \<open>C20. What was set is what is reported: if a quota request for a project is answered with 204, then a
  usage report that the server gives for that project, while nobody changes the cluster in between, shows the
  project as not forbidden with exactly the requested quota, capped at the largest \<open>int64\<close>.\<close>

theorem quota_put_then_reported:
  assumes "liquid_laws view k" "http_laws view h" "plain_errors (upsert_quota k)"
    and "handleSetQuota k h s r1 [''project_id'' \<mapsto> p] w1 = (Ok resp1, w2)" and "status resp1 = 204"
    and "view w3 = view w2"
    and "handleReportUsage k h s r2 [''project_id'' \<mapsto> p] w3 = (Ok resp2, w4)"
    and "content resp2 = UsageBody report"
  shows "\<exists>req q rep. decodeQuota h (rqBody r1) = Inr req \<and> req clusters = Some q \<and>
     surResources report clusters = Some rep \<and> \<not> Forbidden rep \<and> Quota rep = Some (min q max_int64)"
proof -
  let ?ns = "GetGardenerProjectNamespaceName (logicRegion (svLogic s)) p"
  obtain req q rq where put: "decodeQuota h (rqBody r1) = Inr req" "req clusters = Some q"
    "view w2 = withQuota ?ns (quotaSet q rq) (view w1)" "namespaces (view w1) ?ns \<noteq> None"
    using put_effect [OF assms(1-5)] .
  obtain w5 w6 where scan: "view w5 = view w3"
    "ScanUsage k (svLogic s) p (svServiceInfo s) w5 = (Ok report, w6)"
    using report_effect [OF assms(1,2,7,8)] by blast
  have "view w5 = withQuota ?ns (quotaSet q rq) (view w1)"
    using scan(1) assms(6) put(3) by simp
  then have "namespaces (view w5) ?ns \<noteq> None"
    and "quotas (view w5) (?ns, ResourceQuotaName) = Some (quotaSet q rq)"
    using put(4) by (simp_all add: withQuota_def)
  with wpD [OF scan_usage_outcome [OF assms(1)] scan(2)]
  have "report = usageReport (siVersion (svServiceInfo s)) (quotaSet q rq)" by auto
  with put(1,2) show ?thesis by (simp add: usageReport_def)
qed

theorem quota_put_then_reported_witness:
  "\<exists>report rep. (\<exists>w. handleReportUsage simKube sampleHttp sampleServer usageRequest [''project_id'' \<mapsto> sampleProject]
        (snd (handleSetQuota simKube sampleHttp sampleServer (quotaRequest ''[3]'')
           [''project_id'' \<mapsto> sampleProject] (quotaSim []))) =
      (Ok \<lparr>status = 200, content = UsageBody report\<rparr>, w)) \<and>
     surResources report clusters = Some rep \<and> Quota rep = Some (min 3 max_int64)"
proof -
  let ?w2 = "snd (SetQuota simKube sampleLogic sampleProject [clusters \<mapsto> 3] sampleInfo (quotaSim []))"
  have "\<exists>report w4. ScanUsage simKube sampleLogic sampleProject sampleInfo ?w2 = (Ok report, w4)"
    by (simp add: SetQuota_def ScanUsage_def quota_sim_simps mutateSetQuota_eq)
  then obtain report w4 where "ScanUsage simKube sampleLogic sampleProject sampleInfo ?w2 = (Ok report, w4)"
    by blast
  then have run: "handleReportUsage simKube sampleHttp sampleServer usageRequest
      [''project_id'' \<mapsto> sampleProject] ?w2 = (Ok \<lparr>status = 200, content = UsageBody report\<rparr>, w4)"
    by (simp add: handleReportUsage_def sample_http_simps usageRequest_def decoded_def requireJSON_def
        respond_run)
  from quota_put_then_reported [OF sim_liquid_laws sample_http_laws sim_plain_errors sample_put_run _ refl run]
  have "\<exists>req q rep. decodeQuota sampleHttp (rqBody (quotaRequest ''[3]'')) = Inr req \<and> req clusters = Some q \<and>
     surResources report clusters = Some rep \<and> \<not> Forbidden rep \<and> Quota rep = Some (min q max_int64)" by simp
  moreover have "decodeQuota sampleHttp (rqBody (quotaRequest ''[3]'')) = Inr [clusters \<mapsto> 3]"
    by (simp add: sampleHttp_def quotaRequest_def)
  ultimately show ?thesis using run unfolding sample_put_run by auto
qed


end
