(* ===== verification/Rfc3339.thy ===== *)
theory Rfc3339
  imports Go_Time Prelude
begin

section \<open>Timestamps in RFC 3339 form\<close>

text \<open>
  \<open>t.UTC().Format(time.RFC3339)\<close> and \<open>time.Parse(time.RFC3339, s)\<close> of Go's package time: the
  expiration of a credential travels through an annotation in this form. Formatting drops the
  fraction of a second; parsing accepts a fraction, a one-digit hour and a zone offset, as Go's
  does. The years 0 to 9999 have the four-digit form.
\<close>

subsection \<open>The calendar\<close>

text \<open>Days since the epoch to year, month, day; a year here starts in March.\<close>

definition civil_of_days :: "int \<Rightarrow> int \<times> int \<times> int" where
  "civil_of_days d =
     (let z = d + 719468; era = z div 146097; doe = z mod 146097;
          c = min 3 (doe div 36524); r = doe - c * 36524;
          q = r div 1461; s = r - q * 1461;
          a = min 3 (s div 365); doy = s - a * 365;
          mp = (5 * doy + 2) div 153;
          month = (if mp < 10 then mp + 3 else mp - 9)
      in (era * 400 + c * 100 + q * 4 + a + (if month \<le> 2 then 1 else 0), month,
          doy - (153 * mp + 2) div 5 + 1))"

definition days_of_civil :: "int \<Rightarrow> int \<Rightarrow> int \<Rightarrow> int" where
  "days_of_civil y m d =
     (let y' = (if m \<le> 2 then y - 1 else y); yoe = y' mod 400;
          mp = (if m > 2 then m - 3 else m + 9);
          doy = (153 * mp + 2) div 5 + d - 1
      in y' div 400 * 146097 + (yoe * 365 + yoe div 4 - yoe div 100 + doy) - 719468)"

definition leap_year :: "int \<Rightarrow> bool" where
  "leap_year y = (y mod 4 = 0 \<and> (y mod 100 \<noteq> 0 \<or> y mod 400 = 0))"

definition days_in_month :: "int \<Rightarrow> int \<Rightarrow> int" where
  "days_in_month y m = (if m = 2 then (if leap_year y then 29 else 28)
     else if m \<in> {4, 6, 9, 11} then 30 else 31)"

subsection \<open>Formatting\<close>

definition pad :: "nat \<Rightarrow> nat \<Rightarrow> string" where
  "pad n k = replicate (n - length (format_nat k)) (CHR ''0'') @ format_nat k"

definition formatRFC3339 :: "time \<Rightarrow> string" where
  "formatRFC3339 t =
     (let secs = t div second; (y, m, d) = civil_of_days (secs div 86400); s = secs mod 86400
      in pad 4 (nat y) @ ''-'' @ pad 2 (nat m) @ ''-'' @ pad 2 (nat d) @ ''T'' @
         pad 2 (nat (s div 3600)) @ '':'' @ pad 2 (nat (s div 60 mod 60)) @ '':'' @
         pad 2 (nat (s mod 60)) @ ''Z'')"

subsection \<open>Parsing\<close>

definition is_digit :: "char \<Rightarrow> bool" where
  "is_digit c = ((of_char c :: nat) \<in> {48..57})"

definition take_digits :: "nat \<Rightarrow> string \<Rightarrow> (int \<times> string) option" where
  "take_digits n s =
     (if n \<le> length s \<and> list_all is_digit (take n s)
      then Some (int (parse_nat (take n s)), drop n s) else None)"

text \<open>One or two digits.\<close>

definition take_hour :: "string \<Rightarrow> (int \<times> string) option" where
  "take_hour s = (case take_digits 2 s of None \<Rightarrow> take_digits 1 s | r \<Rightarrow> r)"

fun expect :: "char \<Rightarrow> string \<Rightarrow> string option" where
  "expect c [] = None"
| "expect c (x # xs) = (if x = c then Some xs else None)"

text \<open>An optional fraction, in nanoseconds; digits after the ninth are dropped.\<close>

definition take_fraction :: "string \<Rightarrow> int \<times> string" where
  "take_fraction s =
     (case s of
        x # y # _ \<Rightarrow>
          if (x = CHR ''.'' \<or> x = CHR '','') \<and> is_digit y
          then (let ds = takeWhile is_digit (tl s)
                in (int (parse_nat (take 9 (ds @ replicate 9 (CHR ''0'')))), dropWhile is_digit (tl s)))
          else (0, s)
      | _ \<Rightarrow> (0, s))"

text \<open>The zone, as the offset from UTC in seconds; nothing may follow it.\<close>

definition take_zone :: "string \<Rightarrow> int option" where
  "take_zone s =
     (if s = ''Z'' then Some 0
      else case s of
        [] \<Rightarrow> None
      | x # r \<Rightarrow>
          if x = CHR ''+'' \<or> x = CHR ''-'' then
            Option.bind (take_digits 2 r) (\<lambda>(hh, r).
            Option.bind (expect (CHR '':'') r) (\<lambda>r.
            Option.bind (take_digits 2 r) (\<lambda>(mm, r).
              if r = [] \<and> hh \<le> 24 \<and> mm \<le> 60
              then Some ((if x = CHR ''-'' then - 1 else 1) * (hh * 3600 + mm * 60))
              else None)))
          else None)"

definition parseFields :: "string \<Rightarrow> time option" where
  "parseFields s =
     Option.bind (take_digits 4 s) (\<lambda>(y, r). Option.bind (expect (CHR ''-'') r) (\<lambda>r.
     Option.bind (take_digits 2 r) (\<lambda>(m, r). Option.bind (expect (CHR ''-'') r) (\<lambda>r.
     Option.bind (take_digits 2 r) (\<lambda>(d, r). Option.bind (expect (CHR ''T'') r) (\<lambda>r.
     Option.bind (take_hour r) (\<lambda>(hh, r). Option.bind (expect (CHR '':'') r) (\<lambda>r.
     Option.bind (take_digits 2 r) (\<lambda>(mi, r). Option.bind (expect (CHR '':'') r) (\<lambda>r.
     Option.bind (take_digits 2 r) (\<lambda>(ss, r).
       let (ns, r) = take_fraction r in
       Option.bind (take_zone r) (\<lambda>off.
         if 1 \<le> m \<and> m \<le> 12 \<and> 1 \<le> d \<and> d \<le> days_in_month y m \<and> hh < 24 \<and> mi < 60 \<and> ss < 60
         then Some ((days_of_civil y m d * 86400 + hh * 3600 + mi * 60 + ss - off) * second + ns)
         else None))))))))))))"

definition parseRFC3339 :: "string \<Rightarrow> ext_error + time" where
  "parseRFC3339 s = (case parseFields s of
     Some t \<Rightarrow> Inr t | None \<Rightarrow> Inl (OtherError (''parsing time '' @ s)))"

subsection \<open>The round trip\<close>

lemma civil_parts:
  fixes d :: int
  defines "doe \<equiv> (d + 719468) mod 146097"
  defines "c \<equiv> min 3 (doe div 36524)"
  defines "r \<equiv> doe - c * 36524"
  defines "q \<equiv> r div 1461"
  defines "s \<equiv> r - q * 1461"
  defines "a \<equiv> min 3 (s div 365)"
  defines "doy \<equiv> s - a * 365"
  shows "0 \<le> c" "c \<le> 3" "0 \<le> q" "q \<le> 24" "0 \<le> a" "a \<le> 3" "0 \<le> doy" "doy \<le> 365"
    and "doe = c * 36524 + q * 1461 + a * 365 + doy"
    and "doy = 365 \<Longrightarrow> a = 3 \<and> (q = 24 \<longrightarrow> c = 3)"
proof -
  have doe: "0 \<le> doe" "doe \<le> 146096" using pos_mod_bound [of 146097 "d + 719468"] by (simp_all add: doe_def)
  show c: "0 \<le> c" "c \<le> 3" using doe by (auto simp: c_def)
  have r: "0 \<le> r" "r \<le> 36524" "c < 3 \<Longrightarrow> r \<le> 36523" using doe by (auto simp: r_def c_def min_def)
  show q: "0 \<le> q" "q \<le> 24" using r by (auto simp: q_def)
  have s: "0 \<le> s" "s \<le> 1460" "q = 24 \<Longrightarrow> c < 3 \<Longrightarrow> s \<le> 1459" using r by (auto simp: s_def q_def)
  show a: "0 \<le> a" "a \<le> 3" using s by (auto simp: a_def)
  show "0 \<le> doy" "doy \<le> 365" using s by (auto simp: doy_def a_def min_def)
  show "doe = c * 36524 + q * 1461 + a * 365 + doy" by (simp add: doy_def s_def r_def)
  show "doy = 365 \<Longrightarrow> a = 3 \<and> (q = 24 \<longrightarrow> c = 3)"
    using s a c by (cases "c < 3") (auto simp: doy_def a_def min_def split: if_splits)
qed

text \<open>The months of a year that starts in March.\<close>

lemma march_month:
  fixes doy :: int
  assumes "0 \<le> doy" "doy \<le> 365"
  defines "mp \<equiv> (5 * doy + 2) div 153"
  defines "day \<equiv> doy - (153 * mp + 2) div 5 + 1"
  shows "0 \<le> mp" "mp \<le> 11" "1 \<le> day" "day \<le> 31"
    and "mp \<in> {1, 3, 6, 8} \<Longrightarrow> day \<le> 30"
    and "mp = 11 \<Longrightarrow> day \<le> 29" and "mp = 11 \<Longrightarrow> day = 29 \<Longrightarrow> doy = 365"
    and "doy \<le> 305 \<Longrightarrow> mp \<le> 9"
proof -
  show m: "0 \<le> mp" "mp \<le> 11" using assms(1,2) by (simp_all add: mp_def)
  have b: "153 * mp \<le> 5 * doy + 2" "5 * doy + 2 < 153 * mp + 153" by (simp_all add: mp_def)
  have "mp \<in> {0, 1, 2, 3, 4, 5, 6, 7, 8, 9, 10, 11}"
    using m by (simp only: insert_iff empty_iff) arith
  then show "1 \<le> day" "day \<le> 31" "mp \<in> {1, 3, 6, 8} \<Longrightarrow> day \<le> 30" "mp = 11 \<Longrightarrow> day \<le> 29"
    "mp = 11 \<Longrightarrow> day = 29 \<Longrightarrow> doy = 365"
    using b assms(2) by (auto simp: day_def)
  show "doy \<le> 305 \<Longrightarrow> mp \<le> 9" by (simp add: mp_def)
qed

lemma civil_of_days_props:
  assumes "civil_of_days d = (y, m, dd)"
  shows "days_of_civil y m dd = d" and "1 \<le> m" "m \<le> 12" "1 \<le> dd" "dd \<le> days_in_month y m"
    and "0 \<le> d \<Longrightarrow> d \<le> 2932896 \<Longrightarrow> 0 \<le> y \<and> y \<le> 9999"
proof -
  define z where "z = d + 719468"
  define era where "era = z div 146097"
  define doe where "doe = z mod 146097"
  define c where "c = min 3 (doe div 36524)"
  define r where "r = doe - c * 36524"
  define q where "q = r div 1461"
  define s where "s = r - q * 1461"
  define a where "a = min 3 (s div 365)"
  define doy where "doy = s - a * 365"
  define mp where "mp = (5 * doy + 2) div 153"
  note parts = civil_parts [of d, folded z_def, folded doe_def, folded c_def, folded r_def,
      folded q_def, folded s_def, folded a_def, folded doy_def]
  note month = march_month [OF parts(7,8), folded mp_def]
  define Y where "Y = c * 100 + q * 4 + a"
  have Y: "0 \<le> Y" "Y \<le> 399" using parts by (simp_all add: Y_def)
  have "civil_of_days d =
      (era * 400 + c * 100 + q * 4 + a + (if (if mp < 10 then mp + 3 else mp - 9) \<le> 2 then 1 else 0),
       if mp < 10 then mp + 3 else mp - 9, doy - (153 * mp + 2) div 5 + 1)"
    unfolding civil_of_days_def Let_def mp_def doy_def a_def s_def q_def r_def c_def doe_def era_def
      z_def by (rule refl)
  with assms month(1,2) have m: "m = (if mp < 10 then mp + 3 else mp - 9)"
    and y: "y = era * 400 + Y + (if mp < 10 then 0 else 1)"
    and dd: "dd = doy - (153 * mp + 2) div 5 + 1"
    by (auto simp: Y_def)
  show "1 \<le> m" "m \<le> 12" "1 \<le> dd" using month by (auto simp: m dd)
  have z: "z = era * 146097 + doe" by (simp add: era_def doe_def)
  have "Y div 4 = 25 * c + q" "Y div 100 = c" using parts by (simp_all add: Y_def)
  then have doe: "Y * 365 + Y div 4 - Y div 100 + doy = doe"
    using parts(9) by (simp add: Y_def)
  have "(if m \<le> 2 then y - 1 else y) = era * 400 + Y" "(if m > 2 then m - 3 else m + 9) = mp"
    using month by (auto simp: m y)
  then show "days_of_civil y m dd = d"
    using Y doe z by (simp add: days_of_civil_def Let_def dd z_def)
  have leap: "leap_year y" if "doy = 365" "mp = 11"
  proof (cases "q = 24")
    case True
    with parts(10) that have "y = (era + 1) * 400" by (simp add: y Y_def)
    then show ?thesis by (simp add: leap_year_def)
  next
    case False
    with parts that have y4: "y = 4 * ((era * 4 + c) * 25 + q + 1)"
      and y100: "y = (q * 4 + 4) + (era * 4 + c) * 100" and "0 < q * 4 + 4" "q * 4 + 4 < 100"
      by (simp_all add: y Y_def)
    moreover have "y mod 100 = (q * 4 + 4) mod 100" unfolding y100 by (rule mod_mult_self1)
    moreover have "y mod 4 = 0" unfolding y4 by (rule mod_mult_self1_is_0)
    ultimately have "0 < q * 4 + 4" "y mod 100 = q * 4 + 4" "y mod 4 = 0" by simp_all
    then show ?thesis by (simp add: leap_year_def)
  qed
  show "dd \<le> days_in_month y m"
  proof (cases "mp = 11")
    case True
    then have "days_in_month y m = (if leap_year y then 29 else 28)" and dd29: "dd \<le> 29"
      using month(6) by (simp_all add: m dd days_in_month_def)
    moreover have "leap_year y" if "dd = 29"
      by (rule leap) (use month(7) that True in \<open>simp_all only: dd\<close>)
    ultimately show ?thesis using dd29 by (cases "dd = 29") auto
  next
    case False
    then have "m \<noteq> 2" using month(1) by (simp add: m)
    moreover have "m \<in> {4, 6, 9, 11} \<longleftrightarrow> mp \<in> {1, 3, 6, 8}"
      using month(1,2) by (auto simp: m)
    ultimately show ?thesis using month(4,5) by (auto simp: days_in_month_def dd)
  qed
  show "0 \<le> y \<and> y \<le> 9999" if d: "0 \<le> d" "d \<le> 2932896"
  proof -
    have "0 \<le> era" "era \<le> 24" using d by (simp_all add: era_def z_def)
    moreover have "doy \<le> 305" if "era = 24" "Y = 399"
    proof -
      have "doe \<le> 146036" using z d that by (simp add: z_def)
      moreover have "c * 100 + q * 4 + a = 399" using that(2) by (simp add: Y_def)
      with parts(2,4,6) have "c = 3" "q = 24" "a = 3" by linarith+
      ultimately show ?thesis using parts(9) by simp
    qed
    ultimately show ?thesis using Y month(8) by (cases "era = 24 \<and> Y = 399") (auto simp: y)
  qed
qed

text \<open>Fixed-width decimal numbers.\<close>

lemma is_digit_char [simp]: "d < 10 \<Longrightarrow> is_digit (digit_char d)"
  by (simp add: is_digit_def)

lemma is_digit_zero [simp]: "is_digit (CHR ''0'')"
  by (simp add: is_digit_def)

lemma format_nat_all_digits: "list_all is_digit (format_nat n)"
  by (auto simp: list_all_iff dest: format_nat_digits)

lemma parse_nat_zeros: "parse_nat (replicate m (CHR ''0'') @ s) = parse_nat s"
  by (induction m) (simp_all add: parse_nat_def)

lemma length_format_nat: "0 < w \<Longrightarrow> n < 10 ^ w \<Longrightarrow> length (format_nat n) \<le> w"
proof (induction w arbitrary: n)
  case (Suc w)
  show ?case
  proof (cases "n < 10")
    case True
    then show ?thesis by (subst format_nat.simps) simp
  next
    case False
    then have "n div 10 < 10 ^ w" using Suc.prems by (simp add: less_mult_imp_div_less mult.commute)
    moreover have "0 < w" using False Suc.prems by (cases w) simp_all
    ultimately have "length (format_nat (n div 10)) \<le> w" by (rule Suc.IH [rotated])
    with False show ?thesis by (subst format_nat.simps) simp
  qed
qed simp

lemma pad_props:
  assumes "0 < w" "n < 10 ^ w"
  shows "length (pad w n) = w" "list_all is_digit (pad w n)" "parse_nat (pad w n) = n"
  using length_format_nat [OF assms]
    format_nat_all_digits [of n]
  by (auto simp: pad_def parse_nat_zeros parse_format_nat list_all_iff)

lemma take_pad:
  assumes "0 < w" "n < 10 ^ w"
  shows "take_digits w (pad w n @ r) = Some (int n, r)"
  using pad_props [OF assms] by (simp add: take_digits_def)

lemma take_pad_int:
  assumes "0 < w" "0 \<le> i" "i < 10 ^ w"
  shows "take_digits w (pad w (nat i) @ r) = Some (i, r)"
proof -
  have "nat i < 10 ^ w" using assms(2,3) by (simp add: nat_less_iff)
  from take_pad [OF assms(1) this] assms(2) show ?thesis by simp
qed

lemma zone_Z [simp]: "take_fraction ''Z'' = (0, ''Z'')" "take_zone ''Z'' = Some 0"
  by (simp_all add: take_fraction_def take_zone_def)

lemma clock_parts:
  fixes s :: int
  assumes "0 \<le> s" "s < 86400"
  shows "0 \<le> s div 3600" "s div 3600 < 24" "0 \<le> s div 60 mod 60" "s div 60 mod 60 < 60"
    "0 \<le> s mod 60" "s mod 60 < 60"
    and "s div 3600 * 3600 + s div 60 mod 60 * 60 + s mod 60 = s"
proof -
  show "0 \<le> s div 3600" "s div 3600 < 24" "0 \<le> s div 60 mod 60" "s div 60 mod 60 < 60"
    "0 \<le> s mod 60" "s mod 60 < 60" using assms by simp_all
  have "s div 60 div 60 = s div 3600" using zdiv_zmult2_eq [of 60 s 60] by simp
  then show "s div 3600 * 3600 + s div 60 mod 60 * 60 + s mod 60 = s"
    using div_mult_mod_eq [of "s div 60" 60] div_mult_mod_eq [of s 60] by linarith
qed

text \<open>
  The parsed value of a formatted instant is the instant without its fraction of a second, for the
  instants from 1970 to 9999.
\<close>

lemma parse_format_rfc3339:
  assumes "0 \<le> t" "t < 253402300800 * second"
  shows "parseRFC3339 (formatRFC3339 t) = Inr (t div second * second)"
proof -
  let ?secs = "t div second"
  have secs: "0 \<le> ?secs" "?secs < 253402300800"
    using assms by (simp_all add: second_def pos_imp_zdiv_nonneg_iff)
  obtain y m d where civil: "civil_of_days (?secs div 86400) = (y, m, d)"
    by (cases "civil_of_days (?secs div 86400)") auto
  define s where "s = ?secs mod 86400"
  note props = civil_of_days_props [OF civil]
  have y: "0 \<le> y" "y \<le> 9999" using props(6) secs by simp_all
  have d31: "d \<le> 31" using props(5) by (simp add: days_in_month_def split: if_splits)
  have "0 \<le> s" "s < 86400" by (simp_all add: s_def)
  note hms = clock_parts [OF this]
  have secs_split: "?secs div 86400 * 86400 + s = ?secs" unfolding s_def by (rule div_mult_mod_eq)
  define hh mi ss where "hh = s div 3600" and "mi = s div 60 mod 60" and "ss = s mod 60"
  note hms = hms [folded hh_def mi_def ss_def]
  have digits:
    "take_digits 4 (pad 4 (nat y) @ r) = Some (y, r)" "take_digits 2 (pad 2 (nat m) @ r) = Some (m, r)"
    "take_digits 2 (pad 2 (nat d) @ r) = Some (d, r)"
    "take_hour (pad 2 (nat hh) @ r) = Some (hh, r)"
    "take_digits 2 (pad 2 (nat mi) @ r) = Some (mi, r)"
    "take_digits 2 (pad 2 (nat ss) @ r) = Some (ss, r)" for r
    using y props(2-5) d31 hms by (simp_all add: take_pad_int take_hour_def)
  have "formatRFC3339 t = pad 4 (nat y) @ ''-'' @ pad 2 (nat m) @ ''-'' @ pad 2 (nat d) @ ''T'' @
      pad 2 (nat hh) @ '':'' @ pad 2 (nat mi) @ '':'' @ pad 2 (nat ss) @ ''Z''"
    unfolding formatRFC3339_def Let_def civil prod.case hh_def mi_def ss_def s_def by (rule refl)
  then have "parseFields (formatRFC3339 t) = Some
      ((days_of_civil y m d * 86400 + hh * 3600 + mi * 60 + ss) * second)"
    using props(2-5) hms by (simp add: parseFields_def digits)
  moreover have "days_of_civil y m d * 86400 + hh * 3600 + mi * 60 + ss = ?secs"
    using hms(7) secs_split unfolding props(1) by linarith
  ultimately show ?thesis by (simp only: parseRFC3339_def option.case)
qed

end
