(* ===== verification/Credentials.thy ===== *)
theory Credentials
  imports Cluster Labels Names Rfc3339 OpenStack
begin

section \<open>Application credentials as cluster objects\<close>

text \<open>
  \<open>ApplicationCredentialsInternalSecret\<close> and \<open>CredentialsBindingForSecret\<close> of
  \<open>internal/kubernetes/gardener.go\<close> and the two functions of \<open>internal/kubernetes/credentials.go\<close>
  that create these objects for a shoot. The keys of the secret's data are constants of the Gardener
  extension for OpenStack.
\<close>

subsection \<open>The model\<close>

definition DomainNameKey :: string where "DomainNameKey = ''domainName''"
definition TenantNameKey :: string where "TenantNameKey = ''tenantName''"
definition CredentialIDKey :: string where "CredentialIDKey = ''applicationCredentialID''"
definition CredentialSecretKey :: string where "CredentialSecretKey = ''applicationCredentialSecret''"

definition ApplicationCredentialsInternalSecret ::
    "Shoot \<Rightarrow> OpenStackUserInfo \<Rightarrow> ApplicationCredential \<Rightarrow> InternalSecret" where
  "ApplicationCredentialsInternalSecret shoot u applicationCredential =
     \<lparr>isName = GetApplicationCredentialInternalSecretName (ProjectID u) (shName shoot)
                 (acName applicationCredential),
      isNamespace = shNamespace shoot,
      isUID = [], isCreationTimestamp = zero_time, isDeletionTimestamp = None, isFinalizers = [],
      isAnnotations = [AnnotationKeyExpiresAt \<mapsto> formatRFC3339 (acExpiresAt applicationCredential)],
      isLabels =
        [LabelKeyOpenStackDomainID \<mapsto> ProjectDomainID u,
         LabelKeyOpenStackDomainName \<mapsto> sanitizeLabelValue (ProjectDomainName u),
         LabelKeyOpenStackProjectID \<mapsto> ProjectID u,
         LabelKeyOpenStackProjectName \<mapsto> sanitizeLabelValue (ProjectName u),
         LabelKeyOpenStackRegion \<mapsto> Region u,
         LabelKeyShootName \<mapsto> shName shoot],
      isType = ''Opaque'',
      isImmutable = Some True,
      isStringData =
        [DomainNameKey \<mapsto> ProjectDomainName u,
         TenantNameKey \<mapsto> ProjectName u,
         CredentialIDKey \<mapsto> acID applicationCredential,
         CredentialSecretKey \<mapsto> acSecret applicationCredential],
      isData = Map.empty\<rparr>"

definition CredentialsBindingForSecret :: "Shoot \<Rightarrow> InternalSecret \<Rightarrow> CredentialsBinding" where
  "CredentialsBindingForSecret shoot internalSecret =
     \<lparr>cbName = isName internalSecret,
      cbNamespace = shNamespace shoot, cbDeletionTimestamp = None, cbFinalizers = [],
      cbProviderType = GardenerProviderType,
      cbCredentialsRef =
        \<lparr>orAPIVersion = ''core.gardener.cloud/v1beta1'', orKind = ''InternalSecret'',
         orName = isName internalSecret, orNamespace = shNamespace shoot\<rparr>\<rparr>"

text \<open>How \<open>client.ObjectKey\<close> prints.\<close>

definition printKey :: "string \<times> string \<Rightarrow> string" where
  "printKey k = fst k @ ''/'' @ snd k"

definition EnsureApplicationCredentialInternalSecretForShoot ::
    "'w kube \<Rightarrow> 'w cloud \<Rightarrow> ClusterUserClientSet \<Rightarrow> Shoot \<Rightarrow> OpenStackUserInfo \<Rightarrow>
     ('w, InternalSecret) io" where
  "EnsureApplicationCredentialInternalSecretForShoot k os userClients shoot u =
     bindE (readE (clock_now os)) (\<lambda>t.
     bindE (wrapE (KubernetesPkg CreateAppCredential) []
              (CreateApplicationCredential os userClients (NewApplicationCredentialName t)
                 GetDefaultServiceUserRoles)) (\<lambda>applicationCredential.
       let internalSecret = ApplicationCredentialsInternalSecret shoot u applicationCredential in
       wrapE (KubernetesPkg CreateInternalSecret)
         [printKey (isNamespace internalSecret, isName internalSecret)]
         (callE (create_secret k internalSecret))))"

definition EnsureCredentialsBindingForInternalSecret ::
    "'w kube \<Rightarrow> Shoot \<Rightarrow> InternalSecret \<Rightarrow> ('w, CredentialsBinding) io" where
  "EnsureCredentialsBindingForInternalSecret k shoot internalSecret =
     (let credentialsBinding = CredentialsBindingForSecret shoot internalSecret in
      catchE (thenE (callE (create_binding k credentialsBinding)) (returnE credentialsBinding))
        (\<lambda>err. if is_already_exists err then returnE credentialsBinding
               else failE (Wrapf (KubernetesPkg CreateCredentialsBinding)
                      [printKey (cbNamespace credentialsBinding, cbName credentialsBinding)] err)))"

subsection \<open>What the objects carry\<close>

text \<open>
  The annotation holds the credential's expiration to the second; the reconciler reads it back.
\<close>

lemma secret_expiry_roundtrip:
  assumes "0 \<le> acExpiresAt c" "acExpiresAt c < 253402300800 * second"
  shows "isAnnotations (ApplicationCredentialsInternalSecret sh u c) AnnotationKeyExpiresAt = Some raw \<Longrightarrow>
     parseRFC3339 raw = Inr (acExpiresAt c div second * second)"
  using parse_format_rfc3339 [OF assms] by (auto simp: ApplicationCredentialsInternalSecret_def)

text \<open>The user info read back from the secret's labels, if the labels are all non-empty.\<close>

definition labelledInfo :: "OpenStackUserInfo \<Rightarrow> OpenStackUserInfo" where
  "labelledInfo u = emptyUserInfo\<lparr>ProjectDomainID := ProjectDomainID u,
     ProjectDomainName := sanitizeLabelValue (ProjectDomainName u), ProjectID := ProjectID u,
     ProjectName := sanitizeLabelValue (ProjectName u), Region := Region u\<rparr>"

definition labelsReadable :: "OpenStackUserInfo \<Rightarrow> bool" where
  "labelsReadable u \<longleftrightarrow> ProjectDomainID u \<noteq> [] \<and> sanitizeLabelValue (ProjectDomainName u) \<noteq> [] \<and>
     ProjectID u \<noteq> [] \<and> sanitizeLabelValue (ProjectName u) \<noteq> [] \<and> Region u \<noteq> []"

lemma secret_labels_roundtrip:
  assumes "labelsReadable u"
  shows "OpenStackUserInfoFromLabels (isLabels (ApplicationCredentialsInternalSecret sh u c)) =
     Ok (labelledInfo u)"
proof -
  let ?l = "isLabels (ApplicationCredentialsInternalSecret sh u c)"
  have "?l LabelKeyOpenStackDomainID = Some (ProjectDomainID u)"
    "?l LabelKeyOpenStackDomainName = Some (sanitizeLabelValue (ProjectDomainName u))"
    "?l LabelKeyOpenStackProjectID = Some (ProjectID u)"
    "?l LabelKeyOpenStackProjectName = Some (sanitizeLabelValue (ProjectName u))"
    "?l LabelKeyOpenStackRegion = Some (Region u)"
    by (simp_all add: ApplicationCredentialsInternalSecret_def)
  with assms show ?thesis
    by (simp add: OpenStackUserInfoFromLabels_def extractLabel_def getLabelValueForKey_def
        labelsReadable_def labelledInfo_def)
qed

lemma secret_labels_unreadable:
  assumes "\<not> labelsReadable u"
  shows "\<exists>e. OpenStackUserInfoFromLabels (isLabels (ApplicationCredentialsInternalSecret sh u c)) = Err e"
  using assms
  by (auto simp: OpenStackUserInfoFromLabels_def extractLabel_def getLabelValueForKey_def
      labelsReadable_def ApplicationCredentialsInternalSecret_def)

end
