(* ===== verification/Shoot_Admission.thy ===== *)
theory Shoot_Admission
  imports Credentials
begin

section \<open>The admission webhook for shoots\<close>

text \<open>
  \<open>internal/webhook/shootadmission/handler.go\<close>: when a user with OpenStack extras creates or changes a
  shoot, the webhook makes sure that the cluster's service user exists, issues application
  credentials at creation, and fills the OpenStack parts of the shoot's specification.

  Decoding and converting the infrastructure configuration are functions of Gardener's OpenStack
  extension and fields of the handler's record. The handler changes the shoot it is given; its value
  here is the changed shoot. The API server recovers a panic of the handler (\<open>WithRecoverPanic\<close>).
  The configuration that \<open>add.go\<close> registers (theory Webhook_Config) sends creations only; the handler's
  branch for updates is modelled as it is written.
\<close>

subsection \<open>The model\<close>

definition DefaultPodCIDR :: string where "DefaultPodCIDR = ''10.44.0.0/16''"
definition DefaultServiceCIDR :: string where "DefaultServiceCIDR = ''10.45.0.0/16''"
definition DefaultNodeCIDR :: string where "DefaultNodeCIDR = ''10.180.24.0/24''"
definition DefaultNetworkType :: string where "DefaultNetworkType = ''calico''"
definition DefaultLoadBalancerType :: string where "DefaultLoadBalancerType = ''f5''"

text \<open>\<open>gardeneropenstackv1alpha1.SchemeGroupVersion.String()\<close>\<close>

definition openstackGroupVersion :: string where
  "openstackGroupVersion = ''openstack.provider.extensions.gardener.cloud/v1alpha1''"

datatype admitted = ShootObject Shoot | OtherObject string

record AdmissionRequest =
  arRequestKind :: "string option"
  arOperation :: string
  arDryRun :: bool
  arExtra :: extra

datatype admission_metric = ShootMutations | CredentialIssuances | FloatingPoolDetections

record 'w ShootHandler =
  adKube :: "'w kube"
  adCloud :: "'w cloud"
  adClients :: RegionOpenStackClientSet
  adLandscapeName :: string
  adCloudProfileName :: string
  adProviderType :: string
  adDecodeInfrastructure :: "RawExtension \<Rightarrow> ext_error + InfrastructureConfig"
  adConvertInfrastructure :: "InfrastructureConfig \<Rightarrow> ext_error + InfrastructureConfig"
  adMetric :: "admission_metric \<Rightarrow> string \<Rightarrow> string \<Rightarrow> 'w \<Rightarrow> 'w"

abbreviation adm_wrap :: "admission_site \<Rightarrow> string list \<Rightarrow> ('w, 'a) io \<Rightarrow> ('w, 'a) io" where
  "adm_wrap s \<equiv> wrapE (AdmissionPkg s)"

definition getCloudProfileName :: "'w ShootHandler \<Rightarrow> string" where
  "getCloudProfileName h = (if adCloudProfileName h \<noteq> [] then adCloudProfileName h else GardenerProviderType)"

definition getProviderType :: "'w ShootHandler \<Rightarrow> string" where
  "getProviderType h = (if adProviderType h \<noteq> [] then adProviderType h else GardenerProviderType)"

text \<open>
  The newest of the shoot's secrets is the last after sorting them by creation; Go's sort leaves the
  order of equals open, the stable one is one of its results.
\<close>

definition ensureOpenStackCredentialInternalSecretAndBinding ::
    "'w kube \<Rightarrow> 'w cloud \<Rightarrow> ClusterUserClientSet \<Rightarrow> Shoot \<Rightarrow> OpenStackUserInfo \<Rightarrow>
     ('w, CredentialsBinding) io" where
  "ensureOpenStackCredentialInternalSecretAndBinding k os userClients shoot u =
     bindE (adm_wrap ListShootSecrets [printKey (shNamespace shoot, shName shoot)]
              (callE (list_secrets k (shNamespace shoot) LabelKeyShootName (shName shoot)))) (\<lambda>items.
       if length items > 0
       then EnsureCredentialsBindingForInternalSecret k shoot (last (sort_key isCreationTimestamp items))
       else
         bindE (adm_wrap EnsureNewCredential []
                  (EnsureApplicationCredentialInternalSecretForShoot k os userClients shoot u)) (\<lambda>internalSecret.
           EnsureCredentialsBindingForInternalSecret k shoot internalSecret))"

definition getExternalNetworkForProject :: "'w cloud \<Rightarrow> ServiceClient \<Rightarrow> ('w, string) io" where
  "getExternalNetworkForProject os scopedNetworkClient =
     bindE (adm_wrap ListNetworksFailed [] (callE (list_networks os scopedNetworkClient))) (\<lambda>allPages.
     bindE (adm_wrap ExtractNetworksFailed [] (extE allPages)) (\<lambda>allNetworks.
       let externalNetworks = filter (\<lambda>n. \<not> (\<not> nwExternal n \<or> \<not> nwShared n)) allNetworks in
       case externalNetworks of
         [n] \<Rightarrow> returnE (nwName n)
       | _ \<Rightarrow> failE (Errorf (AdmissionPkg ExternalNetworkCount) [format_nat (length externalNetworks)])))"

text \<open>\<open>if err != nil { record...; return fmt.Errorf(...) }\<close> with two metrics\<close>

definition orRecordBoth ::
    "'w ShootHandler \<Rightarrow> admission_metric \<Rightarrow> string \<Rightarrow> admission_site \<Rightarrow> ('w, 'a) io \<Rightarrow> ('w, 'a) io" where
  "orRecordBoth h mt region s m =
     catchE m (\<lambda>err.
       thenE (doE (adMetric h mt region ''error''))
       (thenE (doE (adMetric h ShootMutations region ''error''))
         (failE (Wrapf (AdmissionPkg s) [] err))))"

definition emptyInfrastructure :: InfrastructureConfig where
  "emptyInfrastructure = \<lparr>icAPIVersion = [], icKind = [], FloatingPoolName = [], NetworksWorkers = [],
     icRest = []\<rparr>"

definition decodedInfrastructure :: "'w ShootHandler \<Rightarrow> Shoot \<Rightarrow> ('w, InfrastructureConfig) io" where
  "decodedInfrastructure h shoot =
     (case shInfrastructureConfig shoot of
        None \<Rightarrow> returnE emptyInfrastructure
      | Some raw \<Rightarrow>
          bindE (adm_wrap DecodeInfrastructure [] (extE (adDecodeInfrastructure h raw))) (\<lambda>config.
            adm_wrap ConvertInfrastructure [] (extE (adConvertInfrastructure h config))))"

definition orDefault :: "string option \<Rightarrow> string \<Rightarrow> string option" where
  "orDefault x d = (case x of None \<Rightarrow> Some d | Some v \<Rightarrow> Some v)"

definition fillNetworking :: "Networking \<Rightarrow> Networking" where
  "fillNetworking n = n\<lparr>Pods := orDefault (Pods n) DefaultPodCIDR,
     Services := orDefault (Services n) DefaultServiceCIDR,
     Nodes := orDefault (Nodes n) DefaultNodeCIDR,
     netType := orDefault (netType n) DefaultNetworkType\<rparr>"

text \<open>The block for shoots with workers; a nil \<open>Spec.Networking\<close> is dereferenced in any case.\<close>

definition fillShoot ::
    "'w ShootHandler \<Rightarrow> ClusterUserClientSet \<Rightarrow> string \<Rightarrow> Shoot \<Rightarrow> ('w, Shoot) io" where
  "fillShoot h userClientSet region shoot =
     bindE (decodedInfrastructure h shoot) (\<lambda>infrastructureConfig.
     bindE (if FloatingPoolName infrastructureConfig = []
            then bindE (orRecordBoth h FloatingPoolDetections region DetectFloatingPool
                          (getExternalNetworkForProject (adCloud h) (csNetworkClient userClientSet))) (\<lambda>name.
                 thenE (doE (adMetric h FloatingPoolDetections region ''success''))
                   (returnE (infrastructureConfig\<lparr>FloatingPoolName := name\<rparr>)))
            else returnE infrastructureConfig) (\<lambda>infrastructureConfig.
       case shNetworking shoot of
         None \<Rightarrow> panicE NilDereference
       | Some networking \<Rightarrow>
           (let infrastructureConfig =
                  (if NetworksWorkers infrastructureConfig = []
                   then infrastructureConfig\<lparr>NetworksWorkers :=
                          (case Nodes networking of None \<Rightarrow> DefaultNodeCIDR | Some n \<Rightarrow> n)\<rparr>
                   else infrastructureConfig)
            in returnE (shoot\<lparr>
                 shInfrastructureConfig := Some (RawInfrastructure (infrastructureConfig\<lparr>
                   icAPIVersion := openstackGroupVersion, icKind := ''InfrastructureConfig''\<rparr>)),
                 shControlPlaneConfig :=
                   (case shControlPlaneConfig shoot of
                      None \<Rightarrow> Some (RawControlPlane \<lparr>cpAPIVersion = openstackGroupVersion,
                        cpKind = ''ControlPlaneConfig'', LoadBalancerProvider = DefaultLoadBalancerType\<rparr>)
                    | Some c \<Rightarrow> Some c),
                 shNetworking := Some (fillNetworking networking)\<rparr>))))"

text \<open>Credentials at the creation of a shoot with workers.\<close>

definition issueCredentials ::
    "'w ShootHandler \<Rightarrow> ClusterUserClientSet \<Rightarrow> OpenStackUserInfo \<Rightarrow> bool \<Rightarrow> Shoot \<Rightarrow>
     ('w, CredentialsBinding option) io" where
  "issueCredentials h userClientSet u isCreate shoot =
     (if isCreate \<and> \<not> length (shWorkers shoot) = 0
      then bindE (orRecordBoth h CredentialIssuances (Region u) EnsureCredentials
                    (ensureOpenStackCredentialInternalSecretAndBinding (adKube h) (adCloud h)
                       userClientSet shoot u)) (\<lambda>b.
           thenE (doE (adMetric h CredentialIssuances (Region u) ''success'')) (returnE (Some b)))
      else returnE None)"

text \<open>What is set in every shoot; the selector at creation; the binding if one was issued.\<close>

definition placeShoot ::
    "'w ShootHandler \<Rightarrow> string \<Rightarrow> bool \<Rightarrow> CredentialsBinding option \<Rightarrow> Shoot \<Rightarrow> Shoot" where
  "placeShoot h region isCreate credentialsBinding shoot =
     (let shoot = shoot\<lparr>shCloudProfile := Some (''CloudProfile'', getCloudProfileName h),
                        shProviderType := getProviderType h, shRegion := region\<rparr>;
          shoot = (if isCreate
                   then shoot\<lparr>shSeedSelector := Some [''seed.gardener.cloud/region'' \<mapsto> region]\<rparr>
                   else shoot)
      in case credentialsBinding of
           None \<Rightarrow> shoot
         | Some b \<Rightarrow> if \<not> length (shWorkers shoot) = 0
                     then shoot\<lparr>shCredentialsBindingName := Some (cbName b)\<rparr> else shoot)"

definition mutateShoot ::
    "'w ShootHandler \<Rightarrow> OpenStackUserInfo \<Rightarrow> ClientSet \<Rightarrow> bool \<Rightarrow> Shoot \<Rightarrow> ('w, Shoot) io" where
  "mutateShoot h u openStackClientSet isCreate shoot =
     (let clusterUserName = GetClusterUserName (adLandscapeName h) (shName shoot) (ProjectID u) in
      bindE (adm_wrap ClusterUserClients []
               (NewClusterUserClientSet (adCloud h) openStackClientSet clusterUserName (ProjectID u)))
        (\<lambda>userClientSet.
      bindE (issueCredentials h userClientSet u isCreate shoot) (\<lambda>credentialsBinding.
      bindE (if \<not> length (shWorkers shoot) = 0 then fillShoot h userClientSet (Region u) shoot
             else returnE shoot) (\<lambda>shoot.
        thenE (doE (adMetric h ShootMutations (Region u) ''success''))
          (returnE (placeShoot h (Region u) isCreate credentialsBinding shoot))))))"

definition handleAdmission ::
    "'w ShootHandler \<Rightarrow> admitted \<Rightarrow> ext_error + AdmissionRequest \<Rightarrow> ('w, admitted) io" where
  "handleAdmission h obj request =
     (case obj of
        OtherObject t \<Rightarrow> failE (Errorf (AdmissionPkg NotAShoot) [t])
      | ShootObject shoot \<Rightarrow>
     bindE (extE request) (\<lambda>req.
       if arRequestKind req \<noteq> Some ''Shoot'' \<or> arOperation req = ''DELETE'' \<or> arOperation req = ''CONNECT''
       then returnE (ShootObject shoot)
       else if \<not> HasOpenStackUserInfo (arExtra req) then returnE (ShootObject shoot)
       else
     bindE (adm_wrap UserInfoFromExtras [] (liftE (OpenStackUserInfoFromExtra (arExtra req)))) (\<lambda>openStackUserInfo.
     case adClients h (Region openStackUserInfo) of
       None \<Rightarrow> failE (Errorf (AdmissionPkg RegionNotSupported) [Region openStackUserInfo])
     | Some openStackClientSet \<Rightarrow>
         bindE (mutateShoot h openStackUserInfo openStackClientSet (arOperation req = ''CREATE'') shoot)
           (\<lambda>shoot. returnE (ShootObject shoot)))))"

definition DefaultShoot ::
    "'w ShootHandler \<Rightarrow> admitted \<Rightarrow> ext_error + AdmissionRequest \<Rightarrow> ('w, admitted) io" where
  "DefaultShoot h obj request = catchE (handleAdmission h obj request) failE"

end
