(* ===== verification/Token_Webhook.thy ===== *)
theory Token_Webhook
  imports Provision OpenStack
begin

section \<open>The token webhook\<close>

text \<open>
  \<open>internal/webhook/token/handler.go\<close>: the API server sends the bearer token of a request for
  review. A token is a region and a Keystone token; the handler asks that region's Keystone whose token
  it is, provisions the project's resources and answers with the Kubernetes user.

  gophercloud's client constructor and token request are fields of the handler's record, as the
  Kubernetes client, the hash and the metrics are. Extracting the user, the project or the roles of
  a token fails when the request failed; a token without project scope has no project, a nil
  pointer there and \<open>None\<close> here. Log lines are not modelled.
\<close>

subsection \<open>The model\<close>

record TokenUser =
  tuID :: string
  tuName :: string
  tuDomainID :: string
  tuDomainName :: string

record TokenProject =
  tpID :: string
  tpName :: string
  tpDomainID :: string
  tpDomainName :: string

record TokenResult =
  ExtractUser :: "ext_error + TokenUser option"
  ExtractProject :: "ext_error + TokenProject option"
  ExtractRoles :: "ext_error + string list"

record KubeUserInfo =
  Username :: string
  UID :: string
  Groups :: "string list"
  Extra :: extra

datatype denial =
    MakeUserInfoFailed error
  | ExtrasUnreadable error
  | PreparationFailed error

datatype auth_response = Authenticated KubeUserInfo | Unauthenticated denial

datatype token_metric =
    AuthenticationAttempts
  | AuthenticationFailures
  | KeystoneAuthFailures
  | ResourceReconciliations

record 'w TokenHandler =
  thClient :: "'w kube"
  thHash :: "string \<Rightarrow> string"
  thConfig :: PersephoneConfig
  thReconcile :: bool
  thNormalizeURL :: "string \<Rightarrow> string"
  thNewIdentityV3 :: "ProviderClient \<Rightarrow> ext_error + ServiceClient" \<comment> \<open>with empty endpoint options\<close>
  thGetToken :: "ServiceClient \<Rightarrow> string \<Rightarrow> 'w \<Rightarrow> TokenResult \<times> 'w"
  thMetric :: "token_metric \<Rightarrow> string \<Rightarrow> string \<Rightarrow> 'w \<Rightarrow> 'w"

definition getRegionalIdentityEndpoint :: "PersephoneConfig \<Rightarrow> string \<Rightarrow> (string \<times> string \<times> string) res" where
  "getRegionalIdentityEndpoint cfg specToken =
     (case split_on CHR '':'' specToken of
        [region, token] \<Rightarrow>
          (case map_of (Regions cfg) region of
             None \<Rightarrow> Err (token_err RegionNotConfigured [region])
           | Some rc \<Rightarrow>
               if IdentityEndpoint rc = [] then Err (token_err RegionEndpointEmpty [region])
               else Ok (IdentityEndpoint rc, token, region))
      | _ \<Rightarrow> Err (token_err InvalidTokenFormat []))"

definition getOpenStackClient :: "'w TokenHandler \<Rightarrow> string \<Rightarrow> string \<Rightarrow> ext_error + ServiceClient" where
  "getOpenStackClient h endpoint tokenID =
     thNewIdentityV3 h (emptyProvider\<lparr>pcIdentityBase := thNormalizeURL h endpoint, pcTokenID := tokenID\<rparr>)"

text \<open>\<open>strings.Contains\<close> on the text of the error; a nil error is \<open>None\<close>.\<close>

definition classifyError :: "ext_error option \<Rightarrow> string" where
  "classifyError err =
     (case err of
        None \<Rightarrow> ''unknown''
      | Some e \<Rightarrow>
          (let errStr = ext_text e in
           if contains_str errStr ''401'' then ''unauthorized''
           else if contains_str errStr ''403'' then ''forbidden''
           else if contains_str errStr ''404'' then ''not_found''
           else if contains_str errStr ''timeout'' then ''timeout''
           else if contains_str errStr ''connection'' then ''connection_error''
           else ''other''))"

text \<open>\<open>x, err := result.Extract...(); if err != nil { record; return fmt.Errorf(...) }\<close>\<close>

definition extractOr ::
    "'w TokenHandler \<Rightarrow> string \<Rightarrow> token_site \<Rightarrow> ext_error + 'a \<Rightarrow> ('w, 'a) io" where
  "extractOr h region s r =
     (case r of
        Inl err \<Rightarrow> thenE (doE (thMetric h KeystoneAuthFailures region (classifyError (Some err))))
                    (failE (Wrapf (TokenPkg s) [] (External err)))
      | Inr x \<Rightarrow> returnE x)"

definition tokenInfo :: "TokenUser \<Rightarrow> TokenProject \<Rightarrow> string \<Rightarrow> OpenStackUserInfo" where
  "tokenInfo user project region =
     \<lparr>ProjectDomainID = tpDomainID project, ProjectDomainName = tpDomainName project,
      ProjectID = tpID project, ProjectName = tpName project, UserDomainID = tuDomainID user,
      UserDomainName = tuDomainName user, Region = region\<rparr>"

definition makeUserInfo :: "'w TokenHandler \<Rightarrow> string \<Rightarrow> ('w, KubeUserInfo) io" where
  "makeUserInfo h specToken =
     bindE (wrapE (TokenPkg RegionalEndpointFailed) []
              (liftE (getRegionalIdentityEndpoint (thConfig h) specToken))) (\<lambda>(endpoint, tokenID, region).
     bindE (wrapE (TokenPkg OpenStackClientFailed) [] (extE (getOpenStackClient h endpoint tokenID)))
       (\<lambda>openStackClient.
     bindE (readE (thGetToken h openStackClient tokenID)) (\<lambda>result.
     bindE (extractOr h region TokenUserFailed (ExtractUser result)) (\<lambda>user.
     bindE (extractOr h region TokenProjectFailed (ExtractProject result)) (\<lambda>project.
     bindE (extractOr h region TokenRolesFailed (ExtractRoles result)) (\<lambda>roleNames.
       case (user, project) of
         (Some user, Some project) \<Rightarrow>
           returnE \<lparr>Username = tuName user, UID = tuID user,
              Groups = map (\<lambda>role. tpID project @ '':'' @ role) roleNames,
              Extra = ToExtra (tokenInfo user project region)\<rparr>
       | _ \<Rightarrow> panicE NilDereference))))))"

definition HandleToken :: "'w TokenHandler \<Rightarrow> string \<Rightarrow> ('w, auth_response) io" where
  "HandleToken h specToken =
     bindE (tryE (makeUserInfo h specToken)) (\<lambda>r.
       case r of
         Inl err \<Rightarrow>
           (let region = (case getRegionalIdentityEndpoint (thConfig h) specToken of
                            Ok (_, _, region) \<Rightarrow> region | _ \<Rightarrow> []) in
            thenE (doE (thMetric h AuthenticationAttempts region ''failure''))
            (thenE (doE (thMetric h AuthenticationFailures region ''make_user_info_failed''))
              (returnE (Unauthenticated (MakeUserInfoFailed err)))))
       | Inr userInfo \<Rightarrow>
           if thReconcile h then
             bindE (tryE (liftE (OpenStackUserInfoFromExtra (Extra userInfo)))) (\<lambda>r.
             case r of
               Inl err \<Rightarrow> returnE (Unauthenticated (ExtrasUnreadable err))
             | Inr openStackUserInfo \<Rightarrow>
                 bindE (tryE (ReconcileGardenerProjectResources (thClient h) (thHash h) (thConfig h)
                          openStackUserInfo)) (\<lambda>r.
                 case r of
                   Inl err \<Rightarrow>
                     thenE (doE (thMetric h AuthenticationAttempts (Region openStackUserInfo) ''failure''))
                     (thenE (doE (thMetric h ResourceReconciliations (Region openStackUserInfo) ''error''))
                       (returnE (Unauthenticated (PreparationFailed err))))
                 | Inr _ \<Rightarrow>
                     thenE (doE (thMetric h AuthenticationAttempts (Region openStackUserInfo) ''success''))
                     (thenE (doE (thMetric h ResourceReconciliations (Region openStackUserInfo) ''success''))
                       (returnE (Authenticated userInfo)))))
           else returnE (Authenticated userInfo))"

subsection \<open>What the review finds out\<close>

lemma regional_endpoint_iff:
  "getRegionalIdentityEndpoint cfg specToken = Ok (endpoint, t, region) \<longleftrightarrow>
     specToken = region @ '':'' @ t \<and> CHR '':'' \<notin> set region \<and> CHR '':'' \<notin> set t \<and>
     (\<exists>rc. map_of (Regions cfg) region = Some rc \<and> IdentityEndpoint rc = endpoint \<and> endpoint \<noteq> [])"
proof -
  have "getRegionalIdentityEndpoint cfg specToken = Ok (endpoint, t, region) \<longleftrightarrow>
     split_on CHR '':'' specToken = [region, t] \<and>
     (\<exists>rc. map_of (Regions cfg) region = Some rc \<and> IdentityEndpoint rc = endpoint \<and> endpoint \<noteq> [])"
    by (auto simp: getRegionalIdentityEndpoint_def split: list.splits option.splits)
  then show ?thesis by (simp add: split_on_pair_iff)
qed

lemma regional_endpoint_no_panic: "getRegionalIdentityEndpoint cfg specToken \<noteq> Panicked p"
  by (auto simp: getRegionalIdentityEndpoint_def split: list.splits option.splits)

text \<open>The token, its region and what Keystone said about it.\<close>

definition keystoneKnows ::
    "'w TokenHandler \<Rightarrow> string \<Rightarrow> 'w \<Rightarrow> string \<Rightarrow> TokenResult \<Rightarrow> 'w \<Rightarrow> bool" where
  "keystoneKnows h specToken w region result w' \<longleftrightarrow>
     (\<exists>t rc c. specToken = region @ '':'' @ t \<and> CHR '':'' \<notin> set region \<and> CHR '':'' \<notin> set t \<and>
        map_of (Regions (thConfig h)) region = Some rc \<and> IdentityEndpoint rc \<noteq> [] \<and>
        thNewIdentityV3 h (emptyProvider\<lparr>pcIdentityBase := thNormalizeURL h (IdentityEndpoint rc),
          pcTokenID := t\<rparr>) = Inr c \<and> thGetToken h c t w = (result, w'))"

definition userOf :: "TokenUser \<Rightarrow> TokenProject \<Rightarrow> string list \<Rightarrow> string \<Rightarrow> KubeUserInfo" where
  "userOf user project roleNames region =
     \<lparr>Username = tuName user, UID = tuID user,
      Groups = map (\<lambda>role. tpID project @ '':'' @ role) roleNames,
      Extra = ToExtra (tokenInfo user project region)\<rparr>"

lemma extractOr_run:
  "extractOr h region s r w = (case r of
     Inl err \<Rightarrow> (Err (Wrapf (TokenPkg s) [] (External err)),
                  thMetric h KeystoneAuthFailures region (classifyError (Some err)) w)
   | Inr x \<Rightarrow> (Ok x, w))"
  by (simp add: extractOr_def io_simps split: sum.splits)

lemma makeUserInfo_run:
  "makeUserInfo h specToken w =
     (case getRegionalIdentityEndpoint (thConfig h) specToken of
        Err e \<Rightarrow> (Err (Wrapf (TokenPkg RegionalEndpointFailed) [] e), w)
      | Panicked p \<Rightarrow> (Panicked p, w)
      | Ok (endpoint, t, region) \<Rightarrow>
          (case getOpenStackClient h endpoint t of
             Inl e \<Rightarrow> (Err (Wrapf (TokenPkg OpenStackClientFailed) [] (External e)), w)
           | Inr c \<Rightarrow>
               (case thGetToken h c t w of (result, w1) \<Rightarrow>
                 (case (ExtractUser result, ExtractProject result, ExtractRoles result) of
                    (Inr (Some user), Inr (Some project), Inr roleNames) \<Rightarrow>
                      (Ok (userOf user project roleNames region), w1)
                  | (Inl e, _, _) \<Rightarrow> (Err (Wrapf (TokenPkg TokenUserFailed) [] (External e)),
                      thMetric h KeystoneAuthFailures region (classifyError (Some e)) w1)
                  | (Inr _, Inl e, _) \<Rightarrow> (Err (Wrapf (TokenPkg TokenProjectFailed) [] (External e)),
                      thMetric h KeystoneAuthFailures region (classifyError (Some e)) w1)
                  | (Inr _, Inr _, Inl e) \<Rightarrow> (Err (Wrapf (TokenPkg TokenRolesFailed) [] (External e)),
                      thMetric h KeystoneAuthFailures region (classifyError (Some e)) w1)
                  | _ \<Rightarrow> (Panicked NilDereference, w1)))))"
  by (simp add: makeUserInfo_def extractOr_run io_simps userOf_def
      split: outcome.splits prod.splits sum.splits option.splits) auto

text \<open>A user is made only of what Keystone said about the token.\<close>

lemma makeUserInfo_Ok:
  assumes "makeUserInfo h specToken w = (Ok userInfo, w')"
  obtains region result user project roleNames where
    "keystoneKnows h specToken w region result w'"
    "ExtractUser result = Inr (Some user)" "ExtractProject result = Inr (Some project)"
    "ExtractRoles result = Inr roleNames" "userInfo = userOf user project roleNames region"
proof -
  obtain endpoint t region where r: "getRegionalIdentityEndpoint (thConfig h) specToken = Ok (endpoint, t, region)"
    using assms by (cases "getRegionalIdentityEndpoint (thConfig h) specToken") (auto simp: makeUserInfo_run)
  obtain c where c: "getOpenStackClient h endpoint t = Inr c"
    using assms r by (cases "getOpenStackClient h endpoint t") (auto simp: makeUserInfo_run)
  obtain result w1 where g: "thGetToken h c t w = (result, w1)" by fastforce
  have run: "(case (ExtractUser result, ExtractProject result, ExtractRoles result) of
      (Inr (Some user), Inr (Some project), Inr roleNames) \<Rightarrow> (Ok (userOf user project roleNames region), w1)
    | (Inl e, _, _) \<Rightarrow> (Err (Wrapf (TokenPkg TokenUserFailed) [] (External e)),
        thMetric h KeystoneAuthFailures region (classifyError (Some e)) w1)
    | (Inr _, Inl e, _) \<Rightarrow> (Err (Wrapf (TokenPkg TokenProjectFailed) [] (External e)),
        thMetric h KeystoneAuthFailures region (classifyError (Some e)) w1)
    | (Inr _, Inr _, Inl e) \<Rightarrow> (Err (Wrapf (TokenPkg TokenRolesFailed) [] (External e)),
        thMetric h KeystoneAuthFailures region (classifyError (Some e)) w1)
    | _ \<Rightarrow> (Panicked NilDereference, w1)) = (Ok userInfo, w')"
    using assms by (simp only: makeUserInfo_run r c g outcome.case sum.case prod.case)
  then obtain user project roleNames where
    "ExtractUser result = Inr (Some user)" "ExtractProject result = Inr (Some project)"
    "ExtractRoles result = Inr roleNames" "userInfo = userOf user project roleNames region" "w' = w1"
    by (auto split: sum.splits option.splits)
  moreover have "keystoneKnows h specToken w region result w1"
    using r c g unfolding keystoneKnows_def regional_endpoint_iff getOpenStackClient_def by blast
  ultimately show thesis using that by blast
qed

lemma handle_token_run:
  "HandleToken h specToken w =
     (case makeUserInfo h specToken w of
        (Err err, w1) \<Rightarrow>
          (let region = (case getRegionalIdentityEndpoint (thConfig h) specToken of
                           Ok (_, _, region) \<Rightarrow> region | _ \<Rightarrow> [])
           in (Ok (Unauthenticated (MakeUserInfoFailed err)),
               thMetric h AuthenticationFailures region ''make_user_info_failed''
                 (thMetric h AuthenticationAttempts region ''failure'' w1)))
      | (Panicked p, w1) \<Rightarrow> (Panicked p, w1)
      | (Ok userInfo, w1) \<Rightarrow>
          if \<not> thReconcile h then (Ok (Authenticated userInfo), w1)
          else (case OpenStackUserInfoFromExtra (Extra userInfo) of
             Err err \<Rightarrow> (Ok (Unauthenticated (ExtrasUnreadable err)), w1)
           | Panicked p \<Rightarrow> (Panicked p, w1)
           | Ok u \<Rightarrow>
              (case ReconcileGardenerProjectResources (thClient h) (thHash h) (thConfig h) u w1 of
                 (Ok _, w2) \<Rightarrow> (Ok (Authenticated userInfo),
                    thMetric h ResourceReconciliations (Region u) ''success''
                      (thMetric h AuthenticationAttempts (Region u) ''success'' w2))
               | (Err err, w2) \<Rightarrow> (Ok (Unauthenticated (PreparationFailed err)),
                    thMetric h ResourceReconciliations (Region u) ''error''
                      (thMetric h AuthenticationAttempts (Region u) ''failure'' w2))
               | (Panicked p, w2) \<Rightarrow> (Panicked p, w2))))"
  by (simp add: HandleToken_def io_simps Let_def split: outcome.splits prod.splits)

text \<open>The extras that the handler makes can always be read back, so its second refusal never happens.\<close>

lemma userOf_extra [simp]:
  "OpenStackUserInfoFromExtra (Extra (userOf user project roleNames region)) = Ok (tokenInfo user project region)"
  by (simp add: userOf_def extras.decode_encode)

subsection \<open>Properties\<close>

text \<open>C2. A review that authenticates has asked Keystone: the token was \<open>region:secret\<close> with both parts
  free of colons, the region is configured with an identity endpoint, and the Keystone there accepted the
  secret. The Kubernetes user is the Keystone user, its groups are the token's roles prefixed with the
  token's project, and its extras decode to that user, that project and that region.\<close>

theorem authenticated_by_keystone:
  assumes "HandleToken h specToken w = (Ok (Authenticated userInfo), w')"
  shows "\<exists>region result w1 user project roleNames.
     keystoneKnows h specToken w region result w1 \<and>
     ExtractUser result = Inr (Some user) \<and> ExtractProject result = Inr (Some project) \<and>
     ExtractRoles result = Inr roleNames \<and>
     Username userInfo = tuName user \<and> UID userInfo = tuID user \<and>
     set (Groups userInfo) = {tpID project @ '':'' @ role |role. role \<in> set roleNames} \<and>
     OpenStackUserInfoFromExtra (Extra userInfo) = Ok (tokenInfo user project region)"
proof -
  obtain info w1 where made: "makeUserInfo h specToken w = (Ok info, w1)"
    using assms by (auto simp: handle_token_run Let_def split: outcome.splits prod.splits)
  then have "info = userInfo"
    using assms by (auto simp: handle_token_run split: if_splits outcome.splits prod.splits)
  with made obtain region result user project roleNames where
    "keystoneKnows h specToken w region result w1" "ExtractUser result = Inr (Some user)"
    "ExtractProject result = Inr (Some project)" "ExtractRoles result = Inr roleNames"
    and u: "userInfo = userOf user project roleNames region"
    by (elim makeUserInfo_Ok) simp
  moreover have "Username userInfo = tuName user" "UID userInfo = tuID user"
    "set (Groups userInfo) = {tpID project @ '':'' @ role |role. role \<in> set roleNames}"
    "OpenStackUserInfoFromExtra (Extra userInfo) = Ok (tokenInfo user project region)"
    unfolding u by (auto simp: userOf_def extras.decode_encode)
  ultimately show ?thesis by blast
qed

text \<open>A Keystone for the in-memory world, which knows one scoped and one unscoped token.\<close>

definition sampleTokenResult :: "string \<Rightarrow> TokenResult" where
  "sampleTokenResult t =
     (let user = Inr (Some \<lparr>tuID = ''u1'', tuName = ''jane'', tuDomainID = ''d1'', tuDomainName = ''acme''\<rparr>);
          project = Inr (Some \<lparr>tpID = ProjectID sampleUser, tpName = ''My Project'', tpDomainID = ''d0'',
            tpDomainName = ''acme''\<rparr>);
          gone = CloudError (Some 404) ''token not found: 404''
      in if t = ''scoped'' then \<lparr>ExtractUser = user, ExtractProject = project, ExtractRoles = Inr [''kubernetes_admin'']\<rparr>
         else if t = ''unscoped'' then \<lparr>ExtractUser = user, ExtractProject = Inr None, ExtractRoles = Inr []\<rparr>
         else \<lparr>ExtractUser = Inl gone, ExtractProject = Inl gone, ExtractRoles = Inl gone\<rparr>)"

definition sampleTokens :: "sim TokenHandler" where
  "sampleTokens = \<lparr>thClient = simKube, thHash = sampleHash, thConfig = sampleConfig, thReconcile = True,
     thNormalizeURL = (\<lambda>u. u @ ''/''), thNewIdentityV3 = (\<lambda>p. Inr \<lparr>scProvider = p, scService = ''identity''\<rparr>),
     thGetToken = (\<lambda>c t s. (sampleTokenResult t, s)),
     thMetric = (\<lambda>m region v s. s\<lparr>simEvents :=
        [if m = AuthenticationAttempts then ''attempt'' else ''other'', v] # simEvents s\<rparr>)\<rparr>"

lemma sample_make_user:
  "makeUserInfo sampleTokens ''eu-1:scoped'' s =
     (Ok (userOf \<lparr>tuID = ''u1'', tuName = ''jane'', tuDomainID = ''d1'', tuDomainName = ''acme''\<rparr>
        \<lparr>tpID = ProjectID sampleUser, tpName = ''My Project'', tpDomainID = ''d0'', tpDomainName = ''acme''\<rparr>
        [''kubernetes_admin''] ''eu-1''), s)"
  by (simp add: makeUserInfo_run getRegionalIdentityEndpoint_def getOpenStackClient_def sampleTokens_def sampleConfig_def
      sampleTokenResult_def Let_def)

lemma sample_review:
  "\<exists>userInfo s. HandleToken sampleTokens ''eu-1:scoped'' (emptySim [] 0) = (Ok (Authenticated userInfo), s)"
proof -
  let ?u = "tokenInfo \<lparr>tuID = ''u1'', tuName = ''jane'', tuDomainID = ''d1'', tuDomainName = ''acme''\<rparr>
        \<lparr>tpID = ProjectID sampleUser, tpName = ''My Project'', tpDomainID = ''d0'', tpDomainName = ''acme''\<rparr> ''eu-1''"
  have u: "?u = sampleUser" by (simp add: tokenInfo_def sampleUser_def)
  have "ReconcileGardenerProjectResources (thClient sampleTokens) (thHash sampleTokens) (thConfig sampleTokens)
      sampleUser (emptySim [] 0) = (Ok (), snd (sampleRun []))"
    using sampleRun_ok unfolding sampleRun_def by (simp add: sampleTokens_def)
  moreover have "thReconcile sampleTokens" by (simp add: sampleTokens_def)
  ultimately show ?thesis
    by (simp add: handle_token_run sample_make_user u)
qed

theorem authenticated_by_keystone_witness:
  "\<exists>userInfo u. HandleToken sampleTokens ''eu-1:scoped'' (emptySim [] 0) = (Ok (Authenticated userInfo), u) \<and>
     (\<exists>region. \<exists>user project. OpenStackUserInfoFromExtra (Extra userInfo) = Ok (tokenInfo user project region))"
proof -
  obtain userInfo s where run: "HandleToken sampleTokens ''eu-1:scoped'' (emptySim [] 0) = (Ok (Authenticated userInfo), s)"
    using sample_review by blast
  from authenticated_by_keystone [OF run] run show ?thesis by blast
qed

text \<open>The outside calls of a review, apart from provisioning, leave the cluster alone.\<close>

definition review_laws :: "('w \<Rightarrow> cluster) \<Rightarrow> 'w TokenHandler \<Rightarrow> bool" where
  "review_laws view h \<longleftrightarrow> provision_laws view (thClient h) \<and>
     (\<forall>c t w. view (snd (thGetToken h c t w)) = view w) \<and>
     (\<forall>m region v w. view (thMetric h m region v w) = view w)"

lemma review_lawsD:
  assumes "review_laws view h"
  shows "provision_laws view (thClient h)" "view (snd (thGetToken h c t w)) = view w"
    "view (thMetric h m region v w) = view w"
  using assms by (simp_all add: review_laws_def)

lemma makeUserInfo_view:
  assumes "review_laws view h"
  shows "view (snd (makeUserInfo h specToken w)) = view w"
  using review_lawsD(2,3) [OF assms]
  by (auto simp: makeUserInfo_run split: outcome.splits prod.splits sum.splits option.splits) (metis snd_conv)+

text \<open>C18. When provisioning is switched on, a review that authenticates has left the project of the user's
  extras provisioned, with its namespace, Gardener project, admin role and binding and quota, and has
  changed the objects of no other project.\<close>

theorem review_provisions_project:
  assumes "review_laws view h" and "quotas_stamped (view w)" and "thReconcile h"
    and "HandleToken h specToken w = (Ok (Authenticated userInfo), w')"
  shows "\<exists>u g ns. OpenStackUserInfoFromExtra (Extra userInfo) = Ok u \<and>
     g = GetGardenerProjectName (thHash h) (Region u) (ProjectID u) (LandscapeName (thConfig h)) \<and>
     ns = GetGardenerProjectNamespaceName (Region u) (ProjectID u) \<and>
     provisioned (DefaultShootQuota (thConfig h)) g ns u (view w) (view w') \<and>
     onlyProject g ns (view w) (view w')"
proof -
  obtain info w1 where made: "makeUserInfo h specToken w = (Ok info, w1)"
    using assms(4) by (auto simp: handle_token_run Let_def split: outcome.splits prod.splits)
  obtain region result user project roleNames where info: "info = userOf user project roleNames region"
    using makeUserInfo_Ok [OF made] by metis
  let ?u = "tokenInfo user project region"
  obtain w2 where run: "ReconcileGardenerProjectResources (thClient h) (thHash h) (thConfig h) ?u w1 = (Ok (), w2)"
    and w': "w' = thMetric h ResourceReconciliations (Region ?u) ''success''
       (thMetric h AuthenticationAttempts (Region ?u) ''success'' w2)" and "userInfo = info"
    using assms(3,4) by (auto simp: handle_token_run made info split: outcome.splits prod.splits)
  have w1: "view w1 = view w"
    using makeUserInfo_view [OF assms(1), of specToken w] made by simp
  have "view w' = view w2" by (simp add: w' review_lawsD(3) [OF assms(1)])
  moreover have "quotas_stamped (view w1)" using w1 assms(2) by simp
  from wpD [OF provision_outcome [OF review_lawsD(1) [OF assms(1)] this] run]
  have "provisionedUpto (DefaultShootQuota (thConfig h))
      (GetGardenerProjectName (thHash h) (Region ?u) (ProjectID ?u) (LandscapeName (thConfig h)))
      (GetGardenerProjectNamespaceName (Region ?u) (ProjectID ?u)) ?u 5 (view w1) (view w2)" by simp
  ultimately show ?thesis
    using w1 provisionedUpto_all provisionedUpto_onlyProject \<open>userInfo = info\<close> info by auto
qed

lemma sample_review_laws: "review_laws simView sampleTokens"
  using sim_provision_laws by (simp add: review_laws_def sampleTokens_def simView_def)

theorem review_provisions_project_witness:
  "\<exists>userInfo s u g ns. HandleToken sampleTokens ''eu-1:scoped'' (emptySim [] 0) = (Ok (Authenticated userInfo), s) \<and>
     OpenStackUserInfoFromExtra (Extra userInfo) = Ok u \<and>
     provisioned 5 g ns u (simView (emptySim [] 0)) (simView s)"
proof -
  obtain userInfo s where run: "HandleToken sampleTokens ''eu-1:scoped'' (emptySim [] 0) = (Ok (Authenticated userInfo), s)"
    using sample_review by blast
  have "thReconcile sampleTokens" "DefaultShootQuota (thConfig sampleTokens) = 5"
    by (simp_all add: sampleTokens_def sampleConfig_def)
  with review_provisions_project [OF sample_review_laws sim_stamped _ run] run show ?thesis by metis
qed

text \<open>C34. A review panics exactly when Keystone accepts the token but gives no project (or no user) for it, as
  it does for an unscoped token; otherwise it ends with a verdict.\<close>

theorem review_panics_iff:
  assumes "review_laws view h" and "quotas_stamped (view w)"
  shows "(\<exists>p w'. HandleToken h specToken w = (Panicked p, w')) \<longleftrightarrow>
    (\<exists>region result w1 u p rs. keystoneKnows h specToken w region result w1 \<and>
       ExtractUser result = Inr u \<and> ExtractProject result = Inr p \<and> ExtractRoles result = Inr rs \<and>
       (u = None \<or> p = None))"
proof -
  have rec: "ReconcileGardenerProjectResources (thClient h) (thHash h) (thConfig h) u w1 \<noteq> (Panicked p, w2)"
    if "makeUserInfo h specToken w = (Ok info, w1)" for info u w1 p w2
  proof -
    have "quotas_stamped (view w1)"
      using makeUserInfo_view [OF assms(1), of specToken w] that assms(2) by simp
    from wpD [OF provision_outcome [OF review_lawsD(1) [OF assms(1)] this]] show ?thesis by fastforce
  qed
  have "(\<exists>p w'. HandleToken h specToken w = (Panicked p, w')) \<longleftrightarrow>
      (\<exists>p w'. makeUserInfo h specToken w = (Panicked p, w'))"
  proof
    assume "\<exists>p w'. makeUserInfo h specToken w = (Panicked p, w')"
    then show "\<exists>p w'. HandleToken h specToken w = (Panicked p, w')" by (auto simp: handle_token_run)
  next
    assume "\<exists>p w'. HandleToken h specToken w = (Panicked p, w')"
    then show "\<exists>p w'. makeUserInfo h specToken w = (Panicked p, w')"
      using from_extra_not_panic rec
      by (auto simp: handle_token_run Let_def split: outcome.splits prod.splits if_splits)
  qed
  also have "\<dots> \<longleftrightarrow> (\<exists>endpoint t region c. getRegionalIdentityEndpoint (thConfig h) specToken = Ok (endpoint, t, region) \<and>
      getOpenStackClient h endpoint t = Inr c \<and>
      (\<exists>result w1. thGetToken h c t w = (result, w1) \<and> (\<exists>u p rs. ExtractUser result = Inr u \<and>
         ExtractProject result = Inr p \<and> ExtractRoles result = Inr rs \<and> (u = None \<or> p = None))))"
    by (auto simp: makeUserInfo_run regional_endpoint_no_panic split: outcome.splits prod.splits sum.splits option.splits)
  finally show ?thesis
    unfolding keystoneKnows_def regional_endpoint_iff getOpenStackClient_def by blast
qed

theorem review_panics_iff_witness:
  "\<exists>p w'. HandleToken sampleTokens ''eu-1:unscoped'' (emptySim [] 0) = (Panicked p, w')"
proof (rule iffD2 [OF review_panics_iff [OF sample_review_laws sim_stamped]])
  have "keystoneKnows sampleTokens ''eu-1:unscoped'' (emptySim [] 0) ''eu-1'' (sampleTokenResult ''unscoped'') (emptySim [] 0)"
    by (simp add: keystoneKnows_def sampleTokens_def sampleConfig_def)
  moreover have "ExtractUser (sampleTokenResult ''unscoped'') =
      Inr (Some \<lparr>tuID = ''u1'', tuName = ''jane'', tuDomainID = ''d1'', tuDomainName = ''acme''\<rparr>)"
    "ExtractProject (sampleTokenResult ''unscoped'') = Inr None"
    "ExtractRoles (sampleTokenResult ''unscoped'') = Inr []"
    by (simp_all add: sampleTokenResult_def Let_def)
  ultimately show "\<exists>region result w1 u p rs.
      keystoneKnows sampleTokens ''eu-1:unscoped'' (emptySim [] 0) region result w1 \<and>
      ExtractUser result = Inr u \<and> ExtractProject result = Inr p \<and> ExtractRoles result = Inr rs \<and>
      (u = None \<or> p = None)" by blast
qed







end
