(* ===== verification/Webhook_Config.thy ===== *)
theory Webhook_Config
  imports Shoot_Admission Token_Webhook
begin

section \<open>The registration of the webhooks\<close>

text \<open>
  \<open>internal/webhook/add.go\<close>: the configuration that tells the API server when to call the shoot
  webhook, and how the two handlers are made from the program's configuration.
\<close>

record MutatingWebhook =
  mwName :: string
  mwPath :: string
  mwAPIGroups :: "string list"
  mwAPIVersions :: "string list"
  mwResources :: "string list"
  mwOperations :: "string list"
  mwNamespaceNotIn :: "string list" \<comment> \<open>the values of the label kubernetes.io/metadata.name\<close>
  mwSideEffects :: string
  mwFailurePolicy :: string
  mwMatchPolicy :: string
  mwTimeoutSeconds :: int

definition WebhookPath :: string where
  "WebhookPath = ''/mutate-core-gardener-cloud-v1beta1-shoot''"

definition GetMutatingWebhookConfiguration :: "string \<times> MutatingWebhook list" where
  "GetMutatingWebhookConfiguration =
     (''persephone-webhook'',
      [\<lparr>mwName = ''shoot-admission.webhook.persephone.sci.cloud.sap'', mwPath = WebhookPath,
        mwAPIGroups = [''core.gardener.cloud''], mwAPIVersions = [''v1beta1''],
        mwResources = [''shoots''], mwOperations = [''CREATE''], mwNamespaceNotIn = [''garden''],
        mwSideEffects = ''NoneOnDryRun'', mwFailurePolicy = ''Fail'', mwMatchPolicy = ''Exact'',
        mwTimeoutSeconds = 10\<rparr>])"

text \<open>
  \<open>AddToManager\<close>: the region client sets, then the two handlers. Their library fields are taken from
  templates.
\<close>

definition AddWebhooksToManager ::
    "'w cloud \<Rightarrow> PersephoneConfig \<Rightarrow> bool \<Rightarrow> 'w TokenHandler \<Rightarrow> 'w ShootHandler \<Rightarrow>
     ('w, 'w TokenHandler \<times> 'w ShootHandler) io" where
  "AddWebhooksToManager os cfg reconcileGardenerProjectResources token shoot =
     bindE (adm_wrap ClientSetFailed [] (NewRegionOpenStackClientSet os (Regions cfg) (ClusterUsersDomain cfg))) (\<lambda>openStackClientSet.
       returnE
         (token\<lparr>thConfig := cfg, thReconcile := reconcileGardenerProjectResources\<rparr>,
          shoot\<lparr>adClients := openStackClientSet, adLandscapeName := LandscapeName cfg,
                adCloudProfileName := DefaultCloudProfileName cfg,
                adProviderType := DefaultProviderType cfg\<rparr>))"

end
