(* ===== verification/Internal_Secret.thy ===== *)
theory Internal_Secret
  imports Credentials
begin

section \<open>The controller of the InternalSecrets\<close>

text \<open>
  \<open>internal/controller/internalsecret/reconciler.go\<close>: each secret holds an application credential
  of a shoot cluster. The reconciler rotates it after half its validity, lets it go when it is
  expired or unused, and with the last one deletes the cluster's service user.

  A reconciler's collaborators are the fields of a record; \<open>srMetric\<close> counts an event of a region
  with an outcome. Log lines are not modelled.
\<close>

subsection \<open>The model\<close>

definition FinalizerName :: string where
  "FinalizerName = ''persephone.sci.cloud.sap/secret-controller''"

definition gracePeriodSecretAge :: duration where "gracePeriodSecretAge = hour"
definition RequeueAfterWhenSecretStillInUse :: duration where
  "RequeueAfterWhenSecretStillInUse = 5 * minute"
definition RequeueAfterWhenSecretOwnsClusterServiceUser :: duration where
  "RequeueAfterWhenSecretOwnsClusterServiceUser = 10 * second"

text \<open>\<open>reconcile.Result\<close>: done, or to be run again after a duration.\<close>

record Result =
  RequeueAfter :: duration

definition emptyResult :: Result where "emptyResult = \<lparr>RequeueAfter = 0\<rparr>"

datatype metric = CredentialRotations | CredentialCleanups

record 'w SecretReconciler =
  srKube :: "'w kube"
  srCloud :: "'w cloud"
  srClients :: RegionOpenStackClientSet
  srClock :: "'w \<Rightarrow> time \<times> 'w"
  srLandscape :: string
  srMetric :: "metric \<Rightarrow> string \<Rightarrow> string \<Rightarrow> 'w \<Rightarrow> 'w"

abbreviation ctl_wrap :: "controller_site \<Rightarrow> string list \<Rightarrow> ('w, 'a) io \<Rightarrow> ('w, 'a) io" where
  "ctl_wrap s \<equiv> wrapE (ControllerPkg s)"

text \<open>A lookup in a map of labels; an absent key gives the empty string.\<close>

definition label :: "labels \<Rightarrow> string \<Rightarrow> string" where
  "label l key = (case l key of None \<Rightarrow> [] | Some v \<Rightarrow> v)"

definition secretKey :: "InternalSecret \<Rightarrow> string \<times> string" where
  "secretKey s = (isNamespace s, isName s)"

definition shootExists :: "Shoot \<Rightarrow> bool" where
  "shootExists shoot = (shUID shoot \<noteq> [])"

text \<open>\<open>if m fails { record(region, "error"); return fmt.Errorf(...) }\<close>\<close>

definition orRecord ::
    "'w SecretReconciler \<Rightarrow> metric \<Rightarrow> string \<Rightarrow> controller_site \<Rightarrow> string list \<Rightarrow> ('w, 'a) io \<Rightarrow> ('w, 'a) io" where
  "orRecord r mt region s args m =
     catchE m (\<lambda>err. thenE (doE (srMetric r mt region ''error''))
       (failE (Wrapf (ControllerPkg s) args err)))"

definition newOpenStackClusterUserClientSet ::
    "'w SecretReconciler \<Rightarrow> InternalSecret \<Rightarrow> Shoot \<Rightarrow> bool \<Rightarrow>
     ('w, ClusterUserClientSet option \<times> OpenStackUserInfo) io" where
  "newOpenStackClusterUserClientSet r secret shoot checkForExistence =
     bindE (ctl_wrap UserInfoFromLabels [] (liftE (OpenStackUserInfoFromLabels (isLabels secret))))
       (\<lambda>openStackUserInfo.
     case srClients r (Region openStackUserInfo) of
       None \<Rightarrow> failE (Errorf (ControllerPkg RegionUnsupported) [Region openStackUserInfo])
     | Some openStackClientSet \<Rightarrow>
         (let clusterUserName =
                GetClusterUserName (srLandscape r) (shName shoot) (ProjectID openStackUserInfo);
              create =
                bindE (ctl_wrap NewUserClientSet [clusterUserName]
                  (NewClusterUserClientSet (srCloud r) openStackClientSet clusterUserName
                     (ProjectID openStackUserInfo)))
                  (\<lambda>c. returnE (Some c, openStackUserInfo))
          in if checkForExistence
             then bindE (ctl_wrap CheckClusterUser [clusterUserName]
                    (GetUserByName (srCloud r) openStackClientSet clusterUserName)) (\<lambda>clusterUser.
                    case clusterUser of None \<Rightarrow> returnE (None, emptyUserInfo) | Some _ \<Rightarrow> create)
             else create))"

definition handleCredentialExpiry :: "'w SecretReconciler \<Rightarrow> InternalSecret \<Rightarrow> ('w, unit) io" where
  "handleCredentialExpiry r internalSecret =
     callE (delete_secret (srKube r) (secretKey internalSecret))"

definition handleNowBeforeRenewTime ::
    "'w SecretReconciler \<Rightarrow> InternalSecret \<Rightarrow> Shoot \<Rightarrow> time \<Rightarrow> ('w, Result) io" where
  "handleNowBeforeRenewTime r internalSecret shoot renewTime =
     thenE (ctl_wrap EnsureBinding []
              (EnsureCredentialsBindingForInternalSecret (srKube r) shoot internalSecret))
       (if \<not> shootExists shoot then returnE \<lparr>RequeueAfter = gracePeriodSecretAge\<rparr>
        else returnE \<lparr>RequeueAfter = time_sub renewTime (isCreationTimestamp internalSecret)\<rparr>)"

definition handleNowAfterRenewTime ::
    "'w SecretReconciler \<Rightarrow> InternalSecret \<Rightarrow> Shoot \<Rightarrow> time \<Rightarrow> ('w, unit) io" where
  "handleNowAfterRenewTime r internalSecret shoot renewTime =
     (let region = label (isLabels internalSecret) LabelKeyOpenStackRegion in
      bindE (ctl_wrap ListSecrets [printKey (shNamespace shoot, shName shoot)]
               (callE (newest_secret (srKube r)
                  (\<lambda>object. time_after (isCreationTimestamp object) renewTime)
                  (isNamespace internalSecret) LabelKeyShootName (shName shoot))))
        (\<lambda>newestInternalSecret.
      case newestInternalSecret of
        Some _ \<Rightarrow> returnE ()
      | None \<Rightarrow>
          bindE (orRecord r CredentialRotations region UserClients []
                   (newOpenStackClusterUserClientSet r internalSecret shoot False))
            (\<lambda>(userClientSet, openStackUserInfo).
          case userClientSet of
            None \<Rightarrow> panicE NilDereference
          | Some userClientSet \<Rightarrow>
              thenE (orRecord r CredentialRotations region NewSecretFailed [printKey (secretKey internalSecret)]
                       (EnsureApplicationCredentialInternalSecretForShoot (srKube r) (srCloud r)
                          userClientSet shoot openStackUserInfo))
                (doE (srMetric r CredentialRotations region ''success'')))))"

text \<open>\<open>time.Duration(RotationThreshold * float64(totalValidity))\<close> with \<open>RotationThreshold = 0.5\<close>\<close>

definition renewTimeOf :: "InternalSecret \<Rightarrow> time \<Rightarrow> time" where
  "renewTimeOf internalSecret expiresAt =
     (let totalValidity = time_sub expiresAt (isCreationTimestamp internalSecret)
      in time_add (isCreationTimestamp internalSecret) (half_duration totalValidity))"

definition reconcileSecret ::
    "'w SecretReconciler \<Rightarrow> InternalSecret \<Rightarrow> Shoot \<Rightarrow> time \<Rightarrow> ('w, Result) io" where
  "reconcileSecret r internalSecret shoot expiresAt =
     (let regular =
        bindE (readE (srClock r)) (\<lambda>now.
          let renewTime = renewTimeOf internalSecret expiresAt in
          if time_before now renewTime
          then handleNowBeforeRenewTime r internalSecret shoot renewTime
          else thenE (handleNowAfterRenewTime r internalSecret shoot renewTime)
                 (if \<not> time_before now expiresAt
                  then thenE (handleCredentialExpiry r internalSecret) (returnE emptyResult)
                  else returnE emptyResult))
      in thenE (ctl_wrap AddFinalizer []
                  (callE (add_secret_finalizer (srKube r) (secretKey internalSecret) FinalizerName)))
         (if \<not> shootExists shoot
          then bindE (readE (srClock r)) (\<lambda>now.
            let age = time_sub now (isCreationTimestamp internalSecret) in
            if age > gracePeriodSecretAge
            then thenE (callE (delete_secret (srKube r) (secretKey internalSecret))) (returnE emptyResult)
            else regular)
          else regular))"

definition internalSecretDeletionAllowed ::
    "'w SecretReconciler \<Rightarrow> InternalSecret \<Rightarrow> Shoot \<Rightarrow> time \<Rightarrow> ('w, bool \<times> string) io" where
  "internalSecretDeletionAllowed r internalSecret shoot expiresAt =
     (if (case shLastOperation shoot of
            Some op \<Rightarrow> loType op = ''Delete'' \<and> loState op = ''Succeeded'' | None \<Rightarrow> False)
      then returnE (True, ''Shoot has been deleted successfully'')
      else
        bindE (bindE (readE (srClock r)) (\<lambda>now.
                 if time_after now expiresAt then returnE True
                 else bindE (readE (srClock r)) (\<lambda>now. returnE (time_equal now expiresAt))))
          (\<lambda>isExpired.
        if isExpired then returnE (True, ''Secret is expired at '' @ formatRFC3339 expiresAt)
        else
          (let credentialsBinding = CredentialsBindingForSecret shoot internalSecret in
           if (case shCredentialsBindingName shoot of None \<Rightarrow> [] | Some n \<Rightarrow> n) \<noteq> cbName credentialsBinding
           then returnE (True, ''Shoot no longer references the CredentialsBinding '' @ cbName credentialsBinding)
           else returnE (False, ''Secret is still in use''))))"

text \<open>\<open>NewestObject\<close> returns nil when there is no object; its methods then panic.\<close>

definition secretOwnsClusterServiceUser ::
    "'w SecretReconciler \<Rightarrow> InternalSecret \<Rightarrow> Shoot \<Rightarrow> ('w, bool) io" where
  "secretOwnsClusterServiceUser r internalSecret shoot =
     bindE (ctl_wrap ListSecrets [printKey (shNamespace shoot, shName shoot)]
              (callE (newest_secret (srKube r) (\<lambda>_. True) (isNamespace internalSecret)
                        LabelKeyShootName (shName shoot)))) (\<lambda>newestInternalSecret.
       case newestInternalSecret of
         None \<Rightarrow> panicE NilDereference
       | Some s \<Rightarrow> returnE (isName s = isName internalSecret \<and> isUID s = isUID internalSecret))"

definition isOnlyRemainingInternalSecretForShoot ::
    "'w SecretReconciler \<Rightarrow> InternalSecret \<Rightarrow> Shoot \<Rightarrow> ('w, bool) io" where
  "isOnlyRemainingInternalSecretForShoot r internalSecret shoot =
     bindE (ctl_wrap ListAllSecrets []
              (callE (list_secrets (srKube r) (isNamespace internalSecret) LabelKeyShootName (shName shoot))))
       (\<lambda>items. returnE (filter (\<lambda>s. \<not> (isName s = isName internalSecret \<and>
                                         isUID s = isUID internalSecret)) items = []))"

definition ignore404 :: "controller_site \<Rightarrow> string list \<Rightarrow> ('w, unit) io \<Rightarrow> ('w, unit) io" where
  "ignore404 s args m =
     catchE m (\<lambda>err. if \<not> response_code_is err 404 then failE (Wrapf (ControllerPkg s) args err)
                     else returnE ())"

definition deleteApplicationCredential ::
    "'w SecretReconciler \<Rightarrow> InternalSecret \<Rightarrow> Shoot \<Rightarrow> ('w, unit) io" where
  "deleteApplicationCredential r internalSecret shoot =
     bindE (ctl_wrap UserClients [] (newOpenStackClusterUserClientSet r internalSecret shoot True))
       (\<lambda>(userClientSet, _).
       case userClientSet of
         None \<Rightarrow> returnE ()
       | Some c \<Rightarrow>
           (let applicationCredentialID = label (isData internalSecret) CredentialIDKey in
            ignore404 DeleteAppCredential [applicationCredentialID]
              (DeleteApplicationCredential (srCloud r) c applicationCredentialID)))"

definition deleteClusterServiceUser ::
    "'w SecretReconciler \<Rightarrow> InternalSecret \<Rightarrow> Shoot \<Rightarrow> ('w, unit) io" where
  "deleteClusterServiceUser r internalSecret shoot =
     bindE (ctl_wrap UserInfoFromLabels [] (liftE (OpenStackUserInfoFromLabels (isLabels internalSecret))))
       (\<lambda>openStackUserInfo.
     case srClients r (Region openStackUserInfo) of
       None \<Rightarrow> failE (Errorf (ControllerPkg RegionUnsupported) [Region openStackUserInfo])
     | Some openStackClientSet \<Rightarrow>
         bindE (ctl_wrap GetShootNamespace [shNamespace shoot]
                  (callE (get_namespace (srKube r) (shNamespace shoot)))) (\<lambda>namespace.
           let clusterUserName = GetClusterUserName (srLandscape r) (shName shoot)
                 (label (nsLabels namespace) LabelKeyOpenStackProjectID) in
           ignore404 DeleteServiceUser [clusterUserName]
             (DeleteClusterServiceUser (srCloud r) openStackClientSet clusterUserName)))"

definition deleteSecret ::
    "'w SecretReconciler \<Rightarrow> InternalSecret \<Rightarrow> Shoot \<Rightarrow> time \<Rightarrow> ('w, Result) io" where
  "deleteSecret r internalSecret shoot expiresAt =
     (let region = label (isLabels internalSecret) LabelKeyOpenStackRegion;
          finish = thenE (doE (srMetric r CredentialCleanups region ''success''))
                   (thenE (callE (remove_secret_finalizer (srKube r) (secretKey internalSecret) FinalizerName))
                      (returnE emptyResult))
      in
      bindE (internalSecretDeletionAllowed r internalSecret shoot expiresAt) (\<lambda>(allowed, _).
      if \<not> allowed then returnE \<lparr>RequeueAfter = RequeueAfterWhenSecretStillInUse\<rparr>
      else
        (let credentialsBinding = CredentialsBindingForSecret shoot internalSecret;
             bindingKey = (cbNamespace credentialsBinding, cbName credentialsBinding) in
         thenE (orRecord r CredentialCleanups region DeleteBinding [printKey bindingKey]
                  (catchE (callE (delete_binding (srKube r) bindingKey))
                     (\<lambda>err. if is_not_found err then returnE () else failE err)))
         (thenE (orRecord r CredentialCleanups region DeleteAppCredential []
                  (deleteApplicationCredential r internalSecret shoot))
         (bindE (orRecord r CredentialCleanups region CheckOwner []
                  (secretOwnsClusterServiceUser r internalSecret shoot))
           (\<lambda>secretIsClusterServiceUserOwner.
            if \<not> secretIsClusterServiceUserOwner then finish
            else bindE (orRecord r CredentialCleanups region CheckOnlyRemaining
                         [printKey (shNamespace shoot, shName shoot)]
                         (isOnlyRemainingInternalSecretForShoot r internalSecret shoot))
              (\<lambda>onlyRemaining.
               if \<not> onlyRemaining
               then returnE \<lparr>RequeueAfter = RequeueAfterWhenSecretOwnsClusterServiceUser\<rparr>
               else thenE (orRecord r CredentialCleanups region EnsureUserDeleted []
                             (deleteClusterServiceUser r internalSecret shoot))
                      finish)))))))"

definition ReconcileInternalSecret ::
    "'w SecretReconciler \<Rightarrow> string \<times> string \<Rightarrow> ('w, Result) io" where
  "ReconcileInternalSecret r request =
     bindE (tryE (callE (get_secret (srKube r) request))) (\<lambda>got.
       case got of
         Inl err \<Rightarrow> if is_not_found err then returnE emptyResult
                    else failE (Wrapf (ControllerPkg RetrieveObject) [] err)
       | Inr internalSecret \<Rightarrow>
           (let shootName = label (isLabels internalSecret) LabelKeyShootName;
                shootKey = (isNamespace internalSecret, shootName) in
            bindE (catchE (callE (get_shoot (srKube r) shootKey))
                     (\<lambda>err. if is_not_found err then returnE (namedShoot (isNamespace internalSecret) shootName)
                            else failE (Wrapf (ControllerPkg RetrieveShoot) [printKey shootKey] err)))
              (\<lambda>shoot.
            bindE (case isAnnotations internalSecret AnnotationKeyExpiresAt of
                     None \<Rightarrow> returnE (isCreationTimestamp internalSecret)
                   | Some expiresAtRaw \<Rightarrow>
                       ctl_wrap ParseExpiresAt [AnnotationKeyExpiresAt, expiresAtRaw]
                         (extE (parseRFC3339 expiresAtRaw))) (\<lambda>expiresAt.
              if isDeletionTimestamp internalSecret \<noteq> None
              then deleteSecret r internalSecret shoot expiresAt
              else reconcileSecret r internalSecret shoot expiresAt))))"

end
