(* ===== verification/Shoot_Controller.thy ===== *)
theory Shoot_Controller
  imports Internal_Secret
begin

section \<open>The controller of the shoots\<close>

text \<open>
  \<open>internal/controller/shoot\<close>: keeps a shoot's credentials binding at its newest InternalSecret, at a time
  when changing it is allowed, and deletes the InternalSecrets when the shoot has been deleted. The
  update predicate and the mapping functions of \<open>add.go\<close> say when a shoot is reconciled.

  Gardener's maintenance time windows are fields of the reconciler: whether now is in the shoot's
  effective window (it reads the clock) and a random duration until the next one.
\<close>

subsection \<open>The model\<close>

definition ShootFinalizerName :: string where
  "ShootFinalizerName = ''persephone.sci.cloud.sap/shoot-controller''"

record 'w ShootReconciler =
  hrKube :: "'w kube"
  hrClock :: "'w \<Rightarrow> time \<times> 'w"
  hrInWindow :: "Shoot \<Rightarrow> 'w \<Rightarrow> bool \<times> 'w"
  hrUntilWindow :: "Shoot \<Rightarrow> time \<Rightarrow> 'w \<Rightarrow> duration \<times> 'w"

definition shootKey :: "Shoot \<Rightarrow> string \<times> string" where
  "shootKey shoot = (shNamespace shoot, shName shoot)"

definition bindingNameOf :: "Shoot \<Rightarrow> string" where
  "bindingNameOf shoot = (case shCredentialsBindingName shoot of None \<Rightarrow> [] | Some n \<Rightarrow> n)"

definition patchCredentialsBindingName :: "'w ShootReconciler \<Rightarrow> Shoot \<Rightarrow> string \<Rightarrow> ('w, unit) io" where
  "patchCredentialsBindingName r shoot credentialsBindingName =
     callE (patch_shoot (hrKube r) shoot
       (shoot\<lparr>shCredentialsBindingName := Some credentialsBindingName,
              shAnnotations := (shAnnotations shoot)(AnnotationKeyForceCredentialsBindingUpdate := None)\<rparr>))"

definition patched :: "'w ShootReconciler \<Rightarrow> Shoot \<Rightarrow> string \<Rightarrow> ('w, Result) io" where
  "patched r shoot name = thenE (patchCredentialsBindingName r shoot name) (returnE emptyResult)"

text \<open>The choice between patching the shoot now and waiting for its maintenance window.\<close>

definition switchBinding :: "'w ShootReconciler \<Rightarrow> Shoot \<Rightarrow> string \<Rightarrow> ('w, Result) io" where
  "switchBinding r shoot credentialsBindingName =
     (if bindingNameOf shoot = credentialsBindingName then returnE emptyResult
      else if label (shAnnotations shoot) AnnotationKeyForceCredentialsBindingUpdate = ''true''
      then patched r shoot credentialsBindingName
      else case shMaintenance shoot of
         None \<Rightarrow> panicE NilDereference
       | Some maintenance \<Rightarrow>
           if ConfineSpecUpdateRollout maintenance = Some True
           then patched r shoot credentialsBindingName
           else bindE (readE (hrInWindow r shoot)) (\<lambda>inWindow.
             if inWindow then patched r shoot credentialsBindingName
             else bindE (readE (hrClock r)) (\<lambda>now.
                  bindE (readE (hrUntilWindow r shoot now)) (\<lambda>duration.
                    returnE \<lparr>RequeueAfter = duration\<rparr>))))"

definition reconcileShoot :: "'w ShootReconciler \<Rightarrow> Shoot \<Rightarrow> ('w, Result) io" where
  "reconcileShoot r shoot =
     thenE (if ShootFinalizerName \<notin> set (shFinalizers shoot)
            then ctl_wrap AddFinalizer []
                   (callE (add_shoot_finalizer (hrKube r) (shootKey shoot) ShootFinalizerName))
            else returnE ())
     (bindE (ctl_wrap ListSecrets [printKey (shootKey shoot)]
               (callE (newest_secret (hrKube r) (\<lambda>_. True) (shNamespace shoot) LabelKeyShootName (shName shoot))))
       (\<lambda>newestInternalSecret.
      case newestInternalSecret of
        None \<Rightarrow> returnE emptyResult
      | Some secret \<Rightarrow> switchBinding r shoot (isName secret)))"

definition deletionSucceeded :: "Shoot \<Rightarrow> bool" where
  "deletionSucceeded shoot =
     (case shLastOperation shoot of
        None \<Rightarrow> False | Some op \<Rightarrow> loType op = ''Delete'' \<and> loState op = ''Succeeded'')"

definition deleteShoot :: "'w ShootReconciler \<Rightarrow> Shoot \<Rightarrow> ('w, Result) io" where
  "deleteShoot r shoot =
     (if \<not> deletionSucceeded shoot then returnE emptyResult
      else
        thenE (ctl_wrap DeleteAllSecrets []
                 (callE (delete_all_secrets (hrKube r) (shNamespace shoot) LabelKeyShootName (shName shoot))))
        (thenE (callE (remove_shoot_finalizer (hrKube r) (shootKey shoot) ShootFinalizerName))
               (returnE emptyResult)))"

definition ReconcileShoot :: "'w ShootReconciler \<Rightarrow> string \<times> string \<Rightarrow> ('w, Result) io" where
  "ReconcileShoot r request =
     bindE (tryE (callE (get_shoot (hrKube r) request))) (\<lambda>got.
       case got of
         Inl err \<Rightarrow> if is_not_found err then returnE emptyResult
                    else failE (Wrapf (ControllerPkg RetrieveObject) [] err)
       | Inr shoot \<Rightarrow> if shDeletionTimestamp shoot \<noteq> None then deleteShoot r shoot else reconcileShoot r shoot)"

subsection \<open>When a shoot is reconciled\<close>

text \<open>An object of an event: a shoot, or an object of another type with its metadata.\<close>

record ObjectMeta =
  omDeletionTimestamp :: "time option"
  omGeneration :: int
  omAnnotations :: labels
  omFinalizers :: "string list"
  omLabels :: labels

datatype event_object = ShootEvent Shoot | OtherEvent ObjectMeta

primrec metaOf :: "event_object \<Rightarrow> ObjectMeta" where
  "metaOf (ShootEvent shoot) =
     \<lparr>omDeletionTimestamp = shDeletionTimestamp shoot, omGeneration = shGeneration shoot,
      omAnnotations = shAnnotations shoot, omFinalizers = shFinalizers shoot, omLabels = shLabels shoot\<rparr>"
| "metaOf (OtherEvent m) = m"

text \<open>\<open>.Spec\<close> of a shoot, field by field.\<close>

definition specEqual :: "Shoot \<Rightarrow> Shoot \<Rightarrow> bool" where
  "specEqual a b \<longleftrightarrow> shCloudProfile a = shCloudProfile b \<and> shProviderType a = shProviderType b \<and>
     shWorkers a = shWorkers b \<and> shInfrastructureConfig a = shInfrastructureConfig b \<and>
     shControlPlaneConfig a = shControlPlaneConfig b \<and> shNetworking a = shNetworking b \<and>
     shMaintenance a = shMaintenance b \<and> shRegion a = shRegion b \<and> shSeedSelector a = shSeedSelector b \<and>
     shCredentialsBindingName a = shCredentialsBindingName b \<and> shSpecRest a = shSpecRest b"

definition shootRelevantUpdate :: "event_object option \<Rightarrow> event_object option \<Rightarrow> bool" where
  "shootRelevantUpdate objectOld objectNew =
     (case (objectOld, objectNew) of
        (Some old, Some new) \<Rightarrow>
          if omDeletionTimestamp (metaOf new) \<noteq> None then
            if omDeletionTimestamp (metaOf old) = None then True
            else (case new of
                    OtherEvent _ \<Rightarrow> True
                  | ShootEvent newShoot \<Rightarrow>
                      shLastOperation newShoot \<noteq> None \<and>
                      loType (the (shLastOperation newShoot)) = ''Delete'' \<and>
                      loState (the (shLastOperation newShoot)) = ''Succeeded'')
          else if omGeneration (metaOf old) \<noteq> omGeneration (metaOf new) then True
          else if omAnnotations (metaOf old) \<noteq> omAnnotations (metaOf new) then True
          else if omFinalizers (metaOf old) \<noteq> omFinalizers (metaOf new) then True
          else if omLabels (metaOf old) \<noteq> omLabels (metaOf new) then True
          else (case (old, new) of
                  (ShootEvent oldShoot, ShootEvent newShoot) \<Rightarrow> \<not> specEqual oldShoot newShoot
                | _ \<Rightarrow> False)
      | _ \<Rightarrow> False)"

definition GardenNamespace :: string where "GardenNamespace = ''garden''"

definition notInGardenNamespace :: "string \<Rightarrow> bool" where
  "notInGardenNamespace namespace = (namespace \<noteq> GardenNamespace)"

text \<open>The requests (namespace and name) a changed binding or secret leads to.\<close>

definition secretRequest :: "InternalSecret \<Rightarrow> (string \<times> string) list" where
  "secretRequest internalSecret =
     [(isNamespace internalSecret, label (isLabels internalSecret) LabelKeyShootName)]"

definition MapCredentialsBindingToShoot ::
    "'w ShootReconciler \<Rightarrow> CredentialsBinding option \<Rightarrow> ('w, (string \<times> string) list) io" where
  "MapCredentialsBindingToShoot r obj =
     (case obj of
        None \<Rightarrow> returnE []
      | Some credentialsBinding \<Rightarrow>
          bindE (tryE (callE (get_secret (hrKube r)
              (orNamespace (cbCredentialsRef credentialsBinding), orName (cbCredentialsRef credentialsBinding)))))
            (\<lambda>got. case got of Inl err \<Rightarrow> returnE [] | Inr internalSecret \<Rightarrow> returnE (secretRequest internalSecret)))"

definition MapInternalSecretToShoot :: "InternalSecret option \<Rightarrow> (string \<times> string) list" where
  "MapInternalSecretToShoot obj =
     (case obj of None \<Rightarrow> [] | Some internalSecret \<Rightarrow> secretRequest internalSecret)"

end
