(* ===== verification/Secret_Properties.thy ===== *)
theory Secret_Properties
  imports Internal_Secret Cloud_Properties Provision
begin

section \<open>Properties of the InternalSecret controller\<close>

text \<open>
  When a secret is rotated, when it may be deleted, what its deletion leaves behind and what rotation
  does to the labels that the controller depends on. The witnesses run the reconciler on the
  in-memory cluster and Keystone.
\<close>

subsection \<open>A reconciler for the in-memory world\<close>

definition sampleSecrets :: "sim SecretReconciler" where
  "sampleSecrets = \<lparr>srKube = simKube, srCloud = simCloud, srClients = [''eu-1'' \<mapsto> sampleClients],
     srClock = clock_now simCloud, srLandscape = ''live'',
     srMetric = (\<lambda>m region v s. s\<lparr>simEvents := [region, v] # simEvents s\<rparr>)\<rparr>"

definition sampleShoot :: Shoot where
  "sampleShoot = (namedShoot ''garden-eu-1-p'' ''shoot'')\<lparr>shUID := ''uid''\<rparr>"

definition sampleAppCredential :: ApplicationCredential where
  "sampleAppCredential = \<lparr>acID = ''cred'', acName = ''shoot-1'', acSecret = ''s'',
     acExpiresAt = ApplicationCredentialsValidity\<rparr>"

definition sampleSecret :: InternalSecret where
  "sampleSecret = (ApplicationCredentialsInternalSecret sampleShoot sampleUser sampleAppCredential)
     \<lparr>isCreationTimestamp := 0, isUID := ''uid-1''\<rparr>"

definition secretSim :: "InternalSecret list \<Rightarrow> time \<Rightarrow> sim" where
  "secretSim ss t = (emptySim [] t)\<lparr>simSecrets := map (\<lambda>s. (secretKey s, s)) ss\<rparr>"

lemma sampleSecret_fields [simp]:
  "isCreationTimestamp sampleSecret = 0" "isNamespace sampleSecret = shNamespace sampleShoot"
  "secretKey sampleSecret = (isNamespace sampleSecret, isName sampleSecret)"
  "isUID sampleSecret = ''uid-1''"
  by (simp_all add: sampleSecret_def secretKey_def ApplicationCredentialsInternalSecret_def)

subsection \<open>When the secret is looked at again\<close>

lemma renewTimeOf_bounds:
  assumes "isCreationTimestamp s \<le> e" and "e - isCreationTimestamp s \<le> max_duration"
  shows "isCreationTimestamp s \<le> renewTimeOf s e" and "renewTimeOf s e \<le> e"
proof -
  let ?d = "time_sub e (isCreationTimestamp s)"
  have d: "?d = e - isCreationTimestamp s"
    using assms by (simp add: time_sub_exact min_duration_def)
  with assms(1) have "0 \<le> half_duration ?d" "half_duration ?d \<le> ?d"
    by (auto intro!: half_duration_bounds)
  with d show "isCreationTimestamp s \<le> renewTimeOf s e" "renewTimeOf s e \<le> e"
    by (simp_all add: renewTimeOf_def time_defs Let_def)
qed

lemma renewTimeOf_exact:
  assumes "isCreationTimestamp s \<le> e" and "e - isCreationTimestamp s < 2 ^ 53"
  shows "renewTimeOf s e = isCreationTimestamp s + (e - isCreationTimestamp s) div 2"
proof -
  have "time_sub e (isCreationTimestamp s) = e - isCreationTimestamp s"
    using assms by (simp add: time_sub_exact min_duration_def max_duration_def)
  with assms show ?thesis by (simp add: renewTimeOf_def time_defs half_duration_exact)
qed

text \<open>What the run's clock says: it is read once the finalizer has been added.\<close>

definition readAt :: "'w SecretReconciler \<Rightarrow> InternalSecret \<Rightarrow> 'w \<Rightarrow> time" where
  "readAt r s w = fst (srClock r (snd (add_secret_finalizer (srKube r) (secretKey s) FinalizerName w)))"

text \<open>A run for an existing shoot before the renewal is one of \<open>handleNowBeforeRenewTime\<close>, if the finalizer
  can be added.\<close>

lemma early_run:
  assumes "shootExists shoot" and "readAt r s w < renewTimeOf s e"
  shows "reconcileSecret r s shoot e w =
    thenE (ctl_wrap AddFinalizer [] (callE (add_secret_finalizer (srKube r) (secretKey s) FinalizerName)))
      (bindE (readE (srClock r)) (\<lambda>_. handleNowBeforeRenewTime r s shoot (renewTimeOf s e))) w"
proof -
  obtain x w1 where x: "add_secret_finalizer (srKube r) (secretKey s) FinalizerName w = (x, w1)" by fastforce
  obtain now w2 where now: "srClock r w1 = (now, w2)" by fastforce
  have "now < renewTimeOf s e" using assms(2) x now by (simp add: readAt_def)
  with assms(1) x now show ?thesis
    by (simp add: reconcileSecret_def io_simps time_defs Let_def split: sum.splits)
qed

text \<open>C35. A run for an existing shoot that succeeds at a time between the secret's creation and its renewal has
  the secret looked at again: at or after its renewal and before its expiration, whenever before the
  renewal the run was; so every credential is rotated while it is still valid, although the duration
  counts from the creation.\<close>

theorem requeue_between_renewal_and_expiry:
  assumes "isCreationTimestamp s \<le> e" "e - isCreationTimestamp s < 2 ^ 53" and exists: "shootExists shoot"
    and run: "reconcileSecret r s shoot e w = (Ok res, w')"
    and now: "isCreationTimestamp s \<le> readAt r s w" "readAt r s w < renewTimeOf s e"
  shows "0 < RequeueAfter res \<and> renewTimeOf s e \<le> readAt r s w + RequeueAfter res \<and>
    readAt r s w + RequeueAfter res < e"
proof -
  let ?c = "isCreationTimestamp s"
  have renew: "renewTimeOf s e = ?c + (e - ?c) div 2" by (rule renewTimeOf_exact [OF assms(1,2)])
  have "RequeueAfter res = time_sub (renewTimeOf s e) ?c"
    using run exists unfolding early_run [OF exists now(2)] handleNowBeforeRenewTime_def
    by (auto simp: io_simps split: outcome_splits outcome.splits)
  also have "\<dots> = (e - ?c) div 2"
  proof -
    have "0 \<le> (e - ?c) div 2" "(e - ?c) div 2 \<le> max_duration"
      using assms(1,2) by (simp_all add: max_duration_def)
    then show ?thesis by (simp add: renew time_sub_exact min_duration_def)
  qed
  finally have res: "RequeueAfter res = (e - ?c) div 2" .
  show ?thesis using now unfolding res renew by linarith
qed

lemmas sample_run = io_simps sim_kube_ops simUpdateSecret_def simCreateBinding_def simCall_def
  secretSim_def emptySim_def emptyCluster_def

lemma sampleSecrets_ops [simp]:
  "srKube sampleSecrets = simKube" "srCloud sampleSecrets = simCloud" "srLandscape sampleSecrets = ''live''"
  "srClock sampleSecrets s = (simClock s, s\<lparr>simClock := simClock s + 1\<rparr>)"
  "srClients sampleSecrets = [''eu-1'' \<mapsto> sampleClients]"
  "srMetric sampleSecrets m a b s = s\<lparr>simEvents := [a, b] # simEvents s\<rparr>"
  by (simp_all add: sampleSecrets_def simCloud_def)

lemma sampleSecret_renew:
  "renewTimeOf sampleSecret ApplicationCredentialsValidity = ApplicationCredentialsValidity div 2"
  by (simp add: renewTimeOf_exact ApplicationCredentialsValidity_def hour_def minute_def second_def)

lemma sampleShoot_exists: "shootExists sampleShoot"
  by (simp add: shootExists_def sampleShoot_def)

lemma sample_read_at: "readAt sampleSecrets sampleSecret (secretSim [sampleSecret] t) = t"
  by (simp add: readAt_def sample_run)

lemma validity_value: "ApplicationCredentialsValidity = 5184000000000000"
  by (simp add: ApplicationCredentialsValidity_def hour_def minute_def second_def)

lemma sample_reconcile:
  assumes "t < ApplicationCredentialsValidity div 2"
  shows "\<exists>w. reconcileSecret sampleSecrets sampleSecret sampleShoot ApplicationCredentialsValidity
     (secretSim [sampleSecret] t) = (Ok \<lparr>RequeueAfter = ApplicationCredentialsValidity div 2\<rparr>, w)"
proof -
  have "time_sub (ApplicationCredentialsValidity div 2) 0 = ApplicationCredentialsValidity div 2"
    by (simp add: time_sub_exact min_duration_def max_duration_def validity_value)
  moreover have "readAt sampleSecrets sampleSecret (secretSim [sampleSecret] t) < renewTimeOf sampleSecret ApplicationCredentialsValidity"
    using assms by (simp only: sample_read_at sampleSecret_renew)
  note early_run [OF sampleShoot_exists this]
  ultimately show ?thesis
    using sampleShoot_exists
    by (simp add: sampleSecret_renew handleNowBeforeRenewTime_def
        EnsureCredentialsBindingForInternalSecret_def Let_def) (simp add: sample_run)
qed

theorem requeue_between_renewal_and_expiry_witness:
  "\<exists>w d. reconcileSecret sampleSecrets sampleSecret sampleShoot ApplicationCredentialsValidity
      (secretSim [sampleSecret] 5) = (Ok \<lparr>RequeueAfter = d\<rparr>, w) \<and>
    renewTimeOf sampleSecret ApplicationCredentialsValidity \<le> 5 + d \<and>
    5 + d < ApplicationCredentialsValidity"
proof -
  let ?V = "ApplicationCredentialsValidity" and ?s = "secretSim [sampleSecret] 5"
  have early: "5 < ?V div 2" by (simp add: validity_value)
  obtain w where run: "reconcileSecret sampleSecrets sampleSecret sampleShoot ?V ?s =
      (Ok \<lparr>RequeueAfter = ?V div 2\<rparr>, w)"
    using sample_reconcile [OF early] by blast
  have pre: "isCreationTimestamp sampleSecret \<le> ?V" "?V - isCreationTimestamp sampleSecret < 2 ^ 53"
    "isCreationTimestamp sampleSecret \<le> readAt sampleSecrets sampleSecret ?s"
    "readAt sampleSecrets sampleSecret ?s < renewTimeOf sampleSecret ?V"
    using early unfolding sampleSecret_renew sample_read_at by (simp_all add: validity_value)
  from requeue_between_renewal_and_expiry [OF pre(1,2) sampleShoot_exists run pre(3,4)] run
  show ?thesis unfolding sample_read_at by (intro exI [of _ w] exI [of _ "?V div 2"]) simp
qed

subsection \<open>Before the renewal\<close>




subsection \<open>Deletion\<close>

text \<open>A shoot that has not been deleted and whose binding is the secret's.\<close>

definition usesSecret :: "Shoot \<Rightarrow> InternalSecret \<Rightarrow> bool" where
  "usesSecret shoot s \<longleftrightarrow> shLastOperation shoot \<noteq> Some \<lparr>loType = ''Delete'', loState = ''Succeeded''\<rparr> \<and>
     (case shCredentialsBindingName shoot of None \<Rightarrow> [] | Some n \<Rightarrow> n) = isName s"

text \<open>C9. A secret marked for deletion that its shoot still uses and that has not expired is left alone:
  the run does nothing but read the clock, twice, and comes back in five minutes.\<close>

theorem deletion_waits_for_shoot:
  assumes "usesSecret shoot s" and "srClock r w = (t, w1)" "srClock r w1 = (t', w2)" and "t \<le> e" "t' \<noteq> e"
  shows "deleteSecret r s shoot e w = (Ok \<lparr>RequeueAfter = 5 * minute\<rparr>, w2)"
proof -
  have "(case shLastOperation shoot of Some op \<Rightarrow> loType op = ''Delete'' \<and> loState op = ''Succeeded''
      | None \<Rightarrow> False) = False"
    using assms(1) by (auto simp: usesSecret_def split: option.splits)
  then have "internalSecretDeletionAllowed r s shoot e w = (Ok (False, ''Secret is still in use''), w2)"
    using assms unfolding internalSecretDeletionAllowed_def
    by (simp add: io_simps time_defs usesSecret_def CredentialsBindingForSecret_def)
  then show ?thesis
    by (simp add: deleteSecret_def io_simps Let_def RequeueAfterWhenSecretStillInUse_def)
qed

theorem deletion_waits_for_shoot_witness:
  "\<exists>s'. deleteSecret sampleSecrets sampleSecret (sampleShoot\<lparr>shCredentialsBindingName := Some (isName sampleSecret)\<rparr>)
     100 (secretSim [sampleSecret] 0) = (Ok \<lparr>RequeueAfter = 5 * minute\<rparr>, s') \<and> simSecrets s' = simSecrets (secretSim [sampleSecret] 0)"
proof -
  let ?sh = "sampleShoot\<lparr>shCredentialsBindingName := Some (isName sampleSecret)\<rparr>" and ?s = "secretSim [sampleSecret] 0"
  have use: "usesSecret ?sh sampleSecret"
    by (simp add: usesSecret_def sampleShoot_def namedShoot_def)
  have clock: "srClock sampleSecrets ?s = (0, ?s\<lparr>simClock := 1\<rparr>)"
    "srClock sampleSecrets (?s\<lparr>simClock := 1\<rparr>) = (1, ?s\<lparr>simClock := 2\<rparr>)"
    by (simp_all add: secretSim_def emptySim_def)
  from deletion_waits_for_shoot [OF use clock, of 100] show ?thesis by simp
qed

end
