(* ===== verification/Secret_Deletion.thy ===== *)
theory Secret_Deletion
  imports Secret_Properties
begin

section \<open>What the deletion of a secret leaves\<close>

text \<open>
  A deleted secret is let go only when its credentials binding is gone, and the last secret of a
  shoot only when the cluster's service user is gone from Keystone.
\<close>

subsection \<open>The outcome of a deletion\<close>

text \<open>
  What the deletion relies on, for a view of the cluster and one of Keystone: the API server's reads
  and deletions tell the truth, and an operation on the one system leaves the other alone.
\<close>

definition labelledSecrets :: "cluster \<Rightarrow> string \<Rightarrow> string \<Rightarrow> string \<Rightarrow> InternalSecret set" where
  "labelledSecrets c ns key v =
     {x. \<exists>n. secrets c (ns, n) = Some x \<and> isLabels x key = Some v}"

text \<open>A binding that is gone, or on its way: an object with finalizers is only marked by its deletion, and
  Gardener puts one on the bindings that are in use.\<close>

definition bindingGoing :: "cluster \<Rightarrow> string \<times> string \<Rightarrow> bool" where
  "bindingGoing c key \<longleftrightarrow> (\<forall>b. bindings c key = Some b \<longrightarrow> cbDeletionTimestamp b \<noteq> None)"

definition deletedOrMarked :: "CredentialsBinding option \<Rightarrow> CredentialsBinding option \<Rightarrow> bool" where
  "deletedOrMarked old new \<longleftrightarrow> (case new of
      None \<Rightarrow> True
    | Some b' \<Rightarrow> \<exists>b t. old = Some b \<and> cbFinalizers b \<noteq> [] \<and> b' = b\<lparr>cbDeletionTimestamp := Some t\<rparr>)"

definition bindingDeleted :: "('w \<Rightarrow> cluster) \<Rightarrow> 'w kube \<Rightarrow> bool" where
  "bindingDeleted view k \<longleftrightarrow> (\<forall>key w w' r. delete_binding k key w = (r, w') \<longrightarrow>
     (case r of
        Inr _ \<Rightarrow> \<exists>new. deletedOrMarked (bindings (view w) key) new \<and>
          view w' = (view w)\<lparr>bindings := (bindings (view w))(key := new)\<rparr>
      | Inl e \<Rightarrow> (\<forall>t. e = KubeError NotFound t \<longrightarrow> view w' = view w \<and> bindings (view w) key = None)))"

definition secretsListed :: "('w \<Rightarrow> cluster) \<Rightarrow> 'w kube \<Rightarrow> bool" where
  "secretsListed view k \<longleftrightarrow> (\<forall>ns key v w w'.
     (\<forall>r. list_secrets k ns key v w = (r, w') \<longrightarrow> view w' = view w \<and>
        (\<forall>xs. r = Inr xs \<longrightarrow> set xs = labelledSecrets (view w) ns key v)) \<and>
     (\<forall>p r. newest_secret k p ns key v w = (r, w') \<longrightarrow> view w' = view w \<and>
        (\<forall>x. r = Inr (Some x) \<longrightarrow> x \<in> labelledSecrets (view w) ns key v \<and> p x)))"

text \<open>Keystone answers 404 to no search, and to a deletion only when there is no such user.\<close>

definition not_found_law :: "('w \<Rightarrow> keystone) \<Rightarrow> 'w cloud \<Rightarrow> bool" where
  "not_found_law ks os \<longleftrightarrow>
     (\<forall>c n d w t. fst (list_users os c n d w) \<noteq> Inl (CloudError (Some 404) t) \<and>
        fst (list_users os c n d w) \<noteq> Inr (Inl (CloudError (Some 404) t))) \<and>
     (\<forall>c i w t w'. delete_user os c i w = (Inl (CloudError (Some 404) t), w') \<longrightarrow> ksUsers (ks w') i = None)"

definition deletion_laws :: "('w \<Rightarrow> cluster) \<Rightarrow> ('w \<Rightarrow> keystone) \<Rightarrow> 'w SecretReconciler \<Rightarrow> bool" where
  "deletion_laws view ks r \<longleftrightarrow>
     bindingDeleted view (srKube r) \<and> secretsListed view (srKube r) \<and>
     reads view namespaces (get_namespace (srKube r)) \<and> keystone_laws ks (srCloud r) \<and>
     not_found_law ks (srCloud r) \<and>
     (\<forall>c. cloud_keeps (\<lambda>w. view w = c) (srCloud r) \<and> stable_call (\<lambda>w. view w = c) (srClock r)) \<and>
     (\<forall>m a b w. view (srMetric r m a b w) = view w \<and> ks (srMetric r m a b w) = ks w) \<and>
     (\<forall>f key w. bindings (view (snd (remove_secret_finalizer (srKube r) key f w))) = bindings (view w) \<and>
        ks (snd (remove_secret_finalizer (srKube r) key f w)) = ks w)"

lemma wp_orRecord:
  "wp (orRecord r mt region s args m) Q w =
     wp m (\<lambda>x w'. case x of Ok y \<Rightarrow> Q (Ok y) w'
        | Err e \<Rightarrow> Q (Err (Wrapf (ControllerPkg s) args e)) (srMetric r mt region ''error'' w')
        | Panicked p \<Rightarrow> Q (Panicked p) w') w"
  by (simp add: orRecord_def wp_simps cong: outcome.case_cong)

lemma wp_delete_binding:
  fixes Q :: "unit res \<Rightarrow> 'w \<Rightarrow> bool"
  assumes "bindingDeleted view k"
    and "\<And>w'. bindingGoing (view w') key \<Longrightarrow> secrets (view w') = secrets (view w) \<Longrightarrow>
      namespaces (view w') = namespaces (view w) \<Longrightarrow> Q (Ok ()) w'"
    and "\<And>e w'. Q (Err e) w'"
  shows "wp (catchE (callE (delete_binding k key)) (\<lambda>err. if is_not_found err then returnE () else failE err)) Q w"
proof -
  obtain x w' where run: "delete_binding k key w = (x, w')" by fastforce
  with assms(1) have law: "case x of
        Inr _ \<Rightarrow> \<exists>new. deletedOrMarked (bindings (view w) key) new \<and>
          view w' = (view w)\<lparr>bindings := (bindings (view w))(key := new)\<rparr>
      | Inl e \<Rightarrow> (\<forall>t. e = KubeError NotFound t \<longrightarrow> view w' = view w \<and> bindings (view w) key = None)"
    unfolding bindingDeleted_def by blast
  show ?thesis
  proof (cases x)
    case (Inl e)
    with law run assms(2,3) show ?thesis by (cases e) (auto simp: wp_simps wp_callE bindingGoing_def)
  next
    case (Inr u)
    with law obtain new where "deletedOrMarked (bindings (view w) key) new"
      and w': "view w' = (view w)\<lparr>bindings := (bindings (view w))(key := new)\<rparr>" by auto
    then have "bindingGoing (view w') key"
      by (auto simp: bindingGoing_def deletedOrMarked_def split: option.splits)
    with w' assms(2) [of w'] Inr run show ?thesis by (simp add: wp_simps wp_callE)
  qed
qed

lemma stable_newOpenStackClusterUserClientSet [stable_intros]:
  "cloud_keeps I (srCloud r) \<Longrightarrow> stable I (newOpenStackClusterUserClientSet r s shoot b)"
  unfolding newOpenStackClusterUserClientSet_def Let_def by (intro stable_intros)

lemma stable_deleteApplicationCredential:
  "cloud_keeps I (srCloud r) \<Longrightarrow> stable I (deleteApplicationCredential r s shoot)"
  unfolding deleteApplicationCredential_def ignore404_def Let_def by (intro stable_intros)

lemma stable_deletionAllowed:
  "stable_call I (srClock r) \<Longrightarrow> stable I (internalSecretDeletionAllowed r s shoot e)"
  unfolding internalSecretDeletionAllowed_def Let_def by (intro stable_intros)

lemma response_404: "response_code_is (External e) 404 \<longleftrightarrow> (\<exists>t. e = CloudError (Some 404) t)"
  by (cases e) (auto simp: response_code_is_def split: option.splits)

lemma get_user_never_404:
  assumes "not_found_law ks os"
  shows "wp (GetUserByName os c name) (\<lambda>x w'. \<forall>e. x = Err e \<longrightarrow> \<not> response_code_is e 404) w"
proof -
  obtain p w' where run: "list_users os (csIdentityClient c) name (csDomainID c) w = (p, w')" by fastforce
  then have "p \<noteq> Inl (CloudError (Some 404) t)" "p \<noteq> Inr (Inl (CloudError (Some 404) t))" for t
    using assms unfolding not_found_law_def by (metis fst_conv)+
  then show ?thesis
    by (auto simp: GetUserByName_def wp_simps wp_callE run response_404 response_code_is_def [of "Errorf x y" for x y]
        split: sum.splits list.splits)
qed

text \<open>The outcome of a deletion, for the user's name and domain.\<close>

definition goneOr404 :: "keystone \<Rightarrow> string \<Rightarrow> string \<Rightarrow> unit res \<Rightarrow> bool" where
  "goneOr404 ks name domain x \<longleftrightarrow> (case x of
      Ok _ \<Rightarrow> usersNamed ks name domain = {}
    | Err e \<Rightarrow> response_code_is e 404 \<longrightarrow> usersNamed ks name domain = {}
    | Panicked _ \<Rightarrow> False)"

lemma delete_found_user:
  assumes laws: "keystone_laws ks os" and nf: "not_found_law ks os"
    and found: "usersNamed (ks w) name (csDomainID c) = {usID u}"
  shows "wp (callE (delete_user os (csIdentityClient c) (usID u)))
     (\<lambda>x w'. goneOr404 (ks w') name (csDomainID c) x) w"
proof -
  obtain x w2 where run: "delete_user os (csIdentityClient c) (usID u) w = (x, w2)" by fastforce
  have eff: "case x of Inr y \<Rightarrow> userDeleted (usID u) (Some y) (ks w) (ks w2)
      | Inl e \<Rightarrow> ks w2 = ks w \<or> userDeleted (usID u) None (ks w) (ks w2)"
    using keystone_lawsD(5) [OF laws, of "csIdentityClient c" "usID u"] run
    unfolding writes_def by (auto dest: spec [of _ w] split: sum.splits)
  have gone: "ksUsers (ks w2) (usID u) = None" if "x = Inl (CloudError (Some 404) t)" for t
    using nf run that unfolding not_found_law_def by blast
  have "usID u \<in> usersNamed (ks w) name (csDomainID c)"
    unfolding found by (rule insertI1)
  then have "ksUsers (ks w) (usID u) \<noteq> None" by (simp add: usersNamed_def)
  then have kept: "ks w2 \<noteq> ks w" if "x = Inl (CloudError (Some 404) t)" for t
    using gone [OF that] by auto
  show ?thesis
  proof (cases x)
    case (Inr y)
    with eff found show ?thesis by (simp add: wp_callE run userDeleted_effect goneOr404_def)
  next
    case (Inl e)
    have "usersNamed (ks w2) name (csDomainID c) = {}" if "response_code_is (External e :: error) 404"
      using that eff kept found Inl
      unfolding response_404 by (auto simp only: sum.case userDeleted_effect)
    with Inl show ?thesis by (simp add: wp_callE run goneOr404_def)
  qed
qed

lemma user_deletion_outcome:
  assumes laws: "keystone_laws ks os" and nf: "not_found_law ks os"
  shows "wp (DeleteClusterServiceUser os c name) (\<lambda>x w'. goneOr404 (ks w') name (csDomainID c) x) w"
proof -
  let ?n = "\<lambda>w'. usersNamed (ks w') name (csDomainID c)"
  have "wp (GetUserByName os c name) (\<lambda>x w'. (\<forall>e. x = Err e \<longrightarrow> \<not> response_code_is e 404) \<and>
      (case x of Ok None \<Rightarrow> ?n w' = {} | Ok (Some u) \<Rightarrow> ?n w' = {usID u}
       | Err e \<Rightarrow> True | Panicked _ \<Rightarrow> False)) w"
    unfolding wp_conj
    by (intro conjI get_user_never_404 [OF nf]) (rule wp_GetUserByName [OF laws]; simp)
  then show ?thesis
    unfolding DeleteClusterServiceUser_def wp_bindE wp_wrapE
    by (rule wp_mono)
      (auto simp: wp_basic goneOr404_def [of _ _ _ "Err x" for x] goneOr404_def [of _ _ _ "Ok x" for x]
        intro: delete_found_user [OF laws nf] split: outcome.splits option.splits)
qed

lemma wp_deleteClusterServiceUser:
  fixes Q :: "unit res \<Rightarrow> 'w \<Rightarrow> bool"
  assumes laws: "deletion_laws view ks r"
    and ok: "\<And>u c n w'. OpenStackUserInfoFromLabels (isLabels s) = Ok u \<Longrightarrow> srClients r (Region u) = Some c \<Longrightarrow>
      namespaces (view w) (shNamespace shoot) = Some n \<Longrightarrow> bindings (view w') = bindings (view w) \<Longrightarrow>
      usersNamed (ks w') (GetClusterUserName (srLandscape r) (shName shoot)
         (label (nsLabels n) LabelKeyOpenStackProjectID)) (csDomainID c) = {} \<Longrightarrow> Q (Ok ()) w'"
    and "\<And>e w'. Q (Err e) w'" and "\<And>p w'. Q (Panicked p) w'"
  shows "wp (deleteClusterServiceUser r s shoot) Q w"
proof -
  have get: "reads view namespaces (get_namespace (srKube r))" and key: "keystone_laws ks (srCloud r)"
    and nf: "not_found_law ks (srCloud r)" and keep: "cloud_keeps (\<lambda>w. view w = c) (srCloud r)" for c
    using laws by (simp_all add: deletion_laws_def)
  have gone: "wp (ignore404 st a (DeleteClusterServiceUser (srCloud r) c name)) Q w1"
    if "OpenStackUserInfoFromLabels (isLabels s) = Ok u" "srClients r (Region u) = Some c"
      "namespaces (view w) (shNamespace shoot) = Some n" "view w1 = view w"
      "name = GetClusterUserName (srLandscape r) (shName shoot) (label (nsLabels n) LabelKeyOpenStackProjectID)"
    for u c n name w1 st a
  proof -
    have "wp (DeleteClusterServiceUser (srCloud r) c name) (\<lambda>x w'. view w' = view w1) w1"
      by (rule wp_frame [where view = view]) (simp_all add: stable_DeleteClusterServiceUser keep)
    then show ?thesis
      unfolding ignore404_def wp_catchE
      using user_deletion_outcome [OF key nf, of c name w1]
      by (auto simp: wp_def io_simps goneOr404_def that(4,5) assms(3,4) ok [OF that(1,2,3)] split: outcome.splits)
  qed
  show ?thesis
    unfolding deleteClusterServiceUser_def Let_def wp_bindE wp_wrapE
    apply (cases "OpenStackUserInfoFromLabels (isLabels s)"; simp add: wp_simps assms(3,4) split: option.splits)
    apply (intro allI impI)
    apply (rule wp_reads [OF get]; simp add: assms(3))
    apply (rule gone; simp)
    done
qed

lemma wp_secretOwns:
  assumes "secretsListed view (srKube r)"
    and "\<And>x w'. x \<in> labelledSecrets (view w) (isNamespace s) LabelKeyShootName (shName shoot) \<Longrightarrow>
      view w' = view w \<Longrightarrow> Q (Ok (isName x = isName s \<and> isUID x = isUID s)) w'"
    and "\<And>e w'. Q (Err e) w'" and "\<And>p w'. Q (Panicked p) w'"
  shows "wp (secretOwnsClusterServiceUser r s shoot) Q w"
proof -
  obtain x w' where run: "newest_secret (srKube r) (\<lambda>_. True) (isNamespace s) LabelKeyShootName (shName shoot) w =
      (x, w')" by fastforce
  with assms(1) have "view w' = view w"
    "x = Inr (Some y) \<Longrightarrow> y \<in> labelledSecrets (view w) (isNamespace s) LabelKeyShootName (shName shoot)" for y
    unfolding secretsListed_def by blast+
  with assms(2-4) run show ?thesis
    by (simp add: secretOwnsClusterServiceUser_def wp_simps wp_callE split: sum.splits option.splits)
qed

lemma wp_onlyRemaining:
  assumes "secretsListed view (srKube r)"
    and "\<And>w'. view w' = view w \<Longrightarrow> Q (Ok (\<forall>x \<in> labelledSecrets (view w) (isNamespace s) LabelKeyShootName
        (shName shoot). isName x = isName s \<and> isUID x = isUID s)) w'"
    and "\<And>e w'. Q (Err e) w'"
  shows "wp (isOnlyRemainingInternalSecretForShoot r s shoot) Q w"
proof -
  let ?L = "labelledSecrets (view w) (isNamespace s) LabelKeyShootName (shName shoot)"
  obtain x w' where run: "list_secrets (srKube r) (isNamespace s) LabelKeyShootName (shName shoot) w = (x, w')"
    by fastforce
  with assms(1) have law: "view w' = view w" "x = Inr xs \<Longrightarrow> set xs = ?L" for xs
    unfolding secretsListed_def by blast+
  show ?thesis
  proof (cases x)
    case (Inl e)
    with run assms(3) show ?thesis
      by (simp add: isOnlyRemainingInternalSecretForShoot_def wp_simps wp_callE)
  next
    case (Inr xs)
    have "(filter (\<lambda>y. \<not> (isName y = isName s \<and> isUID y = isUID s)) xs = []) =
        (\<forall>x \<in> ?L. isName x = isName s \<and> isUID x = isUID s)"
      using law(2) [OF Inr] by (simp add: filter_empty_conv)
    with Inr run assms(2) [OF law(1)] show ?thesis
      by (simp add: isOnlyRemainingInternalSecretForShoot_def wp_simps wp_callE)
  qed
qed

text \<open>What a deletion that lets the secret go has achieved.\<close>

definition nothingLeft ::
    "('w \<Rightarrow> cluster) \<Rightarrow> ('w \<Rightarrow> keystone) \<Rightarrow> 'w SecretReconciler \<Rightarrow> InternalSecret \<Rightarrow> Shoot \<Rightarrow> 'w \<Rightarrow> 'w \<Rightarrow> bool" where
  "nothingLeft view ks r s shoot w w' \<longleftrightarrow>
     bindingGoing (view w') (shNamespace shoot, isName s) \<and>
     ((\<forall>x \<in> labelledSecrets (view w) (isNamespace s) LabelKeyShootName (shName shoot).
         isName x = isName s \<and> isUID x = isUID s) \<longrightarrow>
      (\<exists>u c n. OpenStackUserInfoFromLabels (isLabels s) = Ok u \<and> srClients r (Region u) = Some c \<and>
         namespaces (view w) (shNamespace shoot) = Some n \<and>
         usersNamed (ks w') (GetClusterUserName (srLandscape r) (shName shoot)
            (label (nsLabels n) LabelKeyOpenStackProjectID)) (csDomainID c) = {}))"

lemma labelledSecrets_cong: "secrets c = secrets d \<Longrightarrow> labelledSecrets c ns key v = labelledSecrets d ns key v"
  by (simp add: labelledSecrets_def)

lemma nothingLeft_other:
  assumes "x \<in> labelledSecrets c (isNamespace s) LabelKeyShootName (shName shoot)"
    and "isName x = isName s \<longrightarrow> isUID x \<noteq> isUID s" and "secrets c = secrets (view w)"
    and "bindingGoing (view w') (shNamespace shoot, isName s)"
  shows "nothingLeft view ks r s shoot w w'"
  using assms(1,2,4) unfolding labelledSecrets_cong [OF assms(3)] nothingLeft_def by blast

lemma nothingLeft_gone:
  assumes "OpenStackUserInfoFromLabels (isLabels s) = Ok u" and "srClients r (Region u) = Some c"
    and "namespaces (view w) (shNamespace shoot) = Some n"
    and "usersNamed (ks w') (GetClusterUserName (srLandscape r) (shName shoot)
            (label (nsLabels n) LabelKeyOpenStackProjectID)) (csDomainID c) = {}"
    and "bindingGoing (view w') (shNamespace shoot, isName s)"
  shows "nothingLeft view ks r s shoot w w'"
  unfolding nothingLeft_def using assms by blast

lemma wp_finish:
  assumes "deletion_laws view ks r"
    and "\<And>w'. bindings (view w') = bindings (view w) \<Longrightarrow> ks w' = ks w \<Longrightarrow> Q (Ok emptyResult) w'"
    and "\<And>e w'. Q (Err e) w'"
  shows "wp (thenE (doE (srMetric r m a b)) (thenE (callE (remove_secret_finalizer (srKube r) k f))
     (returnE emptyResult))) Q w"
proof -
  let ?w = "srMetric r m a b w"
  obtain x w' where run: "remove_secret_finalizer (srKube r) k f ?w = (x, w')" by fastforce
  then have "bindings (view w') = bindings (view w)" "ks w' = ks w"
    using assms(1) unfolding deletion_laws_def by (metis snd_conv)+
  with run assms(2,3) show ?thesis
    by (simp add: wp_simps wp_callE split: sum.splits)
qed

lemma deletion_outcome:
  assumes laws: "deletion_laws view ks r"
  shows "wp (deleteSecret r s shoot e)
     (\<lambda>x w'. \<forall>res. x = Ok res \<longrightarrow> RequeueAfter res = 0 \<longrightarrow> nothingLeft view ks r s shoot w w') w"
proof -
  have bind: "bindingDeleted view (srKube r)" and list: "secretsListed view (srKube r)"
    and keep: "cloud_keeps (\<lambda>w. view w = c) (srCloud r)" "stable_call (\<lambda>w. view w = c) (srClock r)" for c
    using laws by (simp_all add: deletion_laws_def)
  note frames = stable_deleteApplicationCredential [OF keep(1)] stable_deletionAllowed [OF keep(2)]
  note waits = RequeueAfterWhenSecretStillInUse_def RequeueAfterWhenSecretOwnsClusterServiceUser_def
    minute_def second_def
  show ?thesis
    unfolding deleteSecret_def Let_def wp_bindE
    apply (rule wp_frame [where view = view, OF frames(2)])
    apply (clarsimp split: outcome.splits simp: wp_basic waits simp del: wp_thenE)
    apply (simp only: CredentialsBindingForSecret_def CredentialsBinding.select_convs wp_thenE wp_orRecord)
    apply (rule wp_delete_binding [OF bind]; simp only: outcome.case)
     defer apply simp
    apply (rule wp_frame [where view = view, OF frames(1)])
    apply (clarsimp split: outcome.splits simp: wp_bindE wp_orRecord)
    apply (rule wp_secretOwns [OF list]; simp)
    apply (intro conjI impI)
     apply (rule wp_finish [OF laws]; simp)
     apply (rule impI, erule nothingLeft_other; simp add: bindingGoing_def)
    apply (rule wp_onlyRemaining [OF list]; simp add: wp_basic waits)
    apply (simp only: wp_thenE [of "orRecord a b c d i j" for a b c d i j] wp_orRecord)
    apply (intro impI)
    apply (rule wp_deleteClusterServiceUser [OF laws]; simp only: outcome.case; simp)
    apply (rule wp_finish [OF laws]; simp)
    apply (rule impI, erule nothingLeft_gone; simp add: bindingGoing_def)
    done
qed

text \<open>C5. When the controller has let a deleted secret go, its credentials binding is gone or marked for
  deletion; and if no other secret of the shoot was left when it started, the cluster's service user is
  gone from Keystone.\<close>

theorem deletion_leaves_nothing:
  assumes "deletion_laws view ks r" and "deleteSecret r s shoot e w = (Ok res, w')" and "RequeueAfter res = 0"
  shows "nothingLeft view ks r s shoot w w'"
  using wpD [OF deletion_outcome [OF assms(1)] assms(2)] assms(3) by simp

subsection \<open>The laws on the in-memory world\<close>

lemma simView_updates [simp]:
  "simView (s\<lparr>simFaults := a\<rparr>) = simView s" "simView (s\<lparr>simUsers := b\<rparr>) = simView s"
  "simView (s\<lparr>simGrants := c\<rparr>) = simView s" "simView (s\<lparr>simCredentials := d\<rparr>) = simView s"
  "simView (s\<lparr>simEvents := x\<rparr>) = simView s" "simView (s\<lparr>simClock := t\<rparr>) = simView s"
  by (simp_all add: simView_def)

lemma simCall_keeps:
  "(\<And>s. simView (snd (f s)) = simView s) \<Longrightarrow> stable_call (\<lambda>w. P (simView w)) (simCall f)"
  by (simp add: stable_call_def simCall_view)

lemma sim_cloud_keeps_of: "cloud_keeps (\<lambda>w. P (simView w)) simCloud"
  unfolding cloud_keeps_def simCloud_def cloud.select_convs simListUsers_def simSetPassword_def simCreateUser_def
    simDeleteUser_def simCreateCredential_def simDeleteCredential_def Let_def
  by (intro conjI allI simCall_keeps [where P = P])
    (auto simp: stable_call_def split: option.splits intro: stable_simPoll)

lemmas sim_cloud_keeps = sim_cloud_keeps_of [where P = "\<lambda>v. v = c" for c]

lemma simNewest_in: "simNewest xs = Some x \<Longrightarrow> x \<in> set xs"
  by (induction xs arbitrary: x) (auto split: option.splits if_splits)

lemma simListSecrets_set: "set (simListSecrets ns key v s) = labelledSecrets (simView s) ns key v"
  by (force simp: simListSecrets_def labelledSecrets_def simView_def map_of_clearjunk
      simp flip: map_of_eq_Some_iff [OF distinct_clearjunk])

lemma sim_secretsListed: "secretsListed simView simKube"
  unfolding secretsListed_def sim_kube_ops simCall_def
  by (auto simp: simListSecrets_set dest!: simNewest_in split: list.splits if_splits)

lemma sim_deletes_binding:
  assumes "simDeleteBinding key w = (r, w')"
  shows "case r of
        Inr _ \<Rightarrow> \<exists>new. deletedOrMarked (bindings (simView w) key) new \<and>
          simView w' = (simView w)\<lparr>bindings := (bindings (simView w))(key := new)\<rparr>
      | Inl e \<Rightarrow> \<forall>t. e = KubeError NotFound t \<longrightarrow> simView w' = simView w \<and> bindings (simView w) key = None"
proof (cases "bindings (simCluster w) key")
  case None
  with assms show ?thesis
    by (auto simp: simDeleteBinding_def simCall_def simUnavailable_def simView_def split: list.splits if_splits)
next
  case (Some b)
  let ?new = "if cbFinalizers b = [] then None else Some (b\<lparr>cbDeletionTimestamp := Some (simClock w)\<rparr>)"
  have marked: "deletedOrMarked (bindings (simView w) key) ?new" using Some by (auto simp: deletedOrMarked_def simView_def)
  have "r = Inl simUnavailable \<or> (r = Inr () \<and> simView w' = (simView w)\<lparr>bindings := (bindings (simView w))(key := ?new)\<rparr>)"
    using assms Some by (auto simp: simDeleteBinding_def simCall_def simView_def split: list.splits if_splits)
  then show ?thesis
  proof (elim disjE conjE)
    assume "r = Inr ()" and "simView w' = (simView w)\<lparr>bindings := (bindings (simView w))(key := ?new)\<rparr>"
    with marked show ?thesis unfolding \<open>r = Inr ()\<close> sum.case by blast
  qed (simp add: simUnavailable_def)
qed

lemma sim_bindingDeleted: "bindingDeleted simView simKube"
  unfolding bindingDeleted_def sim_kube_ops using sim_deletes_binding by blast

lemma sim_not_found: "not_found_law simKeystone simCloud"
  unfolding not_found_law_def sim_cloud_ops simListUsers_def simDeleteUser_def simCall_def
  by (auto simp: simUnavailable_def split: list.splits)

lemma sim_remove_finalizer:
  "bindings (simView (snd (remove_secret_finalizer simKube k f w))) = bindings (simView w)"
  "simKeystone (snd (remove_secret_finalizer simKube k f w)) = simKeystone w"
  unfolding sim_kube_ops simUpdateSecret_def simCall_def
  by (auto simp: simView_def simKeystone_def split: list.splits option.splits)

lemma sample_deletion_laws: "deletion_laws simView simKeystone sampleSecrets"
  unfolding deletion_laws_def sampleSecrets_ops
  by (intro conjI allI sim_bindingDeleted sim_secretsListed sim_keystone_laws sim_not_found sim_cloud_keeps
      sim_remove_finalizer)
    (auto simp: sim_kube_ops sim_reads simKeystone_def stable_call_def)

subsection \<open>A run\<close>

text \<open>The last secret of a deleted shoot, whose service user still exists.\<close>

definition leftUser :: "string \<times> string \<times> string \<times> string" where
  "leftUser = (''u1'', GetClusterUserName ''live'' ''shoot'' ''p'', ''kubernetes'', ''old'')"

definition lastSecret :: InternalSecret where
  "lastSecret = sampleSecret\<lparr>isLabels := [LabelKeyOpenStackDomainID \<mapsto> ''d'', LabelKeyOpenStackDomainName \<mapsto> ''dn'',
     LabelKeyOpenStackProjectID \<mapsto> ''p'', LabelKeyOpenStackProjectName \<mapsto> ''pn'',
     LabelKeyOpenStackRegion \<mapsto> ''eu-1'', LabelKeyShootName \<mapsto> ''shoot'']\<rparr>"

lemma last_fields [simp]:
  "isNamespace lastSecret = ''garden-eu-1-p''" "isLabels lastSecret LabelKeyShootName = Some ''shoot''"
  "isLabels lastSecret LabelKeyOpenStackRegion = Some ''eu-1''"
  "isCreationTimestamp lastSecret = 0" "isDeletionTimestamp lastSecret = None"
  "secretKey lastSecret = (''garden-eu-1-p'', isName lastSecret)"
  by (simp_all add: lastSecret_def sampleShoot_def namedShoot_def secretKey_def sampleSecret_def
      ApplicationCredentialsInternalSecret_def)

definition lastSim :: sim where
  "lastSim = (secretSim [lastSecret] 0)\<lparr>simUsers := [leftUser],
     simCluster := emptyCluster\<lparr>namespaces := [''garden-eu-1-p'' \<mapsto> \<lparr>nsName = ''garden-eu-1-p'', nsLabels = [LabelKeyOpenStackProjectID \<mapsto> ''p'']\<rparr>]\<rparr>\<rparr>"
definition deadShoot :: Shoot where
  "deadShoot = sampleShoot\<lparr>shLastOperation := Some \<lparr>loType = ''Delete'', loState = ''Succeeded''\<rparr>\<rparr>"

lemma sim_find_user:
  assumes "simFaults s = []" and "simUsers s = [(i, n, csDomainID c, pw)]"
  shows "GetUserByName simCloud c n s = (Ok (Some \<lparr>usID = i, usName = n\<rparr>), s)"
  using assms by (simp add: GetUserByName_def io_simps sim_cloud_ops simCall_def simListUsers_def)

lemma sim_user_clients:
  assumes "simFaults s = []" and "simUsers s = [(i, n, csDomainID c, pw)]"
  shows "\<exists>cu g. NewClusterUserClientSet simCloud c n p s = (Ok cu,
     s\<lparr>simUsers := (i, n, csDomainID c, ''password'') # simUsers s, simGrants := g\<rparr>) \<and> usID (cuUser cu) = i"
proof -
  let ?s1 = "s\<lparr>simUsers := (i, n, csDomainID c, ''password'') # simUsers s\<rparr>"
  obtain g where "forE GetDefaultServiceUserRoles (assignUserRole simCloud c \<lparr>usID = i, usName = n\<rparr> p) ?s1 =
      (Ok (), ?s1\<lparr>simGrants := g\<rparr>)"
    using sim_assign_roles [of ?s1] assms(1) by fastforce
  then have "reconcileClusterServiceUser simCloud c n p s =
      (Ok (\<lparr>usID = i, usName = n\<rparr>, ''password''), ?s1\<lparr>simGrants := g\<rparr>)"
    using assms
    by (simp add: reconcileClusterServiceUser_def sim_find_user io_simps sim_cloud_ops simCall_def
        simSetPassword_def assignUserRoles_def)
  with assms(1) show ?thesis
    by (auto simp: NewClusterUserClientSet_def io_simps simPoll_def tryUserClients_def
        sim_cloud_ops simCall_def)
qed

abbreviation lastUserName :: string where
  "lastUserName \<equiv> GetClusterUserName ''live'' ''shoot'' ''p''"

lemma last_run_1: "simFaults lastSim = []" "simUsers lastSim = [(''u1'', lastUserName, csDomainID sampleClients, ''old'')]"
  by (simp_all add: lastSim_def leftUser_def sampleClients_def secretSim_def emptySim_def)

lemma last_labels:
  "OpenStackUserInfoFromLabels (isLabels lastSecret) = Ok (emptyUserInfo\<lparr>ProjectDomainID := ''d'',
     ProjectDomainName := ''dn'', ProjectID := ''p'', ProjectName := ''pn'', Region := ''eu-1''\<rparr>)"
  by (simp add: lastSecret_def OpenStackUserInfoFromLabels_def extractLabel_def getLabelValueForKey_def)

text \<open>Its binding has a finalizer.\<close>

definition boundSim :: sim where
  "boundSim = lastSim\<lparr>simCluster := (simCluster lastSim)\<lparr>bindings := [(''garden-eu-1-p'', isName lastSecret) \<mapsto>
     (CredentialsBindingForSecret deadShoot lastSecret)\<lparr>cbFinalizers := [''gardener'']\<rparr>]\<rparr>\<rparr>"

lemma bound_run_1: "simFaults boundSim = []" "simUsers boundSim = [(''u1'', lastUserName, csDomainID sampleClients, ''old'')]"
  using last_run_1 by (simp_all add: boundSim_def)

lemma last_credential:
  assumes s: "simFaults s = []" "simUsers s = [(''u1'', lastUserName, csDomainID sampleClients, ''old'')]" "simCredentials s = []"
  shows "\<exists>g. deleteApplicationCredential sampleSecrets lastSecret deadShoot s =
    (Ok (), s\<lparr>simUsers := (''u1'', lastUserName, csDomainID sampleClients, ''password'') # simUsers s,
       simGrants := g\<rparr>)"
proof -
  obtain cu g where "NewClusterUserClientSet simCloud sampleClients lastUserName ''p'' s = (Ok cu,
      s\<lparr>simUsers := (''u1'', lastUserName, csDomainID sampleClients, ''password'') # simUsers s,
        simGrants := g\<rparr>)"
    using sim_user_clients [OF s(1,2), of "''p''"] by blast
  moreover have "shName deadShoot = ''shoot''" by (simp add: deadShoot_def sampleShoot_def namedShoot_def)
  ultimately show ?thesis
    by (auto simp: deleteApplicationCredential_def newOpenStackClusterUserClientSet_def io_simps last_labels
        sim_find_user [OF s(1,2)] DeleteApplicationCredential_def sim_cloud_ops simDeleteCredential_def
        simCall_def s ignore404_def Let_def)
qed

lemma last_run: "\<exists>s'. deleteSecret sampleSecrets lastSecret deadShoot 100 boundSim = (Ok emptyResult, s')"
proof -
  have [simp]: "shLastOperation deadShoot = Some \<lparr>loType = ''Delete'', loState = ''Succeeded''\<rparr>"
    "shName deadShoot = ''shoot''" "shNamespace deadShoot = ''garden-eu-1-p''"
     by (simp_all add: deadShoot_def sampleShoot_def namedShoot_def)
   have [simp]: "isLabels lastSecret LabelKeyShootName = Some ''shoot''"  "isNamespace lastSecret = ''garden-eu-1-p''"
    "secretKey lastSecret = (''garden-eu-1-p'', isName lastSecret)"
     by (simp_all add: lastSecret_def sampleShoot_def namedShoot_def secretKey_def)
   let ?b = "(CredentialsBindingForSecret deadShoot lastSecret)\<lparr>cbFinalizers := [''gardener''],
       cbDeletionTimestamp := Some (simClock boundSim)\<rparr>"
   let ?s = "boundSim\<lparr>simCluster := (simCluster boundSim)\<lparr>bindings := (bindings (simCluster boundSim))
       ((''garden-eu-1-p'', isName lastSecret) \<mapsto> ?b)\<rparr>\<rparr>"
   have "simCredentials ?s = []" by (simp add: boundSim_def lastSim_def secretSim_def emptySim_def)
   then obtain g where "deleteApplicationCredential sampleSecrets lastSecret deadShoot ?s =
      (Ok (), ?s\<lparr>simUsers := (''u1'', lastUserName, csDomainID sampleClients, ''password'') # simUsers boundSim, simGrants := g\<rparr>)"
     using last_credential [of ?s] bound_run_1 by auto
   moreover have "simSecrets boundSim = [((''garden-eu-1-p'', isName lastSecret), lastSecret)]"
     "bindings (simCluster boundSim) (''garden-eu-1-p'', isName lastSecret) = Some
        ((CredentialsBindingForSecret deadShoot lastSecret)\<lparr>cbFinalizers := [''gardener'']\<rparr>)"
     "namespaces (simCluster boundSim) = [''garden-eu-1-p'' \<mapsto> \<lparr>nsName = ''garden-eu-1-p'', nsLabels = [LabelKeyOpenStackProjectID \<mapsto> ''p'']\<rparr>]"
     by (simp_all add: boundSim_def lastSim_def secretSim_def emptyCluster_def)
   ultimately show ?thesis
     by (auto simp: deleteSecret_def internalSecretDeletionAllowed_def io_simps sim_kube_ops simCall_def bound_run_1
       simDeleteBinding_def simMissing_def CredentialsBindingForSecret_def Let_def orRecord_def secretOwnsClusterServiceUser_def
       simListSecrets_def isOnlyRemainingInternalSecretForShoot_def deleteClusterServiceUser_def last_labels simGet_def simView_def
       label_def ignore404_def DeleteClusterServiceUser_def GetUserByName_def sim_cloud_ops simListUsers_def simDeleteUser_def
       simUpdateSecret_def)
qed

theorem deletion_leaves_nothing_witness:
  "usersNamed (simKeystone boundSim) lastUserName ''kubernetes'' = {''u1''} \<and>
   (\<exists>s'. deleteSecret sampleSecrets lastSecret deadShoot 100 boundSim = (Ok emptyResult, s') \<and>
     bindingGoing (simView s') (''garden-eu-1-p'', isName lastSecret) \<and>
     usersNamed (simKeystone s') lastUserName ''kubernetes'' = {})"
proof -
  obtain s' where run: "deleteSecret sampleSecrets lastSecret deadShoot 100 boundSim = (Ok emptyResult, s')"
    using last_run by blast
  have left: "nothingLeft simView simKeystone sampleSecrets lastSecret deadShoot boundSim s'"
    by (rule deletion_leaves_nothing [OF sample_deletion_laws run]) (simp add: emptyResult_def)
  have shoot: "shNamespace deadShoot = ''garden-eu-1-p''" "shName deadShoot = ''shoot''"
    by (simp_all add: deadShoot_def sampleShoot_def namedShoot_def)
  have view: "namespaces (simView boundSim) ''garden-eu-1-p'' = Some \<lparr>nsName = ''garden-eu-1-p'',
      nsLabels = [LabelKeyOpenStackProjectID \<mapsto> ''p'']\<rparr>"
    "secrets (simView boundSim) k = Some x \<Longrightarrow> x = lastSecret" for k x
    by (auto simp: boundSim_def lastSim_def secretSim_def simView_def split: if_splits)
  have "x = lastSecret"
    if "x \<in> labelledSecrets (simView boundSim) (isNamespace lastSecret) LabelKeyShootName (shName deadShoot)" for x
    using that view(2) unfolding labelledSecrets_def by blast
  moreover have "csDomainID sampleClients = ''kubernetes''" by (simp add: sampleClients_def)
  ultimately have "bindingGoing (simView s') (''garden-eu-1-p'', isName lastSecret)"
    "usersNamed (simKeystone s') lastUserName ''kubernetes'' = {}"
    using left by (auto simp: nothingLeft_def shoot last_labels view(1) label_def)
  moreover have "usersNamed (simKeystone boundSim) lastUserName ''kubernetes'' = {''u1''}"
    by (auto simp: usersNamed_def simKeystone_def bound_run_1 sampleClients_def)
  ultimately show ?thesis using run by blast
qed

end
