(* ===== verification/Shoot_Properties.thy ===== *)
theory Shoot_Properties
  imports Shoot_Controller Secret_Deletion
begin

section \<open>Properties of the shoot controller\<close>

text \<open>
  Which updates of a shoot are ignored, and where the shoot's credentials binding points after a run
  of the reconciler.
\<close>

subsection \<open>Ignored updates\<close>

lemma deleteShoot_waits: "\<not> deletionSucceeded shoot \<Longrightarrow> deleteShoot r shoot = returnE emptyResult"
  by (simp add: deleteShoot_def)

lemma status_only:
  assumes "shName old = shName new" "shNamespace old = shNamespace new" "shUID old = shUID new"
    and "shGeneration old = shGeneration new" "shDeletionTimestamp old = shDeletionTimestamp new"
    and "shFinalizers old = shFinalizers new" "shAnnotations old = shAnnotations new"
    and "shLabels old = shLabels new" "specEqual old new"
  shows "new = old\<lparr>shLastOperation := shLastOperation new, shStatusRest := shStatusRest new,
    shMetaRest := shMetaRest new\<rparr>"
  using assms by (intro Shoot.equality) (simp_all add: specEqual_def)

lemma same_but_status:
  assumes "new = old\<lparr>shLastOperation := op, shStatusRest := st, shMetaRest := m\<rparr>"
  shows "shGeneration old = shGeneration new" "shAnnotations old = shAnnotations new"
    "shFinalizers old = shFinalizers new" "shLabels old = shLabels new" "specEqual old new"
  by (simp_all add: assms specEqual_def)

text \<open>C38. An update of a shoot that is not being deleted is ignored exactly when it changes nothing but the
  status and the metadata other than generation, annotations, finalizers and labels. An update of a
  shoot that is being deleted is ignored exactly when the deletion was requested before it and has not
  succeeded yet; the deletion step would do nothing then.\<close>

theorem ignored_update_iff:
  assumes "shName old = shName new" "shNamespace old = shNamespace new" "shUID old = shUID new"
    and "shDeletionTimestamp old \<noteq> None \<Longrightarrow> shDeletionTimestamp new \<noteq> None"
  shows "\<not> shootRelevantUpdate (Some (ShootEvent old)) (Some (ShootEvent new)) \<longleftrightarrow>
    (if shDeletionTimestamp new = None
     then new = old\<lparr>shLastOperation := shLastOperation new, shStatusRest := shStatusRest new,
       shMetaRest := shMetaRest new\<rparr>
     else shDeletionTimestamp old \<noteq> None \<and> \<not> deletionSucceeded new \<and> deleteShoot r new = returnE emptyResult)"
proof (cases "shDeletionTimestamp new")
  case None
  with assms(4) have "shDeletionTimestamp old = shDeletionTimestamp new" by fastforce
  then have iff: "\<not> shootRelevantUpdate (Some (ShootEvent old)) (Some (ShootEvent new)) \<longleftrightarrow>
      shGeneration old = shGeneration new \<and> shAnnotations old = shAnnotations new \<and>
      shFinalizers old = shFinalizers new \<and> shLabels old = shLabels new \<and> specEqual old new"
    using None by (simp add: shootRelevantUpdate_def)
  show ?thesis
    unfolding None iff simp_thms if_True
    by (rule iffI, elim conjE,
      rule status_only [OF assms(1-3) _ \<open>shDeletionTimestamp old = shDeletionTimestamp new\<close>], assumption+,
      intro conjI, (erule same_but_status)+)
next
  case (Some t)
  then show ?thesis
    using deleteShoot_waits [of new r]
    by (auto simp: shootRelevantUpdate_def deletionSucceeded_def split: option.splits)
qed

theorem ignored_update_iff_witness:
  "let old = sampleShoot; new = old\<lparr>shLastOperation := Some \<lparr>loType = ''Reconcile'', loState = ''Processing''\<rparr>\<rparr>
   in \<not> shootRelevantUpdate (Some (ShootEvent old)) (Some (ShootEvent new)) \<and>
     shootRelevantUpdate (Some (ShootEvent old)) (Some (ShootEvent (new\<lparr>shRegion := ''eu-2''\<rparr>)))"
proof -
  let ?new = "sampleShoot\<lparr>shLastOperation := Some \<lparr>loType = ''Reconcile'', loState = ''Processing''\<rparr>\<rparr>"
  have none: "shDeletionTimestamp sampleShoot = None" by (simp add: sampleShoot_def namedShoot_def)
  have "\<not> shootRelevantUpdate (Some (ShootEvent sampleShoot)) (Some (ShootEvent ?new))"
    by (subst ignored_update_iff) (simp_all add: none)
  moreover have "shootRelevantUpdate (Some (ShootEvent sampleShoot)) (Some (ShootEvent (?new\<lparr>shRegion := ''eu-2''\<rparr>)))"
    by (simp add: shootRelevantUpdate_def none specEqual_def) (simp add: sampleShoot_def namedShoot_def)
  ultimately show ?thesis by (simp add: Let_def)
qed

subsection \<open>Where the binding points\<close>

text \<open>
  A merge patch from \<open>old\<close> to \<open>new\<close> sets, in the stored shoot, what differs between the two. Here: the
  binding's name and the annotations, which is all that the reconciler changes.
\<close>

definition mergedMap :: "labels \<Rightarrow> labels \<Rightarrow> labels \<Rightarrow> labels" where
  "mergedMap old new x = (\<lambda>k. if old k \<noteq> new k then new k else x k)"

definition mergePatched :: "Shoot \<Rightarrow> Shoot \<Rightarrow> Shoot \<Rightarrow> Shoot" where
  "mergePatched old new x = x\<lparr>
     shCredentialsBindingName := (if shCredentialsBindingName old \<noteq> shCredentialsBindingName new
        then shCredentialsBindingName new else shCredentialsBindingName x),
     shAnnotations := mergedMap (shAnnotations old) (shAnnotations new) (shAnnotations x)\<rparr>"

definition shootPatched :: "('w \<Rightarrow> cluster) \<Rightarrow> 'w kube \<Rightarrow> bool" where
  "shootPatched view k \<longleftrightarrow> (\<forall>old new w w'. patch_shoot k old new w = (Inr (), w') \<longrightarrow>
     new = old\<lparr>shCredentialsBindingName := shCredentialsBindingName new, shAnnotations := shAnnotations new\<rparr> \<longrightarrow>
     (\<forall>x. shoots (view w) (shootKey old) = Some x \<longrightarrow>
        shoots (view w') (shootKey old) = Some (mergePatched old new x)))"

text \<open>The finalizer is set on the stored shoot; the newest secret is the one created last.\<close>

definition finalizerAdded :: "('w \<Rightarrow> cluster) \<Rightarrow> 'w kube \<Rightarrow> bool" where
  "finalizerAdded view k \<longleftrightarrow> (\<forall>key f w w'. add_shoot_finalizer k key f w = (Inr (), w') \<longrightarrow>
     secrets (view w') = secrets (view w) \<and>
     (\<forall>x. shoots (view w) key = Some x \<longrightarrow>
        (\<exists>fs. shoots (view w') key = Some (x\<lparr>shFinalizers := fs\<rparr>))))"

definition newestFound :: "('w \<Rightarrow> cluster) \<Rightarrow> 'w kube \<Rightarrow> bool" where
  "newestFound view k \<longleftrightarrow> (\<forall>ns key v w w' r. newest_secret k (\<lambda>_. True) ns key v w = (Inr r, w') \<longrightarrow>
     view w' = view w \<and>
     (case r of None \<Rightarrow> labelledSecrets (view w) ns key v = {}
      | Some x \<Rightarrow> x \<in> labelledSecrets (view w) ns key v \<and>
          (\<forall>y \<in> labelledSecrets (view w) ns key v. isCreationTimestamp y \<le> isCreationTimestamp x)))"

definition shoot_laws :: "('w \<Rightarrow> cluster) \<Rightarrow> 'w ShootReconciler \<Rightarrow> bool" where
  "shoot_laws view r \<longleftrightarrow> shootPatched view (hrKube r) \<and> finalizerAdded view (hrKube r) \<and>
     newestFound view (hrKube r) \<and>
     (\<forall>sh w. view (snd (hrInWindow r sh w)) = view w) \<and> (\<forall>w. view (snd (hrClock r w)) = view w) \<and>
     (\<forall>sh t w. view (snd (hrUntilWindow r sh t w)) = view w)"

text \<open>When the binding may be changed, with the shoot's maintenance window open or not.\<close>

definition mayUpdate :: "Shoot \<Rightarrow> bool \<Rightarrow> bool" where
  "mayUpdate shoot windowOpen \<longleftrightarrow>
     label (shAnnotations shoot) AnnotationKeyForceCredentialsBindingUpdate = ''true'' \<or>
     (\<exists>m. shMaintenance shoot = Some m \<and> ConfineSpecUpdateRollout m = Some True) \<or> windowOpen"

definition bindingFollows :: "InternalSecret set \<Rightarrow> bool \<Rightarrow> Shoot \<Rightarrow> Shoot \<Rightarrow> bool" where
  "bindingFollows ss allowed shoot sh' \<longleftrightarrow>
     (if ss = {} then bindingNameOf sh' = bindingNameOf shoot
      else \<exists>x \<in> ss. (\<forall>y \<in> ss. isCreationTimestamp y \<le> isCreationTimestamp x) \<and>
             bindingNameOf sh' = (if allowed then isName x else bindingNameOf shoot))"

lemma bindingName_simps [simp]:
  "bindingNameOf (x\<lparr>shFinalizers := fs\<rparr>) = bindingNameOf x"
  "bindingNameOf (x\<lparr>shCredentialsBindingName := Some n, shAnnotations := a\<rparr>) = n"
  by (simp_all add: bindingNameOf_def)

lemma patched_binding:
  assumes "bindingNameOf x = bindingNameOf shoot" and "bindingNameOf shoot \<noteq> n"
  shows "bindingNameOf (mergePatched shoot (shoot\<lparr>shCredentialsBindingName := Some n, shAnnotations := a\<rparr>) x) = n"
  using assms by (auto simp: bindingNameOf_def mergePatched_def)

lemma patched_result:
  assumes "shootPatched view (hrKube r)" and "patched r shoot n w = (Ok res, w')"
    and "shoots (view w) (shootKey shoot) = Some x" and "bindingNameOf x = bindingNameOf shoot"
    and "bindingNameOf shoot \<noteq> n"
  shows "\<exists>sh'. shoots (view w') (shootKey shoot) = Some sh' \<and> bindingNameOf sh' = n"
proof -
  let ?new = "shoot\<lparr>shCredentialsBindingName := Some n,
     shAnnotations := (shAnnotations shoot)(AnnotationKeyForceCredentialsBindingUpdate := None)\<rparr>"
  have "patch_shoot (hrKube r) shoot ?new w = (Inr (), w')"
    using assms(2) by (auto simp: patched_def patchCredentialsBindingName_def io_simps split: outcome_splits)
  with assms(1,3) have "shoots (view w') (shootKey shoot) = Some (mergePatched shoot ?new x)"
    unfolding shootPatched_def by fastforce
  with patched_binding [OF assms(4,5)] show ?thesis by blast
qed

lemma switch_result:
  assumes laws: "shoot_laws view r" and x: "shoots (view w) (shootKey shoot) = Some x" "bindingNameOf x = bindingNameOf shoot"
    and win: "\<And>w. fst (hrInWindow r shoot w) = windowOpen"
    and run: "switchBinding r shoot n w = (Ok res, w')"
  shows "\<exists>sh'. shoots (view w') (shootKey shoot) = Some sh' \<and>
    bindingNameOf sh' = (if mayUpdate shoot windowOpen then n else bindingNameOf shoot)"
proof (cases "bindingNameOf shoot = n")
  case True
  with run x show ?thesis by (auto simp: switchBinding_def io_simps)
next
  case False
  have patch: "shootPatched view (hrKube r)" using laws by (simp add: shoot_laws_def)
  note patched = patched_result [OF patch _ _ x(2) False]
  obtain b w1 where w1: "hrInWindow r shoot w = (b, w1)" by fastforce
  obtain t w2 where w2: "hrClock r w1 = (t, w2)" by fastforce
  obtain d w3 where w3: "hrUntilWindow r shoot t w2 = (d, w3)" by fastforce
  have b: "b = windowOpen" using win [of w] w1 by simp
  have view: "view w1 = view w" "view w3 = view w"
    using laws w1 w2 w3 unfolding shoot_laws_def by (metis snd_conv)+
  show ?thesis
    using run False patched [of w res w'] patched [of w1 res w'] x view
    by (auto simp: switchBinding_def io_simps mayUpdate_def w1 w2 w3 b split: if_splits option.splits)
qed

text \<open>C15. A run of the reconciler that returns no error leaves the shoot's credentials binding at the
  newest InternalSecret of the shoot if the change is forced, confined by the shoot or falls into its
  maintenance window, and where it was otherwise or when there is no secret.\<close>

theorem binding_follows_newest_secret:
  assumes laws: "shoot_laws view r" and stored: "shoots (view w) (shootKey shoot) = Some shoot"
    and win: "\<And>w. fst (hrInWindow r shoot w) = windowOpen"
    and run: "reconcileShoot r shoot w = (Ok res, w')"
  shows "\<exists>sh'. shoots (view w') (shootKey shoot) = Some sh' \<and>
    bindingFollows (labelledSecrets (view w) (shNamespace shoot) LabelKeyShootName (shName shoot))
      (mayUpdate shoot windowOpen) shoot sh'"
proof -
  let ?first = "if ShootFinalizerName \<notin> set (shFinalizers shoot)
     then ctl_wrap AddFinalizer [] (callE (add_shoot_finalizer (hrKube r) (shootKey shoot) ShootFinalizerName))
     else returnE ()"
  let ?find = "newest_secret (hrKube r) (\<lambda>_. True) (shNamespace shoot) LabelKeyShootName (shName shoot)"
  obtain w1 newest w2 where w1: "?first w = (Ok (), w1)" and w2: "?find w1 = (Inr newest, w2)"
    and rest: "(case newest of None \<Rightarrow> returnE emptyResult | Some s \<Rightarrow> switchBinding r shoot (isName s)) w2 = (Ok res, w')"
    using run unfolding reconcileShoot_def by (auto simp: run_thenE run_bindE run_wrapE run_callE split: outcome_splits outcome.splits)
  have added: "secrets (view w1) = secrets (view w) \<and>
      (\<exists>fs. shoots (view w1) (shootKey shoot) = Some (shoot\<lparr>shFinalizers := fs\<rparr>))"
  proof (cases "ShootFinalizerName \<in> set (shFinalizers shoot)")
    case True
    with w1 have "w1 = w" by (simp add: io_simps)
    then show ?thesis using stored by (simp add: exI [of _ "shFinalizers shoot"])
  next
    case False
    with w1 have "add_shoot_finalizer (hrKube r) (shootKey shoot) ShootFinalizerName w = (Inr (), w1)"
      by (auto simp: io_simps split: outcome_splits)
    with laws stored show ?thesis unfolding shoot_laws_def finalizerAdded_def by blast
  qed
  then obtain x where x: "shoots (view w1) (shootKey shoot) = Some x" "bindingNameOf x = bindingNameOf shoot"
    by auto
  let ?ss = "labelledSecrets (view w) (shNamespace shoot) LabelKeyShootName (shName shoot)"
  have "newestFound view (hrKube r)" using laws by (simp add: shoot_laws_def)
  note found = this [unfolded newestFound_def, rule_format, OF w2,
      unfolded labelledSecrets_cong [OF conjunct1 [OF added]]]
  show ?thesis
  proof (cases newest)
    case None
    with rest found x show ?thesis by (auto simp: io_simps bindingFollows_def)
  next
    case (Some s)
    with rest have "switchBinding r shoot (isName s) w2 = (Ok res, w')" by simp
    from switch_result [OF laws _ x(2) win this] x(1) found
    obtain sh' where "shoots (view w') (shootKey shoot) = Some sh'"
      "bindingNameOf sh' = (if mayUpdate shoot windowOpen then isName s else bindingNameOf shoot)" by auto
    moreover have "s \<in> ?ss" "\<forall>y \<in> ?ss. isCreationTimestamp y \<le> isCreationTimestamp s"
      using found Some by simp_all
    ultimately show ?thesis unfolding bindingFollows_def by auto
  qed
qed

subsection \<open>A run\<close>

definition sampleShoots :: "sim ShootReconciler" where
  "sampleShoots = \<lparr>hrKube = simKube\<lparr>patch_shoot := (\<lambda>old new. simUpdateShoot (mergePatched old new) (shootKey old))\<rparr>,
     hrClock = clock_now simCloud, hrInWindow = (\<lambda>sh s. (True, s)), hrUntilWindow = (\<lambda>sh t s. (hour, s))\<rparr>"

lemma simNewest_None: "simNewest xs = None \<Longrightarrow> xs = []"
  by (cases xs) (auto split: option.splits if_splits)

lemma simNewest_max: "simNewest xs = Some x \<Longrightarrow> y \<in> set xs \<Longrightarrow> isCreationTimestamp y \<le> isCreationTimestamp x"
proof (induction xs arbitrary: x y)
  case (Cons z zs)
  show ?case
  proof (cases "simNewest zs")
    case None
    with Cons.prems simNewest_None [OF None] show ?thesis by auto
  next
    case (Some v)
    with Cons.prems Cons.IH [OF Some] show ?thesis by (fastforce split: if_splits)
  qed
qed simp

lemma simNewest_spec: "case simNewest xs of None \<Rightarrow> set xs = {}
    | Some x \<Rightarrow> x \<in> set xs \<and> (\<forall>y \<in> set xs. isCreationTimestamp y \<le> isCreationTimestamp x)"
  using simNewest_None simNewest_in simNewest_max by (cases "simNewest xs") fastforce+

lemma simListSecrets_faults: "simListSecrets ns key v (w\<lparr>simFaults := b\<rparr>) = simListSecrets ns key v w"
  by (simp add: simListSecrets_def)

lemma sim_newestFound: "newestFound simView simKube"
  unfolding newestFound_def sim_kube_ops simCall_def simListSecrets_set [symmetric]
  by (auto simp: simListSecrets_faults simListSecrets_set [symmetric] simp del: option.case
      intro!: simNewest_spec split: list.splits if_splits)

lemma sim_finalizerAdded: "finalizerAdded simView simKube"
  unfolding finalizerAdded_def sim_kube_ops simUpdateShoot_def simCall_def
  by (auto simp: simView_def split: list.splits if_splits option.splits)

lemma sim_shootPatched: "shootPatched simView (hrKube sampleShoots)"
  unfolding shootPatched_def sampleShoots_def simUpdateShoot_def simCall_def
  by (auto simp: simView_def split: list.splits if_splits option.splits)

lemma sample_shoot_laws: "shoot_laws simView sampleShoots"
  unfolding shoot_laws_def
proof (intro conjI allI)
  show "finalizerAdded simView (hrKube sampleShoots)" "newestFound simView (hrKube sampleShoots)"
    using sim_finalizerAdded sim_newestFound
    by (simp_all add: sampleShoots_def finalizerAdded_def newestFound_def)
qed (simp_all add: sim_shootPatched, simp_all add: sampleShoots_def simCloud_def)

definition openShoot :: Shoot where
  "openShoot = sampleShoot\<lparr>shMaintenance := Some \<lparr>ConfineSpecUpdateRollout = None, TimeWindow = None\<rparr>\<rparr>"

theorem binding_follows_newest_secret_witness:
  "\<exists>s' sh'. reconcileShoot sampleShoots openShoot
      (lastSim\<lparr>simCluster := emptyCluster\<lparr>shoots := [shootKey openShoot \<mapsto> openShoot]\<rparr>\<rparr>) = (Ok emptyResult, s') \<and>
    shoots (simView s') (shootKey openShoot) = Some sh' \<and> bindingNameOf sh' = isName lastSecret"
proof -
  let ?w = "lastSim\<lparr>simCluster := emptyCluster\<lparr>shoots := [shootKey openShoot \<mapsto> openShoot]\<rparr>\<rparr>"
  have key: "shootKey openShoot = (''garden-eu-1-p'', ''shoot'')" "shNamespace openShoot = ''garden-eu-1-p''" 
    "shName openShoot = ''shoot''" "shFinalizers openShoot = []" "shAnnotations openShoot = Map.empty" 
    "bindingNameOf openShoot = []" "shMaintenance openShoot = Some \<lparr>ConfineSpecUpdateRollout = None, TimeWindow = None\<rparr>"
    by (simp_all add: openShoot_def sampleShoot_def namedShoot_def shootKey_def bindingNameOf_def)
  have w: "simFaults ?w = []" "simSecrets ?w = [((''garden-eu-1-p'', isName lastSecret), lastSecret)]"
    by (simp_all add: lastSim_def secretSim_def emptySim_def)
  have name: "isName lastSecret \<noteq> []"
    by (simp add: lastSecret_def sampleSecret_def ApplicationCredentialsInternalSecret_def
      GetApplicationCredentialInternalSecretName_def sampleUser_def delimiter_def)
  obtain s' where run: "reconcileShoot sampleShoots openShoot ?w = (Ok emptyResult, s')"
    using w name by (auto simp: reconcileShoot_def switchBinding_def patched_def patchCredentialsBindingName_def io_simps key
      sampleShoots_def sim_kube_ops simUpdateShoot_def simCall_def simListSecrets_def label_def)
  have stored: "shoots (simView ?w) (shootKey openShoot) = Some openShoot" by (simp add: simView_def)
  have win: "\<And>w. fst (hrInWindow sampleShoots openShoot w) = True" by (simp add: sampleShoots_def)
  have ss: "labelledSecrets (simView ?w) (shNamespace openShoot) LabelKeyShootName (shName openShoot) = {lastSecret}"
    by (auto simp: labelledSecrets_def simView_def key lastSim_def secretSim_def split: if_splits)
  from binding_follows_newest_secret [OF sample_shoot_laws stored win run] run show ?thesis
    unfolding ss by (auto simp: bindingFollows_def mayUpdate_def)
qed

end

