(* ===== verification/Project_Controller.thy ===== *)
theory Project_Controller
  imports Provision
begin

section \<open>The controller of the Gardener projects\<close>

text \<open>
  \<open>internal/controller/project/reconciler.go\<close>: when the operator starts, it provisions the resources of
  every existing project again, with the user info that the labels of the project's namespace carry.
\<close>

subsection \<open>The model\<close>

record 'w ProjectReconciler =
  prKube :: "'w kube"
  prHash :: "string \<Rightarrow> string"
  prConfig :: PersephoneConfig
  prMetric :: "string \<Rightarrow> string \<Rightarrow> 'w \<Rightarrow> 'w" \<comment> \<open>resource creations\<close>

definition ReconcileGardenerProject :: "'w ProjectReconciler \<Rightarrow> string \<Rightarrow> ('w, unit) io" where
  "ReconcileGardenerProject r request =
     bindE (tryE (callE (get_project (prKube r) request))) (\<lambda>got.
       case got of
         Inl err \<Rightarrow> if is_not_found err then returnE ()
                    else failE (Wrapf (ControllerPkg RetrieveObject) [] err)
       | Inr project \<Rightarrow>
           if pjDeletionTimestamp project \<noteq> None then returnE ()
           else case pjNamespace project of
              None \<Rightarrow> returnE ()
            | Some namespace \<Rightarrow>
                bindE (wrapE (ControllerPkg RetrieveNamespace) [namespace, pjName project]
                         (callE (get_namespace (prKube r) namespace))) (\<lambda>ns.
                bindE (wrapE (ControllerPkg NamespaceLabels) []
                         (liftE (OpenStackUserInfoFromLabels (nsLabels ns)))) (\<lambda>openStackUserInfo.
                bindE (tryE (ReconcileGardenerProjectResources (prKube r) (prHash r) (prConfig r)
                         openStackUserInfo)) (\<lambda>err.
                  let region = Region openStackUserInfo in
                  case err of
                    Inl err \<Rightarrow> thenE (doE (prMetric r region ''error'')) (failE err)
                  | Inr _ \<Rightarrow> doE (prMetric r region ''success'')))))"

end
