(* ===== verification/Project_Properties.thy ===== *)
theory Project_Properties
  imports Project_Controller Credentials
begin

section \<open>Properties of the project controller\<close>

text \<open>
  The controller finds in the labels of a namespace the user info that the token webhook once wrote
  there, sanitised, and provisions with it. The result is the one the user's own login would have.
\<close>

lemma read_project_labels:
  "labelsReadable u \<Longrightarrow> OpenStackUserInfoFromLabels (projectLabels g u l) = Ok (labelledInfo u)"
  by (simp add: OpenStackUserInfoFromLabels_def extractLabel_def getLabelValueForKey_def projectLabels_def
      labelsReadable_def labelledInfo_def)

lemma labelled_same [simp]:
  "projectLabels g (labelledInfo u) l = projectLabels g u l" "adminSubject (labelledInfo u) = adminSubject u"
  "ProjectID (labelledInfo u) = ProjectID u" "Region (labelledInfo u) = Region u"
  by (simp_all add: projectLabels_def adminSubject_def labelledInfo_def label.norm_idem)

lemma provisioned_labelled: "provisioned q g ns (labelledInfo u) c c' = provisioned q g ns u c c'"
  by (simp add: provisioned_def)

definition project_laws :: "('w \<Rightarrow> cluster) \<Rightarrow> 'w ProjectReconciler \<Rightarrow> bool" where
  "project_laws view r \<longleftrightarrow> provision_laws view (prKube r) \<and>
     reads view projects (get_project (prKube r)) \<and> reads view namespaces (get_namespace (prKube r)) \<and>
     (\<forall>a b w. view (prMetric r a b w) = view w)"

text \<open>A project as provisioning leaves it, whatever has become of its role, binding and quota.\<close>

definition onceProvisioned :: "string \<Rightarrow> string \<Rightarrow> OpenStackUserInfo \<Rightarrow> cluster \<Rightarrow> bool" where
  "onceProvisioned g ns u c \<longleftrightarrow>
     (\<exists>x l. namespaces c ns = Some x \<and> nsLabels x = projectLabels g u l) \<and>
     (\<exists>p. projects c g = Some p \<and> pjNamespace p = Some ns \<and> pjDeletionTimestamp p = None)"

lemma projectRun:
  assumes laws: "project_laws view r" and once: "onceProvisioned g ns u (view w)" and readable: "labelsReadable u"
    and run: "ReconcileGardenerProject r g w = (Ok (), w')"
  obtains w1 w2 where "view w1 = view w" "view w' = view w2"
    "ReconcileGardenerProjectResources (prKube r) (prHash r) (prConfig r) (labelledInfo u) w1 = (Ok (), w2)"
proof -
  obtain x l p where x: "namespaces (view w) ns = Some x" "nsLabels x = projectLabels g u l"
    and p: "projects (view w) g = Some p" "pjNamespace p = Some ns" "pjDeletionTimestamp p = None"
    using once unfolding onceProvisioned_def by blast
  have rp: "reads view projects (get_project (prKube r))" and rn: "reads view namespaces (get_namespace (prKube r))"
    using laws by (simp_all add: project_laws_def)
  obtain gp w1 where gp: "get_project (prKube r) g w = (gp, w1)" by fastforce
  obtain gn w2 where gn: "get_namespace (prKube r) ns w1 = (gn, w2)" by fastforce
  have v: "view w1 = view w" "view w2 = view w"
    using readsD(1) [OF rp gp] readsD(1) [OF rn gn] by simp_all
  have "gp = Inr p"
  proof (cases gp)
    case (Inl e)
    with readsD(3) [OF rp gp] p have "\<nexists>t. e = KubeError NotFound t" by auto
    with Inl gp run show ?thesis
      by (cases e) (auto simp: ReconcileGardenerProject_def io_simps)
  next
    case (Inr q)
    with readsD(2) [OF rp gp Inr] p show ?thesis by simp
  qed
  moreover have "gn = Inr x"
  proof (cases gn)
    case (Inl e)
    with calculation gp gn p run show ?thesis by (auto simp: ReconcileGardenerProject_def io_simps)
  next
    case (Inr y)
    with readsD(2) [OF rn gn Inr] x v show ?thesis by simp
  qed
  ultimately obtain w3 where "ReconcileGardenerProjectResources (prKube r) (prHash r) (prConfig r) (labelledInfo u) w2 = (Ok (), w3)"
    "w' = prMetric r (Region u) ''success'' w3"
    using run gp gn p x read_project_labels [OF readable, of g l]
    by (auto simp: ReconcileGardenerProject_def io_simps Let_def split: prod.splits outcome.splits)
  moreover have "view w' = view w3" using calculation(2) laws by (simp add: project_laws_def)
  ultimately show ?thesis using that v by blast
qed

text \<open>C21. When the operator starts, a project that a user's login has provisioned is restored to what that
  login made of it: labels, admin role and its binding are the same although the labels hold
  the sanitised names, a quota is kept, and nothing outside the project changes.\<close>

theorem restart_restores_project:
  assumes "project_laws view r" and "quotas_stamped (view w)" and "labelsReadable u"
    and "g = GetGardenerProjectName (prHash r) (Region u) (ProjectID u) (LandscapeName (prConfig r))"
    and "ns = GetGardenerProjectNamespaceName (Region u) (ProjectID u)"
    and "onceProvisioned g ns u (view w)" and "ReconcileGardenerProject r g w = (Ok (), w')"
  shows "provisioned (DefaultShootQuota (prConfig r)) g ns u (view w) (view w') \<and>
    onceProvisioned g ns u (view w') \<and> onlyProject g ns (view w) (view w') \<and>
    (\<exists>x x'. namespaces (view w) ns = Some x \<and> namespaces (view w') ns = Some x' \<and> nsLabels x' = nsLabels x)"
proof -
  let ?q = "DefaultShootQuota (prConfig r)" and ?v = "labelledInfo u"
  have k: "provision_laws view (prKube r)" using assms(1) by (simp add: project_laws_def)
  obtain w1 w2 where v: "view w1 = view w" "view w' = view w2"
    and run: "ReconcileGardenerProjectResources (prKube r) (prHash r) (prConfig r) ?v w1 = (Ok (), w2)"
    using projectRun [OF assms(1,6,3,7)] .
  have all: "provisionedUpto ?q g ns ?v 5 (view w) (view w')"
    using wpD [OF provision_outcome [OF k] run] assms(2,4,5) v by simp
  have prov: "provisioned ?q g ns u (view w) (view w')"
    using provisionedUpto_all [OF all] by (simp only: provisioned_labelled)
  moreover obtain x l where x: "namespaces (view w) ns = Some x" "nsLabels x = projectLabels g u l"
    using assms(6) unfolding onceProvisioned_def by blast
  moreover have "\<exists>x'. namespaces (view w') ns = Some x' \<and> nsLabels x' = nsLabels x"
    using prov x by (auto simp: provisioned_def)
  moreover have "\<exists>p. projects (view w') g = Some p \<and> pjNamespace p = Some ns \<and> pjDeletionTimestamp p = None"
  proof -
    obtain p where p: "projects (view w) g = Some p" "pjNamespace p = Some ns" "pjDeletionTimestamp p = None"
      using assms(6) unfolding onceProvisioned_def by blast
    have "quotaEnsured ?q ns (provisionStage g ns ?v 4 (view w)) (view w')"
      using all by (simp add: provisionedUpto_def)
    then obtain m where "view w' = (provisionStage g ns ?v 4 (view w))\<lparr>quotas := m\<rparr>"
      using quotaEnsured_form by blast
    with p show ?thesis by (simp add: with_defs)
  qed
  ultimately show ?thesis
    using provisionedUpto_onlyProject [OF all] unfolding onceProvisioned_def by auto
qed


definition sampleProjects :: "sim ProjectReconciler" where
  "sampleProjects = \<lparr>prKube = simKube, prHash = sampleHash, prConfig = sampleConfig,
     prMetric = (\<lambda>region v s. s\<lparr>simEvents := [region, v] # simEvents s\<rparr>)\<rparr>"

lemma sample_project_laws: "project_laws simView sampleProjects"
  by (simp add: project_laws_def sampleProjects_def sim_provision_laws sim_kube_ops sim_reads)
    (simp add: simView_def)

abbreviation sampleName :: string where
  "sampleName \<equiv> GetGardenerProjectName sampleHash ''eu-1'' (ProjectID sampleUser) ''live''"

abbreviation sampleNamespace :: string where
  "sampleNamespace \<equiv> GetGardenerProjectNamespaceName ''eu-1'' (ProjectID sampleUser)"

text \<open>A provisioned project that has lost its role binding.\<close>

definition damagedSim :: sim where
  "damagedSim = (let s = snd (sampleRun []) in s\<lparr>simCluster := (simCluster s)\<lparr>roleBindings := Map.empty\<rparr>\<rparr>)"

lemma sampleUser_fields [simp]:
  "Region sampleUser = ''eu-1''" "LandscapeName sampleConfig = ''live''" "ProjectName sampleUser = ''My Project''"
  "ProjectDomainName sampleUser = ''acme''" "ProjectDomainID sampleUser = ''d0''" "ProjectID sampleUser \<noteq> []"
  by (simp_all add: sampleUser_def sampleConfig_def)

lemma sample_upto:
  "provisionedUpto (DefaultShootQuota sampleConfig) sampleName sampleNamespace sampleUser 5
     (simView (emptySim [] 0)) (simView (snd (sampleRun [])))"
  using wpD [OF provision_outcome [OF sim_provision_laws sim_stamped] sampleRun_ok [unfolded sampleRun_def]]
  by (simp add: sampleRun_def)

lemma damaged_once: "onceProvisioned sampleName sampleNamespace sampleUser (simView damagedSim)"
proof -
  have view: "simView damagedSim = (simView (snd (sampleRun [])))\<lparr>roleBindings := Map.empty\<rparr>"
    by (simp add: damagedSim_def Let_def simView_def)
  obtain m where "simView (snd (sampleRun [])) =
      (provisionStage sampleName sampleNamespace sampleUser 4 (simView (emptySim [] 0)))\<lparr>quotas := m\<rparr>"
    using sample_upto quotaEnsured_form by (fastforce simp: provisionedUpto_def simp del: provisionStage_simps)
  moreover have "namespaces (simView (emptySim [] 0)) = Map.empty" "projects (simView (emptySim [] 0)) = Map.empty"
    by (simp_all add: sim_defs)
  ultimately show ?thesis
    by (auto simp: onceProvisioned_def view with_defs Let_def namedProject_def)
qed

lemma damaged_stamped: "quotas_stamped (simView damagedSim)"
proof -
  have "quotas (simView damagedSim) = quotas (simView (snd (sampleRun [])))"
    by (simp add: damagedSim_def Let_def simView_def)
  with provisionedUpto_stamped [OF sample_upto sim_stamped] show ?thesis
    by (simp add: quotas_stamped_def)
qed

lemma sample_readable: "labelsReadable sampleUser"
  unfolding labelsReadable_def sanitize_empty_iff by (simp add: runes_def isAlphanumeric_def)

lemma damaged_restart: "\<exists>s'. ReconcileGardenerProject sampleProjects sampleName damagedSim = (Ok (), s')"
proof -
  obtain x l p where x: "namespaces (simView damagedSim) sampleNamespace = Some x" "nsLabels x = projectLabels sampleName sampleUser l"
    and p: "projects (simView damagedSim) sampleName = Some p" "pjNamespace p = Some sampleNamespace"
      "pjDeletionTimestamp p = None"
    using damaged_once unfolding onceProvisioned_def by blast
  have f: "simFaults damagedSim = []"
    using sample_run_from [of "emptySim [] 0"] sampleRun_ok
    by (auto simp: damagedSim_def sampleRun_def Let_def emptySim_def)
  then have get: "get_project simKube sampleName damagedSim = (Inr p, damagedSim)"
    "get_namespace simKube sampleNamespace damagedSim = (Inr x, damagedSim)"
    using x p by (simp_all add: sim_kube_ops simGet_def simCall_def)
  obtain s' where "ReconcileGardenerProjectResources simKube sampleHash sampleConfig (labelledInfo sampleUser) damagedSim = (Ok (), s')"
    using sim_run_total [OF f] by blast
  with get p(2,3) x(2) show ?thesis
    by (simp add: ReconcileGardenerProject_def sampleProjects_def io_simps Let_def read_project_labels [OF sample_readable])
qed

theorem restart_restores_project_witness:
  "roleBindings (simView damagedSim) (sampleNamespace, kubernetesAdminRole) = None \<and>
   (\<exists>s' b. ReconcileGardenerProject sampleProjects sampleName damagedSim = (Ok (), s') \<and>
      roleBindings (simView s') (sampleNamespace, kubernetesAdminRole) = Some b \<and>
      Subjects b = [adminSubject sampleUser])"
proof -
  obtain s' where run: "ReconcileGardenerProject sampleProjects sampleName damagedSim = (Ok (), s')"
    using damaged_restart by blast
  have names: "sampleName = GetGardenerProjectName (prHash sampleProjects) (Region sampleUser) (ProjectID sampleUser)
      (LandscapeName (prConfig sampleProjects))"
    "sampleNamespace = GetGardenerProjectNamespaceName (Region sampleUser) (ProjectID sampleUser)"
    by (simp_all add: sampleProjects_def)
  have "provisioned (DefaultShootQuota (prConfig sampleProjects)) sampleName sampleNamespace sampleUser
      (simView damagedSim) (simView s')"
    using restart_restores_project [OF sample_project_laws damaged_stamped sample_readable names damaged_once run] by blast
  moreover have "roleBindings (simView damagedSim) = Map.empty"
    by (simp add: damagedSim_def Let_def simView_def)
  ultimately show ?thesis using run unfolding provisioned_def by auto
qed

end
