(* ===== verification/Secret_Rotation.thy ===== *)
theory Secret_Rotation
  imports Secret_Deletion
begin

section \<open>What rotation does to the labels\<close>

text \<open>
  The controller learns the user info of a shoot, from which it makes the next secret, from the
  labels of the present one. So rotation can go on only if a rotated secret carries the labels of
  the one it replaces: an invariant of the whole reconciler.
\<close>

subsection \<open>The invariant\<close>

text \<open>The labels of the secrets of a shoot, and the secrets of a shoot all carrying them.\<close>

definition secretLabels :: "OpenStackUserInfo \<Rightarrow> string \<Rightarrow> labels" where
  "secretLabels u n =
     [LabelKeyOpenStackDomainID \<mapsto> ProjectDomainID u,
      LabelKeyOpenStackDomainName \<mapsto> sanitizeLabelValue (ProjectDomainName u),
      LabelKeyOpenStackProjectID \<mapsto> ProjectID u,
      LabelKeyOpenStackProjectName \<mapsto> sanitizeLabelValue (ProjectName u),
      LabelKeyOpenStackRegion \<mapsto> Region u,
      LabelKeyShootName \<mapsto> n]"

definition ofShoot :: "string \<Rightarrow> string \<Rightarrow> InternalSecret \<Rightarrow> bool" where
  "ofShoot ns n s \<longleftrightarrow> isNamespace s = ns \<and> isLabels s LabelKeyShootName = Some n"

definition allLabelled :: "string \<Rightarrow> string \<Rightarrow> OpenStackUserInfo \<Rightarrow> cluster \<Rightarrow> bool" where
  "allLabelled ns n u c \<longleftrightarrow>
     (\<forall>k s. secrets c k = Some s \<longrightarrow> ofShoot ns n s \<longrightarrow> isLabels s = secretLabels u n)"

lemma new_secret_labels:
  "isLabels (ApplicationCredentialsInternalSecret sh u c) = secretLabels u (shName sh)"
  "isNamespace (ApplicationCredentialsInternalSecret sh u c) = shNamespace sh"
  by (simp_all add: ApplicationCredentialsInternalSecret_def secretLabels_def)

lemma secretLabels_again: "secretLabels (labelledInfo u) n = secretLabels u n"
  by (simp add: secretLabels_def labelledInfo_def label.norm_idem)

lemma read_labels:
  "labelsReadable u \<Longrightarrow> OpenStackUserInfoFromLabels (secretLabels u n) = Ok (labelledInfo u)"
  using secret_labels_roundtrip [of u "namedShoot [] n"] by (simp add: new_secret_labels namedShoot_def)

subsection \<open>What the API server promises\<close>

text \<open>Whatever a deletion or a finalizer does, no secret appears and none changes its labels.\<close>

definition noNewSecret :: "cluster \<Rightarrow> cluster \<Rightarrow> bool" where
  "noNewSecret c c' \<longleftrightarrow> (\<forall>k s'. secrets c' k = Some s' \<longrightarrow>
     (\<exists>s. secrets c k = Some s \<and> isLabels s' = isLabels s \<and> isNamespace s' = isNamespace s))"

definition secretMade :: "InternalSecret \<Rightarrow> cluster \<Rightarrow> cluster \<Rightarrow> bool" where
  "secretMade y c c' \<longleftrightarrow> (\<exists>k y'. isLabels y' = isLabels y \<and> isNamespace y' = isNamespace y \<and>
     secrets c' = (secrets c)(k \<mapsto> y'))"

definition shootsRead :: "('w \<Rightarrow> cluster) \<Rightarrow> 'w kube \<Rightarrow> bool" where
  "shootsRead view k \<longleftrightarrow> (\<forall>ns n w. view (snd (get_shoot k (ns, n) w)) = view w \<and>
     (\<forall>sh. fst (get_shoot k (ns, n) w) = Inr sh \<longrightarrow> shNamespace sh = ns \<and> shName sh = n))"

definition rotation_laws :: "('w \<Rightarrow> cluster) \<Rightarrow> 'w SecretReconciler \<Rightarrow> bool" where
  "rotation_laws view r \<longleftrightarrow>
     reads view secrets (get_secret (srKube r)) \<and> shootsRead view (srKube r) \<and>
     reads view namespaces (get_namespace (srKube r)) \<and> secretsListed view (srKube r) \<and>
     (\<forall>w key f. noNewSecret (view w) (view (snd (delete_secret (srKube r) key w))) \<and>
        noNewSecret (view w) (view (snd (add_secret_finalizer (srKube r) key f w))) \<and>
        noNewSecret (view w) (view (snd (remove_secret_finalizer (srKube r) key f w))) \<and>
        noNewSecret (view w) (view (snd (delete_binding (srKube r) key w)))) \<and>
     (\<forall>w b. noNewSecret (view w) (view (snd (create_binding (srKube r) b w)))) \<and>
     (\<forall>w y. let w' = snd (create_secret (srKube r) y w) in
        view w' = view w \<or> secretMade y (view w) (view w')) \<and>
     (\<forall>P. cloud_keeps (\<lambda>w. P (view w)) (srCloud r)) \<and>
     (\<forall>c. stable_call (\<lambda>w. view w = c) (srClock r)) \<and>
     (\<forall>m a b w. view (srMetric r m a b w) = view w)"

lemma allLabelled_less: "noNewSecret c c' \<Longrightarrow> allLabelled ns n u c \<Longrightarrow> allLabelled ns n u c'"
  unfolding noNewSecret_def allLabelled_def ofShoot_def by metis

lemma allLabelled_more:
  assumes "secretMade y c c'" and "ofShoot ns n y \<Longrightarrow> isLabels y = secretLabels u n" and "allLabelled ns n u c"
  shows "allLabelled ns n u c'"
  using assms unfolding secretMade_def allLabelled_def ofShoot_def by (auto split: if_splits)

lemma stable_post:
  assumes "stable I m" and "\<And>w x w'. I w \<Longrightarrow> m w = (Ok x, w') \<Longrightarrow> stable I (f x)"
  shows "stable I (bindE m f)"
  unfolding stable_def
proof (intro allI impI)
  fix w assume I: "I w"
  obtain x w' where run: "m w = (x, w')" by fastforce
  have I': "I w'" using stableD [OF assms(1) run I] .
  show "I (snd (bindE m f w))"
  proof (cases x)
    case (Ok y)
    then have "stable I (f y)" using assms(2) [OF I] run by simp
    with I' Ok run show ?thesis by (simp add: io_simps stable_def)
  qed (use I' run in \<open>simp_all add: io_simps\<close>)
qed

lemma stable_view: "(\<And>w. view (snd (f w)) = view w) \<Longrightarrow> stable_call (\<lambda>w. P (view w)) f"
  by (simp add: stable_call_def)

lemma stable_view_const:
  "(\<And>c. stable_call (\<lambda>w. view w = c) f) \<Longrightarrow> stable_call (\<lambda>w. P (view w)) f"
  by (simp add: stable_call_def)

subsection \<open>The reconciler keeps it\<close>

locale rotating =
  fixes view :: "'w \<Rightarrow> cluster" and r :: "'w SecretReconciler" and ns n :: string and u :: OpenStackUserInfo
  assumes laws: "rotation_laws view r" and readable: "labelsReadable u" and named: "n \<noteq> []"
begin

abbreviation I :: "'w \<Rightarrow> bool" where "I w \<equiv> allLabelled ns n u (view w)"

lemma reads_keep:
  "stable_call I (get_secret (srKube r) k1)" "stable_call I (get_shoot (srKube r) k1)"
  "stable_call I (get_namespace (srKube r) k2)" "stable_call I (list_secrets (srKube r) a b c)"
  "stable_call I (newest_secret (srKube r) p a b c)"
  using laws unfolding rotation_laws_def reads_def secretsListed_def shootsRead_def
  by (auto intro!: stable_view [where P = "allLabelled ns n u"]) (metis prod.collapse)+

lemma deletes_keep:
  "stable_call I (delete_secret (srKube r) k1)" "stable_call I (delete_binding (srKube r) k1)"
  "stable_call I (add_secret_finalizer (srKube r) k1 f)"
  "stable_call I (remove_secret_finalizer (srKube r) k1 f)" "stable_call I (create_binding (srKube r) b)"
  using laws unfolding rotation_laws_def stable_call_def by (blast intro: allLabelled_less)+

lemma outside_keeps:
  "cloud_keeps I (srCloud r)" "stable_call I (srClock r)" "stable I (doE (srMetric r m a b))"
proof -
  have c: "cloud_keeps (\<lambda>w. P (view w)) (srCloud r)" "stable_call (\<lambda>w. view w = d) (srClock r)"
    and m: "view (srMetric r m a b w) = view w" for P d m a b w
    using laws unfolding rotation_laws_def by blast+
  show "cloud_keeps I (srCloud r)" by (rule c(1))
  show "stable_call I (srClock r)" by (rule stable_view_const [OF c(2), where P = "allLabelled ns n u"])
  show "stable I (doE (srMetric r m a b))" by (rule stable_doE) (simp add: m)
qed

lemma create_keeps:
  assumes "ofShoot ns n y \<Longrightarrow> isLabels y = secretLabels u n"
  shows "stable_call I (create_secret (srKube r) y)"
  unfolding stable_call_def
proof (intro allI impI)
  fix w assume "I w"
  moreover have "view (snd (create_secret (srKube r) y w)) = view w \<or>
      secretMade y (view w) (view (snd (create_secret (srKube r) y w)))"
    using laws unfolding rotation_laws_def Let_def by blast
  ultimately show "I (snd (create_secret (srKube r) y w))"
    using allLabelled_more [OF _ assms] by metis
qed

lemmas keep = reads_keep deletes_keep outside_keeps

lemma orRecord_keeps [stable_intros]: "stable I m \<Longrightarrow> stable I (orRecord r mt region s args m)"
  unfolding orRecord_def by (intro stable_intros keep)

lemma binding_keeps [stable_intros]:
  "stable I (EnsureCredentialsBindingForInternalSecret (srKube r) shoot s)"
  unfolding EnsureCredentialsBindingForInternalSecret_def Let_def by (intro stable_intros keep)

end

lemma userInfo_of_secret:
  "newOpenStackClusterUserClientSet r s shoot False w = (Ok (c, info), w') \<Longrightarrow>
   OpenStackUserInfoFromLabels (isLabels s) = Ok info"
  by (auto simp: newOpenStackClusterUserClientSet_def io_simps Let_def split: outcome_splits)

lemma orRecord_Ok: "orRecord r mt region st args m w = (Ok x, w') \<Longrightarrow> m w = (Ok x, w')"
  by (auto simp: orRecord_def io_simps split: outcome_splits)

context rotating
begin

definition good :: "InternalSecret \<Rightarrow> Shoot \<Rightarrow> bool" where
  "good s shoot \<longleftrightarrow> (ofShoot ns n s \<longrightarrow> isLabels s = secretLabels u n) \<and>
     shNamespace shoot = isNamespace s \<and> shName shoot = label (isLabels s) LabelKeyShootName"

lemma next_secret_labels:
  assumes "good s shoot" and "OpenStackUserInfoFromLabels (isLabels s) = Ok info"
    and "ofShoot ns n (ApplicationCredentialsInternalSecret shoot info c)"
  shows "isLabels (ApplicationCredentialsInternalSecret shoot info c) = secretLabels u n"
proof -
  have y: "isNamespace s = ns" "label (isLabels s) LabelKeyShootName = n"
    using assms(1,3) by (simp_all add: good_def ofShoot_def new_secret_labels secretLabels_def)
  with named have "isLabels s LabelKeyShootName = Some n"
    by (auto simp: label_def split: option.splits)
  with y assms(1) have "isLabels s = secretLabels u n" by (simp add: good_def ofShoot_def)
  with assms(2) have "info = labelledInfo u" by (simp add: read_labels [OF readable])
  with y assms(1) show ?thesis by (simp add: new_secret_labels secretLabels_again good_def)
qed

lemma rotation_keeps:
  assumes "good s shoot"
  shows "stable I (handleNowAfterRenewTime r s shoot t)"
proof -
  have new: "stable I (EnsureApplicationCredentialInternalSecretForShoot (srKube r) (srCloud r) cu shoot info)"
    if "OpenStackUserInfoFromLabels (isLabels s) = Ok info" for cu info
    unfolding EnsureApplicationCredentialInternalSecretForShoot_def Let_def
    by (intro stable_intros keep cloud_keepsD create_keeps next_secret_labels [OF assms that])
  show ?thesis
    unfolding handleNowAfterRenewTime_def Let_def
    apply (rule stable_bindE, intro stable_intros keep)
    apply (rule stable_cases(2))
     apply (rule stable_post, intro stable_intros keep)
     apply (drule orRecord_Ok)
     apply (clarsimp split del: if_split)
     apply (drule userInfo_of_secret)
     apply (intro stable_intros new keep; assumption)
    apply (intro stable_intros)
    done
qed

lemma reconcileSecret_keeps: "good s shoot \<Longrightarrow> stable I (reconcileSecret r s shoot e)"
  unfolding reconcileSecret_def handleNowBeforeRenewTime_def handleCredentialExpiry_def Let_def
  by (intro stable_intros keep rotation_keeps; assumption?)

lemma deleteSecret_keeps: "stable I (deleteSecret r s shoot e)"
  unfolding deleteSecret_def Let_def deleteClusterServiceUser_def secretOwnsClusterServiceUser_def
    isOnlyRemainingInternalSecretForShoot_def ignore404_def
  by (intro stable_intros stable_deletionAllowed stable_deleteApplicationCredential keep)

end

context rotating
begin

lemma got_secret:
  assumes "I w" and "tryE (callE (get_secret (srKube r) key)) w = (Ok (Inr s), w')"
  shows "ofShoot ns n s \<longrightarrow> isLabels s = secretLabels u n"
proof -
  have "reads view secrets (get_secret (srKube r))" using laws by (simp add: rotation_laws_def)
  moreover have "get_secret (srKube r) key w = (Inr s, w')"
    using assms(2) by (auto simp: io_simps split: outcome_splits outcome.splits)
  ultimately have "secrets (view w) key = Some s" by (rule readsD(2)) simp
  with assms(1) show ?thesis unfolding allLabelled_def by blast
qed

lemma got_shoot:
  assumes "catchE (callE (get_shoot (srKube r) (a, b)))
     (\<lambda>err. if is_not_found err then returnE (namedShoot a b) else failE (e err)) w = (Ok shoot, w')"
  shows "shNamespace shoot = a \<and> shName shoot = b"
proof -
  have read: "shootsRead view (srKube r)" using laws by (simp add: rotation_laws_def)
  show ?thesis
  proof (cases "get_shoot (srKube r) (a, b) w")
    case (Pair x w1)
    show ?thesis
    proof (cases x)
      case (Inl err)
      with Pair assms have "shoot = namedShoot a b" by (simp add: io_simps split: if_splits)
      then show ?thesis by (simp add: namedShoot_def)
    next
      case (Inr sh)
      with read Pair have "shNamespace sh = a \<and> shName sh = b"
        unfolding shootsRead_def by (metis fst_conv)
      with Pair Inr assms show ?thesis by (simp add: io_simps)
    qed
  qed
qed

lemma whole_reconciler_keeps: "stable I (ReconcileInternalSecret r request)"
  unfolding ReconcileInternalSecret_def Let_def
proof (rule stable_post, intro stable_intros keep)
  fix w and got :: "error + InternalSecret" and w'
  assume I: "I w" and got: "tryE (callE (get_secret (srKube r) request)) w = (Ok got, w')"
  show "stable I (case got of
      Inl err \<Rightarrow> if is_not_found err then returnE emptyResult
                 else failE (Wrapf (ControllerPkg RetrieveObject) [] err)
    | Inr s \<Rightarrow>
        bindE (catchE (callE (get_shoot (srKube r) (isNamespace s, label (isLabels s) LabelKeyShootName)))
          (\<lambda>err. if is_not_found err then returnE (namedShoot (isNamespace s) (label (isLabels s) LabelKeyShootName))
            else failE (Wrapf (ControllerPkg RetrieveShoot)
              [printKey (isNamespace s, label (isLabels s) LabelKeyShootName)] err)))
          (\<lambda>shoot. bindE (case isAnnotations s AnnotationKeyExpiresAt of
               None \<Rightarrow> returnE (isCreationTimestamp s)
             | Some raw \<Rightarrow> ctl_wrap ParseExpiresAt [AnnotationKeyExpiresAt, raw] (extE (parseRFC3339 raw)))
            (\<lambda>e. if isDeletionTimestamp s \<noteq> None then deleteSecret r s shoot e else reconcileSecret r s shoot e)))"
  proof (cases got)
    case (Inl err)
    then show ?thesis by (simp add: stable_pure)
  next
    case (Inr s)
    have s: "ofShoot ns n s \<longrightarrow> isLabels s = secretLabels u n"
      using got_secret [OF I] got Inr by simp
    show ?thesis
      unfolding Inr sum.case
    proof (rule stable_post, intro stable_intros keep)
      fix w shoot w'
      assume "(catchE (callE (get_shoot (srKube r) (isNamespace s, label (isLabels s) LabelKeyShootName)))
        (\<lambda>err. if is_not_found err then returnE (namedShoot (isNamespace s) (label (isLabels s) LabelKeyShootName))
          else failE (Wrapf (ControllerPkg RetrieveShoot)
            [printKey (isNamespace s, label (isLabels s) LabelKeyShootName)] err)) :: ('w, Shoot) io) w = (Ok shoot, w')"
      from got_shoot [OF this] s have "good s shoot" by (simp add: good_def)
      note reconcileSecret_keeps [OF this]
      then show "stable I (bindE (case isAnnotations s AnnotationKeyExpiresAt of
           None \<Rightarrow> returnE (isCreationTimestamp s)
         | Some raw \<Rightarrow> ctl_wrap ParseExpiresAt [AnnotationKeyExpiresAt, raw] (extE (parseRFC3339 raw)))
        (\<lambda>e. if isDeletionTimestamp s \<noteq> None then deleteSecret r s shoot e else reconcileSecret r s shoot e))"
        by (intro stable_intros deleteSecret_keeps)
    qed
  qed
qed

end

text \<open>C12. Whatever secret the reconciler is run for and however the run ends: if all secrets of a shoot
  carry the labels of its user info and these can be read back, so do they afterwards. Every rotated
  secret can be rotated again.\<close>

theorem rotation_keeps_labels:
  assumes "rotation_laws view r" and "labelsReadable u" "n \<noteq> []" and "allLabelled ns n u (view w)"
    and "ReconcileInternalSecret r request w = (res, w')"
  shows "allLabelled ns n u (view w')"
  using stableD [OF rotating.whole_reconciler_keeps [OF rotating.intro [OF assms(1-3)]] assms(5)] assms(4)
  by blast

subsection \<open>A rotation\<close>

lemma noNewSecret_refl [simp]: "noNewSecret c c"
  by (simp add: noNewSecret_def)

lemma simCall_rel:
  assumes "\<And>s. R (simView s) (simView (snd (f s)))" and "\<And>c. R c c"
  shows "R (simView w) (simView (snd (simCall f w)))"
proof (cases "simFaults w")
  case (Cons b bs)
  with assms(1) [of "w\<lparr>simFaults := bs\<rparr>"] assms(2) show ?thesis by (simp add: simCall_def)
qed (use assms in \<open>simp add: simCall_def\<close>)

lemma sim_update_keeps:
  assumes "\<And>x. isLabels (f x) = isLabels x" "\<And>x. isNamespace (f x) = isNamespace x"
  shows "noNewSecret (simView w) (simView (snd (simUpdateSecret f key w)))"
  unfolding simUpdateSecret_def
  by (rule simCall_rel) (auto simp: noNewSecret_def simView_def assms split: option.splits)

lemma map_of_unmarked: "map_of (filter (\<lambda>(k, x). k \<noteq> key) (AList.clearjunk xs)) k = Some s \<Longrightarrow> map_of xs k = Some s"
  by (metis (no_types, lifting) distinct_clearjunk distinct_map_filter map_of_clearjunk map_of_eq_Some_iff filter_is_subset subsetD)

lemma sim_delete_keeps: "noNewSecret (simView w) (simView (snd (simDeleteSecret key w)))"
  unfolding simDeleteSecret_def
  by (rule simCall_rel)
    (auto simp: noNewSecret_def simView_def simDropSecrets_def dest: map_of_unmarked split: option.splits if_splits)

lemma sim_binding_keeps:
  "noNewSecret (simView w) (simView (snd (simDeleteBinding key w)))"
  "noNewSecret (simView w) (simView (snd (simCreateBinding b w)))"
  unfolding simDeleteBinding_def simCreateBinding_def Let_def
  by (rule simCall_rel; auto simp: noNewSecret_def simView_def split: option.splits)+

lemma sim_create_law:
  "simView (snd (simCreateSecret y w)) = simView w \<or> secretMade y (simView w) (simView (snd (simCreateSecret y w)))"
  unfolding simCreateSecret_def Let_def
proof (rule simCall_rel [where R = "\<lambda>c c'. c' = c \<or> secretMade y c c'"])
  fix s :: sim
  let ?k = "(isNamespace y, isName y)"
  let ?y = "y\<lparr>isUID := isName y, isCreationTimestamp := simClock s, isData := isData y ++ isStringData y,
     isStringData := Map.empty\<rparr>"
  have "secretMade y (simView s) (simView (s\<lparr>simSecrets := (?k, ?y) # simSecrets s\<rparr>))"
    unfolding secretMade_def by (rule exI [of _ ?k], rule exI [of _ ?y]) (simp add: simView_def)
  then show "simView (snd (if map_of (simSecrets s) ?k \<noteq> None then (Inl simExists, s)
      else (Inr ?y, s\<lparr>simSecrets := (?k, ?y) # simSecrets s\<rparr>))) = simView s \<or>
    secretMade y (simView s) (simView (snd (if map_of (simSecrets s) ?k \<noteq> None then (Inl simExists, s)
      else (Inr ?y, s\<lparr>simSecrets := (?k, ?y) # simSecrets s\<rparr>))))"
    by simp
qed simp

lemma sample_rotation_laws: "rotation_laws simView sampleSecrets"
  unfolding rotation_laws_def sampleSecrets_ops Let_def
  by (intro conjI allI sim_secretsListed sim_cloud_keeps_of)
    (auto simp: sim_kube_ops sim_reads stable_call_def sim_delete_keeps sim_update_keeps sim_binding_keeps
       sim_create_law shootsRead_def simGetShoot_def simCall_def split: list.splits option.splits)

text \<open>A shoot whose secret is past half its validity.\<close>

definition rotationSim :: sim where
  "rotationSim = (secretSim [lastSecret] (ApplicationCredentialsValidity div 2))\<lparr>simUsers := [leftUser],
     simCluster := emptyCluster\<lparr>shoots := [(''garden-eu-1-p'', ''shoot'') \<mapsto> sampleShoot]\<rparr>\<rparr>"

definition rotatedSim :: "sim" where
  "rotatedSim = rotationSim\<lparr>simSecrets := (secretKey lastSecret,
     lastSecret\<lparr>isFinalizers := FinalizerName # isFinalizers lastSecret\<rparr>) # simSecrets rotationSim,
     simClock := ApplicationCredentialsValidity div 2 + 1\<rparr>"

definition lastInfo :: OpenStackUserInfo where
  "lastInfo = emptyUserInfo\<lparr>ProjectDomainID := ''d'', ProjectDomainName := ''dn'', ProjectID := ''p'',
     ProjectName := ''pn'', Region := ''eu-1''\<rparr>"

lemma last_names_clean: "sanitizeLabelValue ''dn'' = ''dn''" "sanitizeLabelValue ''pn'' = ''pn''"
  by (rule sanitize_id, simp add: validLabelValue_def LabelValueMaxLength_def labelChar_def isAlphanumeric_def)+

lemma last_readable: "labelsReadable lastInfo"
  by (simp add: labelsReadable_def lastInfo_def last_names_clean)

text \<open>The reconciler over the in-memory cluster has the contract.\<close>

interpretation sampleRotation: rotating simView sampleSecrets "''garden-eu-1-p''" "''shoot''" lastInfo
  by unfold_locales (simp_all add: sample_rotation_laws last_readable)

lemma last_expiry:
  "\<exists>raw. isAnnotations lastSecret AnnotationKeyExpiresAt = Some raw \<and>
     parseRFC3339 raw = Inr ApplicationCredentialsValidity"
proof -
  have "0 \<le> ApplicationCredentialsValidity" "ApplicationCredentialsValidity < 253402300800 * second"
    "ApplicationCredentialsValidity div second * second = ApplicationCredentialsValidity"
    by (simp_all add: ApplicationCredentialsValidity_def hour_def minute_def second_def)
  with parse_format_rfc3339 [of ApplicationCredentialsValidity] show ?thesis
    by (simp add: lastSecret_def sampleSecret_def ApplicationCredentialsInternalSecret_def sampleAppCredential_def)
qed

lemma new_secret_name:
  "isName (ApplicationCredentialsInternalSecret sh u c) =
     GetApplicationCredentialInternalSecretName (ProjectID u) (shName sh) (acName c)"
  by (simp add: ApplicationCredentialsInternalSecret_def)

lemma rotation_renews:
  "\<exists>s' y. handleNowAfterRenewTime sampleSecrets lastSecret sampleShoot (ApplicationCredentialsValidity div 2)
     rotatedSim = (Ok (), s') \<and> isName y \<noteq> isName lastSecret \<and>
     simSecrets s' = ((isNamespace y, isName y), y) # simSecrets rotatedSim"
proof -
  have u: "simFaults rotatedSim = []" "simUsers rotatedSim = [(''u1'', lastUserName, csDomainID sampleClients, ''old'')]"
    by (simp_all add: rotatedSim_def rotationSim_def secretSim_def emptySim_def leftUser_def sampleClients_def)
  obtain cu g where run: "NewClusterUserClientSet simCloud sampleClients lastUserName ''p'' rotatedSim = (Ok cu,
      rotatedSim\<lparr>simUsers := (''u1'', lastUserName, csDomainID sampleClients, ''password'') # simUsers rotatedSim,
        simGrants := g\<rparr>)"
    using sim_user_clients [OF u, of "''p''"] by blast
  have shoot: "shName sampleShoot = ''shoot''" "shNamespace sampleShoot = ''garden-eu-1-p''"
    by (simp_all add: sampleShoot_def namedShoot_def)
  have t: "simClock rotatedSim = 2592000000000001" and c: "simCredentials rotatedSim = []"
    by (simp_all add: rotatedSim_def rotationSim_def secretSim_def emptySim_def ApplicationCredentialsValidity_def
        hour_def minute_def second_def)
  have old: "simSecrets rotatedSim = [((''garden-eu-1-p'', isName lastSecret),
        lastSecret\<lparr>isFinalizers := FinalizerName # isFinalizers lastSecret\<rparr>),
        ((''garden-eu-1-p'', isName lastSecret), lastSecret)]"
    by (simp add: rotatedSim_def rotationSim_def secretSim_def)
  have name: "GetApplicationCredentialInternalSecretName ''p'' ''shoot'' (NewApplicationCredentialName 2592000000000001)
      \<noteq> isName lastSecret"
    using replicate_Suc [of 31 "CHR ''a''"]
    by (simp add: lastSecret_def sampleSecret_def ApplicationCredentialsInternalSecret_def shoot sampleUser_def
      sampleAppCredential_def GetApplicationCredentialInternalSecretName_def NewApplicationCredentialName_def
      time_unix_def second_def format_int_def)
  have none: "newest_secret simKube (\<lambda>x. time_after (isCreationTimestamp x) (ApplicationCredentialsValidity div 2))
      ''garden-eu-1-p'' LabelKeyShootName ''shoot'' rotatedSim = (Inr None, rotatedSim)"
    by (simp add: sim_kube_ops simCall_def u(1) simListSecrets_def old time_defs
      ApplicationCredentialsValidity_def hour_def minute_def second_def)
  show ?thesis
    using none run name
    by (simp add: new_secret_name handleNowAfterRenewTime_def io_simps shoot orRecord_def newOpenStackClusterUserClientSet_def last_labels Let_def
      EnsureApplicationCredentialInternalSecretForShoot_def CreateApplicationCredential_def sim_cloud_ops simCreateCredential_def
      simCall_def u(1) t c sim_kube_ops simCreateSecret_def old)
qed


theorem rotation_keeps_labels_witness:
  "\<exists>s' y. ReconcileInternalSecret sampleSecrets (''garden-eu-1-p'', isName lastSecret) rotationSim = (Ok emptyResult, s') \<and>
     map_of (simSecrets s') (isNamespace y, isName y) = Some y \<and> isName y \<noteq> isName lastSecret \<and>
     allLabelled ''garden-eu-1-p'' ''shoot'' lastInfo (simView s')"
proof -
  let ?V = "ApplicationCredentialsValidity"
  obtain s' y where run: "handleNowAfterRenewTime sampleSecrets lastSecret sampleShoot (?V div 2) rotatedSim = (Ok (), s')"
    and y: "isName y \<noteq> isName lastSecret" "simSecrets s' = ((isNamespace y, isName y), y) # simSecrets rotatedSim"
    using rotation_renews by blast
  obtain raw where raw: "isAnnotations lastSecret AnnotationKeyExpiresAt = Some raw" "parseRFC3339 raw = Inr ?V"
    using last_expiry by blast
  have less: "?V div 2 < ?V" by (simp add: ApplicationCredentialsValidity_def hour_def minute_def second_def)
  have renew: "renewTimeOf lastSecret ?V = ?V div 2"
    by (simp add: renewTimeOf_exact ApplicationCredentialsValidity_def hour_def minute_def second_def)
  have shoot: "sampleShoot\<lparr>shNamespace := ''garden-eu-1-p'', shName := ''shoot''\<rparr> = sampleShoot"
    by (simp add: sampleShoot_def namedShoot_def)
  have sim: "simFaults rotationSim = []" "map_of (simSecrets rotationSim) (''garden-eu-1-p'', isName lastSecret) = Some lastSecret"
    "shoots (simCluster rotationSim) (''garden-eu-1-p'', ''shoot'') = Some sampleShoot" "simClock rotationSim = ?V div 2"
    by (simp_all add: rotationSim_def secretSim_def emptySim_def)
  have "reconcileSecret sampleSecrets lastSecret sampleShoot ?V rotationSim = (Ok emptyResult, s')"
    using run sampleShoot_exists less
    by (simp add: reconcileSecret_def rotatedSim_def io_simps sim_kube_ops simUpdateSecret_def simCall_def sim renew time_defs Let_def)
  then have whole: "ReconcileInternalSecret sampleSecrets (''garden-eu-1-p'', isName lastSecret) rotationSim = (Ok emptyResult, s')"
    by (simp add: ReconcileInternalSecret_def io_simps sim_kube_ops simGet_def simGetShoot_def simCall_def simView_def sim
      label_def shoot raw Let_def)
  note clean = last_names_clean
  have "isLabels lastSecret = secretLabels lastInfo ''shoot''"
    by (simp add: lastSecret_def secretLabels_def lastInfo_def clean)
  then have before: "allLabelled ''garden-eu-1-p'' ''shoot'' lastInfo (simView rotationSim)"
    by (auto simp: allLabelled_def simView_def rotationSim_def secretSim_def split: if_splits)
  note readable = last_readable
  have "allLabelled ''garden-eu-1-p'' ''shoot'' lastInfo (simView s')"
    by (rule rotation_keeps_labels [OF sample_rotation_laws readable _ before whole]) simp
  with whole y show ?thesis by (intro exI [of _ s'] exI [of _ y]) simp
qed

subsection \<open>Names that leave no label\<close>

text \<open>C37. A project name without an ASCII letter or digit leaves an empty label, which cannot be read
  back: when such a shoot's secret is due, no rotation succeeds. The run calls neither Keystone nor
  the secret store, it only counts an error.\<close>

theorem unreadable_name_blocks_rotation:
  assumes "\<forall>c \<in> set (runes (ProjectName u)). \<not> isAlphanumeric c"
    and "isLabels s = secretLabels u n"
    and "newest_secret (srKube r) (\<lambda>x. time_after (isCreationTimestamp x) t) (isNamespace s)
           LabelKeyShootName (shName shoot) w = (Inr None, w')"
  shows "\<exists>e. handleNowAfterRenewTime r s shoot t w =
    (Err e, srMetric r CredentialRotations (Region u) ''error'' w')"
proof -
  have "\<not> labelsReadable u" using assms(1) by (simp add: labelsReadable_def sanitize_empty_iff)
  from secret_labels_unreadable [OF this, of "namedShoot [] n"]
  obtain e where "OpenStackUserInfoFromLabels (isLabels s) = Err e"
    by (auto simp: new_secret_labels assms(2) namedShoot_def)
  moreover have "label (isLabels s) LabelKeyOpenStackRegion = Region u"
    by (simp add: assms(2) secretLabels_def label_def)
  ultimately show ?thesis
    using assms(3)
    by (simp add: handleNowAfterRenewTime_def io_simps orRecord_def newOpenStackClusterUserClientSet_def Let_def)
qed

theorem unreadable_name_blocks_rotation_witness:
  "\<exists>e. handleNowAfterRenewTime sampleSecrets (lastSecret\<lparr>isLabels := secretLabels (lastInfo\<lparr>ProjectName := ''__''\<rparr>) ''shoot''\<rparr>)
     sampleShoot 0 (emptySim [] 0) = (Err e, (emptySim [] 0)\<lparr>simEvents := [[''eu-1'', ''error'']]\<rparr>)"
proof -
  let ?u = "lastInfo\<lparr>ProjectName := ''__''\<rparr>" and ?w = "emptySim [] 0"
  let ?s = "lastSecret\<lparr>isLabels := secretLabels ?u ''shoot''\<rparr>"
  have a: "\<forall>c \<in> set (runes (ProjectName ?u)). \<not> isAlphanumeric c"
    by (simp add: runes_def isAlphanumeric_def)
  have l: "isLabels ?s = secretLabels ?u ''shoot''" by simp
  have n: "newest_secret (srKube sampleSecrets) (\<lambda>x. time_after (isCreationTimestamp x) 0) (isNamespace ?s)
      LabelKeyShootName (shName sampleShoot) ?w = (Inr None, ?w)"
    by (simp add: sim_kube_ops simCall_def emptySim_def simListSecrets_def)
  from unreadable_name_blocks_rotation [OF a l n] show ?thesis
    by (simp add: lastInfo_def emptySim_def)
qed

end
