(* ===== verification/Admission_Properties.thy ===== *)
theory Admission_Properties
  imports Shoot_Admission Secret_Rotation
begin

section \<open>Properties of the admission webhook\<close>

text \<open>
  The webhook fills gaps and nothing else, so that running it on its own result changes nothing, as
  Kubernetes demands of mutating webhooks; and a shoot it lets be created has its credentials.
\<close>

subsection \<open>What the webhook fills in\<close>

text \<open>The specification of a shoot with workers after the webhook, for the infrastructure configuration
  that was found or made and the networking that was given.\<close>

definition filledInfrastructure :: "InfrastructureConfig \<Rightarrow> Networking \<Rightarrow> InfrastructureConfig" where
  "filledInfrastructure ic n = ic\<lparr>
     NetworksWorkers := (if NetworksWorkers ic = []
       then (case Nodes n of None \<Rightarrow> DefaultNodeCIDR | Some x \<Rightarrow> x) else NetworksWorkers ic),
     icAPIVersion := openstackGroupVersion, icKind := ''InfrastructureConfig''\<rparr>"

definition defaultControlPlane :: RawExtension where
  "defaultControlPlane = RawControlPlane \<lparr>cpAPIVersion = openstackGroupVersion,
     cpKind = ''ControlPlaneConfig'', LoadBalancerProvider = DefaultLoadBalancerType\<rparr>"

definition filledShoot :: "InfrastructureConfig \<Rightarrow> Networking \<Rightarrow> Shoot \<Rightarrow> Shoot" where
  "filledShoot ic n shoot = shoot\<lparr>
     shInfrastructureConfig := Some (RawInfrastructure (filledInfrastructure ic n)),
     shControlPlaneConfig := Some (case shControlPlaneConfig shoot of None \<Rightarrow> defaultControlPlane | Some c \<Rightarrow> c),
     shNetworking := Some (fillNetworking n)\<rparr>"

text \<open>
  What the webhook relies on: an infrastructure configuration that it wrote is read back, up to its
  type, and networks have names.
\<close>

definition infrastructureReadBack :: "'w ShootHandler \<Rightarrow> bool" where
  "infrastructureReadBack h \<longleftrightarrow> (\<forall>c. \<exists>d v k. adDecodeInfrastructure h (RawInfrastructure c) = Inr d \<and>
     adConvertInfrastructure h d = Inr (c\<lparr>icAPIVersion := v, icKind := k\<rparr>))"

definition networksNamed :: "'w cloud \<Rightarrow> bool" where
  "networksNamed os \<longleftrightarrow> (\<forall>c w ns. fst (list_networks os c w) = Inr (Inr ns) \<longrightarrow> (\<forall>n \<in> set ns. nwName n \<noteq> []))"

lemma orRecordBoth_Ok: "orRecordBoth h mt region s m w = (Ok x, w') \<Longrightarrow> m w = (Ok x, w')"
  by (auto simp: orRecordBoth_def io_simps split: outcome_splits)

lemma external_network_named:
  assumes "networksNamed os" and "getExternalNetworkForProject os c w = (Ok name, w')"
  shows "name \<noteq> []"
proof -
  obtain p w1 where run: "list_networks os c w = (p, w1)" by fastforce
  obtain ns where ns: "p = Inr (Inr ns)"
    using assms(2) run by (cases p) (auto simp: getExternalNetworkForProject_def io_simps split: sum.splits)
  obtain n where n: "filter (\<lambda>n. \<not> (\<not> nwExternal n \<or> \<not> nwShared n)) ns = [n]" "name = nwName n"
    using assms(2) run ns
    by (auto simp: getExternalNetworkForProject_def io_simps Let_def split: list.splits)
  then have "n \<in> set ns" using filter_eq_ConsD by fastforce
  with assms(1) run ns n(2) show ?thesis unfolding networksNamed_def by (metis fst_conv)
qed

lemma fillShoot_Ok:
  assumes "networksNamed (adCloud h)" and "fillShoot h c region shoot w = (Ok shoot', w')"
  obtains ic n where "shNetworking shoot = Some n" "FloatingPoolName ic \<noteq> []" "shoot' = filledShoot ic n shoot"
proof -
  obtain ic w1 where ic: "decodedInfrastructure h shoot w = (Ok ic, w1)"
    using assms(2) by (auto simp: fillShoot_def io_simps split: outcome_splits outcome.splits)
  obtain n where n: "shNetworking shoot = Some n"
    using assms(2) by (auto simp: fillShoot_def io_simps split: outcome_splits outcome.splits)
  show ?thesis
  proof (cases "FloatingPoolName ic = []")
    case False
    with assms(2) ic n have "shoot' = filledShoot ic n shoot"
      by (auto simp: fillShoot_def io_simps filledShoot_def filledInfrastructure_def defaultControlPlane_def
          split: option.splits if_splits)
    with that n False show ?thesis by blast
  next
    case True
    let ?detect = "orRecordBoth h FloatingPoolDetections region DetectFloatingPool
       (getExternalNetworkForProject (adCloud h) (csNetworkClient c))"
    obtain name w2 where name: "?detect w1 = (Ok name, w2)"
      using assms(2) ic True by (auto simp: fillShoot_def io_simps split: outcome_splits outcome.splits)
    from external_network_named [OF assms(1) orRecordBoth_Ok [OF this]] have "name \<noteq> []" .
    moreover have "shoot' = filledShoot (ic\<lparr>FloatingPoolName := name\<rparr>) n shoot"
      using assms(2) ic True n name
      by (auto simp: fillShoot_def io_simps filledShoot_def filledInfrastructure_def defaultControlPlane_def
          split: option.splits if_splits)
    ultimately show ?thesis using that [of n "ic\<lparr>FloatingPoolName := name\<rparr>"] n by simp
  qed
qed

text \<open>The requests the webhook handles.\<close>

definition responsible :: "AdmissionRequest \<Rightarrow> bool" where
  "responsible req \<longleftrightarrow> arRequestKind req = Some ''Shoot'' \<and> arOperation req \<noteq> ''DELETE'' \<and>
     arOperation req \<noteq> ''CONNECT'' \<and> HasOpenStackUserInfo (arExtra req)"

lemma not_responsible:
  "\<not> responsible req \<Longrightarrow> handleAdmission h (ShootObject shoot) (Inr req) = returnE (ShootObject shoot)"
  by (auto simp: handleAdmission_def responsible_def extE_def fun_eq_iff io_simps)

text \<open>A mutation in stages: the service user, the credentials at creation, the specification.\<close>

lemma mutateShoot_Ok:
  assumes "mutateShoot h u os isCreate shoot w = (Ok shoot', w')"
  obtains cu w1 b w2 shoot1 w3 where
    "NewClusterUserClientSet (adCloud h) os (GetClusterUserName (adLandscapeName h) (shName shoot) (ProjectID u))
       (ProjectID u) w = (Ok cu, w1)"
    "issueCredentials h cu u isCreate shoot w1 = (Ok b, w2)"
    "(if \<not> length (shWorkers shoot) = 0 then fillShoot h cu (Region u) shoot else returnE shoot) w2 = (Ok shoot1, w3)"
    "shoot' = placeShoot h (Region u) isCreate b shoot1"
    "w' = adMetric h ShootMutations (Region u) ''success'' w3"
  using assms unfolding mutateShoot_def Let_def run_bindE run_wrapE run_thenE run_simps
  by (auto split: prod.splits outcome.splits)

lemma handleAdmission_Ok:
  assumes "responsible req" and "handleAdmission h (ShootObject shoot) (Inr req) w = (Ok obj, w')"
  obtains u os shoot' where "OpenStackUserInfoFromExtra (arExtra req) = Ok u" "adClients h (Region u) = Some os"
    "mutateShoot h u os (arOperation req = ''CREATE'') shoot w = (Ok shoot', w')" "obj = ShootObject shoot'"
  using assms unfolding responsible_def handleAdmission_def
  by (auto simp: io_simps split: prod.splits outcome.splits option.splits)

subsection \<open>Running the webhook on its own result\<close>

lemma fillNetworking_idem [simp]: "fillNetworking (fillNetworking n) = fillNetworking n"
  by (simp add: fillNetworking_def orDefault_def split: option.splits)

lemma filledInfrastructure_again:
  "filledInfrastructure ((filledInfrastructure ic n)\<lparr>icAPIVersion := v, icKind := k\<rparr>) (fillNetworking n) =
   filledInfrastructure ic n"
  by (simp add: filledInfrastructure_def fillNetworking_def orDefault_def split: option.splits)

lemma fillShoot_known_pool:
  assumes "decodedInfrastructure h shoot w = (Ok ic, w1)" "FloatingPoolName ic \<noteq> []"
    and "shNetworking shoot = Some n"
  shows "fillShoot h c region shoot w = (Ok (filledShoot ic n shoot), w1)"
  using assms
  by (auto simp: fillShoot_def io_simps filledShoot_def filledInfrastructure_def defaultControlPlane_def
      split: option.splits)

text \<open>The parts of a shoot that filling it leaves as it would make them.\<close>

definition isFilled :: "Shoot \<Rightarrow> bool" where
  "isFilled s \<longleftrightarrow> (\<exists>ic n cp. FloatingPoolName ic \<noteq> [] \<and>
     shInfrastructureConfig s = Some (RawInfrastructure (filledInfrastructure ic n)) \<and>
     shControlPlaneConfig s = Some cp \<and> shNetworking s = Some (fillNetworking n))"

lemma isFilled_filledShoot: "FloatingPoolName ic \<noteq> [] \<Longrightarrow> isFilled (filledShoot ic n shoot)"
  unfolding isFilled_def by (auto simp: filledShoot_def)

lemma isFilled_placeShoot [simp]: "isFilled (placeShoot h region c b s) = isFilled s"
  by (simp add: isFilled_def placeShoot_def Let_def split: option.splits)

lemma fill_again:
  assumes "infrastructureReadBack h" and "isFilled s"
  shows "fillShoot h c region s w = (Ok s, w)"
proof -
  obtain ic n cp where s: "FloatingPoolName ic \<noteq> []"
    "shInfrastructureConfig s = Some (RawInfrastructure (filledInfrastructure ic n))"
    "shControlPlaneConfig s = Some cp" "shNetworking s = Some (fillNetworking n)"
    using assms(2) unfolding isFilled_def by blast
  let ?ic = "filledInfrastructure ic n"
  obtain d v k where d: "adDecodeInfrastructure h (RawInfrastructure ?ic) = Inr d"
    "adConvertInfrastructure h d = Inr (?ic\<lparr>icAPIVersion := v, icKind := k\<rparr>)"
    using assms(1) unfolding infrastructureReadBack_def by blast
  have "decodedInfrastructure h s w = (Ok (?ic\<lparr>icAPIVersion := v, icKind := k\<rparr>), w)"
    by (simp add: decodedInfrastructure_def s d io_simps)
  moreover have "FloatingPoolName (?ic\<lparr>icAPIVersion := v, icKind := k\<rparr>) \<noteq> []"
    using s(1) by (simp add: filledInfrastructure_def)
  ultimately have "fillShoot h c region s w =
      (Ok (filledShoot (?ic\<lparr>icAPIVersion := v, icKind := k\<rparr>) (fillNetworking n) s), w)"
    using s(4) by (rule fillShoot_known_pool)
  also have "filledShoot (?ic\<lparr>icAPIVersion := v, icKind := k\<rparr>) (fillNetworking n) s = s"
    using s by (simp add: filledShoot_def filledInfrastructure_again)
  finally show ?thesis .
qed

lemma fill_stage:
  assumes "(if \<not> length (shWorkers shoot) = 0 then fillShoot h c region shoot else returnE shoot) w = (Ok shoot1, w1)"
    and "networksNamed (adCloud h)"
  obtains "shWorkers shoot = []" "shoot1 = shoot" | "shWorkers shoot \<noteq> []" "isFilled shoot1"
    "\<exists>ic n. shoot1 = filledShoot ic n shoot"
proof (cases "shWorkers shoot = []")
  case True
  with assms(1) have "shoot1 = shoot" by (simp add: io_simps)
  with that(1) True show ?thesis by blast
next
  case False
  with assms(1) have "fillShoot h c region shoot w = (Ok shoot1, w1)" by simp
  then obtain ic n where "FloatingPoolName ic \<noteq> []" "shoot1 = filledShoot ic n shoot"
    using fillShoot_Ok [OF assms(2)] by metis
  with that(2) False isFilled_filledShoot show ?thesis by blast
qed

lemma filledShoot_keeps [simp]:
  "shWorkers (filledShoot ic n s) = shWorkers s" "shName (filledShoot ic n s) = shName s"
  "shNamespace (filledShoot ic n s) = shNamespace s"
  "shCredentialsBindingName (filledShoot ic n s) = shCredentialsBindingName s"
  by (simp_all add: filledShoot_def)

lemma placeShoot_keeps [simp]:
  "shWorkers (placeShoot h region c b s) = shWorkers s" "shName (placeShoot h region c b s) = shName s"
  "shNamespace (placeShoot h region c b s) = shNamespace s"
  by (simp_all add: placeShoot_def Let_def split: option.splits)

lemma placeShoot_again:
  "shWorkers s \<noteq> [] \<Longrightarrow> placeShoot h region c b' (placeShoot h region c b s) =
     (case b' of None \<Rightarrow> placeShoot h region c b s | Some x \<Rightarrow> placeShoot h region c (Some x) s)"
  "shWorkers s = [] \<Longrightarrow> placeShoot h region c b' (placeShoot h region c b s) = placeShoot h region c b s"
  by (cases b; cases b'; cases c; simp add: placeShoot_def)+

lemma placeShoot_binding:
  "shWorkers s \<noteq> [] \<Longrightarrow> placeShoot h region c (Some x) s =
     (placeShoot h region c b s)\<lparr>shCredentialsBindingName := Some (cbName x)\<rparr>"
  by (cases b; cases c; simp add: placeShoot_def)

lemma issue_update: "issueCredentials h cu u False shoot w = (Ok b, w') \<Longrightarrow> b = None"
  by (simp add: issueCredentials_def io_simps)

lemma placeShoot_onto:
  assumes "isCreate \<or> b' = None"
  shows "placeShoot h region isCreate b' (placeShoot h region isCreate b s) =
     (placeShoot h region isCreate b s)\<lparr>shCredentialsBindingName :=
        shCredentialsBindingName (placeShoot h region isCreate b' (placeShoot h region isCreate b s))\<rparr>"
    and "\<not> isCreate \<Longrightarrow> placeShoot h region isCreate b' (placeShoot h region isCreate b s) = placeShoot h region isCreate b s"
proof -
  let ?p = "placeShoot h region isCreate b s" and ?q = "placeShoot h region isCreate b' (placeShoot h region isCreate b s)"
  have same: "?q = ?p" if "shWorkers s = [] \<or> b' = None"
    using that placeShoot_again [of s h region isCreate b' b] by (cases "shWorkers s = []") auto
  show "?q = ?p\<lparr>shCredentialsBindingName := shCredentialsBindingName ?q\<rparr>"
  proof (cases "shWorkers s = [] \<or> b' = None")
    case True
    from same [OF this] show ?thesis by simp
  next
    case False
    then obtain x where x: "b' = Some x" "shWorkers s \<noteq> []" by auto
    have "?q = placeShoot h region isCreate (Some x) s" unfolding x(1) by (subst placeShoot_again(1) [OF x(2)]) simp
    also have "\<dots> = ?p\<lparr>shCredentialsBindingName := Some (cbName x)\<rparr>" by (rule placeShoot_binding [OF x(2)])
    finally show ?thesis by simp
  qed
  show "?q = ?p" if "\<not> isCreate" using same assms that by blast
qed

text \<open>C22. The webhook is idempotent: run on its own result it changes nothing any more, except that at
  creation it may bind the shoot to a secret that has become the newest meanwhile.\<close>

theorem admission_idempotent:
  assumes named: "networksNamed (adCloud h)" and readBack: "infrastructureReadBack h"
    and first: "handleAdmission h (ShootObject shoot) (Inr req) w = (Ok (ShootObject s1), w1)"
    and again: "handleAdmission h (ShootObject s1) (Inr req) w' = (Ok (ShootObject s2), w2)"
  shows "s2 = s1\<lparr>shCredentialsBindingName := shCredentialsBindingName s2\<rparr> \<and>
    (arOperation req \<noteq> ''CREATE'' \<longrightarrow> s2 = s1)"
proof (cases "responsible req")
  case False
  with again show ?thesis by (simp add: not_responsible io_simps)
next
  case True
  let ?c = "arOperation req = ''CREATE''"
  obtain u os where u: "OpenStackUserInfoFromExtra (arExtra req) = Ok u"
    and m1: "mutateShoot h u os ?c shoot w = (Ok s1, w1)"
    using handleAdmission_Ok [OF True first] by (metis admitted.inject(1))
  obtain os' where m2: "mutateShoot h u os' ?c s1 w' = (Ok s2, w2)"
    using handleAdmission_Ok [OF True again] u by (metis admitted.inject(1) outcome.inject(1))
  obtain cu b v f1 v' where
    f1: "(if \<not> length (shWorkers shoot) = 0 then fillShoot h cu (Region u) shoot else returnE shoot) v = (Ok f1, v')"
    and s1: "s1 = placeShoot h (Region u) ?c b f1"
    using m1 by (rule mutateShoot_Ok)
  obtain cu' b' x y f2 y' where b': "issueCredentials h cu' u ?c s1 x = (Ok b', y)"
    and f2: "(if \<not> length (shWorkers s1) = 0 then fillShoot h cu' (Region u) s1 else returnE s1) y = (Ok f2, y')"
    and s2: "s2 = placeShoot h (Region u) ?c b' f2"
    using m2 by (rule mutateShoot_Ok)
  have "f2 = s1"
    using f1 named
  proof (cases rule: fill_stage)
    case 1
    with s1 f2 show ?thesis by (simp add: io_simps)
  next
    case 2
    then have "isFilled s1" by (simp add: s1)
    with f2 fill_again [OF readBack] show ?thesis by (simp add: io_simps split: if_splits)
  qed
  have "?c \<or> b' = None" using b' issue_update by (cases ?c) auto
  note onto = placeShoot_onto [OF this, of h "Region u" b f1]
  have s2': "s2 = placeShoot h (Region u) ?c b' s1" unfolding s2 \<open>f2 = s1\<close> ..
  show ?thesis
  proof
    show "s2 = s1\<lparr>shCredentialsBindingName := shCredentialsBindingName s2\<rparr>"
      unfolding s2' s1 by (rule onto(1))
    show "arOperation req \<noteq> ''CREATE'' \<longrightarrow> s2 = s1"
      unfolding s2' s1 using onto(2) by blast
  qed
qed

definition sampleAdmission :: "sim ShootHandler" where
  "sampleAdmission = \<lparr>adKube = simKube, adCloud = simCloud, adClients = [''eu-1'' \<mapsto> sampleClients],
     adLandscapeName = ''live'', adCloudProfileName = [], adProviderType = [],
     adDecodeInfrastructure = (\<lambda>r. case r of RawInfrastructure c \<Rightarrow> Inr c | _ \<Rightarrow> Inl (OtherError ''decode'')),
     adConvertInfrastructure = Inr,
     adMetric = (\<lambda>m region v s. s\<lparr>simEvents := [region, v] # simEvents s\<rparr>)\<rparr>"

definition workerShoot :: Shoot where
  "workerShoot = sampleShoot\<lparr>shWorkers := [''pool''],
     shNetworking := Some \<lparr>netType = None, Pods = None, Services = None, Nodes = Some ''10.0.0.0/16''\<rparr>\<rparr>"

definition shootRequest :: "string \<Rightarrow> AdmissionRequest" where
  "shootRequest op = \<lparr>arRequestKind = Some ''Shoot'', arOperation = op, arDryRun = False, arExtra = ToExtra lastInfo\<rparr>"

lemma sampleAdmission_ops [simp]:
  "adKube sampleAdmission = simKube" "adCloud sampleAdmission = simCloud"
  "adClients sampleAdmission = [''eu-1'' \<mapsto> sampleClients]" "adLandscapeName sampleAdmission = ''live''"
  "adMetric sampleAdmission m a b s = s\<lparr>simEvents := [a, b] # simEvents s\<rparr>"
  by (simp_all add: sampleAdmission_def)

lemma sample_networks: "list_networks simCloud c = simCall (\<lambda>s. (Inr (Inr
    [\<lparr>nwName = ''FloatingIP-external'', nwExternal = True, nwShared = True\<rparr>]), s))"
  by (simp add: simCloud_def)

lemma sample_admission_assumptions:
  "networksNamed (adCloud sampleAdmission)" "infrastructureReadBack sampleAdmission"
proof -
  show "networksNamed (adCloud sampleAdmission)"
    by (auto simp: networksNamed_def sample_networks simCall_def split: list.splits)
  show "infrastructureReadBack sampleAdmission"
    unfolding infrastructureReadBack_def
  proof
    fix c :: InfrastructureConfig
    have "c = c\<lparr>icAPIVersion := icAPIVersion c, icKind := icKind c\<rparr>" by simp
    then show "\<exists>d v k. adDecodeInfrastructure sampleAdmission (RawInfrastructure c) = Inr d \<and>
       adConvertInfrastructure sampleAdmission d = Inr (c\<lparr>icAPIVersion := v, icKind := k\<rparr>)"
      by (intro exI [of _ c] exI [of _ "icAPIVersion c"] exI [of _ "icKind c"]) (simp add: sampleAdmission_def)
  qed
qed

lemma sample_responsible: "responsible (shootRequest ''UPDATE'')" "responsible (shootRequest ''CREATE'')"
  by (simp_all add: responsible_def shootRequest_def extras.has_encode)

lemma lastInfo_fields [simp]: "Region lastInfo = ''eu-1''" "ProjectID lastInfo = ''p''"
  by (simp_all add: lastInfo_def)

lemma update_run:
  assumes "shName shoot = ''shoot''" "shWorkers shoot \<noteq> []"
    and "\<And>cu s. simFaults s = [] \<Longrightarrow> \<exists>s'. fillShoot sampleAdmission cu ''eu-1'' shoot s = (Ok shoot1, s')"
  shows "\<exists>s' shoot'. handleAdmission sampleAdmission (ShootObject shoot) (Inr (shootRequest ''UPDATE'')) lastSim =
     (Ok (ShootObject shoot'), s') \<and> shoot' = placeShoot sampleAdmission ''eu-1'' False None shoot1"
proof -
  obtain cu g where cu: "NewClusterUserClientSet simCloud sampleClients lastUserName ''p'' lastSim = (Ok cu,
      lastSim\<lparr>simUsers := (''u1'', lastUserName, csDomainID sampleClients, ''password'') # simUsers lastSim,
        simGrants := g\<rparr>)" (is "_ = (_, ?s)")
    using sim_user_clients [OF last_run_1, of "''p''"] by blast
  obtain s' where fill: "fillShoot sampleAdmission cu ''eu-1'' shoot ?s = (Ok shoot1, s')"
    using assms(3) [of ?s cu] last_run_1 by auto
  have "mutateShoot sampleAdmission lastInfo sampleClients False shoot lastSim =
      (Ok (placeShoot sampleAdmission ''eu-1'' False None shoot1), s'\<lparr>simEvents := [''eu-1'', ''success''] # simEvents s'\<rparr>)"
    using cu fill assms(1,2) by (simp add: mutateShoot_def io_simps issueCredentials_def Let_def)
  then show ?thesis
    by (simp add: handleAdmission_def shootRequest_def io_simps extras.has_encode extras.decode_encode)
qed

theorem admission_idempotent_witness:
  "\<exists>s1 w1 w2. handleAdmission sampleAdmission (ShootObject workerShoot) (Inr (shootRequest ''UPDATE'')) lastSim =
      (Ok (ShootObject s1), w1) \<and> s1 \<noteq> workerShoot \<and>
    handleAdmission sampleAdmission (ShootObject s1) (Inr (shootRequest ''UPDATE'')) lastSim = (Ok (ShootObject s1), w2)"
proof -
  let ?h = sampleAdmission and ?ic = "emptyInfrastructure\<lparr>FloatingPoolName := ''FloatingIP-external''\<rparr>"
  let ?n = "\<lparr>netType = None, Pods = None, Services = None, Nodes = Some ''10.0.0.0/16''\<rparr>"
  let ?s1 = "placeShoot ?h ''eu-1'' False None (filledShoot ?ic ?n workerShoot)"
  have ws: "shName workerShoot = ''shoot''" "shWorkers workerShoot \<noteq> []" "shInfrastructureConfig workerShoot = None"
    "shNetworking workerShoot = Some ?n" "shRegion workerShoot = []"
    by (simp_all add: workerShoot_def sampleShoot_def namedShoot_def)
  have fill1: "\<exists>s'. fillShoot ?h cu ''eu-1'' workerShoot s = (Ok (filledShoot ?ic ?n workerShoot), s')"
    if "simFaults s = []" for cu s
    using that ws(3,4)
    by (simp add: fillShoot_def decodedInfrastructure_def io_simps emptyInfrastructure_def orRecordBoth_def
        getExternalNetworkForProject_def sample_networks simCall_def Let_def filledShoot_def
        filledInfrastructure_def defaultControlPlane_def split: option.splits)
  obtain w1 where run1: "handleAdmission ?h (ShootObject workerShoot) (Inr (shootRequest ''UPDATE'')) lastSim =
      (Ok (ShootObject ?s1), w1)"
    using update_run [OF ws(1,2) fill1] by auto
  have filled: "isFilled ?s1"
    by (simp add: isFilled_filledShoot emptyInfrastructure_def)
  have ws1: "shName ?s1 = ''shoot''" "shWorkers ?s1 \<noteq> []" using ws by simp_all
  have fill2: "\<exists>s'. fillShoot ?h cu ''eu-1'' ?s1 s = (Ok ?s1, s')" for cu s
    using fill_again [OF sample_admission_assumptions(2) filled] by blast
  obtain s2 w2 where run2: "handleAdmission ?h (ShootObject ?s1) (Inr (shootRequest ''UPDATE'')) lastSim =
      (Ok (ShootObject s2), w2)"
    using update_run [OF ws1 fill2] by blast
  have "s2 = ?s1"
    using admission_idempotent [OF sample_admission_assumptions run1 run2] by (simp add: shootRequest_def)
  moreover have "shRegion ?s1 = ''eu-1''" by (simp add: placeShoot_def Let_def)
  then have "?s1 \<noteq> workerShoot" using ws(5) by auto
  ultimately show ?thesis using run1 run2 by blast
qed

subsection \<open>Credentials at creation\<close>

text \<open>
  The laws of the objects that are created, for a view of the cluster; the cloud, the clock and the
  metrics leave it alone. In a keyed cluster each secret is stored under its own namespace and name.
\<close>

definition keyedSecrets :: "cluster \<Rightarrow> bool" where
  "keyedSecrets c \<longleftrightarrow> (\<forall>ns n x. secrets c (ns, n) = Some x \<longrightarrow> isNamespace x = ns \<and> isName x = n)"

definition secretStored :: "('w \<Rightarrow> cluster) \<Rightarrow> 'w kube \<Rightarrow> bool" where
  "secretStored view k \<longleftrightarrow> (\<forall>y w r w'. create_secret k y w = (r, w') \<longrightarrow>
     bindings (view w') = bindings (view w) \<and>
     (\<forall>x. r = Inr x \<longrightarrow> isName x = isName y \<and> isNamespace x = isNamespace y \<and> isLabels x = isLabels y \<and>
        secrets (view w') (isNamespace x, isName x) = Some x))"

definition bindingStored :: "('w \<Rightarrow> cluster) \<Rightarrow> 'w kube \<Rightarrow> bool" where
  "bindingStored view k \<longleftrightarrow> (\<forall>b w r w'. create_binding k b w = (r, w') \<longrightarrow>
     (\<forall>u. r = Inr u \<longrightarrow> bindings (view w') = (bindings (view w))((cbNamespace b, cbName b) \<mapsto> b) \<and>
        secrets (view w') = secrets (view w)) \<and>
     (\<forall>t. r = Inl (KubeError AlreadyExists t) \<longrightarrow> view w' = view w \<and>
        bindings (view w) (cbNamespace b, cbName b) \<noteq> None))"

definition issue_laws :: "('w \<Rightarrow> cluster) \<Rightarrow> 'w ShootHandler \<Rightarrow> bool" where
  "issue_laws view h \<longleftrightarrow> secretsListed view (adKube h) \<and> secretStored view (adKube h) \<and>
     bindingStored view (adKube h) \<and> (\<forall>c. cloud_keeps (\<lambda>w. view w = c) (adCloud h)) \<and>
     (\<forall>m a b w. view (adMetric h m a b w) = view w)"

text \<open>
  There is a secret for the shoot and a binding of the same name, which refers to it. A binding that was
  there before is left as it is; so all that is in the namespace must refer to the secret of their name, as
  those that the program makes do.
\<close>

definition secretRef :: "string \<Rightarrow> string \<Rightarrow> ObjectReference" where
  "secretRef ns name = \<lparr>orAPIVersion = ''core.gardener.cloud/v1beta1'', orKind = ''InternalSecret'',
     orName = name, orNamespace = ns\<rparr>"

definition credentialsFor :: "cluster \<Rightarrow> Shoot \<Rightarrow> string \<Rightarrow> bool" where
  "credentialsFor c shoot name \<longleftrightarrow>
     (\<exists>x. secrets c (shNamespace shoot, name) = Some x \<and> isName x = name \<and>
        isLabels x LabelKeyShootName = Some (shName shoot)) \<and>
     (\<exists>b. bindings c (shNamespace shoot, name) = Some b \<and>
        cbCredentialsRef b = secretRef (shNamespace shoot) name)"

definition bindingsRefer :: "string \<Rightarrow> cluster \<Rightarrow> bool" where
  "bindingsRefer ns c \<longleftrightarrow> (\<forall>n b. bindings c (ns, n) = Some b \<longrightarrow> cbCredentialsRef b = secretRef ns n)"

lemma binding_ensured:
  assumes "bindingStored view k"
    and "EnsureCredentialsBindingForInternalSecret k shoot x w = (Ok b, w')"
    and "bindingsRefer (shNamespace shoot) (view w)"
  shows "b = CredentialsBindingForSecret shoot x" "secrets (view w') = secrets (view w)"
    "\<exists>c. bindings (view w') (shNamespace shoot, isName x) = Some c" "bindingsRefer (shNamespace shoot) (view w')"
proof -
  let ?b = "CredentialsBindingForSecret shoot x"
  obtain r w1 where run: "create_binding k ?b w = (r, w1)" by fastforce
  note law = assms(1) [unfolded bindingStored_def, rule_format, OF run]
  have b: "(cbNamespace ?b, cbName ?b) = (shNamespace shoot, isName x)"
    "cbCredentialsRef ?b = secretRef (shNamespace shoot) (isName x)"
    by (simp_all add: CredentialsBindingForSecret_def secretRef_def)
  show "b = ?b" "secrets (view w') = secrets (view w)"
    "\<exists>c. bindings (view w') (shNamespace shoot, isName x) = Some c" "bindingsRefer (shNamespace shoot) (view w')"
    using assms(2,3) run law b
    by (auto simp: EnsureCredentialsBindingForInternalSecret_def io_simps Let_def is_already_exists_def bindingsRefer_def
        split: sum.splits if_splits ext_error.splits kube_reason.splits)
qed

lemma secret_ensured:
  assumes laws: "issue_laws view h" and keyed: "keyedSecrets (view w)" and refer: "bindingsRefer (shNamespace shoot) (view w)"
    and run: "ensureOpenStackCredentialInternalSecretAndBinding (adKube h) (adCloud h) cu shoot u w = (Ok b, w')"
  shows "credentialsFor (view w') shoot (cbName b) \<and> bindingsRefer (shNamespace shoot) (view w')"
proof -
  have stored: "secretStored view (adKube h)" and bind: "bindingStored view (adKube h)"
    and keep: "cloud_keeps (\<lambda>w. view w = c) (adCloud h)" for c
    using laws by (simp_all add: issue_laws_def)
  obtain r w1 where list: "list_secrets (adKube h) (shNamespace shoot) LabelKeyShootName (shName shoot) w = (r, w1)"
    by fastforce
  have law: "view w1 = view w" "r = Inr xs \<Longrightarrow> set xs = labelledSecrets (view w) (shNamespace shoot) LabelKeyShootName (shName shoot)" for xs
    using laws list unfolding issue_laws_def secretsListed_def by blast+
  obtain xs where xs: "r = Inr xs"
    using run list by (cases r) (auto simp: ensureOpenStackCredentialInternalSecretAndBinding_def io_simps)
  obtain x w2 where x: "secrets (view w2) (shNamespace shoot, isName x) = Some x"
    "isLabels x LabelKeyShootName = Some (shName shoot)" "bindingsRefer (shNamespace shoot) (view w2)"
    and ensure: "EnsureCredentialsBindingForInternalSecret (adKube h) shoot x w2 = (Ok b, w')"
  proof (cases "xs = []")
    case True
    then obtain x w2 where new: "EnsureApplicationCredentialInternalSecretForShoot (adKube h) (adCloud h) cu shoot u w1 =
        (Ok x, w2)" and ensure: "EnsureCredentialsBindingForInternalSecret (adKube h) shoot x w2 = (Ok b, w')"
      using run list xs by (auto simp: ensureOpenStackCredentialInternalSecretAndBinding_def run_bindE run_wrapE
          run_callE split: prod.splits outcome.splits)
    obtain t v0 c v where "clock_now (adCloud h) w1 = (t, v0)"
      and issued: "CreateApplicationCredential (adCloud h) cu (NewApplicationCredentialName t) GetDefaultServiceUserRoles v0 = (Ok c, v)"
      and create: "create_secret (adKube h) (ApplicationCredentialsInternalSecret shoot u c) v = (Inr x, w2)"
      using new by (auto simp: EnsureApplicationCredentialInternalSecretForShoot_def run_bindE run_wrapE run_callE
          run_readE Let_def split: prod.splits outcome.splits sum.splits)
    moreover have "view v0 = view w1" using keep [of "view w1"] calculation(1)
      unfolding cloud_keeps_def stable_call_def by (metis snd_conv)
    moreover have "view v = view v0" by (rule frameD [OF stable_credentials(1) [OF keep] issued])
    ultimately have "bindings (view w2) = bindings (view w)"
      using stored law(1) unfolding secretStored_def by metis
    then have "bindingsRefer (shNamespace shoot) (view w2)" using refer by (simp add: bindingsRefer_def)
    moreover from stored create have "isNamespace x = shNamespace shoot" "isLabels x = secretLabels u (shName shoot)"
      "secrets (view w2) (isNamespace x, isName x) = Some x"
      unfolding secretStored_def by (metis new_secret_labels)+
    ultimately show ?thesis using that [OF _ _ _ ensure] by (simp add: secretLabels_def)
  next
    case False
    let ?x = "last (sort_key isCreationTimestamp xs)"
    have "?x \<in> set xs" using False last_in_set [of "sort_key isCreationTimestamp xs"]
      by (metis set_sort length_sort length_0_conv)
    then obtain n where n: "secrets (view w) (shNamespace shoot, n) = Some ?x"
      "isLabels ?x LabelKeyShootName = Some (shName shoot)"
      using law(2) [OF xs] unfolding labelledSecrets_def by auto
    then have "secrets (view w1) (shNamespace shoot, isName ?x) = Some ?x"
      using keyed law(1) unfolding keyedSecrets_def by auto
    moreover have "EnsureCredentialsBindingForInternalSecret (adKube h) shoot ?x w1 = (Ok b, w')"
      using run list xs False by (simp add: ensureOpenStackCredentialInternalSecretAndBinding_def run_bindE run_wrapE run_callE)
    moreover have "bindingsRefer (shNamespace shoot) (view w1)" using refer law(1) by simp
    ultimately show ?thesis using n(2) that by blast
  qed
  note b = binding_ensured [OF bind ensure x(3)]
  from b(3,4) have "\<exists>c. bindings (view w') (shNamespace shoot, isName x) = Some c \<and>
      cbCredentialsRef c = secretRef (shNamespace shoot) (isName x)"
    unfolding bindingsRefer_def by blast
  with b x show ?thesis
    unfolding credentialsFor_def by (auto simp: CredentialsBindingForSecret_def)
qed

lemma stable_fillShoot:
  assumes "cloud_keeps I (adCloud h)" and "\<And>m a b w. I w \<Longrightarrow> I (adMetric h m a b w)"
  shows "stable I (fillShoot h cu region shoot)"
  unfolding fillShoot_def decodedInfrastructure_def orRecordBoth_def getExternalNetworkForProject_def Let_def
  by (intro stable_intros cloud_keepsD [OF assms(1)] assms(2))

lemma fillShoot_workers: "fillShoot h cu region shoot w = (Ok s, w') \<Longrightarrow> shWorkers s = shWorkers shoot"
  by (auto simp: fillShoot_def run_bindE run_simps Let_def split: prod.splits outcome.splits option.splits)

text \<open>C13. A shoot with workers that a user creates through the webhook names a credentials binding of its
  namespace, which refers to an InternalSecret that is labelled for the shoot; both exist when the
  webhook answers. That the bindings of the namespace refer to the secrets of their names is kept.\<close>

theorem created_shoot_has_credentials:
  assumes laws: "issue_laws view h" and keyed: "keyedSecrets (view w)"
    and refer: "bindingsRefer (shNamespace shoot) (view w)"
    and "responsible req" "arOperation req = ''CREATE''" "shWorkers shoot \<noteq> []"
    and run: "handleAdmission h (ShootObject shoot) (Inr req) w = (Ok (ShootObject s), w')"
  shows "(\<exists>name. shCredentialsBindingName s = Some name \<and> credentialsFor (view w') shoot name) \<and>
    bindingsRefer (shNamespace shoot) (view w')"
proof -
  have keep: "cloud_keeps (\<lambda>w. view w = c) (adCloud h)" and metric: "view (adMetric h m a b w) = view w" for c m a b w
    using laws by (simp_all add: issue_laws_def)
  have filling: "stable (\<lambda>w. view w = c) (fillShoot h cu region shoot)" for c cu region
    by (rule stable_fillShoot [OF keep]) (simp add: metric)
  obtain u os where m: "mutateShoot h u os True shoot w = (Ok s, w')"
    using handleAdmission_Ok [OF assms(4) run] assms(5) by (metis (full_types) admitted.inject(1))
  obtain cu w1 b w2 s1 w3 where user: "NewClusterUserClientSet (adCloud h) os
       (GetClusterUserName (adLandscapeName h) (shName shoot) (ProjectID u)) (ProjectID u) w = (Ok cu, w1)"
    and issue: "issueCredentials h cu u True shoot w1 = (Ok b, w2)"
    and fill: "(if \<not> length (shWorkers shoot) = 0 then fillShoot h cu (Region u) shoot else returnE shoot) w2 = (Ok s1, w3)"
    and s: "s = placeShoot h (Region u) True b s1" and w': "w' = adMetric h ShootMutations (Region u) ''success'' w3"
    using m by (rule mutateShoot_Ok)
  have w1: "view w1 = view w" by (rule frameD [OF stable_NewClusterUserClientSet [OF keep] user])
  obtain cb v where ensure: "ensureOpenStackCredentialInternalSecretAndBinding (adKube h) (adCloud h) cu shoot u w1 = (Ok cb, v)"
    and b: "b = Some cb" "view w2 = view v"
    using issue assms(6)
    by (auto simp: issueCredentials_def run_bindE run_thenE run_simps metric dest!: orRecordBoth_Ok
        split: prod.splits outcome.splits)
  have "credentialsFor (view v) shoot (cbName cb)" "bindingsRefer (shNamespace shoot) (view v)"
    using secret_ensured [OF laws _ _ ensure] keyed refer w1 by simp_all
  moreover have run': "fillShoot h cu (Region u) shoot w2 = (Ok s1, w3)" using fill assms(6) by simp
  moreover have "view w3 = view w2" by (rule frameD [OF filling run'])
  ultimately show ?thesis
    using b assms(6) fillShoot_workers [OF run'] by (simp add: s w' metric placeShoot_def Let_def)
qed

lemma sample_issue_laws: "issue_laws simView sampleAdmission"
proof -
  have "secretStored simView simKube"
    unfolding secretStored_def sim_kube_ops simCreateSecret_def simCall_def Let_def
    by (auto simp: simView_def simUnavailable_def split: list.splits if_splits)
  moreover have "bindingStored simView simKube"
    unfolding bindingStored_def sim_kube_ops simCreateBinding_def simCall_def Let_def
    by (auto simp: simView_def simUnavailable_def split: list.splits if_splits)
  ultimately show ?thesis
    by (simp add: issue_laws_def sim_secretsListed sim_cloud_keeps)
qed

definition newSim :: sim where
  "newSim = lastSim\<lparr>simSecrets := []\<rparr>"

lemma create_run:
  "\<exists>s' shoot'. handleAdmission sampleAdmission (ShootObject workerShoot) (Inr (shootRequest ''CREATE'')) newSim =
     (Ok (ShootObject shoot'), s')"
proof -
  have f: "simFaults newSim = []" "simUsers newSim = [(''u1'', lastUserName, csDomainID sampleClients, ''old'')]"
    "simSecrets newSim = []" "bindings (simCluster newSim) = Map.empty" "simCredentials newSim = []"
    using last_run_1 by (simp_all add: newSim_def lastSim_def secretSim_def emptySim_def emptyCluster_def)
  obtain cu g where cu: "NewClusterUserClientSet simCloud sampleClients lastUserName ''p'' newSim = (Ok cu,
      newSim\<lparr>simUsers := (''u1'', lastUserName, csDomainID sampleClients, ''password'') # simUsers newSim,
        simGrants := g\<rparr>)" (is "_ = (_, ?s)")
    using sim_user_clients [OF f(1,2), of "''p''"] by blast
  have shoot: "shName workerShoot = ''shoot''" "shWorkers workerShoot \<noteq> []" "shInfrastructureConfig workerShoot = None"
    "shNetworking workerShoot = Some \<lparr>netType = None, Pods = None, Services = None, Nodes = Some ''10.0.0.0/16''\<rparr>"
    by (simp_all add: workerShoot_def sampleShoot_def namedShoot_def)
  obtain b s2 where ensure: "ensureOpenStackCredentialInternalSecretAndBinding simKube simCloud cu workerShoot lastInfo ?s = (Ok b, s2)"
    and s2: "simFaults s2 = []"
    using f by (auto simp: ensureOpenStackCredentialInternalSecretAndBinding_def io_simps sim_kube_ops simCall_def simListSecrets_def
        EnsureApplicationCredentialInternalSecretForShoot_def CreateApplicationCredential_def sim_cloud_ops
        simCreateCredential_def simCreateSecret_def EnsureCredentialsBindingForInternalSecret_def simCreateBinding_def Let_def)
  then have "issueCredentials sampleAdmission cu lastInfo True workerShoot ?s =
      (Ok (Some b), s2\<lparr>simEvents := [''eu-1'', ''success''] # simEvents s2\<rparr>)"
    using shoot by (simp add: issueCredentials_def orRecordBoth_def io_simps)
  moreover have "\<exists>x s'. fillShoot sampleAdmission cu ''eu-1'' workerShoot s = (Ok x, s')" if "simFaults s = []" for s
    using that shoot
    by (simp add: fillShoot_def decodedInfrastructure_def io_simps emptyInfrastructure_def orRecordBoth_def
        getExternalNetworkForProject_def sample_networks simCall_def Let_def)
  then obtain x s3 where "fillShoot sampleAdmission cu ''eu-1'' workerShoot
      (s2\<lparr>simEvents := [''eu-1'', ''success''] # simEvents s2\<rparr>) = (Ok x, s3)"
    using s2 by (metis (no_types, lifting) sim.select_convs(3) sim.surjective sim.update_convs(8))
  ultimately show ?thesis
    using cu shoot
    by (simp add: handleAdmission_def mutateShoot_def shootRequest_def io_simps extras.has_encode
        extras.decode_encode Let_def)
qed

theorem created_shoot_has_credentials_witness:
  "\<exists>s s' name. handleAdmission sampleAdmission (ShootObject workerShoot) (Inr (shootRequest ''CREATE'')) newSim =
      (Ok (ShootObject s), s') \<and> shCredentialsBindingName s = Some name \<and>
    credentialsFor (simView s') workerShoot name"
proof -
  obtain s s' where run: "handleAdmission sampleAdmission (ShootObject workerShoot) (Inr (shootRequest ''CREATE'')) newSim =
      (Ok (ShootObject s), s')"
    using create_run by blast
  have "keyedSecrets (simView newSim)" "bindingsRefer (shNamespace workerShoot) (simView newSim)"
    by (simp_all add: keyedSecrets_def bindingsRefer_def simView_def newSim_def lastSim_def emptyCluster_def)
  moreover have "arOperation (shootRequest ''CREATE'') = ''CREATE''" "shWorkers workerShoot \<noteq> []"
    by (simp_all add: shootRequest_def workerShoot_def)
  ultimately show ?thesis
    using created_shoot_has_credentials [OF sample_issue_laws _ _ sample_responsible(2) _ _ run] run by blast
qed

end
