(* ===== verification/Audit_Event.thy ===== *)
theory Audit_Event
  imports User_Info Config Go_Time
begin

section \<open>The audit webhook\<close>

text \<open>
  \<open>internal/webhook/audithandler\<close>: the API server posts its audit events; those that concern shoots and
  come from OpenStack users are turned into CADF events and given to the auditor of a region.

  Parameters are the decoding of JSON (an event list, the region of a shoot), the parsing of a URL,
  \<open>cadf.NewJSONAttachment\<close> and the auditors of audittools. A nil map of extras is \<open>None\<close>.
\<close>

subsection \<open>Events\<close>

record AuditUser =
  auUsername :: string
  auUID :: string
  auExtra :: "extra option"

record ObjectRef =
  orfAPIGroup :: string
  orfResource :: string
  orfSubresource :: string
  orfNamespace :: string
  orfName :: string

record AuditEvent =
  aeStage :: string
  aeVerb :: string
  aeObjectRef :: "ObjectRef option"
  aeUser :: AuditUser
  aeImpersonatedUser :: "AuditUser option"
  aeRequestObject :: "string option" \<comment> \<open>the raw JSON\<close>
  aeResponseObject :: "string option"
  aeRequestURI :: string
  aeSourceIPs :: "string list"
  aeUserAgent :: string
  aeResponseCode :: "int option"
  aeStageTimestamp :: time

definition gardenerAPIGroup :: string where "gardenerAPIGroup = ''core.gardener.cloud''"
definition shootResource :: string where "shootResource = ''shoots''"
definition subresourceAdminKubeconfig :: string where "subresourceAdminKubeconfig = ''adminkubeconfig''"
definition subresourceViewerKubeconfig :: string where "subresourceViewerKubeconfig = ''viewerkubeconfig''"
definition verbCreate :: string where "verbCreate = ''create''"
definition verbUpdate :: string where "verbUpdate = ''update''"
definition verbDelete :: string where "verbDelete = ''delete''"
definition verbPatch :: string where "verbPatch = ''patch''"
definition StageResponseComplete :: string where "StageResponseComplete = ''ResponseComplete''"

subsection \<open>filter.go\<close>

text \<open>A lookup in a nil map finds nothing.\<close>

definition extraOf :: "extra option \<Rightarrow> extra" where
  "extraOf e = (case e of None \<Rightarrow> Map.empty | Some m \<Rightarrow> m)"

definition getEffectiveUserExtra :: "AuditEvent \<Rightarrow> extra option" where
  "getEffectiveUserExtra event =
     (case aeImpersonatedUser event of Some u \<Rightarrow> auExtra u | None \<Rightarrow> auExtra (aeUser event))"

definition hasOpenStackUserInfo :: "AuditEvent \<Rightarrow> bool" where
  "hasOpenStackUserInfo event =
     (case aeImpersonatedUser event of
        Some u \<Rightarrow> HasOpenStackUserInfo (extraOf (auExtra u))
      | None \<Rightarrow> HasOpenStackUserInfo (extraOf (auExtra (aeUser event))))"

definition shouldProcessShootEvent :: "AuditEvent \<Rightarrow> bool" where
  "shouldProcessShootEvent event =
     (if aeVerb event \<notin> {verbCreate, verbUpdate, verbDelete, verbPatch} then False
      else if \<not> hasOpenStackUserInfo event then False
      else True)"

definition shouldProcessKubeconfigEvent :: "AuditEvent \<Rightarrow> ObjectRef \<Rightarrow> bool" where
  "shouldProcessKubeconfigEvent event ref =
     (if orfSubresource ref \<notin> {subresourceAdminKubeconfig, subresourceViewerKubeconfig} then False
      else if aeVerb event \<noteq> verbCreate then False
      else if \<not> hasOpenStackUserInfo event then False
      else True)"

definition shouldProcessEvent :: "AuditEvent \<Rightarrow> bool" where
  "shouldProcessEvent event =
     (if aeStage event \<noteq> StageResponseComplete then False
      else case aeObjectRef event of
        None \<Rightarrow> False
      | Some ref \<Rightarrow>
          if orfAPIGroup ref \<noteq> gardenerAPIGroup \<or> orfResource ref \<noteq> shootResource then False
          else if orfSubresource ref = [] then shouldProcessShootEvent event
          else shouldProcessKubeconfigEvent event ref)"

definition getFilterReason :: "AuditEvent \<Rightarrow> string" where
  "getFilterReason event =
     (if aeStage event \<noteq> StageResponseComplete then ''wrong_stage''
      else case aeObjectRef event of
        None \<Rightarrow> ''not_shoot_resource''
      | Some ref \<Rightarrow>
          if orfResource ref \<noteq> shootResource then ''not_shoot_resource''
          else if orfSubresource ref \<noteq> [] then
            (if orfSubresource ref \<in> {subresourceAdminKubeconfig, subresourceViewerKubeconfig}
             then (if aeVerb event \<noteq> verbCreate then ''not_crud_verb'' else ''no_openstack_credentials'')
             else ''unsupported_subresource'')
          else if aeVerb event \<notin> {verbCreate, verbUpdate, verbDelete, verbPatch} then ''not_crud_verb''
          else ''no_openstack_credentials'')"

subsection \<open>transform.go\<close>

record AuditLib =
  shootRegionOf :: "string \<Rightarrow> string option" \<comment> \<open>\<open>json.Unmarshal\<close> into a shoot, its \<open>spec.region\<close>\<close>
  urlParses :: "string \<Rightarrow> bool"
  jsonAttachment :: "string \<Rightarrow> string \<Rightarrow> string option"

text \<open>
  The object of a deletion is the response's, if there is one. A body that cannot be decoded or has
  no region is passed over.
\<close>

definition extractShootRegion :: "AuditLib \<Rightarrow> AuditEvent \<Rightarrow> string res" where
  "extractShootRegion lib event =
     (let rawObject = (if aeVerb event = verbDelete \<and> aeResponseObject event \<noteq> None
                       then aeResponseObject event else aeRequestObject event);
          fromBody = (case rawObject of
                        None \<Rightarrow> None
                      | Some raw \<Rightarrow>
                          if raw = [] then None
                          else (case shootRegionOf lib raw of
                                  None \<Rightarrow> None | Some region \<Rightarrow> if region \<noteq> [] then Some region else None));
          fromUser = (case getEffectiveUserExtra event of
                        None \<Rightarrow> None
                      | Some userExtra \<Rightarrow>
                          (case OpenStackUserInfoFromExtra userExtra of
                             Ok u \<Rightarrow> if Region u \<noteq> [] then Some (Region u) else None
                           | _ \<Rightarrow> None))
      in case fromBody of
           Some region \<Rightarrow> Ok region
         | None \<Rightarrow> (case fromUser of
                      Some region \<Rightarrow> Ok region
                    | None \<Rightarrow> Err (Errorf (AuditPkg RegionNotExtractable) [])))"

datatype url = ParsedURL string | PathURL string

record HttpRequest =
  hqMethod :: string
  hqURL :: url
  hqProto :: string
  hqUserAgent :: "string option" \<comment> \<open>the only header that may be set\<close>
  hqRemoteAddr :: string

definition verbToHTTPMethod :: "string \<Rightarrow> string" where
  "verbToHTTPMethod verb =
     (if verb = verbCreate then ''POST''
      else if verb = verbUpdate \<or> verb = verbPatch then ''PUT''
      else if verb = verbDelete then ''DELETE''
      else ''POST'')"

definition reconstructHTTPRequest :: "AuditLib \<Rightarrow> AuditEvent \<Rightarrow> HttpRequest" where
  "reconstructHTTPRequest lib event =
     \<lparr>hqMethod = verbToHTTPMethod (aeVerb event),
      hqURL = (if urlParses lib (aeRequestURI event) then ParsedURL (aeRequestURI event)
               else PathURL (aeRequestURI event)),
      hqProto = ''HTTP/1.1'',
      hqUserAgent = (if aeUserAgent event \<noteq> [] then Some (aeUserAgent event) else None),
      hqRemoteAddr = (case aeSourceIPs event of [] \<Rightarrow> [] | ip # _ \<Rightarrow> ip)\<rparr>"

definition convertUserInfo :: "AuditEvent \<Rightarrow> AuditUser" where
  "convertUserInfo event =
     (case aeImpersonatedUser event of
        Some u \<Rightarrow> \<lparr>auUsername = auUsername u, auUID = auUID u, auExtra = auExtra u\<rparr>
      | None \<Rightarrow> \<lparr>auUsername = auUsername (aeUser event), auUID = auUID (aeUser event),
                 auExtra = auExtra (aeUser event)\<rparr>)"

record CadfResource =
  crTypeURI :: string
  crID :: string
  crName :: string
  crProjectID :: string
  crProjectName :: string
  crDomainID :: string
  crDomainName :: string
  crProjectDomainName :: string
  crHost :: "string option"
  crAttachments :: "string list"

definition emptyResource :: CadfResource where
  "emptyResource = \<lparr>crTypeURI = [], crID = [], crName = [], crProjectID = [], crProjectName = [],
     crDomainID = [], crDomainName = [], crProjectDomainName = [], crHost = None, crAttachments = []\<rparr>"

definition AsInitiator :: "AuditUser \<Rightarrow> string \<Rightarrow> CadfResource" where
  "AsInitiator u host =
     (let resource = emptyResource\<lparr>crTypeURI := ''service/security/account/user'',
                                   crID := auUsername u, crHost := Some host\<rparr>
      in case auExtra u of
           None \<Rightarrow> resource
         | Some extra \<Rightarrow>
             (case OpenStackUserInfoFromExtra extra of
                Ok userInfo \<Rightarrow> resource\<lparr>crProjectID := ProjectID userInfo,
                   crProjectName := ProjectName userInfo, crDomainID := ProjectDomainID userInfo,
                   crDomainName := ProjectDomainName userInfo,
                   crProjectDomainName := ProjectDomainName userInfo\<rparr>
              | _ \<Rightarrow> resource))"

definition mapVerbToAction :: "string \<Rightarrow> string" where
  "mapVerbToAction verb =
     (if verb = verbCreate then ''create''
      else if verb = verbUpdate \<or> verb = verbPatch then ''update''
      else if verb = verbDelete then ''delete''
      else ''update'')"

record shootTarget =
  stNamespace :: string
  stName :: string
  stRequestBody :: string

definition RenderTarget :: "AuditLib \<Rightarrow> shootTarget \<Rightarrow> CadfResource" where
  "RenderTarget lib s =
     (let clusterRef = stNamespace s @ ''/'' @ stName s;
          resource = emptyResource\<lparr>crTypeURI := ''kubernetes/cluster'', crID := clusterRef, crName := clusterRef\<rparr>
      in if length (stRequestBody s) > 0
         then (case jsonAttachment lib ''requestBody'' (stRequestBody s) of
                 Some attachment \<Rightarrow> resource\<lparr>crAttachments := [attachment]\<rparr> | None \<Rightarrow> resource)
         else resource)"

definition rawBody :: "string option \<Rightarrow> string" where
  "rawBody x = (case x of Some raw \<Rightarrow> raw | None \<Rightarrow> [])"

definition buildShootTarget :: "AuditEvent \<Rightarrow> ObjectRef \<Rightarrow> shootTarget" where
  "buildShootTarget event ref =
     \<lparr>stNamespace = orfNamespace ref, stName = orfName ref,
      stRequestBody = (if aeVerb event \<noteq> verbDelete then rawBody (aeRequestObject event) else [])\<rparr>"

record CadfEvent =
  cvTime :: time
  cvRequest :: HttpRequest
  cvUser :: AuditUser
  cvReasonCode :: int
  cvAction :: string
  cvTarget :: shootTarget

definition reasonCodeOf :: "AuditEvent \<Rightarrow> int" where
  "reasonCodeOf event = (case aeResponseCode event of None \<Rightarrow> 500 | Some code \<Rightarrow> code)"

definition transformToAuditEvent :: "AuditLib \<Rightarrow> AuditEvent \<Rightarrow> ObjectRef \<Rightarrow> CadfEvent" where
  "transformToAuditEvent lib event ref =
     \<lparr>cvTime = aeStageTimestamp event, cvRequest = reconstructHTTPRequest lib event,
      cvUser = convertUserInfo event, cvReasonCode = reasonCodeOf event,
      cvAction = mapVerbToAction (aeVerb event), cvTarget = buildShootTarget event ref\<rparr>"

definition transformToKubeconfigAuditEvent :: "AuditLib \<Rightarrow> AuditEvent \<Rightarrow> ObjectRef \<Rightarrow> CadfEvent" where
  "transformToKubeconfigAuditEvent lib event ref =
     \<lparr>cvTime = aeStageTimestamp event, cvRequest = reconstructHTTPRequest lib event,
      cvUser = convertUserInfo event, cvReasonCode = reasonCodeOf event,
      cvAction = (if orfSubresource ref = subresourceViewerKubeconfig
                  then ''authenticate/viewer'' else ''authenticate/admin''),
      cvTarget = \<lparr>stNamespace = orfNamespace ref, stName = orfName ref,
                  stRequestBody = rawBody (aeRequestObject event)\<rparr>\<rparr>"

end
