(* ===== verification/Audit_Handler.thy ===== *)
theory Audit_Handler
  imports Audit_Event
begin

section \<open>Handling audit events\<close>

text \<open>
  \<open>region_auditor_set.go\<close> and \<open>handler.go\<close> of \<open>internal/webhook/audithandler\<close>: one auditor per enabled
  region, and the HTTP handler that processes a list of events. The transport of audittools and
  the metrics are operations on the world, fields of the handler's record. The map of regions is an
  association list in the order in which the code visits it.
\<close>

subsection \<open>The auditors of the regions\<close>

datatype auditor = NullAuditor | TransportAuditor string string \<comment> \<open>URL and queue\<close>

type_synonym RegionAuditorSet = "string \<rightharpoonup> auditor"

text \<open>\<open>audittools.NewAuditor\<close> may fail; \<open>MustRegister\<close> makes the region's metrics visible.\<close>

primrec fillAuditors ::
    "(string \<Rightarrow> string \<Rightarrow> ('w, unit) ext_call) \<Rightarrow> (string \<Rightarrow> 'w \<Rightarrow> 'w) \<Rightarrow> string \<Rightarrow>
     (string \<times> RegionalConfig) list \<Rightarrow> RegionAuditorSet \<Rightarrow> ('w, RegionAuditorSet) io" where
  "fillAuditors newAuditor register queueName [] auditors = returnE auditors"
| "fillAuditors newAuditor register queueName (rc # rcs) auditors =
     (if \<not> Enabled (snd rc) then fillAuditors newAuditor register queueName rcs auditors
      else if AuditTransportURL (snd rc) = []
      then fillAuditors newAuditor register queueName rcs (auditors(fst rc \<mapsto> NullAuditor))
      else
        thenE (wrapE (AuditPkg CreateAuditor) [fst rc]
                 (callE (newAuditor (AuditTransportURL (snd rc)) queueName)))
        (thenE (doE (register (fst rc)))
           (fillAuditors newAuditor register queueName rcs
              (auditors(fst rc \<mapsto> TransportAuditor (AuditTransportURL (snd rc)) queueName)))))"

definition NewRegionAuditorSet ::
    "(string \<Rightarrow> string \<Rightarrow> ('w, unit) ext_call) \<Rightarrow> (string \<Rightarrow> 'w \<Rightarrow> 'w) \<Rightarrow>
     (string \<times> RegionalConfig) list \<Rightarrow> string \<Rightarrow> ('w, RegionAuditorSet) io" where
  "NewRegionAuditorSet newAuditor register regions queueName =
     fillAuditors newAuditor register queueName regions Map.empty"

definition GetAuditor :: "RegionAuditorSet \<Rightarrow> string \<Rightarrow> auditor res" where
  "GetAuditor s region =
     (case s region of
        None \<Rightarrow> Err (Errorf (AuditPkg NoAuditor) [region])
      | Some auditor \<Rightarrow> Ok auditor)"

subsection \<open>The handler\<close>

datatype audit_metric =
    EventsTotal string string string
  | EventsFiltered string
  | PublishFailures string string
  | ProcessingDuration string duration

record 'w AuditHandler =
  ahAuditors :: RegionAuditorSet
  ahLib :: AuditLib
  ahRecord :: "auditor \<Rightarrow> CadfEvent \<Rightarrow> 'w \<Rightarrow> 'w"
  ahMetric :: "audit_metric \<Rightarrow> 'w \<Rightarrow> 'w"
  ahClock :: "'w \<Rightarrow> time \<times> 'w"

text \<open>The deferred function of \<open>recordAndPublish\<close> runs on every way out.\<close>

definition observeDuration :: "'w AuditHandler \<Rightarrow> string \<Rightarrow> time \<Rightarrow> ('w, unit) io" where
  "observeDuration h region start =
     bindE (readE (ahClock h)) (\<lambda>now.
       doE (ahMetric h (ProcessingDuration region (time_sub now start))))"

definition recordAndPublish ::
    "'w AuditHandler \<Rightarrow> AuditEvent \<Rightarrow> CadfEvent \<Rightarrow> string \<Rightarrow> time \<Rightarrow> ('w, unit) io" where
  "recordAndPublish h event auditEvent region start =
     (case GetAuditor (ahAuditors h) region of
        Ok auditor \<Rightarrow>
          thenE (doE (ahRecord h auditor auditEvent))
          (thenE (doE (ahMetric h (EventsTotal (aeVerb event) region
              (case aeResponseCode event of
                 Some code \<Rightarrow> if code \<ge> 400 then ''failure'' else ''success'' | None \<Rightarrow> ''success''))))
            (observeDuration h region start))
      | Err err \<Rightarrow>
          thenE (doE (ahMetric h (PublishFailures region ''no_auditor'')))
          (thenE (observeDuration h region start)
            (failE (Wrapf (AuditPkg GetAuditorFailed) [region] err)))
      | Panicked p \<Rightarrow> panicE p)"

definition publishFailure :: "'w AuditHandler \<Rightarrow> error \<Rightarrow> ('w, 'a) io" where
  "publishFailure h err =
     thenE (doE (ahMetric h (PublishFailures ''unknown'' ''region_extraction_error''))) (failE err)"

definition processShootEvent :: "'w AuditHandler \<Rightarrow> AuditEvent \<Rightarrow> ObjectRef \<Rightarrow> time \<Rightarrow> ('w, unit) io" where
  "processShootEvent h event ref start =
     (case extractShootRegion (ahLib h) event of
        Err err \<Rightarrow> publishFailure h (Wrapf (AuditPkg ExtractRegion) [] err)
      | Ok region \<Rightarrow> recordAndPublish h event (transformToAuditEvent (ahLib h) event ref) region start
      | Panicked p \<Rightarrow> panicE p)"

definition processKubeconfigEvent :: "'w AuditHandler \<Rightarrow> AuditEvent \<Rightarrow> ObjectRef \<Rightarrow> time \<Rightarrow> ('w, unit) io" where
  "processKubeconfigEvent h event ref start =
     (case getEffectiveUserExtra event of
        None \<Rightarrow> publishFailure h (Errorf (AuditPkg NoUserExtra) [])
      | Some userExtra \<Rightarrow>
          (case OpenStackUserInfoFromExtra userExtra of
             Err err \<Rightarrow> publishFailure h (Wrapf (AuditPkg RegionFromUserInfo) [] err)
           | Panicked p \<Rightarrow> panicE p
           | Ok userInfo \<Rightarrow>
               if Region userInfo = [] then publishFailure h (Errorf (AuditPkg RegionEmpty) [])
               else recordAndPublish h event (transformToKubeconfigAuditEvent (ahLib h) event ref)
                      (Region userInfo) start))"

definition processEvent :: "'w AuditHandler \<Rightarrow> AuditEvent \<Rightarrow> ('w, unit) io" where
  "processEvent h event =
     bindE (readE (ahClock h)) (\<lambda>start.
       if \<not> shouldProcessEvent event
       then doE (ahMetric h (EventsFiltered (getFilterReason event)))
       else case aeObjectRef event of
              None \<Rightarrow> panicE NilDereference
            | Some ref \<Rightarrow>
                if orfSubresource ref \<noteq> [] then processKubeconfigEvent h event ref start
                else processShootEvent h event ref start)"

text \<open>The status code of the answer: 400, 200, or 500 at the first event that fails.\<close>

definition ServeAudit :: "'w AuditHandler \<Rightarrow> ext_error + AuditEvent list \<Rightarrow> ('w, nat) io" where
  "ServeAudit h decoded =
     (case decoded of
        Inl err \<Rightarrow> returnE 400
      | Inr items \<Rightarrow>
          bindE (tryE (forE items (processEvent h))) (\<lambda>r.
            case r of Inl err \<Rightarrow> returnE 500 | Inr _ \<Rightarrow> returnE 200))"

end
