(* ===== verification/Audit_Properties.thy ===== *)
theory Audit_Properties
  imports Audit_Handler
begin

section \<open>Properties of the audit webhook\<close>

text \<open>
  An abstract account of the webhook: which events must be audited, where each goes, and the trail
  that a list of events leaves. The handler implements it; that it stops at the first event without a
  destination and that the API server repeats refused lists has a price.
\<close>

subsection \<open>The specification\<close>

definition effectiveUser :: "AuditEvent \<Rightarrow> AuditUser" where
  "effectiveUser e = (case aeImpersonatedUser e of Some u \<Rightarrow> u | None \<Rightarrow> aeUser e)"

definition auditable :: "AuditEvent \<Rightarrow> ObjectRef \<Rightarrow> bool" where
  "auditable e ref \<longleftrightarrow> aeStage e = ''ResponseComplete'' \<and> aeObjectRef e = Some ref \<and>
     orfAPIGroup ref = ''core.gardener.cloud'' \<and> orfResource ref = ''shoots'' \<and>
     (orfSubresource ref = [] \<and> aeVerb e \<in> {''create'', ''update'', ''delete'', ''patch''} \<or>
      orfSubresource ref \<in> {''adminkubeconfig'', ''viewerkubeconfig''} \<and> aeVerb e = ''create'') \<and>
     HasOpenStackUserInfo (extraOf (auExtra (effectiveUser e)))"

text \<open>The region of the user, and the region of the event: a shoot's own, the user's otherwise.\<close>

definition userRegion :: "AuditEvent \<Rightarrow> string option" where
  "userRegion e = (case OpenStackUserInfoFromExtra (extraOf (auExtra (effectiveUser e))) of
     Ok u \<Rightarrow> if Region u = [] then None else Some (Region u) | _ \<Rightarrow> None)"

definition auditedObject :: "AuditEvent \<Rightarrow> string option" where
  "auditedObject e = (if aeVerb e = ''delete'' \<and> aeResponseObject e \<noteq> None then aeResponseObject e
     else aeRequestObject e)"

definition objectRegion :: "AuditLib \<Rightarrow> AuditEvent \<Rightarrow> string option" where
  "objectRegion lib e = (case auditedObject e of
     Some raw \<Rightarrow> if raw = [] then None
       else (case shootRegionOf lib raw of Some region \<Rightarrow> if region = [] then None else Some region | None \<Rightarrow> None)
   | None \<Rightarrow> None)"

definition eventRegion :: "AuditLib \<Rightarrow> AuditEvent \<Rightarrow> ObjectRef \<Rightarrow> string option" where
  "eventRegion lib e ref = (if orfSubresource ref \<noteq> [] then userRegion e
     else (case objectRegion lib e of Some region \<Rightarrow> Some region | None \<Rightarrow> userRegion e))"

definition cadfOf :: "AuditLib \<Rightarrow> AuditEvent \<Rightarrow> ObjectRef \<Rightarrow> CadfEvent" where
  "cadfOf lib e ref = (if orfSubresource ref \<noteq> [] then transformToKubeconfigAuditEvent lib e ref
     else transformToAuditEvent lib e ref)"

text \<open>An event leaves a record, or nothing, or it has no destination.\<close>

datatype duty = Nothing | RecordAt auditor CadfEvent | NoDestination

definition dutyOf :: "AuditLib \<Rightarrow> RegionAuditorSet \<Rightarrow> AuditEvent \<Rightarrow> duty" where
  "dutyOf lib auditors e =
     (case aeObjectRef e of
        None \<Rightarrow> Nothing
      | Some ref \<Rightarrow>
          if \<not> auditable e ref then Nothing
          else (case Option.bind (eventRegion lib e ref) auditors of
                  None \<Rightarrow> NoDestination
                | Some a \<Rightarrow> RecordAt a (cadfOf lib e ref)))"

text \<open>The records of a list up to the first event without a destination, and whether there is none.\<close>

fun trail :: "AuditLib \<Rightarrow> RegionAuditorSet \<Rightarrow> AuditEvent list \<Rightarrow> (auditor \<times> CadfEvent) list \<times> bool" where
  "trail lib auditors [] = ([], True)"
| "trail lib auditors (e # es) =
     (case dutyOf lib auditors e of
        Nothing \<Rightarrow> trail lib auditors es
      | RecordAt a c \<Rightarrow> (case trail lib auditors es of (rs, ok) \<Rightarrow> ((a, c) # rs, ok))
      | NoDestination \<Rightarrow> ([], False))"

subsection \<open>The handler implements it\<close>

lemma auditable_iff: "(\<exists>ref. auditable e ref) \<longleftrightarrow> shouldProcessEvent e"
  by (auto simp: auditable_def shouldProcessEvent_def shouldProcessShootEvent_def shouldProcessKubeconfigEvent_def
      hasOpenStackUserInfo_def effectiveUser_def StageResponseComplete_def gardenerAPIGroup_def shootResource_def
      verbCreate_def verbUpdate_def verbDelete_def verbPatch_def subresourceAdminKubeconfig_def
      subresourceViewerKubeconfig_def split: option.splits)

lemma effective_extra: "getEffectiveUserExtra e = auExtra (effectiveUser e)"
  by (simp add: getEffectiveUserExtra_def effectiveUser_def split: option.splits)

text \<open>The log that the recorded events make, of which metrics and the clock are no part.\<close>

definition log_laws :: "('w \<Rightarrow> (auditor \<times> CadfEvent) list) \<Rightarrow> 'w AuditHandler \<Rightarrow> bool" where
  "log_laws log h \<longleftrightarrow> (\<forall>a c w. log (ahRecord h a c w) = log w @ [(a, c)]) \<and>
     (\<forall>m w. log (ahMetric h m w) = log w) \<and> (\<forall>w. log (snd (ahClock h w)) = log w)"

lemma log_simps:
  assumes "log_laws log h"
  shows "log (ahRecord h a c w) = log w @ [(a, c)]" "log (ahMetric h m w) = log w" "log (snd (ahClock h w)) = log w"
  using assms by (simp_all add: log_laws_def)

lemma record_result:
  assumes "log_laws log h"
  shows "wp (recordAndPublish h e c region t) (\<lambda>r w'. case ahAuditors h region of
      Some a \<Rightarrow> (\<exists>u. r = Ok u) \<and> log w' = log w @ [(a, c)]
    | None \<Rightarrow> (\<exists>err. r = Err err) \<and> log w' = log w) w"
  using log_simps [OF assms]
  by (simp add: recordAndPublish_def GetAuditor_def observeDuration_def wp_simps split: option.splits)

definition duty_done :: "('w \<Rightarrow> (auditor \<times> CadfEvent) list) \<Rightarrow> 'w \<Rightarrow> duty \<Rightarrow> unit res \<Rightarrow> 'w \<Rightarrow> bool" where
  "duty_done log w d r w' \<longleftrightarrow> (case d of
     Nothing \<Rightarrow> (\<exists>u. r = Ok u) \<and> log w' = log w
   | RecordAt a c \<Rightarrow> (\<exists>u. r = Ok u) \<and> log w' = log w @ [(a, c)]
   | NoDestination \<Rightarrow> (\<exists>err. r = Err err) \<and> log w' = log w)"

lemma failure_done:
  "log_laws log h \<Longrightarrow> wp (publishFailure h err) (duty_done log w NoDestination) w"
  by (simp add: publishFailure_def wp_simps duty_done_def log_laws_def)

lemma record_done:
  assumes "log_laws log h"
  shows "wp (recordAndPublish h e c region t)
     (duty_done log w (case ahAuditors h region of None \<Rightarrow> NoDestination | Some a \<Rightarrow> RecordAt a c)) w"
  by (rule wp_mono [OF record_result [OF assms]]) (auto simp: duty_done_def split: option.splits)

lemma record_done_at:
  assumes "log_laws log h" and "ahAuditors h region = a"
  shows "wp (recordAndPublish h e c region t)
     (duty_done log w (case a of None \<Rightarrow> NoDestination | Some a \<Rightarrow> RecordAt a c)) w"
  using record_done [OF assms(1)] assms(2) by blast

lemma from_no_extra: "OpenStackUserInfoFromExtra Map.empty \<noteq> Ok u"
  by (simp add: from_extra_Ok_iff)

lemma kubeconfig_done:
  assumes "log_laws log h"
  shows "wp (processKubeconfigEvent h e ref t) (duty_done log w
     (case Option.bind (userRegion e) (ahAuditors h) of
        None \<Rightarrow> NoDestination | Some a \<Rightarrow> RecordAt a (transformToKubeconfigAuditEvent (ahLib h) e ref))) w"
  using failure_done [OF assms] record_done_at [OF assms, where a = None]
    record_done_at [OF assms, where a = "Some b" for b] from_no_extra
  by (auto simp: processKubeconfigEvent_def userRegion_def extraOf_def effective_extra from_extra_not_panic
      split: option.splits outcome.splits)

lemma extract_region: "extractShootRegion lib e =
    (case (case objectRegion lib e of Some region \<Rightarrow> Some region | None \<Rightarrow> userRegion e) of
       Some region \<Rightarrow> Ok region | None \<Rightarrow> Err (Errorf (AuditPkg RegionNotExtractable) []))"
  using from_no_extra
  by (auto simp: extractShootRegion_def objectRegion_def auditedObject_def userRegion_def extraOf_def effective_extra
      Let_def verbDelete_def split: option.splits outcome.splits)

lemma shoot_done:
  assumes "log_laws log h"
  shows "wp (processShootEvent h e ref t) (duty_done log w
     (case Option.bind (case objectRegion (ahLib h) e of Some r \<Rightarrow> Some r | None \<Rightarrow> userRegion e) (ahAuditors h) of
        None \<Rightarrow> NoDestination | Some a \<Rightarrow> RecordAt a (transformToAuditEvent (ahLib h) e ref))) w"
  using failure_done [OF assms] record_done_at [OF assms, where a = None] record_done_at [OF assms, where a = "Some b" for b]
  by (auto simp: processShootEvent_def extract_region split: option.splits)

lemma process_done:
  assumes laws: "log_laws log h"
  shows "wp (processEvent h e) (duty_done log w (dutyOf (ahLib h) (ahAuditors h) e)) w"
proof (cases "shouldProcessEvent e")
  case False
  then have "dutyOf (ahLib h) (ahAuditors h) e = Nothing"
    using auditable_iff [of e] by (auto simp: dutyOf_def split: option.splits)
  with False show ?thesis by (simp add: processEvent_def wp_simps duty_done_def log_simps [OF laws])
next
  case True
  then obtain ref where aud: "auditable e ref" using auditable_iff by blast
  then have ref: "aeObjectRef e = Some ref" by (simp add: auditable_def)
  define w1 where "w1 = snd (ahClock h w)"
  have same: "duty_done log w1 = duty_done log w"
    by (simp add: duty_done_def log_simps [OF laws] w1_def fun_eq_iff split: duty.split)
  note done_at = kubeconfig_done [OF laws, of e ref _ w1] shoot_done [OF laws, of e ref _ w1]
  show ?thesis
    using True aud ref done_at
    by (simp add: processEvent_def wp_simps dutyOf_def eventRegion_def cadfOf_def same flip: w1_def
        cong: option.case_cong)
qed

definition list_done :: "('w \<Rightarrow> (auditor \<times> CadfEvent) list) \<Rightarrow> 'w \<Rightarrow>
    (auditor \<times> CadfEvent) list \<times> bool \<Rightarrow> unit res \<Rightarrow> 'w \<Rightarrow> bool" where
  "list_done log w t r w' \<longleftrightarrow> log w' = log w @ fst t \<and>
     (if snd t then \<exists>u. r = Ok u else \<exists>err. r = Err err)"

lemma events_done:
  assumes laws: "log_laws log h"
  shows "wp (forE es (processEvent h)) (list_done log w (trail (ahLib h) (ahAuditors h) es)) w"
proof (induction es arbitrary: w)
  case Nil
  then show ?case by (simp add: wp_simps list_done_def)
next
  case (Cons e es)
  have "wp (processEvent h e) (\<lambda>r w'. case r of
      Ok x \<Rightarrow> wp (forE es (processEvent h)) (list_done log w (trail (ahLib h) (ahAuditors h) (e # es))) w'
    | Err err \<Rightarrow> list_done log w (trail (ahLib h) (ahAuditors h) (e # es)) (Err err) w'
    | Panicked p \<Rightarrow> list_done log w (trail (ahLib h) (ahAuditors h) (e # es)) (Panicked p) w') w"
  proof (rule wp_mono [OF process_done [OF laws]])
    fix r w'
    assume "duty_done log w (dutyOf (ahLib h) (ahAuditors h) e) r w'"
    then show "case r of
        Ok x \<Rightarrow> wp (forE es (processEvent h)) (list_done log w (trail (ahLib h) (ahAuditors h) (e # es))) w'
      | Err err \<Rightarrow> list_done log w (trail (ahLib h) (ahAuditors h) (e # es)) (Err err) w'
      | Panicked p \<Rightarrow> list_done log w (trail (ahLib h) (ahAuditors h) (e # es)) (Panicked p) w'"
      using Cons.IH [of w']
      by (cases "trail (ahLib h) (ahAuditors h) es"; cases "dutyOf (ahLib h) (ahAuditors h) e")
        (auto simp: duty_done_def list_done_def [abs_def])
  qed
  then show ?case by (simp add: wp_simps del: trail.simps)
qed

lemma served_trail:
  assumes "log_laws log h"
  shows "fst (ServeAudit h (Inr es) w) = Ok (if snd (trail (ahLib h) (ahAuditors h) es) then 200 else 500)"
    and "log (snd (ServeAudit h (Inr es) w)) = log w @ fst (trail (ahLib h) (ahAuditors h) es)"
  using wpD [OF events_done [OF assms, of es w] surjective_pairing]
  by (auto simp: ServeAudit_def list_done_def io_simps split: prod.splits outcome.splits if_splits)

text \<open>C6. The webhook implements its specification: it answers every list of events, 200 if each auditable event
  has a destination and 500 otherwise, and it gives the auditors exactly the records of the trail, in
  order: for each auditable event one record with the event's own auditor, up to the first without one.
  A body that cannot be decoded is answered with 400 and leaves no record.\<close>

theorem audit_trail_left:
  assumes "log_laws log h" and "ServeAudit h decoded w = (r, w')"
  shows "case decoded of
      Inl err \<Rightarrow> r = Ok 400 \<and> log w' = log w
    | Inr es \<Rightarrow> r = Ok (if snd (trail (ahLib h) (ahAuditors h) es) then 200 else 500) \<and>
        log w' = log w @ fst (trail (ahLib h) (ahAuditors h) es)"
  using assms served_trail [OF assms(1), of _ w]
  by (cases decoded) (auto simp: ServeAudit_def returnE_def prod_eq_iff split: sum.splits)

lemma trail_append:
  "trail lib auditors (es @ fs) =
     (if snd (trail lib auditors es)
      then (fst (trail lib auditors es) @ fst (trail lib auditors fs), snd (trail lib auditors fs))
      else trail lib auditors es)"
  by (induction es) (auto split: duty.split prod.splits)

lemma concat_replicate_append: "concat (replicate k xs) @ xs = concat (replicate (Suc k) xs)"
  by (induction k) simp_all

text \<open>C39. A list with an auditable event that has no destination is refused, however often it is sent: each time
  the records of the events before that event are made again, and the events after it leave no record.\<close>

theorem refused_list_duplicates:
  assumes laws: "log_laws log h" and none: "dutyOf (ahLib h) (ahAuditors h) e = NoDestination"
  shows "log (((\<lambda>w. snd (ServeAudit h (Inr (es @ e # later)) w)) ^^ k) w) =
           log w @ concat (replicate k (fst (trail (ahLib h) (ahAuditors h) es))) \<and>
         fst (ServeAudit h (Inr (es @ e # later)) w) = Ok 500"
proof -
  have refused: "trail (ahLib h) (ahAuditors h) (es @ e # later) =
      (fst (trail (ahLib h) (ahAuditors h) es), False)"
    using none by (simp add: trail_append prod_eq_iff)
  note each = served_trail [OF laws, of "es @ e # later", unfolded refused]
  have "log (((\<lambda>w. snd (ServeAudit h (Inr (es @ e # later)) w)) ^^ k) w) =
      log w @ concat (replicate k (fst (trail (ahLib h) (ahAuditors h) es)))"
  proof (induction k)
    case (Suc k)
    then show ?case by (simp add: each concat_replicate_append del: replicate.simps)
  qed simp
  with each show ?thesis by simp
qed

subsection \<open>Witnesses\<close>

definition sampleAuditHandler :: "(auditor \<times> CadfEvent) list AuditHandler" where
  "sampleAuditHandler = \<lparr>ahAuditors = [''eu-1'' \<mapsto> TransportAuditor ''amqp://rabbit'' ''notifications''],
     ahLib = \<lparr>shootRegionOf = (\<lambda>raw. if raw = ''{eu-1}'' then Some ''eu-1'' else None),
              urlParses = (\<lambda>_. True), jsonAttachment = (\<lambda>_ _. None)\<rparr>,
     ahRecord = (\<lambda>a c w. w @ [(a, c)]), ahMetric = (\<lambda>_ w. w), ahClock = (\<lambda>w. (0, w))\<rparr>"

definition sampleKubeconfigEvent :: "string \<Rightarrow> AuditEvent" where
  "sampleKubeconfigEvent region = \<lparr>aeStage = ''ResponseComplete'', aeVerb = ''create'',
     aeObjectRef = Some \<lparr>orfAPIGroup = ''core.gardener.cloud'', orfResource = ''shoots'',
       orfSubresource = ''viewerkubeconfig'', orfNamespace = ''garden-eu-1-p'', orfName = ''shoot''\<rparr>,
     aeUser = \<lparr>auUsername = ''alice'', auUID = ''u1'', auExtra = Some (ToExtra (emptyUserInfo\<lparr>Region := region\<rparr>))\<rparr>,
     aeImpersonatedUser = None, aeRequestObject = None, aeResponseObject = None, aeRequestURI = ''/x'',
     aeSourceIPs = [], aeUserAgent = [], aeResponseCode = Some 201, aeStageTimestamp = 7\<rparr>"

lemma sample_log_laws: "log_laws id sampleAuditHandler"
  by (simp add: log_laws_def sampleAuditHandler_def)

lemma sample_duty: "dutyOf (ahLib sampleAuditHandler) (ahAuditors sampleAuditHandler) (sampleKubeconfigEvent region) =
    (if region = ''eu-1'' then RecordAt (TransportAuditor ''amqp://rabbit'' ''notifications'')
       (transformToKubeconfigAuditEvent (ahLib sampleAuditHandler) (sampleKubeconfigEvent region)
          (the (aeObjectRef (sampleKubeconfigEvent region))))
     else NoDestination)"
  by (simp add: dutyOf_def auditable_def sampleKubeconfigEvent_def effectiveUser_def extraOf_def extras.has_encode
      eventRegion_def userRegion_def extras.decode_encode cadfOf_def sampleAuditHandler_def)

theorem audit_trail_left_witness:
  "fst (ServeAudit sampleAuditHandler (Inr [sampleKubeconfigEvent ''eu-1'']) []) = Ok 200 \<and>
   length (snd (ServeAudit sampleAuditHandler (Inr [sampleKubeconfigEvent ''eu-1'']) [])) = 1"
  using audit_trail_left [OF sample_log_laws surjective_pairing, of "Inr [sampleKubeconfigEvent ''eu-1'']" "[]"]
  by (simp add: sample_duty)

theorem refused_list_duplicates_witness:
  "length (((\<lambda>w. snd (ServeAudit sampleAuditHandler (Inr ([sampleKubeconfigEvent ''eu-1''] @
       sampleKubeconfigEvent ''eu-2'' # [sampleKubeconfigEvent ''eu-1''])) w)) ^^ 3) []) = 3"
proof -
  have "dutyOf (ahLib sampleAuditHandler) (ahAuditors sampleAuditHandler) (sampleKubeconfigEvent ''eu-2'') = NoDestination"
    by (simp add: sample_duty)
  from refused_list_duplicates [OF sample_log_laws this, where es = "[sampleKubeconfigEvent ''eu-1'']"
      and later = "[sampleKubeconfigEvent ''eu-1'']" and k = 3 and w = "[]"]
  show ?thesis by (simp add: sample_duty numeral_3_eq_3 del: funpow.simps append_Cons)
qed

end
