(* ===== verification/Go_Path.thy ===== *)
theory Go_Path
  imports Go_Std
begin

section \<open>Package path/filepath\<close>

text \<open>
  \<open>filepath.Clean\<close>, \<open>Join\<close> of two elements and \<open>Dir\<close> on Unix, all of them lexical. The elements of a
  path go through a stack: an element \<open>..\<close> removes the one before it, or is kept at the beginning of a
  relative path and dropped at the beginning of an absolute one.
\<close>

definition dots :: string where "dots = ''..''"

definition cleanStep :: "bool \<Rightarrow> string list \<Rightarrow> string \<Rightarrow> string list" where
  "cleanStep rooted stack part =
     (if part = [] \<or> part = ''.'' then stack
      else if part = dots then
        (case stack of
           [] \<Rightarrow> if rooted then [] else [dots]
         | part0 # rest \<Rightarrow> if part0 = dots then dots # stack else rest)
      else part # stack)"

definition isRooted :: "string \<Rightarrow> bool" where
  "isRooted path \<longleftrightarrow> (case path of [] \<Rightarrow> False | c # _ \<Rightarrow> c = CHR ''/'')"

definition cleanParts :: "string \<Rightarrow> string list" where
  "cleanParts path = foldl (cleanStep (isRooted path)) [] (split_on CHR ''/'' path)"

text \<open>The elements that are left, last first, as a path.\<close>

definition fromParts :: "bool \<Rightarrow> string list \<Rightarrow> string" where
  "fromParts rooted stack = (if rooted then ''/'' else []) @ join_with ''/'' (rev stack)"

definition Clean :: "string \<Rightarrow> string" where
  "Clean path =
     (let clean = fromParts (isRooted path) (cleanParts path) in if clean = [] then ''.'' else clean)"

definition Join :: "string \<Rightarrow> string \<Rightarrow> string" where
  "Join dir name =
     (if dir = [] then (if name = [] then [] else Clean name) else Clean (dir @ ''/'' @ name))"

definition Dir :: "string \<Rightarrow> string" where
  "Dir path = Clean (rev (dropWhile (\<lambda>c. c \<noteq> CHR ''/'') (rev path)))"

lemma path_examples:
  "Clean ''a//b/../c/.'' = ''a/c''" "Clean ''/../a'' = ''/a''" "Clean ''../../a'' = ''../../a''" "Clean [] = ''.''"
  "Join [] ''tls.crt'' = ''tls.crt''" "Join ''/certs/'' ''tls.crt'' = ''/certs/tls.crt''" "Dir ''/a/b'' = ''/a''"
  by (simp_all add: Clean_def Join_def Dir_def fromParts_def cleanParts_def cleanStep_def isRooted_def dots_def)

subsection \<open>Joining a plain name\<close>

text \<open>The name of a file in a directory: one element, not a dot.\<close>

definition plainName :: "string \<Rightarrow> bool" where
  "plainName name \<longleftrightarrow> name \<notin> {[], ''.'', dots} \<and> CHR ''/'' \<notin> set name"

lemma split_on_append_sep: "split_on c (a @ c # b) = split_on c a @ split_on c b"
  by (induction a) (auto split: list.splits)

lemma join_with_snoc: "join_with sep (ps @ [p]) = (if ps = [] then [] else join_with sep ps @ sep) @ p"
  by (induction ps) (auto simp: join_with_Cons)

text \<open>What a plain name is appended to: nothing, or a path that ends with a slash.\<close>

definition joinPrefix :: "string \<Rightarrow> string" where
  "joinPrefix dir =
     (if dir = [] then []
      else (if isRooted dir then ''/'' else []) @
        (if cleanParts dir = [] then [] else join_with ''/'' (rev (cleanParts dir)) @ ''/''))"

lemma Join_plain:
  assumes "plainName name"
  shows "Join dir name = joinPrefix dir @ name"
proof (cases "dir = []")
  case True
  have "split_on CHR ''/'' name = [name]" "\<not> isRooted name"
    using assms by (auto simp: plainName_def split_on_no_sep isRooted_def split: list.splits)
  with assms True show ?thesis
    by (simp add: Join_def Clean_def fromParts_def cleanParts_def cleanStep_def joinPrefix_def plainName_def Let_def)
next
  case False
  then have rooted: "isRooted (dir @ ''/'' @ name) = isRooted dir"
    by (cases dir) (simp_all add: isRooted_def)
  have name: "split_on CHR ''/'' name = [name]"
    using assms by (simp add: plainName_def split_on_no_sep)
  have "cleanParts (dir @ ''/'' @ name) = name # cleanParts dir"
    using assms rooted
    by (simp add: cleanParts_def split_on_append_sep name) (simp add: cleanStep_def plainName_def)
  with assms False rooted show ?thesis
    by (auto simp: Join_def Clean_def fromParts_def joinPrefix_def join_with_snoc plainName_def Let_def)
qed

lemma Join_inject: "plainName m \<Longrightarrow> plainName n \<Longrightarrow> Join dir m = Join dir n \<longleftrightarrow> m = n"
  by (simp add: Join_plain)

subsection \<open>The directory of a file\<close>

text \<open>Cleaning makes no path longer, but for the empty one.\<close>

definition partsLength :: "string list \<Rightarrow> nat" where
  "partsLength ps = sum_list (map (\<lambda>p. Suc (length p)) ps)"

lemma partsLength_simps [simp]:
  "partsLength [] = 0" "partsLength (p # ps) = Suc (length p + partsLength ps)"
  by (simp_all add: partsLength_def)

lemma partsLength_split: "partsLength (split_on c s) = Suc (length s)"
  by (induction s) (auto split: list.splits)

lemma length_join: "ps \<noteq> [] \<Longrightarrow> Suc (length (join_with [c] ps)) = partsLength ps"
proof (induction ps)
  case (Cons p ps)
  then show ?case by (cases "ps = []") (simp_all add: join_with_Cons)
qed simp

lemma partsLength_rev [simp]: "partsLength (rev ps) = partsLength ps"
  by (simp add: partsLength_def rev_map [symmetric] sum_list_rev)

lemma cleanStep_length:
  "partsLength (cleanStep rooted st p) \<le> partsLength st + (if p = [] then 0 else Suc (length p))"
  by (auto simp: cleanStep_def dots_def split: list.splits)

lemma foldl_cleanStep_length:
  "partsLength (foldl (cleanStep rooted) st ps) \<le> partsLength st + partsLength ps"
proof (induction ps arbitrary: st)
  case (Cons p ps)
  from Cons.IH [of "cleanStep rooted st p"] cleanStep_length [of rooted st p] show ?case
    by (simp split: if_splits)
qed simp

lemma Clean_length:
  assumes "path \<noteq> []"
  shows "length (Clean path) \<le> length path"
proof -
  let ?st = "cleanParts path"
  have short: "partsLength ?st + (if isRooted path then 1 else 0) \<le> Suc (length path)"
  proof (cases "isRooted path")
    case True
    then obtain rest where path: "path = CHR ''/'' # rest" by (cases path) (auto simp: isRooted_def)
    then have "?st = foldl (cleanStep True) [] (split_on CHR ''/'' rest)"
      using True by (simp add: cleanParts_def cleanStep_def)
    with foldl_cleanStep_length [of True "[]" "split_on CHR ''/'' rest"] path True show ?thesis
      by (simp add: partsLength_split)
  next
    case False
    then show ?thesis
      using foldl_cleanStep_length [of "isRooted path" "[]" "split_on CHR ''/'' path"]
      by (simp add: cleanParts_def partsLength_split)
  qed
  have "?st \<noteq> [] \<Longrightarrow> Suc (length (join_with ''/'' (rev ?st))) = partsLength ?st"
    using length_join [of "rev ?st"] by simp
  then show ?thesis
    using short assms by (cases "?st = []") (auto simp: Clean_def fromParts_def Let_def Suc_le_eq split: if_splits)
qed

lemma joinPrefix_slash: "joinPrefix dir = [] \<or> (\<exists>p. joinPrefix dir = p @ ''/'')"
  by (auto simp: joinPrefix_def)

lemma Dir_Join:
  assumes "plainName name"
  shows "Dir (Join dir name) = Clean (joinPrefix dir)"
proof -
  have "dropWhile (\<lambda>c. c \<noteq> CHR ''/'') (rev name @ r) = r" if "r = [] \<or> hd r = CHR ''/''" for r
  proof -
    have "dropWhile (\<lambda>c. c \<noteq> CHR ''/'') (rev name @ r) = dropWhile (\<lambda>c. c \<noteq> CHR ''/'') r"
      using assms by (intro dropWhile_append2) (auto simp: plainName_def)
    also have "\<dots> = r" using that by (cases r) auto
    finally show ?thesis .
  qed
  moreover have "rev (joinPrefix dir) = [] \<or> hd (rev (joinPrefix dir)) = CHR ''/''"
    using joinPrefix_slash [of dir] by auto
  ultimately show ?thesis by (simp add: Dir_def Join_plain [OF assms])
qed

lemma Dir_shorter:
  assumes "plainName name" and "joinPrefix dir \<noteq> []"
  shows "length (Dir (Join dir name)) < length (Join dir name)"
proof -
  have "length (Dir (Join dir name)) \<le> length (joinPrefix dir)"
    using Clean_length [OF assms(2)] by (simp add: Dir_Join [OF assms(1)])
  also have "\<dots> < length (joinPrefix dir @ name)" using assms(1) by (simp add: plainName_def)
  finally show ?thesis by (simp only: Join_plain [OF assms(1)])
qed

text \<open>A directory that was itself joined with a plain name has an element, so that a name is joined to
  something.\<close>

lemma joinPrefix_Join:
  assumes "plainName name"
  shows "joinPrefix (Join dir name) \<noteq> []"
proof -
  have parts: "cleanParts (Join dir name) \<noteq> []"
  proof -
    let ?p = "joinPrefix dir"
    have "split_on CHR ''/'' (?p @ name) = (if ?p = [] then [] else split_on CHR ''/'' (butlast ?p)) @ [name]"
      using joinPrefix_slash [of dir] assms
      by (auto simp: plainName_def split_on_no_sep split_on_append_sep [of "CHR ''/''" _ name])
    then have "\<exists>st. cleanParts (?p @ name) = cleanStep (isRooted (?p @ name)) st name"
      by (auto simp: cleanParts_def)
    with assms show ?thesis by (auto simp: Join_plain cleanStep_def plainName_def)
  qed
  have "Join dir name \<noteq> []" using assms by (simp add: Join_plain plainName_def)
  with parts show ?thesis by (auto simp: joinPrefix_def)
qed

end
