(* ===== verification/Catalog.thy ===== *)
theory Catalog
  imports Errors "HOL-Library.List_Lexorder" "HOL-Library.Char_ord"
begin

section \<open>Finding Persephone in the service catalog\<close>

text \<open>
  \<open>internal/openstack/catalog.go\<close>: the endpoint that a client of the program talks to is looked up
  in the OpenStack service catalog. gophercloud's endpoint locator and the extraction of the
  catalog from the authentication result are parameters; the catalog is the list of its services.
\<close>

subsection \<open>The model\<close>

definition OpenStackServiceType :: string where "OpenStackServiceType = ''kubernetes''"

record PersephoneEndpointOpts =
  peLandscape :: string
  peRegion :: string

record Endpoint =
  epRegion :: string
  epInterface :: string
  epURL :: string

record CatalogEntry =
  ceType :: string
  ceName :: string
  ceEndpoints :: "Endpoint list"

record EndpointOpts =
  eoAvailability :: string
  eoName :: string
  eoType :: string
  eoRegion :: string

definition getPersephoneOpenStackServiceName :: "string \<Rightarrow> string" where
  "getPersephoneOpenStackServiceName landscape = ''persephone-'' @ landscape"

text \<open>The two loops: over the services of the catalog and over a service's endpoints.\<close>

primrec collectEndpoints :: "Endpoint list \<Rightarrow> Endpoint list \<times> string set \<Rightarrow> Endpoint list \<times> string set" where
  "collectEndpoints [] acc = acc"
| "collectEndpoints (endpoint # es) acc =
     (if epInterface endpoint \<noteq> ''public'' then collectEndpoints es acc
      else collectEndpoints es (fst acc @ [endpoint], insert (epRegion endpoint) (snd acc)))"

primrec collectServices ::
    "string \<Rightarrow> CatalogEntry list \<Rightarrow> Endpoint list \<times> string set \<Rightarrow> Endpoint list \<times> string set" where
  "collectServices landscape [] acc = acc"
| "collectServices landscape (svc # svcs) acc =
     (if ceType svc \<noteq> OpenStackServiceType \<or>
         ceName svc \<noteq> getPersephoneOpenStackServiceName landscape
      then collectServices landscape svcs acc
      else collectServices landscape svcs (collectEndpoints (ceEndpoints svc) acc))"

text \<open>\<open>sets.List\<close> sorts the regions, which the error message lists.\<close>

definition searchPersephoneEndpoint :: "ext_error + CatalogEntry list \<Rightarrow> string \<Rightarrow> Endpoint res" where
  "searchPersephoneEndpoint catalogExtractor landscape =
     (case catalogExtractor of
        Inl err \<Rightarrow> Err (Wrapf (OpenStackPkg CatalogUnavailable) [] (External err))
      | Inr catalog \<Rightarrow>
          (case collectServices landscape catalog ([], {}) of
             (matchingEndpoints, matchingRegions) \<Rightarrow>
               (case matchingEndpoints of
                  [] \<Rightarrow> Err (Errorf (OpenStackPkg NoMatchingEndpoint) [landscape])
                | [endpoint] \<Rightarrow> Ok endpoint
                | _ \<Rightarrow> Err (Errorf (OpenStackPkg ManyMatchingEndpoints)
                         (landscape # sorted_list_of_set matchingRegions)))))"

definition GetPersephoneEndpoint ::
    "(EndpointOpts \<Rightarrow> ext_error + string) \<Rightarrow> ext_error + CatalogEntry list \<Rightarrow>
     PersephoneEndpointOpts \<Rightarrow> Endpoint res" where
  "GetPersephoneEndpoint endpointLocator catalogExtractor opts =
     (if peRegion opts = [] then searchPersephoneEndpoint catalogExtractor (peLandscape opts)
      else
        (let searchCriteria =
           \<lparr>eoAvailability = ''public'',
            eoName = getPersephoneOpenStackServiceName (peLandscape opts),
            eoType = OpenStackServiceType, eoRegion = peRegion opts\<rparr>
         in case endpointLocator searchCriteria of
              Inl err \<Rightarrow> Err (Wrapf (OpenStackPkg EndpointNotFound)
                [eoAvailability searchCriteria, eoName searchCriteria, eoType searchCriteria,
                 eoRegion searchCriteria] (External err))
            | Inr url \<Rightarrow> Ok \<lparr>epRegion = peRegion opts, epInterface = [], epURL = url\<rparr>))"

subsection \<open>The loops as a comprehension\<close>

definition publicEndpoints :: "string \<Rightarrow> CatalogEntry list \<Rightarrow> Endpoint list" where
  "publicEndpoints landscape catalog =
     [e. svc \<leftarrow> catalog, ceType svc = ''kubernetes'' \<and> ceName svc = ''persephone-'' @ landscape,
         e \<leftarrow> ceEndpoints svc, epInterface e = ''public'']"

lemma collectEndpoints_eq:
  "collectEndpoints es (xs, rs) =
     (xs @ filter (\<lambda>e. epInterface e = ''public'') es,
      rs \<union> epRegion ` set (filter (\<lambda>e. epInterface e = ''public'') es))"
  by (induction es arbitrary: xs rs) auto

lemma publicEndpoints_Cons:
  "publicEndpoints landscape (svc # catalog) =
     (if ceType svc = ''kubernetes'' \<and> ceName svc = ''persephone-'' @ landscape
      then filter (\<lambda>e. epInterface e = ''public'') (ceEndpoints svc) else [])
     @ publicEndpoints landscape catalog"
proof -
  have "concat (map (\<lambda>e. if P e then [e] else []) es) = filter P es" for P :: "Endpoint \<Rightarrow> bool" and es
    by (induction es) auto
  then show ?thesis by (simp add: publicEndpoints_def)
qed

lemma collectServices_eq:
  "collectServices landscape catalog (xs, rs) =
     (xs @ publicEndpoints landscape catalog, rs \<union> epRegion ` set (publicEndpoints landscape catalog))"
proof (induction catalog arbitrary: xs rs)
  case Nil
  then show ?case by (simp add: publicEndpoints_def)
next
  case (Cons svc catalog)
  then show ?case
    by (auto simp: collectEndpoints_eq publicEndpoints_Cons OpenStackServiceType_def
        getPersephoneOpenStackServiceName_def)
qed

subsection \<open>Properties\<close>

text \<open>C23. The two search loops compute the list of the public endpoints of the services named after
  the landscape, in catalog order: without a region the search returns an endpoint exactly if it is the
  only one of that list, and otherwise an error that tells whether there is none or, with the sorted
  distinct regions of the list, several. With a region it is the locator's answer for that region.\<close>

theorem endpoint_search_spec:
  "GetPersephoneEndpoint locate catalogExtractor \<lparr>peLandscape = landscape, peRegion = region\<rparr> =
     (if region = [] then
        (case catalogExtractor of
           Inl err \<Rightarrow> Err (Wrapf (OpenStackPkg CatalogUnavailable) [] (External err))
         | Inr catalog \<Rightarrow>
             (let found = publicEndpoints landscape catalog in
              if length found = 1 then Ok (hd found)
              else if found = [] then Err (Errorf (OpenStackPkg NoMatchingEndpoint) [landscape])
              else Err (Errorf (OpenStackPkg ManyMatchingEndpoints)
                     (landscape # sorted_list_of_set (epRegion ` set found)))))
      else
        (case locate \<lparr>eoAvailability = ''public'', eoName = ''persephone-'' @ landscape,
                     eoType = ''kubernetes'', eoRegion = region\<rparr> of
           Inl err \<Rightarrow> Err (Wrapf (OpenStackPkg EndpointNotFound)
             [''public'', ''persephone-'' @ landscape, ''kubernetes'', region] (External err))
         | Inr url \<Rightarrow> Ok \<lparr>epRegion = region, epInterface = [], epURL = url\<rparr>))"
  by (simp add: GetPersephoneEndpoint_def searchPersephoneEndpoint_def collectServices_eq Let_def
      OpenStackServiceType_def getPersephoneOpenStackServiceName_def split: sum.splits list.splits)

end
