(* ===== verification/Exec_Auth.thy ===== *)
theory Exec_Auth
  imports Config Go_Time Go_Path OpenStack Catalog
begin

section \<open>Exec credentials of the command line client\<close>

text \<open>
  \<open>internal/auth/auth.go\<close>: \<open>scikube auth\<close> is kubectl's credential plugin. It fetches a Keystone token,
  makes the bearer token from it that the token webhook expects, and keeps it in a file.

  The file system, gophercloud and the encoders are fields of the record \<open>AuthLib\<close>. A file has its
  permission bits and its contents; \<open>os.Stat\<close> gives None when the file does not exist.
\<close>

subsection \<open>Data\<close>

datatype CacheStorageType = FileStorage | KeyringStorage | OtherStorage string

datatype ExecCredentialReadWriter = FileStorageExecCredentialCache

definition cacheRelDir :: string where "cacheRelDir = ''scikube''"

text \<open>\<open>gophercloud.AuthOptions\<close> with its scope, as the client fills it.\<close>

record AuthScope =
  asProjectID :: string
  asProjectName :: string
  asDomainName :: string
  asSystem :: bool

record ClientAuthOptions =
  coIdentityEndpoint :: string
  coUsername :: string
  coDomainName :: string
  coPassword :: string
  coTokenID :: string
  coAllowReauth :: bool
  coScope :: "AuthScope option"
  coApplicationCredentialID :: string
  coApplicationCredentialName :: string
  coApplicationCredentialSecret :: string

record ExecCredentialStatus =
  ecExpirationTimestamp :: "time option"
  ecToken :: string

record ExecCredential =
  ecKind :: string
  ecAPIVersion :: string
  ecInteractive :: bool
  ecStatus :: "ExecCredentialStatus option"

text \<open>What \<open>tokens.Create\<close> returns: the token (its ID and expiration) and the catalog.\<close>

record CreateResult =
  ExtractToken :: "ext_error + string \<times> time"
  ExtractServiceCatalog :: "ext_error + CatalogEntry list"

record 'w AuthLib =
  lbAuthenticatedClient :: "ClientAuthOptions \<Rightarrow> ('w, ProviderClient) ext_call"
  lbNewIdentityV3 :: "ProviderClient \<Rightarrow> ext_error + ServiceClient"
  lbCreateToken :: "ServiceClient \<Rightarrow> ClientAuthOptions \<Rightarrow> 'w \<Rightarrow> CreateResult \<times> 'w"
  lbStat :: "string \<Rightarrow> 'w \<Rightarrow> (ext_error + (nat \<times> bool) option) \<times> 'w" \<comment> \<open>permissions, directory\<close>
  lbReadFile :: "string \<Rightarrow> ('w, string) ext_call"
  lbWriteFile :: "string \<Rightarrow> string \<Rightarrow> nat \<Rightarrow> ('w, unit) ext_call"
  lbMkdirAll :: "string \<Rightarrow> nat \<Rightarrow> ('w, unit) ext_call"
  lbEncode :: "ExecCredential \<Rightarrow> ext_error + string"
  lbDecode :: "string \<Rightarrow> ext_error + ExecCredential"
  lbClock :: "'w \<Rightarrow> time \<times> 'w"
  lbCacheHome :: string
  lbChecksum :: "ClientAuthOptions \<Rightarrow> ext_error + string" \<comment> \<open>SHA-256 of the gob encoding, in hex\<close>

subsection \<open>The cache\<close>

definition NewExecCredentialReadWriter :: "CacheStorageType \<Rightarrow> ExecCredentialReadWriter res" where
  "NewExecCredentialReadWriter cst =
     (case cst of
        FileStorage \<Rightarrow> Ok FileStorageExecCredentialCache
      | KeyringStorage \<Rightarrow> Err (Errorf (AuthPkg KeyringUnsupported) [])
      | OtherStorage t \<Rightarrow> Err (Errorf (AuthPkg StorageUnknown) [t]))"

definition cacheDir :: "'w AuthLib \<Rightarrow> string \<Rightarrow> string" where
  "cacheDir lib baseDir = Join (if baseDir = [] then lbCacheHome lib else baseDir) cacheRelDir"

definition CacheFile :: "'w AuthLib \<Rightarrow> string" where
  "CacheFile lib = Join (cacheDir lib []) ''exec-credential''"

definition computeChecksum :: "'w AuthLib \<Rightarrow> ClientAuthOptions \<Rightarrow> string res" where
  "computeChecksum lib key =
     (case lbChecksum lib key of
        Inl err \<Rightarrow> Err (Wrapf (AuthPkg KeyEncodeFailed) [] (External err)) | Inr h \<Rightarrow> Ok h)"

definition CacheKey :: "'w AuthLib \<Rightarrow> CacheStorageType \<Rightarrow> ClientAuthOptions \<Rightarrow> string res" where
  "CacheKey lib cst ao =
     (case cst of
        FileStorage \<Rightarrow> bindR (computeChecksum lib ao) (\<lambda>checksum. Ok (Join (cacheDir lib []) checksum))
      | KeyringStorage \<Rightarrow> Err (Errorf (AuthPkg KeyringUnsupported) [])
      | OtherStorage t \<Rightarrow> Err (Errorf (AuthPkg StorageUnknown) [t]))"

text \<open>With another failure than NotExist, \<open>dirExists\<close> calls a method of a nil \<open>FileInfo\<close>.\<close>

definition dirExists :: "'w AuthLib \<Rightarrow> string \<Rightarrow> ('w, bool) io" where
  "dirExists lib path =
     bindE (readE (lbStat lib path)) (\<lambda>info.
       case info of
         Inr None \<Rightarrow> returnE False
       | Inr (Some (_, isDir)) \<Rightarrow> returnE isDir
       | Inl _ \<Rightarrow> panicE NilDereference)"

definition FileExists :: "'w AuthLib \<Rightarrow> string \<Rightarrow> ('w, bool) io" where
  "FileExists lib path =
     bindE (readE (lbStat lib path)) (\<lambda>info.
       case info of Inr None \<Rightarrow> returnE False | Inr (Some _) \<Rightarrow> returnE True | Inl _ \<Rightarrow> returnE False)"

definition ReadCache :: "'w AuthLib \<Rightarrow> string \<Rightarrow> ('w, ExecCredential) io" where
  "ReadCache lib key =
     bindE (FileExists lib key) (\<lambda>exists.
     if \<not> exists then failE (Errorf (AuthPkg CacheKeyMissing) [])
     else
       bindE (wrapE (AuthPkg CacheUnreadable) [key] (callE (lbReadFile lib key))) (\<lambda>data.
       bindE (readE (lbStat lib key)) (\<lambda>info.
       case info of
         Inl err \<Rightarrow> failE (Wrapf (AuthPkg CacheStatFailed) [key] (External err))
       | Inr None \<Rightarrow> failE (Wrapf (AuthPkg CacheStatFailed) [key] (External (OtherError ''file does not exist'')))
       | Inr (Some (perm, _)) \<Rightarrow>
           if perm \<noteq> 384 \<comment> \<open>0600\<close> then failE (Errorf (AuthPkg CacheUnsafe) [key, format_nat perm])
           else case lbDecode lib data of
             Inl err \<Rightarrow> failE (Wrapf (AuthPkg CacheInvalid) [key] (External err))
           | Inr ec \<Rightarrow>
               (case ecStatus ec of
                  None \<Rightarrow> failE (Errorf (AuthPkg TokenIDMissing) [])
                | Some status \<Rightarrow>
                    if ecToken status = [] then failE (Errorf (AuthPkg TokenIDMissing) [])
                    else if ecExpirationTimestamp status \<in> {None, Some zero_time}
                    then failE (Errorf (AuthPkg TokenExpirationMissing) [])
                    else bindE (readE (lbClock lib)) (\<lambda>now.
                      if \<not> time_after (the (ecExpirationTimestamp status)) now
                      then failE (Errorf (AuthPkg CacheExpired) [key])
                      else returnE ec)))))"

definition WriteCache :: "'w AuthLib \<Rightarrow> string \<Rightarrow> ExecCredential \<Rightarrow> ('w, unit) io" where
  "WriteCache lib key ec =
     (let dirPath = Dir key in
      bindE (dirExists lib dirPath) (\<lambda>exists.
      thenE (if \<not> exists
             then wrapE (AuthPkg CacheDirFailed) [dirPath] (callE (lbMkdirAll lib dirPath 493 \<comment> \<open>0755\<close>))
             else returnE ())
      (bindE (wrapE (AuthPkg CacheEncodeFailed) [] (extE (lbEncode lib ec))) (\<lambda>contents.
        wrapE (AuthPkg CacheWriteFailed) [] (callE (lbWriteFile lib key contents 384 \<comment> \<open>0600\<close>))))))"

subsection \<open>The bearer token\<close>

primrec firstPublic :: "Endpoint list \<Rightarrow> string option" where
  "firstPublic [] = None"
| "firstPublic (endpoint # es) =
     (if epInterface endpoint = ''public'' then Some (epRegion endpoint) else firstPublic es)"

primrec getRegion :: "CatalogEntry list \<Rightarrow> string" where
  "getRegion [] = []"
| "getRegion (service # ss) =
     (if ceType service = ''identity''
      then (case firstPublic (ceEndpoints service) of Some region \<Rightarrow> region | None \<Rightarrow> getRegion ss)
      else getRegion ss)"

definition bearerToken :: "string \<Rightarrow> string \<Rightarrow> bool \<Rightarrow> string" where
  "bearerToken region tokenID noRegionPrefix =
     (if region = [] \<or> noRegionPrefix then tokenID else region @ '':'' @ tokenID)"

definition DoAuth :: "'w AuthLib \<Rightarrow> ClientAuthOptions \<Rightarrow> bool \<Rightarrow> ('w, ExecCredential) io" where
  "DoAuth lib authOptions noRegionPrefix =
     bindE (wrapE (AuthPkg AuthProviderFailed) [] (callE (lbAuthenticatedClient lib authOptions)))
       (\<lambda>providerClient.
     bindE (wrapE (AuthPkg AuthIdentityFailed) [] (extE (lbNewIdentityV3 lib providerClient)))
       (\<lambda>identityClient.
     bindE (readE (lbCreateToken lib identityClient authOptions)) (\<lambda>resp.
     bindE (wrapE (AuthPkg AuthTokenFailed) [] (extE (ExtractToken resp))) (\<lambda>(tokenID, expiresAt).
     bindE (wrapE (AuthPkg AuthCatalogFailed) [] (extE (ExtractServiceCatalog resp))) (\<lambda>catalog.
       let region = getRegion catalog in
       returnE \<lparr>ecKind = ''ExecCredential'', ecAPIVersion = ''client.authentication.k8s.io/v1'',
         ecInteractive = False,
         ecStatus = Some \<lparr>ecExpirationTimestamp = Some expiresAt,
                          ecToken = bearerToken region tokenID noRegionPrefix\<rparr>\<rparr>)))))"

end
