(* ===== verification/Kubeconfig.thy ===== *)
theory Kubeconfig
  imports Exec_Auth Names Constants
begin

section \<open>Kubeconfigs\<close>

text \<open>
  \<open>internal/kubernetes/kubeconfig.go\<close>: the kubeconfig for the garden cluster, whose user runs
  \<open>scikube auth\<close> with the environment recorded here, and the admin kubeconfig of a shoot, which the
  garden cluster issues. client-go and the garden client are fields of the record \<open>GardenLib\<close>; a
  context that the loaded kubeconfig lacks is a nil pointer there and \<open>None\<close> here.
\<close>

record ExecConfig =
  exAPIVersion :: string
  exCommand :: string
  exArgs :: "string list"
  exEnv :: "(string \<times> string) list"
  exProvideClusterInfo :: bool
  exInteractiveMode :: string

record KubeContext =
  kxAuthInfo :: string
  kxCluster :: string
  kxNamespace :: string

record KubeconfigFile =
  kcAPIVersion :: string
  kcKind :: string
  kcClusters :: "(string \<times> string) list" \<comment> \<open>name and server\<close>
  kcContexts :: "(string \<times> KubeContext) list"
  kcCurrentContext :: string
  kcAuthInfos :: "(string \<times> ExecConfig) list"

definition envOf :: "ClientAuthOptions \<Rightarrow> AuthScope \<Rightarrow> string \<Rightarrow> (string \<times> string) list" where
  "envOf o1 scope authMethod =
     [(''OS_AUTH_URL'', coIdentityEndpoint o1), (''OS_DOMAIN_NAME'', coDomainName o1),
      (''OS_PROJECT_DOMAIN_NAME'', coDomainName o1), (''OS_PROJECT_NAME'', asProjectName scope)] @
     (if authMethod = KeystoneApplicationCredentialAuth
      then [(''OS_APPLICATION_CREDENTIAL_ID'', coApplicationCredentialID o1),
            (''OS_APPLICATION_CREDENTIAL_NAME'', coApplicationCredentialName o1),
            (''OS_APPLICATION_CREDENTIAL_SECRET'', coApplicationCredentialSecret o1)]
      else if authMethod = KeystonePasswordAuth then [(''OS_USERNAME'', coUsername o1)]
      else [])"

text \<open>The checks of the options that the authentication method needs.\<close>

definition methodComplete :: "ClientAuthOptions \<Rightarrow> string \<Rightarrow> unit res" where
  "methodComplete o1 authMethod =
     (if authMethod = KeystoneApplicationCredentialAuth
      then (if coApplicationCredentialID o1 = [] \<or> coApplicationCredentialName o1 = [] \<or>
               coApplicationCredentialSecret o1 = []
            then Err (kube_err AppCredentialRequired [authMethod]) else Ok ())
      else if authMethod = KeystonePasswordAuth
      then (if coUsername o1 = [] \<or> coPassword o1 = []
            then Err (kube_err UserPasswordRequired [authMethod]) else Ok ())
      else Err (kube_err UnsupportedAuthMethod [authMethod]))"

definition GetKubeconfigForGarden ::
    "ClientAuthOptions \<Rightarrow> string \<Rightarrow> string \<Rightarrow> string \<Rightarrow> KubeconfigFile res" where
  "GetKubeconfigForGarden authOptions authMethod apiEndpoint region =
     (if apiEndpoint = [] then Err (kube_err ApiEndpointInvalid [])
      else if region = [] then Err (kube_err MissingRegionName [])
      else if coIdentityEndpoint authOptions = [] then Err (kube_err MissingIdentityEndpoint [])
      else if coDomainName authOptions = [] then Err (kube_err MissingDomainName [])
      else case coScope authOptions of
        None \<Rightarrow> Err (kube_err MissingScope [])
      | Some scope \<Rightarrow>
          if asProjectID scope = [] then Err (kube_err MissingScopeProjectID [])
          else if asProjectName scope = [] then Err (kube_err MissingScopeProjectName [])
          else bindR (methodComplete authOptions authMethod) (\<lambda>_.
            (let authInfoKey = ''garden-user''; clusterKey = ''garden'';
                 authInfo = \<lparr>exAPIVersion = ''client.authentication.k8s.io/v1'', exCommand = ''scikube'',
                   exArgs = [''auth''], exEnv = envOf authOptions scope authMethod,
                   exProvideClusterInfo = True, exInteractiveMode = ''Never''\<rparr>;
                 ctx = \<lparr>kxAuthInfo = authInfoKey, kxCluster = clusterKey,
                   kxNamespace = GetGardenerProjectNamespaceName region (asProjectID scope)\<rparr>
             in Ok \<lparr>kcAPIVersion = ''v1'', kcKind = ''Config'', kcClusters = [(clusterKey, apiEndpoint)],
                    kcContexts = [(clusterKey, ctx)], kcCurrentContext = clusterKey,
                    kcAuthInfos = [(authInfoKey, authInfo)]\<rparr>)))"

record LoadedKubeconfig =
  lkCurrentContext :: string
  lkContexts :: "string \<rightharpoonup> string" \<comment> \<open>context name to namespace\<close>

record 'w GardenLib =
  glLoadFromFile :: "string \<Rightarrow> ('w, LoadedKubeconfig) ext_call"
  glRestConfig :: "string \<Rightarrow> ('w, unit) ext_call"
  glNewClient :: "string \<Rightarrow> ('w, unit) ext_call"
  glCreateAdminKubeconfig :: "string \<times> string \<Rightarrow> int \<Rightarrow> ('w, string) ext_call"

text \<open>
  \<open>int64(expiration.Seconds())\<close> goes through a floating-point number; it is the truncated quotient
  for whole numbers of seconds, and for others as long as they are below \<open>2 ^ 22\<close> seconds.
\<close>

definition secondsOf :: "duration \<Rightarrow> int" where
  "secondsOf d = trunc_div d second"

definition GetKubeconfigForShoot ::
    "'w GardenLib \<Rightarrow> string \<Rightarrow> string \<Rightarrow> duration \<Rightarrow> ('w, string) io" where
  "GetKubeconfigForShoot lib gardenKubeconfigPath shootName expiration =
     (let expirationSeconds = secondsOf expiration in
      bindE (wrapE (KubernetesPkg LoadGardenKubeconfig) [] (callE (glLoadFromFile lib gardenKubeconfigPath)))
        (\<lambda>gardenKubeconfig.
      if lkCurrentContext gardenKubeconfig = [] then failE (kube_err CurrentContextEmpty [])
      else case lkContexts gardenKubeconfig (lkCurrentContext gardenKubeconfig) of
        None \<Rightarrow> panicE NilDereference
      | Some currentNamespace \<Rightarrow>
          if currentNamespace = [] then failE (kube_err ContextNamespaceEmpty [])
          else
            thenE (wrapE (KubernetesPkg RestConfigFailed) [] (callE (glRestConfig lib gardenKubeconfigPath)))
            (thenE (wrapE (KubernetesPkg GardenClientFailed) [] (callE (glNewClient lib gardenKubeconfigPath)))
              (wrapE (KubernetesPkg AdminKubeconfigFailed) []
                (callE (glCreateAdminKubeconfig lib (currentNamespace, shootName) expirationSeconds))))))"

end
