(* ===== verification/Scikube.thy ===== *)
theory Scikube
  imports Kubeconfig
begin

section \<open>The command line client scikube\<close>

text \<open>
  \<open>cmd/scikube/cmd\<close>: the commands \<open>auth\<close>, \<open>kubeconfig-for-garden\<close> and \<open>kubeconfig-for-shoot\<close>. Viper's view of
  flags and environment is the record \<open>Settings\<close>; printing and encoding are fields of \<open>CommandLib\<close>.
  Debug output is not modelled.
\<close>

record Settings =
  GetString :: "string \<Rightarrow> string"
  GetBool :: "string \<Rightarrow> bool"
  GetDuration :: "string \<Rightarrow> duration"

record 'w CommandLib =
  clMarshalCredential :: "ExecCredential \<Rightarrow> ext_error + string"
  clMarshalKubeconfig :: "KubeconfigFile \<Rightarrow> ext_error + string"
  clPrintln :: "string \<Rightarrow> 'w \<Rightarrow> 'w"
  clLookPath :: "string \<Rightarrow> 'w \<Rightarrow> bool \<times> 'w"
  clFakeClient :: "ClientAuthOptions \<Rightarrow> ('w, ProviderClient) ext_call" \<comment> \<open>of the end-to-end tests\<close>

subsection \<open>openstack.go\<close>

definition missingFlags :: "string \<Rightarrow> string \<Rightarrow> string \<Rightarrow> string \<Rightarrow> string list" where
  "missingFlags domain user project password =
     (if domain = [] then [''--os-user-domain-name/OS_USER_DOMAIN_NAME or --os-domain-name/OS_DOMAIN_NAME''] else []) @
     (if user = [] then [''--os-username/OS_USERNAME''] else []) @
     (if project = [] then [''--os-project-name/OS_PROJECT_NAME''] else []) @
     (if password = [] then [''--os-password/OS_PASSWORD''] else [])"

definition scopeOf :: "Settings \<Rightarrow> AuthScope" where
  "scopeOf v =
     (let project = GetString v ''OS_PROJECT_NAME'';
          scope = \<lparr>asProjectID = [], asProjectName = project, asDomainName = [], asSystem = False\<rparr>
      in if project = []
         then (let scope = scope\<lparr>asDomainName := GetString v ''OS_DOMAIN_NAME''\<rparr>
               in if asDomainName scope = []
                  then scope\<lparr>asSystem := (GetString v ''OS_PROJECT_DOMAIN_NAME'' \<noteq> [])\<rparr> else scope)
         else scope\<lparr>asDomainName := GetString v ''OS_PROJECT_DOMAIN_NAME''\<rparr>)"

definition getAuthOptions :: "Settings \<Rightarrow> ClientAuthOptions res" where
  "getAuthOptions v =
     (let authURL = GetString v ''OS_AUTH_URL'';
          domain = (let d = GetString v ''OS_USER_DOMAIN_NAME'' in
                    if d = [] then GetString v ''OS_DOMAIN_NAME'' else d);
          project = GetString v ''OS_PROJECT_NAME'';
          user = GetString v ''OS_USERNAME'';
          password = GetString v ''OS_PASSWORD'';
          applicationCredentialID = GetString v ''OS_APPLICATION_CREDENTIAL_ID'';
          applicationCredentialName = GetString v ''OS_APPLICATION_CREDENTIAL_NAME'';
          applicationCredentialSecret = GetString v ''OS_APPLICATION_CREDENTIAL_SECRET'';
          runE2ETest = GetBool v ''RUN_E2E_TEST'';
          result = Ok \<lparr>coIdentityEndpoint = authURL, coUsername = user, coDomainName = domain,
            coPassword = password, coTokenID = [], coAllowReauth = True, coScope = Some (scopeOf v),
            coApplicationCredentialID = applicationCredentialID,
            coApplicationCredentialName = applicationCredentialName,
            coApplicationCredentialSecret = applicationCredentialSecret\<rparr>
      in if authURL = [] \<and> \<not> runE2ETest then Err (Errorf (ScikubePkg AuthURLMissing) [])
         else if applicationCredentialSecret = [] \<and> \<not> runE2ETest then
           (let missing = missingFlags domain user project password in
            if length missing > 0
            then Err (Errorf (ScikubePkg PasswordAuthIncomplete) [join_with '', '' missing]) else result)
         else if (applicationCredentialID = [] \<or> applicationCredentialName = []) \<and> \<not> runE2ETest
         then Err (Errorf (ScikubePkg AppCredentialsMissing) [])
         else result)"

subsection \<open>auth.go\<close>

definition orDummy :: "string \<Rightarrow> string \<Rightarrow> string" where
  "orDummy x d = (if x = [] then d else x)"

text \<open>
  The part under \<open>if useCache\<close>: the cached credential, if it can be used, whether the cache stays in
  use, and its key. An absent cache storage is a nil interface.
\<close>

definition cacheLookup ::
    "'w AuthLib \<Rightarrow> ClientAuthOptions \<Rightarrow> ('w, ExecCredential option \<times> bool \<times> string) io" where
  "cacheLookup lib authOptions =
     (let (cacheStorage, useCache) =
            (case NewExecCredentialReadWriter FileStorage of Ok s \<Rightarrow> (Some s, True) | _ \<Rightarrow> (None, False));
          (cacheKey, useCache) =
            (case CacheKey lib FileStorage authOptions of Ok k \<Rightarrow> (k, useCache) | _ \<Rightarrow> ([], False))
      in case cacheStorage of
           None \<Rightarrow> panicE NilDereference
         | Some _ \<Rightarrow>
             bindE (tryE (ReadCache lib cacheKey)) (\<lambda>r.
               case r of
                 Inr cred \<Rightarrow> returnE (Some cred, useCache, cacheKey)
               | Inl err \<Rightarrow>
                   (case root_cause err of
                      Errorf (AuthPkg CacheKeyMissing) _ \<Rightarrow> returnE (None, useCache, cacheKey)
                    | Errorf (AuthPkg CacheExpired) _ \<Rightarrow> returnE (None, useCache, cacheKey)
                    | _ \<Rightarrow> returnE (None, False, cacheKey))))"

definition e2eOptions :: "ClientAuthOptions \<Rightarrow> ClientAuthOptions" where
  "e2eOptions ao = ao\<lparr>coDomainName := orDummy (coDomainName ao) ''Default'',
     coUsername := orDummy (coUsername ao) ''dummy'', coPassword := orDummy (coPassword ao) ''dummy'',
     coTokenID := orDummy (coTokenID ao) ''dummy''\<rparr>"

definition authenticateCommand :: "'w AuthLib \<Rightarrow> 'w CommandLib \<Rightarrow> Settings \<Rightarrow> ('w, unit) io" where
  "authenticateCommand lib cl v =
     bindE (liftE (getAuthOptions v)) (\<lambda>authOptions.
     (let noRegionPrefix = GetBool v ''NO_REGION_PREFIX'';
          runE2ETest = GetBool v ''RUN_E2E_TEST'';
          authOptions = (if runE2ETest then e2eOptions authOptions else authOptions);
          lib = (if runE2ETest then lib\<lparr>lbAuthenticatedClient := clFakeClient cl\<rparr> else lib)
      in
      bindE (if \<not> runE2ETest then cacheLookup lib authOptions else returnE (None, False, []))
        (\<lambda>(cached, useCache, cacheKey).
      bindE (case cached of
               Some cred \<Rightarrow> returnE cred
             | None \<Rightarrow> wrapE (ScikubePkg KeystoneAuthFailed) [] (DoAuth lib authOptions noRegionPrefix)) (\<lambda>cred.
      bindE (wrapE (ScikubePkg MarshalCredentials) [] (extE (clMarshalCredential cl cred))) (\<lambda>credBytes.
      thenE (doE (clPrintln cl credBytes))
        (if useCache \<and> cached = None
         then wrapE (ScikubePkg WriteCredentials) [cacheKey] (WriteCache lib cacheKey cred)
         else returnE ()))))))"

subsection \<open>kubeconfig-for-garden.go\<close>

text \<open>
  The result of the authentication request, if it is a token creation: the ID of the token's project
  (nil for a token without one) and the service catalog.
\<close>

record AuthResult =
  arProject :: "ext_error + string option"
  arCatalog :: "ext_error + CatalogEntry list"

definition usesAppCredential :: "ClientAuthOptions \<Rightarrow> bool" where
  "usesAppCredential ao \<longleftrightarrow> coApplicationCredentialID ao \<noteq> [] \<or> coApplicationCredentialName ao \<noteq> [] \<or>
     coApplicationCredentialSecret ao \<noteq> []"

text \<open>\<open>authOptions.Scope.ProjectID = id\<close>; the scope is never nil after \<open>getAuthOptions\<close>.\<close>

definition withProjectID :: "ClientAuthOptions \<Rightarrow> string \<Rightarrow> ClientAuthOptions" where
  "withProjectID ao i = ao\<lparr>coScope := (case coScope ao of None \<Rightarrow> None | Some s \<Rightarrow> Some (s\<lparr>asProjectID := i\<rparr>))\<rparr>"

definition kubeconfigForGarden ::
    "'w AuthLib \<Rightarrow> 'w CommandLib \<Rightarrow> (ProviderClient \<Rightarrow> AuthResult option) \<Rightarrow>
     (ProviderClient \<Rightarrow> EndpointOpts \<Rightarrow> ext_error + string) \<Rightarrow> Settings \<Rightarrow> ('w, unit) io" where
  "kubeconfigForGarden lib cl getAuthResult endpointLocator v =
     bindE (liftE (getAuthOptions v)) (\<lambda>authOptions.
     (let apiUrl = GetString v ''SCIKUBE_URL'';
          projectID = GetString v ''SCIKUBE_PROJECT_ID'';
          region = GetString v ''OS_REGION_NAME'' in
      bindE
        (if apiUrl = [] then
           (if projectID \<noteq> [] then failE (Errorf (ScikubePkg ProjectIDWithCatalog) [])
            else
              bindE (wrapE (ScikubePkg ScikubeProviderFailed) [] (callE (lbAuthenticatedClient lib authOptions)))
                (\<lambda>providerClient.
              case getAuthResult providerClient of
                None \<Rightarrow> failE (Errorf (ScikubePkg AuthResultUnknown) [])
              | Some authResult \<Rightarrow>
                  bindE (wrapE (ScikubePkg ProjectExtractFailed) [] (extE (arProject authResult))) (\<lambda>project.
                  case project of
                    None \<Rightarrow> panicE NilDereference
                  | Some projectID \<Rightarrow>
                      bindE (liftE (GetPersephoneEndpoint (endpointLocator providerClient) (arCatalog authResult)
                               \<lparr>peLandscape = GetString v ''SCIKUBE_LANDSCAPE'', peRegion = region\<rparr>)) (\<lambda>endpoint.
                        returnE (withProjectID authOptions projectID, epURL endpoint, epRegion endpoint)))))
         else if projectID = [] then failE (Errorf (ScikubePkg ProjectIDRequired) [])
         else returnE (withProjectID authOptions projectID, apiUrl, region))
        (\<lambda>(authOptions, apiUrl, region).
      let authMethod = (if usesAppCredential authOptions then KeystoneApplicationCredentialAuth
                        else KeystonePasswordAuth) in
      bindE (wrapE (ScikubePkg KubeconfigFailed) []
               (liftE (GetKubeconfigForGarden authOptions authMethod apiUrl region))) (\<lambda>kubeconfig.
      bindE (wrapE (ScikubePkg KubeconfigMarshal) [] (extE (clMarshalKubeconfig cl kubeconfig))) (\<lambda>yamlData.
        doE (clPrintln cl yamlData))))))"

subsection \<open>kubeconfig-for-shoot.go\<close>

definition DefaultShootKubeconfigExpiration :: duration where
  "DefaultShootKubeconfigExpiration = 8 * hour"

definition kubeconfigForShoot :: "'w GardenLib \<Rightarrow> 'w CommandLib \<Rightarrow> Settings \<Rightarrow> ('w, unit) io" where
  "kubeconfigForShoot lib cl v =
     bindE (readE (clLookPath cl ''scikube'')) (\<lambda>found.
       if \<not> found then failE (Errorf (ScikubePkg ScikubeNotInPath) [])
       else
         (let gardenKubeconfigPath = GetString v ''KUBECONFIG'';
              shootName = GetString v ''SCIKUBE_SHOOT_NAME'';
              expiration = GetDuration v ''SCIKUBE_SHOOT_KUBECONFIG_EXPIRATION'' in
          if gardenKubeconfigPath = [] then failE (Errorf (ScikubePkg KubeconfigPathEmpty) [])
          else if shootName = [] then failE (Errorf (ScikubePkg ShootNameEmpty) [])
          else bindE (GetKubeconfigForShoot lib gardenKubeconfigPath shootName expiration) (\<lambda>shootKubeconfig.
                 doE (clPrintln cl shootKubeconfig))))"

end
