(* ===== verification/Auth_Properties.thy ===== *)
theory Auth_Properties
  imports Scikube
begin

unbundle bit_operations_syntax

section \<open>Logging in twice\<close>

text \<open>
  The credential plugin writes the credential that Keystone gave it to a file, and answers from the file as
  long as the credential lasts.
\<close>

subsection \<open>What the file system, the encoders and the terminal promise\<close>

type_synonym files = "string \<rightharpoonup> nat \<times> string option" \<comment> \<open>permissions, and the contents unless a directory\<close>

text \<open>Times are encoded in whole seconds.\<close>

definition inSeconds :: "ExecCredential \<Rightarrow> ExecCredential" where
  "inSeconds ec = ec\<lparr>ecStatus := map_option (\<lambda>st. st\<lparr>ecExpirationTimestamp :=
     map_option (\<lambda>t. t div second * second) (ecExpirationTimestamp st)\<rparr>) (ecStatus ec)\<rparr>"

text \<open>A new file has the permissions that are asked for, without those that the process masks.\<close>

definition masked :: "nat \<Rightarrow> nat \<Rightarrow> nat" where
  "masked umask perm = perm - (perm AND umask)"

definition file_laws :: "('w \<Rightarrow> files) \<Rightarrow> nat \<Rightarrow> 'w AuthLib \<Rightarrow> bool" where
  "file_laws fs umask lib \<longleftrightarrow>
     (\<forall>p w. lbStat lib p w = (Inr (map_option (\<lambda>(perm, c). (perm, c = None)) (fs w p)), w)) \<and>
     (\<forall>p w perm c. fs w p = Some (perm, Some c) \<longrightarrow> lbReadFile lib p w = (Inr c, w)) \<and>
     (\<forall>p c m w. fst (lbWriteFile lib p c m w) = Inr () \<longrightarrow> fs (snd (lbWriteFile lib p c m w)) =
        (fs w)(p \<mapsto> (case fs w p of Some (perm, _) \<Rightarrow> perm | None \<Rightarrow> masked umask m, Some c))) \<and>
     (\<forall>p m w q. length p < length q \<longrightarrow> fs (snd (lbMkdirAll lib p m w)) q = fs w q)"

text \<open>Only printing prints, and only the file operations change files.\<close>

definition quiet_laws :: "('w \<Rightarrow> files) \<Rightarrow> ('w \<Rightarrow> string list) \<Rightarrow> 'w AuthLib \<Rightarrow> 'w CommandLib \<Rightarrow> bool" where
  "quiet_laws fs out lib cl \<longleftrightarrow>
     (\<forall>w. fs (snd (lbClock lib w)) = fs w \<and> out (snd (lbClock lib w)) = out w) \<and>
     (\<forall>ao w. fs (snd (lbAuthenticatedClient lib ao w)) = fs w \<and> out (snd (lbAuthenticatedClient lib ao w)) = out w) \<and>
     (\<forall>c ao w. fs (snd (lbCreateToken lib c ao w)) = fs w \<and> out (snd (lbCreateToken lib c ao w)) = out w) \<and>
     (\<forall>p w. fs (snd (lbReadFile lib p w)) = fs w \<and> out (snd (lbReadFile lib p w)) = out w) \<and>
     (\<forall>p c m w. out (snd (lbWriteFile lib p c m w)) = out w) \<and>
     (\<forall>p m w. out (snd (lbMkdirAll lib p m w)) = out w) \<and>
     (\<forall>s w. fs (clPrintln cl s w) = fs w \<and> out (clPrintln cl s w) = out w @ [s])"

text \<open>What is encoded is decoded, and the checksum is a number in hexadecimal.\<close>

definition encoding_laws :: "'w AuthLib \<Rightarrow> 'w CommandLib \<Rightarrow> bool" where
  "encoding_laws lib cl \<longleftrightarrow> (\<forall>ec s. lbEncode lib ec = Inr s \<longrightarrow> lbDecode lib s = Inr (inSeconds ec)) \<and>
     (\<forall>ec. clMarshalCredential cl (inSeconds ec) = clMarshalCredential cl ec) \<and>
     (\<forall>ao h. lbChecksum lib ao = Inr h \<longrightarrow> h \<noteq> [] \<and> set h \<subseteq> set ''0123456789abcdef'')"

subsection \<open>The cache\<close>

lemma key_in_directory:
  assumes "encoding_laws lib cl" and "CacheKey lib FileStorage ao = Ok key"
  shows "length (Dir key) < length key"
proof -
  obtain h where h: "lbChecksum lib ao = Inr h" "key = Join (cacheDir lib []) h"
    using assms(2) by (auto simp: CacheKey_def computeChecksum_def bindR_Ok_iff split: sum.splits)
  with assms(1) have "h \<noteq> []" "set h \<subseteq> set ''0123456789abcdef''" unfolding encoding_laws_def by blast+
  then have "plainName h" by (auto simp: plainName_def dots_def)
  moreover have "joinPrefix (cacheDir lib []) \<noteq> []"
    unfolding cacheDir_def by (rule joinPrefix_Join) (simp add: plainName_def dots_def cacheRelDir_def)
  ultimately show ?thesis unfolding h(2) by (rule Dir_shorter)
qed

text \<open>A login writes where there is no file yet, or one that only its owner can use.\<close>

definition writable :: "files \<Rightarrow> string \<Rightarrow> bool" where
  "writable f key \<longleftrightarrow> (\<forall>perm c. f key = Some (perm, c) \<longrightarrow> perm = 384)"

text \<open>A cached credential that can be used at a time.\<close>

definition usable :: "ExecCredential \<Rightarrow> time \<Rightarrow> bool" where
  "usable ec now \<longleftrightarrow> (\<exists>exp tok. ecStatus ec = Some \<lparr>ecExpirationTimestamp = Some exp, ecToken = tok\<rparr> \<and>
     tok \<noteq> [] \<and> exp \<noteq> zero_time \<and> time_after exp now)"

lemma read_cached:
  assumes "file_laws fs umask lib" and "fs w key = Some (384, Some contents)" and "lbDecode lib contents = Inr ec"
    and "usable ec (fst (lbClock lib w))"
  shows "ReadCache lib key w = (Ok ec, snd (lbClock lib w))"
  using assms by (auto simp: ReadCache_def FileExists_def file_laws_def usable_def io_simps split: prod.splits)

lemma read_missing:
  assumes "file_laws fs umask lib" and "fs w key = None"
  shows "ReadCache lib key w = (Err (Errorf (AuthPkg CacheKeyMissing) []), w)"
  using assms by (simp add: ReadCache_def FileExists_def file_laws_def io_simps)

lemma write_cached:
  assumes files: "file_laws fs umask lib" and quiet: "quiet_laws fs out lib cl"
    and key: "length (Dir key) < length key" "writable (fs w) key" and mask: "384 AND umask = 0"
  shows "wp (WriteCache lib key ec) (\<lambda>r w'. r = Ok () \<longrightarrow> out w' = out w \<and>
     (\<exists>contents. lbEncode lib ec = Inr contents \<and> fs w' key = Some (384, Some contents))) w"
proof -
  let ?dir = "Dir key"
  have made: "fs (snd (lbMkdirAll lib ?dir m v)) key = fs v key" for m v
    using files key(1) unfolding file_laws_def by blast
  have stat: "lbStat lib ?dir w = (Inr (map_option (\<lambda>(perm, c). (perm, c = None)) (fs w ?dir)), w)"
    using files by (simp add: file_laws_def)
  have perm: "(case fs v key of Some (perm, _) \<Rightarrow> perm | None \<Rightarrow> masked umask 384) = 384" if "writable (fs v) key" for v
    using that mask by (auto simp: writable_def masked_def split: option.splits)
  have written: "wp (wrapE (AuthPkg CacheWriteFailed) [] (callE (lbWriteFile lib key contents 384)))
      (\<lambda>r w'. r = Ok () \<longrightarrow> out w' = out w \<and> fs w' key = Some (384, Some contents)) v"
    if v: "writable (fs v) key" "out v = out w" for contents v
  proof (cases "lbWriteFile lib key contents 384 v")
    case (Pair res v')
    have "out v' = out w" and "res = Inr () \<Longrightarrow> fs v' key = Some (384, Some contents)"
      using files quiet Pair v perm [OF v(1)] unfolding file_laws_def quiet_laws_def
      by (metis snd_conv, metis fst_conv fun_upd_same snd_conv)
    with Pair show ?thesis
      by (cases res) (simp_all add: wp_def run_wrapE run_callE)
  qed
  have encoded: "wp (bindE (wrapE (AuthPkg CacheEncodeFailed) [] (extE (lbEncode lib ec)))
      (\<lambda>contents. wrapE (AuthPkg CacheWriteFailed) [] (callE (lbWriteFile lib key contents 384))))
      (\<lambda>r w'. r = Ok () \<longrightarrow> out w' = out w \<and>
         (\<exists>contents. lbEncode lib ec = Inr contents \<and> fs w' key = Some (384, Some contents))) v"
    if v: "writable (fs v) key" "out v = out w" for v
  proof (cases "lbEncode lib ec")
    case (Inr contents)
    with written [OF v, of contents] show ?thesis by (simp add: wp_def run_bindE run_wrapE run_extE)
  qed (simp add: wp_def run_bindE run_wrapE run_extE)
  have made: "writable (fs v) key \<and> out v = out w" if "v = snd (lbMkdirAll lib ?dir 493 w)" for v
    using that key(2) made quiet by (simp add: quiet_laws_def writable_def)
  have ready: "wp (if \<not> exists then wrapE (AuthPkg CacheDirFailed) [?dir] (callE (lbMkdirAll lib ?dir 493)) else returnE ())
      (\<lambda>r v. (\<forall>p. r \<noteq> Panicked p) \<and> writable (fs v) key \<and> out v = out w) w" for exists
    using made key(2) by (auto simp: wp_def run_wrapE run_callE run_simps split: prod.splits sum.splits)
  have "\<exists>exists. dirExists lib ?dir w = (Ok exists, w)"
    by (cases "fs w ?dir") (auto simp: dirExists_def io_simps stat split: prod.splits)
  then obtain exists where dir: "dirExists lib ?dir w = (Ok exists, w)" ..
  let ?Q = "\<lambda>r w'. r = Ok () \<longrightarrow> out w' = out w \<and>
      (\<exists>contents. lbEncode lib ec = Inr contents \<and> fs w' key = Some (384, Some contents))"
  let ?prepare = "if \<not> exists then wrapE (AuthPkg CacheDirFailed) [?dir] (callE (lbMkdirAll lib ?dir 493)) else returnE ()"
  let ?store = "bindE (wrapE (AuthPkg CacheEncodeFailed) [] (extE (lbEncode lib ec)))
      (\<lambda>contents. wrapE (AuthPkg CacheWriteFailed) [] (callE (lbWriteFile lib key contents 384)))"
  have "wp (thenE ?prepare ?store) ?Q w"
    unfolding wp_thenE by (rule wp_mono [OF ready]) (auto simp: encoded split: outcome.splits)
  then show ?thesis by (simp add: WriteCache_def Let_def wp_def run_bindE dir)
qed

text \<open>A read that does not give a credential but leaves the cache in use: there is no file, or a safe one
  whose credential has expired.\<close>

lemma read_missed:
  assumes files: "file_laws fs umask lib" and quiet: "quiet_laws fs out lib cl"
    and run: "ReadCache lib key w = (Err err, w0)"
    and cause: "root_cause err = Errorf (AuthPkg CacheKeyMissing) as \<or> root_cause err = Errorf (AuthPkg CacheExpired) as"
  shows "fs w0 = fs w \<and> out w0 = out w \<and> writable (fs w) key"
proof (cases "fs w key")
  case None
  with files run have "w0 = w" by (auto simp: ReadCache_def FileExists_def file_laws_def io_simps)
  with None show ?thesis by (simp add: writable_def)
next
  case (Some x)
  obtain perm c where x: "x = (perm, c)" by (cases x)
  obtain d w1 where read: "lbReadFile lib key w = (d, w1)" by fastforce
  have w1: "fs w1 = fs w" "out w1 = out w"
    using quiet read unfolding quiet_laws_def by (metis snd_conv)+
  have stat: "lbStat lib key v = (Inr (map_option (\<lambda>(perm, c). (perm, c = None)) (fs v key)), v)" for v
    using files by (simp add: file_laws_def)
  have clock: "fs (snd (lbClock lib v)) = fs v" "out (snd (lbClock lib v)) = out v" for v
    using quiet by (simp_all add: quiet_laws_def)
  show ?thesis
  proof (cases "perm = 384")
    case False
    with run cause show ?thesis
      by (auto simp: ReadCache_def FileExists_def io_simps stat Some x read w1 split: sum.splits)
  next
    case True
    have "w0 = w1 \<or> w0 = snd (lbClock lib w1)"
      using run True
      by (auto simp: ReadCache_def FileExists_def io_simps stat Some x read w1
          split: sum.splits option.splits if_splits prod.splits)
    with w1 clock True show ?thesis by (auto simp: writable_def Some x)
  qed
qed

lemma lookup_missed:
  assumes files: "file_laws fs umask lib" and quiet: "quiet_laws fs out lib cl"
    and run: "cacheLookup lib ao w = (Ok (None, True, key), w0)"
  shows "CacheKey lib FileStorage ao = Ok key" "fs w0 = fs w" "out w0 = out w" "writable (fs w) key"
proof -
  obtain k where k: "CacheKey lib FileStorage ao = Ok k"
    using run by (cases "CacheKey lib FileStorage ao")
      (auto simp: cacheLookup_def NewExecCredentialReadWriter_def run_bindE run_tryE run_simps
        split: prod.splits outcome.splits sum.splits go_error.splits site.splits auth_site.splits)
  obtain r v where read: "ReadCache lib k w = (r, v)" by fastforce
  have "key = k \<and> w0 = v \<and> (\<exists>err as. r = Err err \<and> (root_cause err = Errorf (AuthPkg CacheKeyMissing) as \<or>
      root_cause err = Errorf (AuthPkg CacheExpired) as))"
    using run k read
    by (auto simp: cacheLookup_def NewExecCredentialReadWriter_def run_bindE run_tryE run_simps
        split: prod.splits outcome.splits sum.splits go_error.splits site.splits auth_site.splits)
  with read_missed [OF files quiet, of k w] read k
  show "CacheKey lib FileStorage ao = Ok key" "fs w0 = fs w" "out w0 = out w" "writable (fs w) key" by blast+
qed

subsection \<open>The command\<close>

lemma auth_result:
  assumes "quiet_laws fs out lib cl"
  shows "wp (DoAuth lib ao plain) (\<lambda>r w'. fs w' = fs w \<and> out w' = out w) w"
proof (rule wp_frame [where view = "\<lambda>w. (fs w, out w)"])
  fix c
  show "stable (\<lambda>w. (fs w, out w) = c) (DoAuth lib ao plain)"
    unfolding DoAuth_def Let_def
    by (intro stable_intros stable_extE) (use assms in \<open>auto simp: stable_call_def quiet_laws_def\<close>)
qed simp

lemma auth_status:
  "DoAuth lib ao plain w = (Ok ec, w') \<Longrightarrow>
     \<exists>exp tok. ecStatus ec = Some \<lparr>ecExpirationTimestamp = Some exp, ecToken = tok\<rparr>"
  by (auto simp: DoAuth_def Let_def io_simps split: outcome_splits outcome.splits)

lemma lookup_run:
  assumes "CacheKey lib FileStorage ao = Ok key"
  shows "ReadCache lib key w = (Err (Errorf (AuthPkg CacheKeyMissing) []), w') \<Longrightarrow>
      cacheLookup lib ao w = (Ok (None, True, key), w')"
    and "ReadCache lib key w = (Ok ec, w') \<Longrightarrow> cacheLookup lib ao w = (Ok (Some ec, True, key), w')"
  by (simp_all add: cacheLookup_def NewExecCredentialReadWriter_def assms run_bindE run_tryE run_simps)

text \<open>What the command does once it knows that there is no cached credential, or has one.\<close>

lemma command_misses:
  assumes "getAuthOptions v = Ok ao" and "\<not> GetBool v ''RUN_E2E_TEST''"
    and "cacheLookup lib ao w = (Ok (None, True, key), w0)"
  shows "authenticateCommand lib cl v w =
     bindE (wrapE (ScikubePkg KeystoneAuthFailed) [] (DoAuth lib ao (GetBool v ''NO_REGION_PREFIX''))) (\<lambda>cred.
     bindE (wrapE (ScikubePkg MarshalCredentials) [] (extE (clMarshalCredential cl cred))) (\<lambda>credBytes.
     thenE (doE (clPrintln cl credBytes))
       (wrapE (ScikubePkg WriteCredentials) [key] (WriteCache lib key cred)))) w0"
  using assms by (simp add: authenticateCommand_def run_bindE run_simps)

lemma command_hits:
  assumes "getAuthOptions v = Ok ao" and "\<not> GetBool v ''RUN_E2E_TEST''"
    and "cacheLookup lib ao w = (Ok (Some ec, True, key), w')" and "clMarshalCredential cl ec = Inr bytes"
  shows "authenticateCommand lib cl v w = (Ok (), clPrintln cl bytes w')"
  using assms by (simp add: authenticateCommand_def run_bindE run_thenE run_wrapE run_extE run_simps)

lemma fresh_login:
  assumes files: "file_laws fs umask lib" "384 AND umask = 0" and quiet: "quiet_laws fs out lib cl"
    and codec: "encoding_laws lib cl"
    and options: "getAuthOptions v = Ok ao" "\<not> GetBool v ''RUN_E2E_TEST''"
    and missed: "cacheLookup lib ao w = (Ok (None, True, key), w0)"
    and run: "authenticateCommand lib cl v w = (Ok (), w1)"
  obtains ec v1 exp tok bytes contents where "DoAuth lib ao (GetBool v ''NO_REGION_PREFIX'') w0 = (Ok ec, v1)"
    "clMarshalCredential cl ec = Inr bytes" "out w1 = out w @ [bytes]"
    "ecStatus ec = Some \<lparr>ecExpirationTimestamp = Some exp, ecToken = tok\<rparr>"
    "lbEncode lib ec = Inr contents" "fs w1 key = Some (384, Some contents)"
proof -
  note lookup = lookup_missed [OF files(1) quiet missed]
  obtain ec v1 where auth: "DoAuth lib ao (GetBool v ''NO_REGION_PREFIX'') w0 = (Ok ec, v1)"
    and rest: "bindE (wrapE (ScikubePkg MarshalCredentials) [] (extE (clMarshalCredential cl ec))) (\<lambda>credBytes.
       thenE (doE (clPrintln cl credBytes))
         (wrapE (ScikubePkg WriteCredentials) [key] (WriteCache lib key ec))) v1 = (Ok (), w1)"
    using run command_misses [OF options missed]
    by (auto simp: run_bindE run_wrapE split: prod.splits outcome.splits)
  have v1: "fs v1 = fs w" "out v1 = out w"
    using wpD [OF auth_result [OF quiet] auth] lookup by simp_all
  obtain bytes where bytes: "clMarshalCredential cl ec = Inr bytes"
    and stored: "WriteCache lib key ec (clPrintln cl bytes v1) = (Ok (), w1)"
    using rest by (auto simp: run_bindE run_thenE run_wrapE run_extE run_simps split: sum.splits prod.splits outcome.splits)
  have printed: "writable (fs (clPrintln cl bytes v1)) key" "out (clPrintln cl bytes v1) = out w @ [bytes]"
    using quiet v1 lookup(4) by (simp_all add: quiet_laws_def)
  obtain contents where "lbEncode lib ec = Inr contents" "fs w1 key = Some (384, Some contents)" "out w1 = out w @ [bytes]"
    using wpD [OF write_cached [OF files(1) quiet key_in_directory [OF codec lookup(1)] printed(1) files(2)] stored]
      printed(2) by auto
  with bytes auth auth_status [OF auth] that show ?thesis by blast
qed

text \<open>C8. When a login finds no credential in the cache, or only an expired one, it prints the one that Keystone
  gives it and caches it, over the expired one if need be; and every login before its expiration prints
  the same, without asking Keystone: whatever the Keystone client would do by then. The process must not
  mask the owner's permissions.\<close>

theorem login_again_from_cache:
  assumes files: "file_laws fs umask lib" "384 AND umask = 0" and quiet: "quiet_laws fs out lib cl"
    and codec: "encoding_laws lib cl"
    and options: "getAuthOptions v = Ok ao" "\<not> GetBool v ''RUN_E2E_TEST''"
    and missed: "cacheLookup lib ao w = (Ok (None, True, key), w0)"
    and run: "authenticateCommand lib cl v w = (Ok (), w1)"
  shows "\<exists>ec v1 exp tok bytes. DoAuth lib ao (GetBool v ''NO_REGION_PREFIX'') w0 = (Ok ec, v1) \<and>
     clMarshalCredential cl ec = Inr bytes \<and> out w1 = out w @ [bytes] \<and>
     ecStatus ec = Some \<lparr>ecExpirationTimestamp = Some exp, ecToken = tok\<rparr> \<and>
     (\<forall>w2 keystone. fs w2 = fs w1 \<longrightarrow> tok \<noteq> [] \<longrightarrow> zero_time \<le> fst (lbClock lib w2) \<longrightarrow>
        fst (lbClock lib w2) < exp div second * second \<longrightarrow>
        (\<exists>w3. authenticateCommand (lib\<lparr>lbAuthenticatedClient := keystone\<rparr>) cl v w2 = (Ok (), w3) \<and>
           out w3 = out w2 @ [bytes]))"
proof -
  obtain ec v1 exp tok bytes contents where ec: "DoAuth lib ao (GetBool v ''NO_REGION_PREFIX'') w0 = (Ok ec, v1)"
    "clMarshalCredential cl ec = Inr bytes" "out w1 = out w @ [bytes]"
    "ecStatus ec = Some \<lparr>ecExpirationTimestamp = Some exp, ecToken = tok\<rparr>"
    and stored: "lbEncode lib ec = Inr contents" "fs w1 key = Some (384, Some contents)"
    using files quiet codec options missed run by (rule fresh_login)
  note key = lookup_missed(1) [OF files(1) quiet missed]
  have decoded: "lbDecode lib contents = Inr (inSeconds ec)" and bytes: "clMarshalCredential cl (inSeconds ec) = Inr bytes"
    using codec stored(1) ec(2) unfolding encoding_laws_def by simp_all
  have "\<exists>w3. authenticateCommand (lib\<lparr>lbAuthenticatedClient := keystone\<rparr>) cl v w2 = (Ok (), w3) \<and>
      out w3 = out w2 @ [bytes]"
    if same: "fs w2 = fs w1" "tok \<noteq> []" "zero_time \<le> fst (lbClock lib w2)"
      "fst (lbClock lib w2) < exp div second * second" for w2 keystone
  proof -
    let ?lib = "lib\<lparr>lbAuthenticatedClient := keystone\<rparr>"
    have lib: "file_laws fs umask ?lib" "CacheKey ?lib FileStorage ao = Ok key" "fs w2 key = Some (384, Some contents)"
      "lbDecode ?lib contents = Inr (inSeconds ec)"
      using files(1) key stored(2) same(1) decoded
      by (simp_all add: file_laws_def CacheKey_def computeChecksum_def cacheDir_def)
    have "usable (inSeconds ec) (fst (lbClock ?lib w2))"
      using same ec(4) by (auto simp: usable_def inSeconds_def time_after_def)
    with lib have "ReadCache ?lib key w2 = (Ok (inSeconds ec), snd (lbClock ?lib w2))"
      by (intro read_cached)
    from command_hits [OF options lookup_run(2) [OF lib(2) this] bytes]
    show ?thesis using quiet by (simp add: quiet_laws_def)
  qed
  with ec show ?thesis by blast
qed

subsection \<open>Witness\<close>

definition sampleSettings :: Settings where
  "sampleSettings = \<lparr>GetString = (\<lambda>_. ''x''), GetBool = (\<lambda>_. False), GetDuration = (\<lambda>_. 0)\<rparr>"

definition sampleExecCredential :: ExecCredential where
  "sampleExecCredential = \<lparr>ecKind = ''ExecCredential'', ecAPIVersion = ''client.authentication.k8s.io/v1'', ecInteractive = False,
     ecStatus = Some \<lparr>ecExpirationTimestamp = Some (9 * second), ecToken = ''token''\<rparr>\<rparr>"

definition expiredCredential :: ExecCredential where
  "expiredCredential = sampleExecCredential\<lparr>ecStatus := Some \<lparr>ecExpirationTimestamp = Some 0, ecToken = ''old''\<rparr>\<rparr>"

definition simAuthLib :: "ServiceClient \<Rightarrow> ProviderClient \<Rightarrow> (files \<times> string list) AuthLib" where
  "simAuthLib service provider = \<lparr>lbAuthenticatedClient = (\<lambda>_ w. (Inr provider, w)),
     lbNewIdentityV3 = (\<lambda>_. Inr service),
     lbCreateToken = (\<lambda>_ _ w. (\<lparr>ExtractToken = Inr (''token'', 9 * second), ExtractServiceCatalog = Inr []\<rparr>, w)),
     lbStat = (\<lambda>p w. (Inr (map_option (\<lambda>(perm, c). (perm, c = None)) (fst w p)), w)),
     lbReadFile = (\<lambda>p w. (case fst w p of Some (perm, Some c) \<Rightarrow> Inr c | _ \<Rightarrow> Inl (OtherError []), w)),
     lbWriteFile = (\<lambda>p c m w. (Inr (), (fst w)(p \<mapsto> (case fst w p of Some (perm, _) \<Rightarrow> perm | None \<Rightarrow> masked 18 m, Some c)), snd w)),
     lbMkdirAll = (\<lambda>p m w. (Inr (), w)),
     lbEncode = (\<lambda>ec. if ec = sampleExecCredential then Inr ''sample'' else Inl (OtherError [])),
     lbDecode = (\<lambda>s. if s = ''expired'' then Inr expiredCredential else Inr sampleExecCredential), lbClock = (\<lambda>w. (second, w)), lbCacheHome = ''/home'',
     lbChecksum = (\<lambda>_. Inr ''5eed'')\<rparr>"

definition simCommandLib :: "(files \<times> string list) CommandLib" where
  "simCommandLib = \<lparr>clMarshalCredential = (\<lambda>ec. case ecStatus ec of None \<Rightarrow> Inl (OtherError []) | Some st \<Rightarrow> Inr (ecToken st)),
     clMarshalKubeconfig = (\<lambda>_. Inl (OtherError [])), clPrintln = (\<lambda>s w. (fst w, snd w @ [s])),
     clLookPath = (\<lambda>_ w. (True, w)), clFakeClient = (\<lambda>_ w. (Inl (OtherError []), w))\<rparr>"

lemma sample_in_seconds: "inSeconds sampleExecCredential = sampleExecCredential"
  by (simp add: inSeconds_def sampleExecCredential_def second_def)

lemma sim_auth_laws: "file_laws fst 18 (simAuthLib s p)" "384 AND 18 = (0 :: nat)" "quiet_laws fst snd (simAuthLib s p) simCommandLib"
  by (auto simp: file_laws_def quiet_laws_def simAuthLib_def simCommandLib_def split: option.splits)

lemma marshal_in_seconds: "clMarshalCredential simCommandLib (inSeconds ec) = clMarshalCredential simCommandLib ec"
  by (cases "ecStatus ec") (simp_all add: simCommandLib_def inSeconds_def)

lemma sim_encoding_laws: "encoding_laws (simAuthLib s p) simCommandLib"
  using sample_in_seconds by (auto simp: encoding_laws_def marshal_in_seconds simAuthLib_def split: if_splits)

lemma sample_options: "\<exists>ao. getAuthOptions sampleSettings = Ok ao"
  by (simp add: getAuthOptions_def sampleSettings_def Let_def)

lemma sample_key: "CacheKey (simAuthLib s p) FileStorage ao = Ok ''/home/scikube/5eed''"
  by (simp add: CacheKey_def computeChecksum_def cacheDir_def Join_def Clean_def fromParts_def cleanParts_def cleanStep_def isRooted_def dots_def cacheRelDir_def simAuthLib_def)

lemma sample_auth: "DoAuth (simAuthLib s p) ao plain w = (Ok sampleExecCredential, w)"
  by (simp add: DoAuth_def Let_def io_simps simAuthLib_def bearerToken_def sampleExecCredential_def)

lemma sample_written: "fst (WriteCache (simAuthLib s p) key sampleExecCredential w) = Ok ()"
  by (cases "fst w (Dir key)")
    (auto simp: WriteCache_def dirExists_def Let_def io_simps simAuthLib_def split: prod.splits option.splits)

lemma sample_marshal: "clMarshalCredential simCommandLib sampleExecCredential = Inr ''token''"
  by (simp add: simCommandLib_def sampleExecCredential_def)

lemma sample_status:
  "ecStatus sampleExecCredential = Some \<lparr>ecExpirationTimestamp = Some (9 * second), ecToken = ''token''\<rparr>"
  by (simp add: sampleExecCredential_def)

text \<open>A cache with an expired credential.\<close>

definition expiredFiles :: files where
  "expiredFiles = [''/home/scikube/5eed'' \<mapsto> (384, Some ''expired'')]"

lemma sample_lookup:
  "cacheLookup (simAuthLib s p) ao (expiredFiles, []) = (Ok (None, True, ''/home/scikube/5eed''), (expiredFiles, []))"
proof -
  have "ReadCache (simAuthLib s p) ''/home/scikube/5eed'' (expiredFiles, []) =
      (Err (Errorf (AuthPkg CacheExpired) [''/home/scikube/5eed'']), (expiredFiles, []))"
    by (simp add: ReadCache_def FileExists_def io_simps simAuthLib_def expiredFiles_def expiredCredential_def
        zero_time_def second_def time_after_def)
  then show ?thesis
    by (simp add: cacheLookup_def NewExecCredentialReadWriter_def sample_key run_bindE run_tryE run_simps)
qed

lemma sample_login:
  assumes "getAuthOptions sampleSettings = Ok ao"
  shows "fst (authenticateCommand (simAuthLib s p) simCommandLib sampleSettings (expiredFiles, [])) = Ok ()"
proof -
  note misses = command_misses [OF assms _ sample_lookup]
  have online: "\<not> GetBool sampleSettings ''RUN_E2E_TEST''" by (simp add: sampleSettings_def)
  show ?thesis
    using sample_written [of s p "''/home/scikube/5eed''"] unfolding misses [OF online]
    by (simp add: sample_auth sample_marshal run_bindE run_thenE run_wrapE run_extE run_simps prod_eq_iff
        split: prod.split outcome.splits)
qed

definition sampleProvider :: ProviderClient where
  "sampleProvider = \<lparr>pcIdentityBase = [], pcTokenID = [], pcIdentityEndpoint = ''x'', pcSession = ''session''\<rparr>"

text \<open>The expired credential is replaced; the second login succeeds with a Keystone that has gone.\<close>

theorem login_again_from_cache_witness:
  "\<exists>w1 w3. snd w1 = [''token''] \<and> snd w3 = [''token'', ''token''] \<and>
     authenticateCommand (simAuthLib \<lparr>scProvider = sampleProvider, scService = ''identity''\<rparr> sampleProvider) simCommandLib sampleSettings
       (expiredFiles, []) = (Ok (), w1) \<and>
     authenticateCommand (simAuthLib \<lparr>scProvider = sampleProvider, scService = ''identity''\<rparr> sampleProvider
         \<lparr>lbAuthenticatedClient := \<lambda>_ w. (Inl (OtherError ''no route to host''), w)\<rparr>)
       simCommandLib sampleSettings w1 = (Ok (), w3)"
proof -
  let ?lib = "simAuthLib \<lparr>scProvider = sampleProvider, scService = ''identity''\<rparr> sampleProvider"
  obtain ao where ao: "getAuthOptions sampleSettings = Ok ao" using sample_options ..
  have online: "\<not> GetBool sampleSettings ''RUN_E2E_TEST''" by (simp add: sampleSettings_def)
  obtain f o' where run: "authenticateCommand ?lib simCommandLib sampleSettings (expiredFiles, []) = (Ok (), f, o')"
    using sample_login [OF ao] by (metis prod.collapse)
  have clock: "fst (lbClock ?lib w) = second" for w by (simp add: simAuthLib_def)
  from login_again_from_cache [OF sim_auth_laws sim_encoding_laws ao online sample_lookup run]
  have printed: "o' = [''token'']"
    and again: "\<forall>b keystone. \<exists>a. authenticateCommand (?lib\<lparr>lbAuthenticatedClient := keystone\<rparr>) simCommandLib
      sampleSettings (f, b) = (Ok (), a, b @ [''token''])"
    by (auto simp: sample_auth clock sample_marshal zero_time_def second_def sample_status)
  show ?thesis using run printed again [rule_format, of _ o'] by fastforce
qed

end
