(* ===== verification/Options.thy ===== *)
theory Options
  imports Errors Go_Time
begin

section \<open>Command line options\<close>

text \<open>
  The \<open>options\<close> packages of the operator, the webhook and the audit webhook: the flags with their defaults,
  validation, and the completion of the leader election settings. What package flag has read from the
  command line is a map from the names of the flags that were given to their values; the flags of zap
  concern the logger and are not modelled.
\<close>

subsection \<open>Flags\<close>

datatype flag_value = StringFlag string | BoolFlag bool | DurationFlag duration | IntFlag int

type_synonym flags = "string \<rightharpoonup> flag_value"

text \<open>Package flag refuses values of another kind, so the last cases do not occur.\<close>

definition StringVar :: "flags \<Rightarrow> string \<Rightarrow> string \<Rightarrow> string" where
  "StringVar given name preset = (case given name of Some (StringFlag s) \<Rightarrow> s | _ \<Rightarrow> preset)"

definition BoolVar :: "flags \<Rightarrow> string \<Rightarrow> bool \<Rightarrow> bool" where
  "BoolVar given name preset = (case given name of Some (BoolFlag b) \<Rightarrow> b | _ \<Rightarrow> preset)"

definition DurationVar :: "flags \<Rightarrow> string \<Rightarrow> duration \<Rightarrow> duration" where
  "DurationVar given name preset = (case given name of Some (DurationFlag d) \<Rightarrow> d | _ \<Rightarrow> preset)"

definition IntVar :: "flags \<Rightarrow> string \<Rightarrow> int \<Rightarrow> int" where
  "IntVar given name preset = (case given name of Some (IntFlag n) \<Rightarrow> n | _ \<Rightarrow> preset)"

subsection \<open>The operator\<close>

record LeaderElection =
  LeaderElect :: "bool option"
  LeaseDuration :: duration
  RenewDeadline :: duration
  RetryPeriod :: duration
  ResourceLock :: string
  ResourceName :: string
  ResourceNamespace :: string

record ControllerOptions =
  ocProject :: int \<comment> \<open>\<open>MaxConcurrentReconciles\<close> of each controller\<close>
  ocInternalSecret :: int
  ocShoot :: int

record OperatorOptions =
  opConfigFile :: string
  opKubeConfigContext :: string
  opLeaderElection :: LeaderElection
  opHealthAddr :: string
  opMetricsAddr :: string
  opControllers :: ControllerOptions
  opLeaderElect :: bool \<comment> \<open>the flag's variable\<close>

text \<open>\<open>env\<close> looks up environment variables; an unset one is empty.\<close>

definition operatorFlags :: "(string \<Rightarrow> string) \<Rightarrow> flags \<Rightarrow> OperatorOptions" where
  "operatorFlags env given =
     \<lparr>opConfigFile = StringVar given ''config'' [],
      opKubeConfigContext = StringVar given ''kube-context'' (env ''KUBECONTEXT''),
      opLeaderElection =
        \<lparr>LeaderElect = None,
         LeaseDuration = DurationVar given ''leader-lease-duration'' (15 * second),
         RenewDeadline = DurationVar given ''leader-renew-deadline'' (10 * second),
         RetryPeriod = DurationVar given ''leader-retry-duration'' (2 * second),
         ResourceLock = [], ResourceName = [], ResourceNamespace = []\<rparr>,
      opHealthAddr = StringVar given ''health-probe-bind-address'' '':8081'',
      opMetricsAddr = StringVar given ''metrics-bind-address'' ''0'',
      opControllers =
        \<lparr>ocProject = IntVar given ''project-controller-max-concurrent-reconciles'' 20,
         ocInternalSecret = IntVar given ''internalsecret-controller-max-concurrent-reconciles'' 20,
         ocShoot = IntVar given ''shoot-controller-max-concurrent-reconciles'' 20\<rparr>,
      opLeaderElect = BoolVar given ''leader-elect'' True\<rparr>"

definition CompleteOperator :: "(string \<Rightarrow> string) \<Rightarrow> OperatorOptions \<Rightarrow> OperatorOptions" where
  "CompleteOperator env opts =
     (let le = (opLeaderElection opts)\<lparr>LeaderElect := Some (opLeaderElect opts)\<rparr>
      in opts\<lparr>opLeaderElection :=
           (if LeaderElect le = Some True then
              le\<lparr>ResourceLock := (if ResourceLock le = [] then ''leases'' else ResourceLock le),
                 ResourceName := (if ResourceName le = [] then ''persephone-operator-leader-election''
                                  else ResourceName le),
                 ResourceNamespace := (if ResourceNamespace le = [] then env ''NAMESPACE''
                                       else ResourceNamespace le)\<rparr>
            else le)\<rparr>)"

definition ValidateOperator :: "OperatorOptions \<Rightarrow> unit res" where
  "ValidateOperator opts =
     (if opConfigFile opts = [] then Err (Errorf (OptionsPkg ConfigFlagMissing) []) else Ok ())"

subsection \<open>The webhook\<close>

record WebhookOptions =
  woConfigFile :: string
  woCreateGardenerResources :: bool
  woLeaderElect :: bool
  woHealthAddr :: string
  woMetricsAddr :: string

definition webhookFlags :: "flags \<Rightarrow> WebhookOptions" where
  "webhookFlags given =
     \<lparr>woConfigFile = StringVar given ''config'' [],
      woCreateGardenerResources = BoolVar given ''gardener-create-resources'' True,
      woLeaderElect = BoolVar given ''leader-elect'' False,
      woHealthAddr = StringVar given ''health-probe-bind-address'' '':8081'',
      woMetricsAddr = StringVar given ''metrics-bind-address'' ''0''\<rparr>"

definition ValidateWebhook :: "WebhookOptions \<Rightarrow> unit res" where
  "ValidateWebhook opts =
     (if woConfigFile opts = [] then Err (Errorf (OptionsPkg ConfigFlagMissing) []) else Ok ())"

subsection \<open>The audit webhook\<close>

record AuditWebhookOptions =
  awConfigFile :: string
  awLeaderElect :: bool
  awCertDir :: string
  awCertSecretName :: string
  awHealthAddr :: string
  awMetricsAddr :: string
  awQueueName :: string
  awObserverName :: string
  awObserverTypeURI :: string

definition auditWebhookFlags :: "flags \<Rightarrow> AuditWebhookOptions" where
  "auditWebhookFlags given =
     \<lparr>awConfigFile = StringVar given ''config'' [],
      awLeaderElect = BoolVar given ''leader-elect'' True,
      awCertDir = StringVar given ''cert-dir'' ''/tmp/persephone-audit-webhook-cert'',
      awCertSecretName = StringVar given ''cert-secret-name'' ''persephone-audit-webhook-tls'',
      awHealthAddr = StringVar given ''health-probe-bind-address'' '':8081'',
      awMetricsAddr = StringVar given ''metrics-bind-address'' ''0'',
      awQueueName = StringVar given ''audit-queue-name'' ''notifications.info'',
      awObserverName = StringVar given ''audit-observer-name'' ''persephone'',
      awObserverTypeURI = StringVar given ''audit-observer-type-uri'' ''service/kubernetes''\<rparr>"

definition ValidateAuditWebhook :: "AuditWebhookOptions \<Rightarrow> unit res" where
  "ValidateAuditWebhook opts =
     (if awConfigFile opts = [] then Err (Errorf (OptionsPkg ConfigFlagMissing) [])
      else if awCertSecretName opts = [] then Err (Errorf (OptionsPkg CertSecretNameMissing) [])
      else Ok ())"

end
