(* ===== verification/Audit_Cert.thy ===== *)
theory Audit_Cert
  imports Internal_Secret Go_Path
begin

section \<open>The certificates of the audit webhook\<close>

text \<open>
  \<open>internal/controller/auditcert\<close>: one controller keeps a secret with a CA, a server and a client
  certificate and rotates them after half their life; another copies the secret to the disk of each
  replica. Generating and parsing certificates, the secret's API and the file system are fields of
  the record \<open>CertLib\<close>. The reloader's state is the resource version it last wrote.
\<close>

subsection \<open>Data\<close>

type_synonym secret_data = "string \<rightharpoonup> string"

record TLSSecret =
  tsName :: string
  tsNamespace :: string
  tsLabels :: labels
  tsType :: string
  tsData :: secret_data
  tsResourceVersion :: string

datatype cert_type = CACert | ServerCert | ClientCert

record Certificate =
  CertificatePEM :: string
  PrivateKeyPEM :: string

record CertConfig =
  cfName :: string
  cfCommonName :: string
  cfDNSNames :: "string list"
  cfCertType :: cert_type
  cfSigningCA :: "Certificate option"
  cfValidity :: duration

record 'w CertLib =
  getTLSSecret :: "string \<times> string \<Rightarrow> ('w, TLSSecret) ext_call"
  createTLSSecret :: "TLSSecret \<Rightarrow> ('w, unit) ext_call"
  patchTLSSecret :: "TLSSecret \<Rightarrow> secret_data \<Rightarrow> ('w, unit) ext_call"
  generateCertificate :: "CertConfig \<Rightarrow> ('w, Certificate) ext_call"
  loadCertificate :: "string \<Rightarrow> string \<Rightarrow> ext_error + time \<times> time" \<comment> \<open>key and certificate; NotBefore, NotAfter\<close>
  pemDecode :: "string \<Rightarrow> string option" \<comment> \<open>the first block\<close>
  pemEncode :: "string \<Rightarrow> string"
  mkdirAll :: "string \<Rightarrow> nat \<Rightarrow> ('w, unit) ext_call"
  writeFile :: "string \<Rightarrow> string \<Rightarrow> nat \<Rightarrow> ('w, unit) ext_call"
  certClock :: "'w \<Rightarrow> time \<times> 'w"

record certReconciler =
  secretName :: string
  namespace :: string
  serviceName :: string
  certValidity :: duration
  syncPeriod :: duration

abbreviation cert_wrap :: "cert_site \<Rightarrow> string list \<Rightarrow> ('w, 'a) io \<Rightarrow> ('w, 'a) io" where
  "cert_wrap s \<equiv> wrapE (CertPkg s)"

definition DataKeyCertificateCA :: string where "DataKeyCertificateCA = ''ca.crt''"
definition DataKeyPrivateKeyCA :: string where "DataKeyPrivateKeyCA = ''ca.key''"
definition DataKeyCertificate :: string where "DataKeyCertificate = ''tls.crt''"
definition DataKeyPrivateKey :: string where "DataKeyPrivateKey = ''tls.key''"

lemmas data_key_defs = DataKeyCertificateCA_def DataKeyPrivateKeyCA_def DataKeyCertificate_def
  DataKeyPrivateKey_def

subsection \<open>The reconciler\<close>

text \<open>\<open>secret.Data[key]\<close>: an absent entry is empty.\<close>

definition dataOf :: "secret_data \<Rightarrow> string \<Rightarrow> string" where
  "dataOf d key = (case d key of None \<Rightarrow> [] | Some v \<Rightarrow> v)"

definition needsRotation :: "'w CertLib \<Rightarrow> TLSSecret \<Rightarrow> ('w, bool) io" where
  "needsRotation lib secret =
     (let caCertPEM = dataOf (tsData secret) DataKeyCertificateCA in
      if length caCertPEM = 0 then returnE True
      else case loadCertificate lib (dataOf (tsData secret) DataKeyPrivateKeyCA) caCertPEM of
        Inl _ \<Rightarrow> returnE True
      | Inr (notBefore, notAfter) \<Rightarrow>
          (let halfLife = trunc_div (time_sub notAfter notBefore) 2;
               rotationTime = time_add notBefore halfLife
           in bindE (readE (certClock lib)) (\<lambda>now. returnE (time_after now rotationTime))))"

definition generateCertificates :: "'w CertLib \<Rightarrow> certReconciler \<Rightarrow> ('w, secret_data) io" where
  "generateCertificates lib r =
     (let validity = certValidity r in
      bindE (cert_wrap GenerateCA [] (callE (generateCertificate lib
        \<lparr>cfName = ''audit-webhook-ca'', cfCommonName = ''persephone-audit-webhook-ca'', cfDNSNames = [],
         cfCertType = CACert, cfSigningCA = None, cfValidity = validity\<rparr>))) (\<lambda>ca.
      let serverDNSNames = [serviceName r @ ''.'' @ namespace r @ ''.svc'',
            serviceName r @ ''.'' @ namespace r @ ''.svc.cluster.local'', serviceName r] in
      bindE (cert_wrap GenerateServer [] (callE (generateCertificate lib
        \<lparr>cfName = ''audit-webhook-server'', cfCommonName = serviceName r, cfDNSNames = serverDNSNames,
         cfCertType = ServerCert, cfSigningCA = Some ca, cfValidity = validity\<rparr>))) (\<lambda>server.
      bindE (cert_wrap GenerateClient [] (callE (generateCertificate lib
        \<lparr>cfName = ''audit-webhook-client'', cfCommonName = ''audit-forwarder'', cfDNSNames = [],
         cfCertType = ClientCert, cfSigningCA = Some ca, cfValidity = validity\<rparr>))) (\<lambda>clientCert.
        returnE [DataKeyCertificateCA \<mapsto> CertificatePEM ca, DataKeyPrivateKeyCA \<mapsto> PrivateKeyPEM ca,
          DataKeyCertificate \<mapsto> CertificatePEM server, DataKeyPrivateKey \<mapsto> PrivateKeyPEM server,
          ''client.crt'' \<mapsto> CertificatePEM clientCert, ''client.key'' \<mapsto> PrivateKeyPEM clientCert]))))"

definition generateAndCreateSecret :: "'w CertLib \<Rightarrow> certReconciler \<Rightarrow> ('w, unit) io" where
  "generateAndCreateSecret lib r =
     bindE (cert_wrap GenerateCerts [] (generateCertificates lib r)) (\<lambda>data.
       callE (createTLSSecret lib
         \<lparr>tsName = secretName r, tsNamespace = namespace r,
          tsLabels = [''app'' \<mapsto> ''persephone'', ''role'' \<mapsto> ''audit-webhook-tls''],
          tsType = ''Opaque'', tsData = data, tsResourceVersion = []\<rparr>))"

text \<open>An empty result stands for nil.\<close>

definition firstPEMBlock :: "'w CertLib \<Rightarrow> string \<Rightarrow> string" where
  "firstPEMBlock lib data = (case pemDecode lib data of None \<Rightarrow> [] | Some block \<Rightarrow> pemEncode lib block)"

definition generateAndUpdateSecret :: "'w CertLib \<Rightarrow> certReconciler \<Rightarrow> TLSSecret \<Rightarrow> ('w, unit) io" where
  "generateAndUpdateSecret lib r secret =
     (let oldCACertPEM = firstPEMBlock lib (dataOf (tsData secret) DataKeyCertificateCA) in
      bindE (cert_wrap GenerateCerts [] (generateCertificates lib r)) (\<lambda>data.
        let data = (if length oldCACertPEM > 0
                    then data(DataKeyCertificateCA \<mapsto> dataOf data DataKeyCertificateCA @ oldCACertPEM)
                    else data)
        in callE (patchTLSSecret lib secret data)))"

definition ReconcileCertificates :: "'w CertLib \<Rightarrow> certReconciler \<Rightarrow> ('w, Result) io" where
  "ReconcileCertificates lib r =
     bindE (tryE (callE (getTLSSecret lib (namespace r, secretName r)))) (\<lambda>got.
       case got of
         Inl err \<Rightarrow>
           if \<not> is_not_found err then failE (Wrapf (CertPkg GetCertSecret) [] err)
           else thenE (generateAndCreateSecret lib r) (returnE \<lparr>RequeueAfter = syncPeriod r\<rparr>)
       | Inr secret \<Rightarrow>
           bindE (needsRotation lib secret) (\<lambda>rotate.
             if rotate
             then thenE (generateAndUpdateSecret lib r secret) (returnE \<lparr>RequeueAfter = syncPeriod r\<rparr>)
             else returnE \<lparr>RequeueAfter = syncPeriod r\<rparr>))"

subsection \<open>The reloader\<close>

record reloader =
  rlSecretName :: string
  rlNamespace :: string
  rlReloadPeriod :: duration
  rlCertDir :: string

definition certFile :: "string \<Rightarrow> string \<Rightarrow> string" where
  "certFile = Join"

definition writeCertificate :: "'w CertLib \<Rightarrow> string \<Rightarrow> secret_data \<Rightarrow> string \<Rightarrow> ('w, unit) io" where
  "writeCertificate lib certDir data name =
     (let content = dataOf data name in
      if length content = 0 then failE (Errorf (CertPkg CertDataEmpty) [name])
      else cert_wrap CertWriteFailed [name] (callE (writeFile lib (certFile certDir name) content 384 \<comment> \<open>0600\<close>)))"

definition certificateOrder :: "string list" where
  "certificateOrder = [DataKeyCertificateCA, DataKeyCertificate, DataKeyPrivateKey]"

definition writeCertificatesToDisk :: "'w CertLib \<Rightarrow> string \<Rightarrow> secret_data \<Rightarrow> ('w, unit) io" where
  "writeCertificatesToDisk lib certDir data =
     thenE (cert_wrap CertDirFailed [] (callE (mkdirAll lib certDir 448 \<comment> \<open>0700\<close>)))
       (forE certificateOrder (writeCertificate lib certDir data))"

text \<open>The value is the result and the resource version last written; after an error it is the old one.\<close>

definition ReconcileReloader :: "'w CertLib \<Rightarrow> reloader \<Rightarrow> string \<Rightarrow> ('w, Result \<times> string) io" where
  "ReconcileReloader lib r lastResourceVersion =
     bindE (cert_wrap GetCertSecret [] (callE (getTLSSecret lib (rlNamespace r, rlSecretName r)))) (\<lambda>secret.
       if tsResourceVersion secret = lastResourceVersion
       then returnE (\<lparr>RequeueAfter = rlReloadPeriod r\<rparr>, lastResourceVersion)
       else thenE (writeCertificatesToDisk lib (rlCertDir r) (tsData secret))
              (returnE (\<lparr>RequeueAfter = rlReloadPeriod r\<rparr>, tsResourceVersion secret)))"

definition loadAndWriteCerts :: "'w CertLib \<Rightarrow> reloader \<Rightarrow> ('w, string) io" where
  "loadAndWriteCerts lib r =
     bindE (callE (getTLSSecret lib (rlNamespace r, rlSecretName r))) (\<lambda>secret.
       thenE (writeCertificatesToDisk lib (rlCertDir r) (tsData secret)) (returnE (tsResourceVersion secret)))"

subsection \<open>Starting up\<close>

record CertOptions =
  SecretName :: string
  Namespace :: string
  ServiceName :: string
  CertDir :: string
  CertValidity :: duration
  SyncPeriod :: duration
  ReloadPeriod :: duration

definition DefaultOptions :: CertOptions where
  "DefaultOptions = \<lparr>SecretName = ''persephone-audit-webhook-tls'', Namespace = ''garden'',
     ServiceName = ''persephone-audit-webhook'', CertDir = [], CertValidity = 30 * 24 * hour,
     SyncPeriod = 5 * minute, ReloadPeriod = 30 * second\<rparr>"

text \<open>
  What the code asks of the manager: a client without a cache, controllers, watches and runnables. The
  directory of its webhook server is None when the server is not a \<open>webhook.DefaultServer\<close>.
\<close>

record 'w CertManager =
  newUncachedClient :: "('w, unit) ext_call"
  newController :: "string \<Rightarrow> ('w, unit) ext_call"
  watchOnce :: "string \<Rightarrow> ('w, unit) ext_call"
  newUnmanaged :: "string \<Rightarrow> ('w, unit) ext_call"
  addNonLeaderElected :: "string \<Rightarrow> ('w, unit) ext_call"
  webhookServerDir :: "string option"

definition certReconcilerOf :: "CertOptions \<Rightarrow> certReconciler" where
  "certReconcilerOf opts = \<lparr>secretName = SecretName opts, namespace = Namespace opts,
     serviceName = ServiceName opts, certValidity = CertValidity opts, syncPeriod = SyncPeriod opts\<rparr>"

definition reloaderOf :: "CertOptions \<Rightarrow> reloader" where
  "reloaderOf opts = \<lparr>rlSecretName = SecretName opts, rlNamespace = Namespace opts,
     rlReloadPeriod = ReloadPeriod opts, rlCertDir = CertDir opts\<rparr>"

text \<open>
  The secret is created before the manager starts, if there is none yet. \<open>api\<close> is the library with the
  reader and the client that have no cache.
\<close>

definition ensureInitialSecret :: "'w CertLib \<Rightarrow> 'w CertManager \<Rightarrow> CertOptions \<Rightarrow> ('w, unit) io" where
  "ensureInitialSecret api mgr opts =
     bindE (tryE (callE (getTLSSecret api (Namespace opts, SecretName opts)))) (\<lambda>got.
       case got of
         Inr _ \<Rightarrow> returnE ()
       | Inl err \<Rightarrow>
           if \<not> is_not_found err then failE (Wrapf (CertPkg CheckCertSecret) [] err)
           else thenE (cert_wrap UncachedClient [] (callE (newUncachedClient mgr)))
                  (cert_wrap InitialCerts []
                     (generateAndCreateSecret api ((certReconcilerOf opts)\<lparr>syncPeriod := 0\<rparr>))))"

definition reloaderName :: string where
  "reloaderName = ''audit-webhook-certificate-reloader''"

text \<open>The value is the reloader with its directory and the resource version that it has loaded.\<close>

definition addReloader :: "'w CertLib \<Rightarrow> 'w CertManager \<Rightarrow> reloader \<Rightarrow> ('w, reloader \<times> string) io" where
  "addReloader api mgr r =
     bindE (if rlCertDir r = []
            then (case webhookServerDir mgr of
                    None \<Rightarrow> failE (Errorf (CertPkg WebhookServerUnknown) [])
                  | Some dir \<Rightarrow> returnE (r\<lparr>rlCertDir := dir\<rparr>))
            else returnE r) (\<lambda>r.
     bindE (cert_wrap InitialLoad [] (loadAndWriteCerts api r)) (\<lambda>version.
     thenE (callE (newUnmanaged mgr reloaderName))
     (thenE (callE (watchOnce mgr reloaderName))
     (thenE (callE (addNonLeaderElected mgr reloaderName)) (returnE (r, version))))))"

definition certControllerName :: string where
  "certControllerName = ''audit-webhook-certificate''"

definition addCertificates ::
    "'w CertLib \<Rightarrow> 'w CertManager \<Rightarrow> CertOptions \<Rightarrow> ('w, reloader \<times> string) io" where
  "addCertificates api mgr opts =
     thenE (ensureInitialSecret api mgr opts)
     (thenE (cert_wrap CertControllerFailed [] (callE (newController mgr certControllerName)))
     (thenE (cert_wrap CertWatchFailed [] (callE (watchOnce mgr certControllerName)))
       (cert_wrap CertReloaderFailed [] (addReloader api mgr (reloaderOf opts)))))"

end
