(* ===== verification/Entry_Points.thy ===== *)
theory Entry_Points
  imports Options Liquid_Server Webhook_Config Audit_Handler Audit_Cert Internal_Secret
begin

section \<open>The programs\<close>

text \<open>
  The functions \<open>run\<close> of the four servers under \<open>cmd\<close> and the registration of the controllers: from the
  options to the start of the manager. The manager of controller-runtime is a library: what the code
  asks of it are operations of the record \<open>StartLib\<close>, in the order in which the code asks. The end of
  \<open>Start\<close> is the end of the program. The loggers, the schemes and the graceful shutdown are not
  modelled.
\<close>

subsection \<open>The manager\<close>

record ManagerOptions =
  HealthProbeBindAddress :: string
  MetricsBindAddress :: string
  moLeaderElection :: bool
  LeaderElectionResourceLock :: string
  LeaderElectionID :: string
  LeaderElectionNamespace :: string
  LeaderElectionReleaseOnCancel :: bool
  moLeaseDuration :: "duration option"
  moRenewDeadline :: "duration option"
  moRetryPeriod :: "duration option"
  DefaultNamespaces :: "string list" \<comment> \<open>of the cache; none stands for all\<close>
  ByObject :: "string list" \<comment> \<open>kinds with settings of their own in the cache\<close>
  WebhookCertDir :: string

definition noManagerOptions :: ManagerOptions where
  "noManagerOptions = \<lparr>HealthProbeBindAddress = [], MetricsBindAddress = [], moLeaderElection = False,
     LeaderElectionResourceLock = [], LeaderElectionID = [], LeaderElectionNamespace = [],
     LeaderElectionReleaseOnCancel = False, moLeaseDuration = None, moRenewDeadline = None,
     moRetryPeriod = None, DefaultNamespaces = [], ByObject = [], WebhookCertDir = []\<rparr>"

text \<open>The controllers with what they are given, and the webhooks that are registered at a path.\<close>

datatype controller =
    ProjectController PersephoneConfig
  | InternalSecretController RegionOpenStackClientSet string
  | ShootController RegionOpenStackClientSet string

text \<open>
  \<open>GetConfigOrDie\<close> ends the process when there is no configuration of the cluster, as an error of \<open>run\<close>
  does; here both are errors.
\<close>

record 'w StartLib =
  readConfigFile :: "'w \<Rightarrow> string \<Rightarrow> ext_error + string"
  unmarshalConfig :: "string \<Rightarrow> ext_error + PersephoneConfig"
  urlScheme :: "string \<Rightarrow> ext_error + string"
  environment :: "string \<Rightarrow> string"
  getConfigWithContext :: "string \<Rightarrow> ('w, unit) ext_call"
  getConfigOrDie :: "('w, unit) ext_call"
  newManager :: "ManagerOptions \<Rightarrow> ('w, unit) ext_call"
  addHealthzCheck :: "string \<Rightarrow> ('w, unit) ext_call"
  addReadyzCheck :: "string \<Rightarrow> ('w, unit) ext_call"
  completeController :: "controller \<Rightarrow> int \<Rightarrow> ('w, unit) ext_call"
  addCertificateManagement :: "string \<times> MutatingWebhook list \<Rightarrow> ('w, unit) ext_call"
  registerWebhook :: "string \<Rightarrow> 'w \<Rightarrow> 'w"
  startManager :: "('w, unit) ext_call"

abbreviation start_wrap :: "startup_site \<Rightarrow> string list \<Rightarrow> ('w, 'a) io \<Rightarrow> ('w, 'a) io" where
  "start_wrap s \<equiv> wrapE (StartupPkg s)"

text \<open>The part that three of the programs begin with.\<close>

definition loadValidConfig :: "'w StartLib \<Rightarrow> string \<Rightarrow> ('w, PersephoneConfig) io" where
  "loadValidConfig lib path =
     bindE (start_wrap ConfigLoadFailed []
              (\<lambda>w. (LoadConfig (readConfigFile lib) (unmarshalConfig lib) path w, w))) (\<lambda>persephoneConfig.
       thenE (start_wrap ConfigInvalid [] (liftE (ValidateConfig (urlScheme lib) persephoneConfig)))
         (returnE persephoneConfig))"

subsection \<open>The operator\<close>

definition addController :: "'w StartLib \<Rightarrow> string \<Rightarrow> controller \<Rightarrow> int \<Rightarrow> ('w, unit) io" where
  "addController lib name c maxConcurrentReconciles =
     start_wrap ControllerFailed [name] (callE (completeController lib c maxConcurrentReconciles))"

definition addControllers ::
    "'w StartLib \<Rightarrow> 'w cloud \<Rightarrow> OperatorOptions \<Rightarrow> PersephoneConfig \<Rightarrow> ('w, unit) io" where
  "addControllers lib os opts cfg =
     bindE (start_wrap StartClientSet [] (NewRegionOpenStackClientSet os (Regions cfg) (ClusterUsersDomain cfg)))
       (\<lambda>openStackClientSet.
     thenE (addController lib ''project'' (ProjectController cfg) (ocProject (opControllers opts)))
     (thenE (addController lib ''secret'' (InternalSecretController openStackClientSet (LandscapeName cfg))
               (ocInternalSecret (opControllers opts)))
        (addController lib ''shoot'' (ShootController openStackClientSet (LandscapeName cfg))
           (ocShoot (opControllers opts)))))"

definition operatorManager :: "OperatorOptions \<Rightarrow> ManagerOptions" where
  "operatorManager opts =
     (let le = opLeaderElection opts
      in noManagerOptions\<lparr>HealthProbeBindAddress := opHealthAddr opts, MetricsBindAddress := opMetricsAddr opts,
           moLeaderElection := (LeaderElect le = Some True), LeaderElectionResourceLock := ResourceLock le,
           LeaderElectionID := ResourceName le, LeaderElectionNamespace := ResourceNamespace le,
           LeaderElectionReleaseOnCancel := True, moLeaseDuration := Some (LeaseDuration le),
           moRenewDeadline := Some (RenewDeadline le), moRetryPeriod := Some (RetryPeriod le)\<rparr>)"

definition startOperator ::
    "'w StartLib \<Rightarrow> 'w cloud \<Rightarrow> OperatorOptions \<Rightarrow> PersephoneConfig \<Rightarrow> ('w, unit) io" where
  "startOperator lib os opts persephoneConfig =
     thenE (start_wrap StartRestConfig [] (callE (getConfigWithContext lib (opKubeConfigContext opts))))
     (thenE (callE (newManager lib (operatorManager opts)))
     (thenE (callE (addHealthzCheck lib ''ping''))
     (thenE (callE (addHealthzCheck lib ''informer-sync''))
     (thenE (callE (addReadyzCheck lib ''informer-sync''))
     (thenE (start_wrap ControllersFailed [] (addControllers lib os opts persephoneConfig))
        (callE (startManager lib)))))))"

definition runOperator :: "'w StartLib \<Rightarrow> 'w cloud \<Rightarrow> OperatorOptions \<Rightarrow> ('w, unit) io" where
  "runOperator lib os opts =
     (let opts = CompleteOperator (environment lib) opts in
      thenE (start_wrap OptionsInvalid [] (liftE (ValidateOperator opts)))
        (bindE (loadValidConfig lib (opConfigFile opts)) (startOperator lib os opts)))"

subsection \<open>The webhook\<close>

definition webhookManager :: "WebhookOptions \<Rightarrow> ManagerOptions" where
  "webhookManager opts =
     noManagerOptions\<lparr>HealthProbeBindAddress := woHealthAddr opts, MetricsBindAddress := woMetricsAddr opts,
       moLeaderElection := woLeaderElect opts, LeaderElectionID := ''persephone-webhook'',
       WebhookCertDir := ''/tmp/persephone-webhook-cert''\<rparr>"

definition healthChecks :: "'w StartLib \<Rightarrow> ('w, unit) io" where
  "healthChecks lib =
     thenE (start_wrap HealthCheckFailed [] (callE (addHealthzCheck lib ''healthz'')))
       (start_wrap ReadyCheckFailed [] (callE (addReadyzCheck lib ''readyz'')))"

definition tokenWebhookPath :: string where
  "tokenWebhookPath = ''/validate-authentication-k8s-io-v1-tokenreview''"

text \<open>The handlers that are served are made from the templates, as in \<open>AddWebhooksToManager\<close>.\<close>

definition runWebhook ::
    "'w StartLib \<Rightarrow> 'w cloud \<Rightarrow> 'w TokenHandler \<Rightarrow> 'w ShootHandler \<Rightarrow>
     ('w TokenHandler \<times> 'w ShootHandler \<Rightarrow> ('w, unit) ext_call) \<Rightarrow> WebhookOptions \<Rightarrow> ('w, unit) io" where
  "runWebhook lib os token shoot serve opts =
     thenE (start_wrap OptionsInvalid [] (liftE (ValidateWebhook opts)))
     (bindE (loadValidConfig lib (woConfigFile opts)) (\<lambda>persephoneConfig.
      thenE (callE (getConfigOrDie lib))
      (thenE (start_wrap ManagerFailed [] (callE (newManager lib (webhookManager opts))))
      (thenE (healthChecks lib)
      (thenE (start_wrap WebhookCertsFailed [] (callE (addCertificateManagement lib GetMutatingWebhookConfiguration)))
      (bindE (start_wrap WebhooksFailed []
                (AddWebhooksToManager os persephoneConfig (woCreateGardenerResources opts) token shoot)) (\<lambda>handlers.
       thenE (doE (registerWebhook lib tokenWebhookPath))
       (thenE (doE (registerWebhook lib WebhookPath))
          (callE (serve handlers))))))))))"

subsection \<open>The audit webhook\<close>

text \<open>
  What the audit webhook adds: a watcher of the certificate files, mutual TLS with the pool of client CAs,
  and the auditors. The pool is the PEM text it was made of, the watcher the two files it watches. The
  server is handed the pool that is stored at its start, its TLS options and the watcher's callback, which
  take the pool that is stored when they run.
\<close>

record ServerTLS =
  stGetCertificate :: "(string \<times> string) option"
  stClientAuth :: string
  stClientCAs :: string
  stNextProtos :: "string list"

record ServerConfig = ServerTLS +
  stGetConfigForClient :: "(string \<Rightarrow> ServerTLS) option"

record 'w AuditTLS =
  atClientCAs :: string
  atTLSOpts :: "string \<Rightarrow> ServerConfig \<Rightarrow> ServerConfig"
  atCallback :: "string \<Rightarrow> ('w, string) io"

record 'w AuditStartLib =
  alCerts :: "'w CertLib" \<comment> \<open>without a cache\<close>
  alCertManager :: "'w CertManager"
  newCertWatcher :: "string \<Rightarrow> string \<Rightarrow> ('w, unit) ext_call"
  readCAFile :: "string \<Rightarrow> ('w, string) ext_call"
  appendCertsFromPEM :: "string \<Rightarrow> bool"
  statFile :: "string \<Rightarrow> ('w, unit) ext_call"
  addCertWatcher :: "('w, unit) ext_call"
  alNewAuditor :: "string \<Rightarrow> string \<Rightarrow> ('w, unit) ext_call"
  alRegisterMetrics :: "string \<Rightarrow> 'w \<Rightarrow> 'w"
  alAddReadyzCheck :: "string \<Rightarrow> ('w, unit) io \<Rightarrow> ('w, unit) ext_call"
  alServe :: "'w AuditTLS \<Rightarrow> RegionAuditorSet \<Rightarrow> ('w, unit) ext_call"

definition loadCAPool :: "'w AuditStartLib \<Rightarrow> string \<Rightarrow> ('w, string) io" where
  "loadCAPool lib certDir =
     bindE (start_wrap CAReadFailed [] (callE (readCAFile lib (certFile certDir DataKeyCertificateCA)))) (\<lambda>caCertPEM.
       if \<not> appendCertsFromPEM lib caCertPEM then failE (Errorf (StartupPkg CAParseFailed) [])
       else returnE caCertPEM)"

text \<open>The watcher's callback: the pool that is stored after it.\<close>

definition reloadCAPool :: "'w AuditStartLib \<Rightarrow> string \<Rightarrow> string \<Rightarrow> ('w, string) io" where
  "reloadCAPool lib certDir clientCAs =
     bindE (tryE (loadCAPool lib certDir)) (\<lambda>r.
       case r of Inl err \<Rightarrow> returnE clientCAs | Inr pool \<Rightarrow> returnE pool)"

definition GetConfigForClient :: "string \<times> string \<Rightarrow> string \<Rightarrow> ServerTLS" where
  "GetConfigForClient watcher clientCAs =
     \<lparr>stGetCertificate = Some watcher, stClientAuth = ''RequireAndVerifyClientCert'',
      stClientCAs = clientCAs, stNextProtos = [''h2'']\<rparr>"

definition TLSOpts :: "string \<times> string \<Rightarrow> string \<Rightarrow> ServerConfig \<Rightarrow> ServerConfig" where
  "TLSOpts watcher clientCAs cfg =
     cfg\<lparr>stGetCertificate := Some watcher, stClientAuth := ''RequireAndVerifyClientCert'',
         stClientCAs := clientCAs, stGetConfigForClient := Some (GetConfigForClient watcher)\<rparr>"

definition certReadyCheck :: "'w AuditStartLib \<Rightarrow> string \<Rightarrow> ('w, unit) io" where
  "certReadyCheck lib dir =
     forE [DataKeyCertificate, DataKeyPrivateKey] (\<lambda>name.
       start_wrap CertFileNotReady [name] (callE (statFile lib (certFile dir name))))"

definition auditNamespace :: "'w StartLib \<Rightarrow> string" where
  "auditNamespace lib =
     (if environment lib ''NAMESPACE'' = [] then ''garden'' else environment lib ''NAMESPACE'')"

definition auditManager :: "'w StartLib \<Rightarrow> AuditWebhookOptions \<Rightarrow> ManagerOptions" where
  "auditManager lib opts =
     noManagerOptions\<lparr>HealthProbeBindAddress := awHealthAddr opts, MetricsBindAddress := awMetricsAddr opts,
       DefaultNamespaces := [auditNamespace lib], moLeaderElection := awLeaderElect opts,
       LeaderElectionID := ''persephone-audit-webhook'', LeaderElectionNamespace := auditNamespace lib,
       LeaderElectionReleaseOnCancel := True, WebhookCertDir := awCertDir opts\<rparr>"

definition auditChecks :: "'w StartLib \<Rightarrow> 'w AuditStartLib \<Rightarrow> string \<Rightarrow> ('w, unit) io" where
  "auditChecks lib al certDir =
     thenE (start_wrap HealthCheckFailed [] (callE (addHealthzCheck lib ''healthz'')))
       (start_wrap ReadyCheckFailed [] (callE (alAddReadyzCheck al ''readyz'' (certReadyCheck al certDir))))"

text \<open>From the certificates on the disk to mutual TLS.\<close>

definition setUpTLS :: "'w StartLib \<Rightarrow> 'w AuditStartLib \<Rightarrow> AuditWebhookOptions \<Rightarrow> ('w, 'w AuditTLS) io" where
  "setUpTLS lib al opts =
     (let certDir = awCertDir opts;
          watcher = (certFile certDir DataKeyCertificate, certFile certDir DataKeyPrivateKey);
          certOpts = DefaultOptions\<lparr>SecretName := awCertSecretName opts, Namespace := auditNamespace lib,
                                    CertDir := certDir\<rparr> in
      thenE (start_wrap CertManagementFailed [] (addCertificates (alCerts al) (alCertManager al) certOpts))
      (thenE (start_wrap CertWatcherFailed []
                (callE (newCertWatcher al (fst watcher) (snd watcher))))
      (bindE (start_wrap CAPoolFailed [] (loadCAPool al certDir)) (\<lambda>initialPool.
       thenE (start_wrap AddWatcherFailed [] (callE (addCertWatcher al)))
         (returnE \<lparr>atClientCAs = initialPool, atTLSOpts = TLSOpts watcher,
                   atCallback = reloadCAPool al certDir\<rparr>)))))"

definition auditWebhookPath :: string where "auditWebhookPath = ''/audit''"

definition runAuditWebhook :: "'w StartLib \<Rightarrow> 'w AuditStartLib \<Rightarrow> AuditWebhookOptions \<Rightarrow> ('w, unit) io" where
  "runAuditWebhook lib al opts =
     thenE (start_wrap OptionsInvalid [] (liftE (ValidateAuditWebhook opts)))
     (bindE (loadValidConfig lib (awConfigFile opts)) (\<lambda>persephoneConfig.
      thenE (callE (getConfigOrDie lib))
      (thenE (start_wrap ManagerFailed [] (callE (newManager lib (auditManager lib opts))))
      (thenE (auditChecks lib al (awCertDir opts))
      (bindE (setUpTLS lib al opts) (\<lambda>tls.
       if environment lib ''HOSTNAME'' = [] then failE (Errorf (StartupPkg HostnameMissing) [])
       else
         bindE (start_wrap AuditorsFailed []
                  (NewRegionAuditorSet (alNewAuditor al) (alRegisterMetrics al) (Regions persephoneConfig)
                     (awQueueName opts))) (\<lambda>regionAuditors.
           thenE (doE (registerWebhook lib auditWebhookPath)) (callE (alServe al tls regionAuditors)))))))))"

subsection \<open>The Liquid API server\<close>

record LiquidOptions =
  lqRegion :: string
  lqListen :: string
  lqKubeContext :: string

definition liquidFlags :: "(string \<Rightarrow> string) \<Rightarrow> flags \<Rightarrow> LiquidOptions" where
  "liquidFlags env given =
     \<lparr>lqRegion = StringVar given ''region'' (env ''REGION''), lqListen = StringVar given ''listen'' '':8080'',
      lqKubeContext = StringVar given ''kube-context'' (env ''KUBECONTEXT'')\<rparr>"

definition liquidManager :: ManagerOptions where
  "liquidManager = noManagerOptions\<lparr>ByObject := [''Namespace'', ''ResourceQuota''], MetricsBindAddress := ''0'',
     HealthProbeBindAddress := ''0''\<rparr>"

text \<open>The manager runs in a goroutine of its own from \<open>startBackground\<close> on; its failure is only logged.\<close>

record 'w LiquidStartLib =
  startBackground :: "'w \<Rightarrow> 'w"
  waitForCacheSync :: "'w \<Rightarrow> bool \<times> 'w"
  policyPathEnv :: "('w, string) ext_call"
  loadPolicyFile :: "string \<Rightarrow> ('w, unit) ext_call"
  liquidClock :: "'w \<Rightarrow> time \<times> 'w"

definition NewLogic :: "string \<Rightarrow> ('w, Logic) io" where
  "NewLogic region = returnE \<lparr>logicRegion = region\<rparr>"

text \<open>The value is the server that listens.\<close>

definition runLiquid :: "'w StartLib \<Rightarrow> 'w LiquidStartLib \<Rightarrow> LiquidOptions \<Rightarrow> ('w, server) io" where
  "runLiquid lib ll opts =
     (if lqRegion opts = [] then failE (Errorf (StartupPkg RegionFlagMissing) [])
      else
        thenE (start_wrap StartRestConfig [] (callE (getConfigWithContext lib (lqKubeContext opts))))
        (thenE (start_wrap ManagerFailed [] (callE (newManager lib liquidManager)))
        (thenE (doE (startBackground ll))
        (bindE (readE (waitForCacheSync ll)) (\<lambda>synced.
         if \<not> synced then failE (Errorf (StartupPkg CacheSyncFailed) [])
         else
           bindE (start_wrap LogicFailed [] (NewLogic (lqRegion opts))) (\<lambda>logic.
           let identityEndpoint = environment lib ''OS_AUTH_URL'' in
           if identityEndpoint = [] then failE (Errorf (StartupPkg IdentityEndpointMissing) [])
           else Run (policyPathEnv ll) (loadPolicyFile ll) (liquidClock ll) logic
                  \<lparr>DefaultListenAddress = lqListen opts, roIdentityEndpoint = identityEndpoint\<rparr>))))))"

subsection \<open>Events of the InternalSecret controller\<close>

definition InternalSecretPredicate :: "labels \<Rightarrow> bool" where
  "InternalSecretPredicate l \<longleftrightarrow> label l LabelKeyShootName \<noteq> []"

end
