(* ===== verification/Cert_Properties.thy ===== *)
theory Cert_Properties
  imports Audit_Cert
begin

section \<open>Rotating the certificates of the audit webhook\<close>

text \<open>
  The generations of a CA, newest first: the secret's certificates are issued by the newest one, its bundle
  holds the newest and the one before. Each run of the reconciler keeps the generation or starts the next.
\<close>

subsection \<open>What the certificate library and the API server promise\<close>

text \<open>A PEM text is one block: decoding it, whatever follows, and encoding the block gives it back.\<close>

definition pemBlock :: "'w CertLib \<Rightarrow> string \<Rightarrow> bool" where
  "pemBlock lib p \<longleftrightarrow> p \<noteq> [] \<and> (\<forall>rest. \<exists>b. pemDecode lib (p @ rest) = Some b \<and> pemEncode lib b = p)"

text \<open>\<open>issuer\<close> gives the CA that signed a certificate, both as PEM texts.\<close>

definition issues :: "('w \<Rightarrow> secret_data option) \<Rightarrow> (string \<Rightarrow> string option) \<Rightarrow> 'w CertLib \<Rightarrow> bool" where
  "issues view issuer lib \<longleftrightarrow> (\<forall>cfg w. view (snd (generateCertificate lib cfg w)) = view w \<and>
     (\<forall>c. fst (generateCertificate lib cfg w) = Inr c \<longrightarrow> pemBlock lib (CertificatePEM c) \<and>
        (\<forall>ca. cfSigningCA cfg = Some ca \<longrightarrow> issuer (CertificatePEM c) = Some (CertificatePEM ca))))"

text \<open>A failed write may have been applied.\<close>

definition cert_laws ::
    "('w \<Rightarrow> secret_data option) \<Rightarrow> (string \<Rightarrow> string option) \<Rightarrow> 'w CertLib \<Rightarrow> bool" where
  "cert_laws view issuer lib \<longleftrightarrow> issues view issuer lib \<and>
     (\<forall>k w. view (snd (getTLSSecret lib k w)) = view w \<and>
        (\<forall>s. fst (getTLSSecret lib k w) = Inr s \<longrightarrow> view w = Some (tsData s))) \<and>
     (\<forall>s w. (fst (createTLSSecret lib s w) = Inr () \<or> view (snd (createTLSSecret lib s w)) \<noteq> view w) \<longrightarrow>
        view w = None \<and> view (snd (createTLSSecret lib s w)) = Some (tsData s)) \<and>
     (\<forall>s d w. (fst (patchTLSSecret lib s d w) = Inr () \<or> view (snd (patchTLSSecret lib s d w)) \<noteq> view w) \<longrightarrow>
        view (snd (patchTLSSecret lib s d w)) = Some d) \<and>
     (\<forall>w. view (snd (certClock lib w)) = view w)"

subsection \<open>Generations\<close>

definition issuedBy :: "(string \<Rightarrow> string option) \<Rightarrow> string \<Rightarrow> secret_data \<Rightarrow> bool" where
  "issuedBy issuer ca d \<longleftrightarrow> issuer (dataOf d DataKeyCertificate) = Some ca \<and>
     issuer (dataOf d ''client.crt'') = Some ca"

definition generation ::
    "'w CertLib \<Rightarrow> (string \<Rightarrow> string option) \<Rightarrow> string list \<Rightarrow> secret_data option \<Rightarrow> bool" where
  "generation lib issuer cas secret \<longleftrightarrow> (case secret of
     None \<Rightarrow> cas = []
   | Some d \<Rightarrow> cas \<noteq> [] \<and> list_all (pemBlock lib) cas \<and> issuedBy issuer (hd cas) d \<and>
       dataOf d DataKeyCertificateCA = concat (take 2 cas))"

lemma first_block: "pemBlock lib p \<Longrightarrow> firstPEMBlock lib (p @ rest) = p"
  unfolding pemBlock_def firstPEMBlock_def by (elim conjE allE [of _ rest] exE) simp

lemma generation_first:
  "generation lib issuer cas (Some d) \<Longrightarrow> firstPEMBlock lib (dataOf d DataKeyCertificateCA) = hd cas \<and> hd cas \<noteq> []"
  by (cases cas) (auto simp: generation_def first_block take_Cons' pemBlock_def)

text \<open>Fresh certificates: a CA and the two certificates that it has issued.\<close>

definition fresh :: "'w CertLib \<Rightarrow> (string \<Rightarrow> string option) \<Rightarrow> secret_data \<Rightarrow> bool" where
  "fresh lib issuer d \<longleftrightarrow> pemBlock lib (dataOf d DataKeyCertificateCA) \<and>
     issuedBy issuer (dataOf d DataKeyCertificateCA) d"

definition certMade :: "'w CertLib \<Rightarrow> (string \<Rightarrow> string option) \<Rightarrow> CertConfig \<Rightarrow> Certificate \<Rightarrow> bool" where
  "certMade lib issuer cfg c \<longleftrightarrow> pemBlock lib (CertificatePEM c) \<and>
     (\<forall>ca. cfSigningCA cfg = Some ca \<longrightarrow> issuer (CertificatePEM c) = Some (CertificatePEM ca))"

lemma wp_generate:
  fixes Q :: "Certificate res \<Rightarrow> 'w \<Rightarrow> bool"
  assumes "issues view issuer lib"
    and "\<And>c w'. view w' = view w \<Longrightarrow> certMade lib issuer cfg c \<Longrightarrow> Q (Ok c) w'"
    and "\<And>err w'. view w' = view w \<Longrightarrow> Q (Err err) w'"
  shows "wp (callE (generateCertificate lib cfg)) Q w"
proof -
  have "view (snd (generateCertificate lib cfg w)) = view w"
    and "\<And>c. fst (generateCertificate lib cfg w) = Inr c \<Longrightarrow> certMade lib issuer cfg c"
    using assms(1) by (auto simp: issues_def certMade_def)
  then show ?thesis
    using assms(2,3) by (auto simp: wp_def run_callE split: prod.splits sum.splits)
qed

lemma generate_fresh:
  assumes "issues view issuer lib"
  shows "wp (generateCertificates lib r) (\<lambda>x w'. view w' = view w \<and> (\<forall>p. x \<noteq> Panicked p) \<and>
     (\<forall>d. x = Ok d \<longrightarrow> fresh lib issuer d)) w"
  unfolding generateCertificates_def Let_def wp_simps
  apply (rule wp_generate [OF assms]; simp add: wp_simps)
  apply (rule wp_generate [OF assms]; simp add: wp_simps)
  apply (rule wp_generate [OF assms]; simp add: wp_simps)
  apply (simp add: fresh_def issuedBy_def certMade_def dataOf_def data_key_defs)
  done

subsection \<open>The reconciler\<close>

definition nextGeneration ::
    "('w \<Rightarrow> secret_data option) \<Rightarrow> (string \<Rightarrow> string option) \<Rightarrow> 'w CertLib \<Rightarrow> string list \<Rightarrow> 'w \<Rightarrow> 'a res \<Rightarrow> 'w \<Rightarrow> bool" where
  "nextGeneration view issuer lib cas w x w' \<longleftrightarrow>
     (\<forall>p. x \<noteq> Panicked p) \<and> ((\<exists>y. x = Ok y) \<longrightarrow> view w' \<noteq> None) \<and>
     (view w' = view w \<or> (\<exists>ca. generation lib issuer (ca # cas) (view w')))"

lemma next_after_write:
  assumes "view v = view w"
    and "fst (op v) = Inr () \<or> view (snd (op v)) \<noteq> view v \<Longrightarrow>
      \<exists>ca d. view (snd (op v)) = Some d \<and> generation lib issuer (ca # cas) (Some d)"
  shows "wp (callE op) (nextGeneration view issuer lib cas w) v"
proof (cases "op v")
  case (Pair res v')
  then show ?thesis
    using assms by (cases "view v' = view w"; cases res) (auto simp: wp_def run_callE nextGeneration_def)
qed

lemma next_after_generate:
  assumes "cert_laws view issuer lib"
    and "\<And>d v. fresh lib issuer d \<Longrightarrow> view v = view w \<Longrightarrow> wp (k d) (nextGeneration view issuer lib cas w) v"
  shows "wp (bindE (cert_wrap GenerateCerts [] (generateCertificates lib r)) k)
     (nextGeneration view issuer lib cas w) w"
proof -
  have "issues view issuer lib" using assms(1) by (simp add: cert_laws_def)
  from generate_fresh [OF this] show ?thesis
    unfolding wp_simps by (rule wp_mono) (auto simp: nextGeneration_def assms(2) split: outcome.splits)
qed

lemma create_next:
  assumes laws: "cert_laws view issuer lib" and old: "generation lib issuer cas (view w)"
  shows "wp (generateAndCreateSecret lib r) (nextGeneration view issuer lib cas w) w"
  unfolding generateAndCreateSecret_def
proof (rule next_after_generate [OF laws], rule next_after_write)
  fix d v
  let ?s = "\<lparr>tsName = secretName r, tsNamespace = namespace r,
    tsLabels = [''app'' \<mapsto> ''persephone'', ''role'' \<mapsto> ''audit-webhook-tls''], tsType = ''Opaque'', tsData = d,
    tsResourceVersion = []\<rparr>"
  assume fresh: "fresh lib issuer d" and v: "view v = view w"
    and "fst (createTLSSecret lib ?s v) = Inr () \<or> view (snd (createTLSSecret lib ?s v)) \<noteq> view v"
  moreover have "fst (createTLSSecret lib s v) = Inr () \<or> view (snd (createTLSSecret lib s v)) \<noteq> view v \<Longrightarrow>
      view v = None \<and> view (snd (createTLSSecret lib s v)) = Some (tsData s)" for s
    using laws unfolding cert_laws_def by blast
  ultimately have "view v = None" "view (snd (createTLSSecret lib ?s v)) = Some d"
    by (metis TLSSecret.select_convs(5))+
  moreover have "generation lib issuer [dataOf d DataKeyCertificateCA] (Some d)"
    using fresh by (simp add: generation_def fresh_def)
  ultimately show "\<exists>ca d. view (snd (createTLSSecret lib ?s v)) = Some d \<and> generation lib issuer (ca # cas) (Some d)"
    using old v by (auto simp: generation_def)
qed

lemma update_next:
  assumes laws: "cert_laws view issuer lib" and old: "generation lib issuer cas (view w)"
    and secret: "view w = Some (tsData s)"
  shows "wp (generateAndUpdateSecret lib r s) (nextGeneration view issuer lib cas w) w"
proof -
  have first: "firstPEMBlock lib (dataOf (tsData s) DataKeyCertificateCA) = hd cas" "hd cas \<noteq> []"
    using generation_first old secret by auto
  have "wp (callE (patchTLSSecret lib s (d(DataKeyCertificateCA \<mapsto> dataOf d DataKeyCertificateCA @ hd cas))))
      (nextGeneration view issuer lib cas w) v" (is "wp (callE (?patch)) _ v")
    if fresh: "fresh lib issuer d" and v: "view v = view w" for d v
  proof (rule next_after_write [where view = view, OF v])
    let ?d = "d(DataKeyCertificateCA \<mapsto> dataOf d DataKeyCertificateCA @ hd cas)"
    assume "fst (?patch v) = Inr () \<or> view (snd (?patch v)) \<noteq> view v"
    with laws have "view (snd (?patch v)) = Some ?d" unfolding cert_laws_def by blast
    moreover have "generation lib issuer (dataOf d DataKeyCertificateCA # cas) (Some ?d)"
      using fresh old secret
      by (cases cas) (auto simp: generation_def fresh_def issuedBy_def dataOf_def data_key_defs)
    ultimately show "\<exists>ca d. view (snd (?patch v)) = Some d \<and> generation lib issuer (ca # cas) (Some d)"
      by blast
  qed
  with first show ?thesis
    unfolding generateAndUpdateSecret_def Let_def by (auto intro: next_after_generate [OF laws])
qed

lemma needs_rotation_keeps:
  assumes "cert_laws view issuer lib"
  shows "wp (needsRotation lib s) (\<lambda>x w'. view w' = view w \<and> (\<exists>b. x = Ok b)) w"
  using assms by (auto simp: needsRotation_def Let_def wp_simps cert_laws_def split: sum.splits)

lemma next_result:
  assumes "wp m (nextGeneration view issuer lib cas w) v"
  shows "wp (thenE m (returnE x)) (nextGeneration view issuer lib cas w) v"
  unfolding wp_simps using assms by (rule wp_mono) (auto simp: nextGeneration_def split: outcome.splits)

lemma next_from: "view v = view w \<Longrightarrow> nextGeneration view issuer lib cas v = nextGeneration view issuer lib cas w"
  by (simp add: nextGeneration_def fun_eq_iff)

lemma update_from:
  assumes laws: "cert_laws view issuer lib" and old: "generation lib issuer cas (view w)"
    and secret: "view w = Some (tsData s)"
  shows "wp (bindE (needsRotation lib s) (\<lambda>rotate. if rotate
       then thenE (generateAndUpdateSecret lib r s) (returnE res) else returnE res))
     (nextGeneration view issuer lib cas w) w"
  unfolding wp_simps
proof (rule wp_mono [OF needs_rotation_keeps [OF laws]])
  fix x :: "bool res" and v
  assume "view v = view w \<and> (\<exists>b. x = Ok b)"
  then obtain rotate where x: "x = Ok rotate" and v: "view v = view w" by blast
  have "wp (generateAndUpdateSecret lib r s) (nextGeneration view issuer lib cas w) v"
    using update_next [OF laws, of cas v s r] old secret v by (simp add: next_from [where view = view, OF v])
  then have "wp (thenE (generateAndUpdateSecret lib r s) (returnE res)) (nextGeneration view issuer lib cas w) v"
    by (rule next_result)
  then have "wp (if rotate then thenE (generateAndUpdateSecret lib r s) (returnE res) else returnE res)
      (nextGeneration view issuer lib cas w) v"
    using v secret by (simp add: wp_simps nextGeneration_def)
  with x show "case x of
      Ok rotate \<Rightarrow> wp (if rotate then thenE (generateAndUpdateSecret lib r s) (returnE res) else returnE res)
        (nextGeneration view issuer lib cas w) v
    | Err err \<Rightarrow> nextGeneration view issuer lib cas w (Err err) v
    | Panicked p \<Rightarrow> nextGeneration view issuer lib cas w (Panicked p) v"
    by simp
qed

lemma reconcile_next:
  assumes laws: "cert_laws view issuer lib" and old: "generation lib issuer cas (view w)"
  shows "wp (ReconcileCertificates lib r) (nextGeneration view issuer lib cas w) w"
proof (rule wpI)
  fix x w'
  assume run: "ReconcileCertificates lib r w = (x, w')"
  obtain got v where get: "getTLSSecret lib (namespace r, secretName r) w = (got, v)" by fastforce
  have v: "view v = view w" and secret: "\<And>s. got = Inr s \<Longrightarrow> view w = Some (tsData s)"
    using laws get unfolding cert_laws_def by (metis fst_conv snd_conv)+
  note next_v = next_from [where view = view, OF v]
  show "nextGeneration view issuer lib cas w x w'"
  proof (cases got)
    case (Inr s)
    then show ?thesis
      using run get wpD [OF update_from [OF laws, of cas v s r "\<lparr>RequeueAfter = syncPeriod r\<rparr>"]] old v secret [OF Inr]
      by (simp add: next_v ReconcileCertificates_def run_bindE run_tryE run_callE)
  next
    case (Inl err)
    have "wp (thenE (generateAndCreateSecret lib r) (returnE \<lparr>RequeueAfter = syncPeriod r\<rparr>))
        (nextGeneration view issuer lib cas w) v"
      using create_next [OF laws, of cas v r] old v by (simp add: next_v next_result)
    with Inl show ?thesis
      using run get v wpD
      by (fastforce simp: ReconcileCertificates_def run_bindE run_tryE run_callE run_simps nextGeneration_def split: if_splits)
  qed
qed

text \<open>A bundle trusts the certificates that one of its blocks has issued.\<close>

definition trusts :: "'w CertLib \<Rightarrow> (string \<Rightarrow> string option) \<Rightarrow> secret_data \<Rightarrow> string \<Rightarrow> bool" where
  "trusts lib issuer d c \<longleftrightarrow> (\<exists>cas. list_all (pemBlock lib) cas \<and> dataOf d DataKeyCertificateCA = concat cas \<and>
     (\<exists>ca \<in> set cas. issuer c = Some ca))"

lemma generation_trusts:
  assumes "generation lib issuer (new @ cas) (Some d')" and "generation lib issuer cas (Some d)" and "length new \<le> 1"
  shows "trusts lib issuer d' (dataOf d ''client.crt'')"
proof -
  have "list_all (pemBlock lib) (take 2 (new @ cas))"
    using assms(1) by (auto simp: generation_def list_all_iff dest: in_set_takeD)
  moreover have "hd cas \<in> set (take 2 (new @ cas))"
    using assms(2,3) by (cases cas; cases new) (auto simp: generation_def take_Cons')
  moreover have "issuer (dataOf d ''client.crt'') = Some (hd cas)"
    and "dataOf d' DataKeyCertificateCA = concat (take 2 (new @ cas))"
    using assms(1,2) by (simp_all add: generation_def issuedBy_def)
  ultimately show ?thesis unfolding trusts_def by blast
qed

text \<open>C7. The reconciler keeps the certificates consistent and overlapping: after any number of runs, failed ones
  included, the server and the client certificate of the secret are issued by its newest CA, and the
  bundle is that CA followed by its predecessor. So a client that still has the certificate of the
  generation before is trusted.\<close>

theorem certificates_overlap:
  assumes laws: "cert_laws view issuer lib" and old: "generation lib issuer cas (view w)"
  shows "\<exists>new. length new \<le> n \<and>
     generation lib issuer (new @ cas) (view (((\<lambda>w. snd (ReconcileCertificates lib r w)) ^^ n) w)) \<and>
     (length new \<le> 1 \<longrightarrow> (\<forall>d d'. view w = Some d \<longrightarrow>
        view (((\<lambda>w. snd (ReconcileCertificates lib r w)) ^^ n) w) = Some d' \<longrightarrow>
        trusts lib issuer d' (dataOf d ''client.crt'')))"
proof -
  have "\<exists>new. length new \<le> n \<and>
      generation lib issuer (new @ cas) (view (((\<lambda>w. snd (ReconcileCertificates lib r w)) ^^ n) w))"
  proof (induction n)
    case 0
    then show ?case using old by simp
  next
    case (Suc n)
    let ?v = "((\<lambda>w. snd (ReconcileCertificates lib r w)) ^^ n) w"
    obtain new where new: "length new \<le> n" "generation lib issuer (new @ cas) (view ?v)" using Suc by blast
    from reconcile_next [OF laws this(2), of r]
    have "view (snd (ReconcileCertificates lib r ?v)) = view ?v \<or>
        (\<exists>ca. generation lib issuer (ca # new @ cas) (view (snd (ReconcileCertificates lib r ?v))))"
      by (simp add: wp_def nextGeneration_def)
    then show ?case
    proof
      assume "view (snd (ReconcileCertificates lib r ?v)) = view ?v"
      with new show ?thesis by (intro exI [of _ new]) simp
    next
      assume "\<exists>ca. generation lib issuer (ca # new @ cas) (view (snd (ReconcileCertificates lib r ?v)))"
      then obtain ca where "generation lib issuer (ca # new @ cas) (view (snd (ReconcileCertificates lib r ?v)))" ..
      with new show ?thesis by (intro exI [of _ "ca # new"]) simp
    qed
  qed
  then show ?thesis using generation_trusts old by metis
qed

subsection \<open>Witness\<close>

text \<open>An in-memory library: a certificate's PEM text holds a serial number and the PEM text of its CA.\<close>

primrec quoted :: "string \<Rightarrow> string" where
  "quoted [] = ''.''"
| "quoted (c # s) = CHR ''!'' # c # quoted s"

fun unquoted :: "string \<Rightarrow> (string \<times> string) option" where
  "unquoted (x # s) =
     (if x = CHR ''.'' then Some ([], s)
      else case s of [] \<Rightarrow> None
        | c # t \<Rightarrow> (case unquoted t of None \<Rightarrow> None | Some (q, rest) \<Rightarrow> Some (c # q, rest)))"
| "unquoted [] = None"

lemma unquoted_quoted [simp]: "unquoted (quoted s @ rest) = Some (s, rest)"
  by (induction s) simp_all

definition simBlock :: "string \<Rightarrow> (string \<times> string) option" where
  "simBlock p = (case unquoted p of None \<Rightarrow> None
     | Some (serial, q) \<Rightarrow> (case unquoted q of None \<Rightarrow> None | Some (ca, _) \<Rightarrow> Some (serial, ca)))"

definition simCertLib :: "(secret_data option \<times> nat) CertLib" where
  "simCertLib = \<lparr>
     getTLSSecret = (\<lambda>_ w. (case fst w of None \<Rightarrow> Inl (KubeError NotFound [])
       | Some d \<Rightarrow> Inr \<lparr>tsName = [], tsNamespace = [], tsLabels = Map.empty, tsType = [], tsData = d,
            tsResourceVersion = []\<rparr>, w)),
     createTLSSecret = (\<lambda>s w. if fst w = None then (Inr (), Some (tsData s), snd w)
       else (Inl (KubeError AlreadyExists []), w)),
     patchTLSSecret = (\<lambda>s d w. (Inr (), Some d, snd w)),
     generateCertificate = (\<lambda>cfg w. (Inr \<lparr>CertificatePEM = quoted (format_nat (snd w)) @
         quoted (case cfSigningCA cfg of None \<Rightarrow> [] | Some ca \<Rightarrow> CertificatePEM ca), PrivateKeyPEM = []\<rparr>,
       fst w, Suc (snd w))),
     loadCertificate = (\<lambda>_ _. Inr (0, 10)),
     pemDecode = (\<lambda>p. map_option (\<lambda>(serial, ca). quoted serial @ quoted ca) (simBlock p)), pemEncode = id,
     mkdirAll = (\<lambda>_ _ w. (Inr (), w)), writeFile = (\<lambda>_ _ _ w. (Inr (), w)), certClock = (\<lambda>w. (7, w))\<rparr>"

lemma sim_block [simp]: "simBlock (quoted a @ quoted b @ rest) = Some (a, b)"
  by (simp add: simBlock_def)

lemma sim_pem: "pemBlock simCertLib (quoted a @ quoted b)"
proof -
  have "quoted a \<noteq> []" by (cases a) simp_all
  then show ?thesis by (simp add: pemBlock_def simCertLib_def)
qed

lemma sim_cert_laws: "cert_laws fst (\<lambda>p. map_option snd (simBlock p)) simCertLib"
proof -
  have issues: "issues fst (\<lambda>p. map_option snd (simBlock p)) simCertLib"
    using sim_pem sim_block [where rest = "[]"] by (auto simp: issues_def simCertLib_def)
  show ?thesis
    unfolding cert_laws_def
    by (intro conjI issues) (auto simp: simCertLib_def split: option.splits)
qed

theorem certificates_overlap_witness:
  "\<exists>new. length new \<le> 2 \<and> generation simCertLib (\<lambda>p. map_option snd (simBlock p)) new
     (fst (((\<lambda>w. snd (ReconcileCertificates simCertLib (certReconcilerOf DefaultOptions) w)) ^^ 2) (None, 0)))"
  using certificates_overlap [OF sim_cert_laws, of "[]" "(None, 0)" 2 "certReconcilerOf DefaultOptions"]
  by (auto simp: generation_def)

end
