(* ===== verification/Audit_TLS.thy ===== *)
theory Audit_TLS
  imports Entry_Points Cert_Properties
begin

section \<open>The pool of client CAs follows the rotation\<close>

text \<open>
  The composition of three parts of the audit webhook: the reconciler rotates the secret, the reloader of
  each replica writes it to the disk, and the callback of the certificate watcher loads the pool of client
  CAs from there.
\<close>

definition disk_laws :: "('w \<Rightarrow> string \<rightharpoonup> string) \<Rightarrow> 'w CertLib \<Rightarrow> 'w AuditStartLib \<Rightarrow> bool" where
  "disk_laws files lib al \<longleftrightarrow>
     (\<forall>p m w. files (snd (mkdirAll lib p m w)) = files w) \<and>
     (\<forall>p c m w. fst (writeFile lib p c m w) = Inr () \<longrightarrow> files (snd (writeFile lib p c m w)) = (files w)(p \<mapsto> c)) \<and>
     (\<forall>p w c. files w p = Some c \<longrightarrow> fst (readCAFile al p w) = Inr c) \<and>
     (\<forall>cas. cas \<noteq> [] \<longrightarrow> list_all (pemBlock lib) cas \<longrightarrow> appendCertsFromPEM al (concat cas))"

lemma write_one:
  assumes "disk_laws files lib al" and "writeCertificate lib dir d name w = (Ok (), w')"
  shows "files w' = (files w)(certFile dir name \<mapsto> dataOf d name)"
proof -
  have "fst (writeFile lib (certFile dir name) (dataOf d name) 384 w) = Inr ()"
    "w' = snd (writeFile lib (certFile dir name) (dataOf d name) 384 w)"
    using assms(2) by (auto simp: writeCertificate_def Let_def io_simps split: if_splits prod.splits sum.splits outcome.splits)
  with assms(1) show ?thesis by (simp add: disk_laws_def)
qed

lemma certFile_inject [simp]: "plainName m \<Longrightarrow> plainName n \<Longrightarrow> certFile dir m = certFile dir n \<longleftrightarrow> m = n"
  by (simp add: certFile_def Join_inject)

lemma written_to_disk:
  assumes laws: "disk_laws files lib al" and run: "writeCertificatesToDisk lib dir d w = (Ok (), w')"
  shows "files w' (certFile dir DataKeyCertificateCA) = Some (dataOf d DataKeyCertificateCA)"
    and "files w' (certFile dir DataKeyCertificate) = Some (dataOf d DataKeyCertificate)"
proof -
  obtain w1 w2 w3 where "writeCertificate lib dir d DataKeyCertificateCA w1 = (Ok (), w2)"
    "writeCertificate lib dir d DataKeyCertificate w2 = (Ok (), w3)"
    "writeCertificate lib dir d DataKeyPrivateKey w3 = (Ok (), w')"
    using run by (auto simp: writeCertificatesToDisk_def certificateOrder_def run_thenE run_simps
        split: prod.splits outcome.splits)
  then have "files w' = (files w1)(certFile dir DataKeyCertificateCA \<mapsto> dataOf d DataKeyCertificateCA,
      certFile dir DataKeyCertificate \<mapsto> dataOf d DataKeyCertificate,
      certFile dir DataKeyPrivateKey \<mapsto> dataOf d DataKeyPrivateKey)"
    using write_one [OF laws] by simp
  then show "files w' (certFile dir DataKeyCertificateCA) = Some (dataOf d DataKeyCertificateCA)"
    "files w' (certFile dir DataKeyCertificate) = Some (dataOf d DataKeyCertificate)"
    by (simp_all add: data_key_defs plainName_def dots_def)
qed

lemma reloader_wrote:
  assumes "cert_laws view issuer lib" and "ReconcileReloader lib r known w = (Ok (res, version), w1)" and "version \<noteq> known"
  obtains s :: TLSSecret and w2 where "view w = Some (tsData s)" "writeCertificatesToDisk lib (rlCertDir r) (tsData s) w2 = (Ok (), w1)"
proof -
  obtain s w2 where got: "getTLSSecret lib (rlNamespace r, rlSecretName r) w = (Inr s, w2)"
    and wrote: "writeCertificatesToDisk lib (rlCertDir r) (tsData s) w2 = (Ok (), w1)"
    using assms(2,3) by (auto simp: ReconcileReloader_def run_bindE run_thenE run_wrapE run_callE run_simps
        split: prod.splits sum.splits outcome.splits if_splits)
  have "view w = Some (tsData s)"
    using assms(1) got unfolding cert_laws_def by (metis fst_conv)
  with wrote that show ?thesis by blast
qed

text \<open>C11. Once a reloader has written a rotated secret, the watcher's callback replaces any pool by the bundle
  of the newest CA and its predecessor, the certificate that the server then presents is issued by the
  newest.\<close>

theorem pool_follows_rotation:
  assumes laws: "cert_laws view issuer lib" "disk_laws files lib al"
    and generations: "generation lib issuer cas (view w)"
    and written: "ReconcileReloader lib r known w = (Ok (res, version), w1)" "version \<noteq> known"
    and disk: "files w2 = files w1"
  shows "\<exists>w3. reloadCAPool al (rlCertDir r) pool w2 = (Ok (concat (take 2 cas)), w3) \<and>
     map_option issuer (files w2 (certFile (rlCertDir r) DataKeyCertificate)) = Some (Some (hd cas))"
proof -
  obtain s :: TLSSecret and v where s: "view w = Some (tsData s)" "writeCertificatesToDisk lib (rlCertDir r) (tsData s) v = (Ok (), w1)"
    using laws(1) written by (rule reloader_wrote)
  note files = written_to_disk [OF laws(2) s(2)]
  have gen: "cas \<noteq> []" "list_all (pemBlock lib) cas" "issuer (dataOf (tsData s) DataKeyCertificate) = Some (hd cas)"
    "dataOf (tsData s) DataKeyCertificateCA = concat (take 2 cas)"
    using generations s(1) by (simp_all add: generation_def issuedBy_def)
  have "take 2 cas \<noteq> []" "list_all (pemBlock lib) (take 2 cas)"
    using gen(1,2) by (auto simp: list_all_iff dest: in_set_takeD)
  then have "appendCertsFromPEM al (concat (take 2 cas))"
    using laws(2) by (simp add: disk_laws_def)
  moreover have "fst (readCAFile al (certFile (rlCertDir r) DataKeyCertificateCA) w2) = Inr (concat (take 2 cas))"
    using laws(2) files(1) gen(4) disk by (simp add: disk_laws_def)
  ultimately have "\<exists>w3. reloadCAPool al (rlCertDir r) pool w2 = (Ok (concat (take 2 cas)), w3)"
    by (auto simp: reloadCAPool_def loadCAPool_def run_bindE run_tryE run_wrapE run_callE run_simps
        split: prod.splits sum.splits)
  then show ?thesis using files(2) gen(3) disk by auto
qed

subsection \<open>Witness\<close>

text \<open>A replica whose disk is empty, and a secret of the second generation.\<close>

definition sampleCA :: "string \<Rightarrow> string" where
  "sampleCA serial = quoted serial @ quoted []"

definition secondGeneration :: secret_data where
  "secondGeneration = [DataKeyCertificateCA \<mapsto> sampleCA ''2'' @ sampleCA ''1'',
     DataKeyCertificate \<mapsto> quoted ''server'' @ quoted (sampleCA ''2''),
     DataKeyPrivateKey \<mapsto> ''key'', ''client.crt'' \<mapsto> quoted ''client'' @ quoted (sampleCA ''2'')]"

definition replicaLib :: "(secret_data option \<times> (string \<rightharpoonup> string)) CertLib" where
  "replicaLib = \<lparr>
     getTLSSecret = (\<lambda>_ w. (case fst w of None \<Rightarrow> Inl (KubeError NotFound [])
       | Some d \<Rightarrow> Inr \<lparr>tsName = [], tsNamespace = [], tsLabels = Map.empty, tsType = [], tsData = d,
            tsResourceVersion = ''2''\<rparr>, w)),
     createTLSSecret = (\<lambda>_ w. (Inl (OtherError []), w)), patchTLSSecret = (\<lambda>_ _ w. (Inl (OtherError []), w)),
     generateCertificate = (\<lambda>_ w. (Inl (OtherError []), w)), loadCertificate = (\<lambda>_ _. Inr (0, 10)),
     pemDecode = (\<lambda>p. map_option (\<lambda>(serial, ca). quoted serial @ quoted ca) (simBlock p)), pemEncode = id,
     mkdirAll = (\<lambda>_ _ w. (Inr (), w)), writeFile = (\<lambda>p c _ w. (Inr (), fst w, (snd w)(p \<mapsto> c))),
     certClock = (\<lambda>w. (0, w))\<rparr>"

definition replicaStartLib :: "(secret_data option \<times> (string \<rightharpoonup> string)) AuditStartLib" where
  "replicaStartLib = \<lparr>alCerts = replicaLib,
     alCertManager = \<lparr>newUncachedClient = (\<lambda>w. (Inr (), w)), newController = (\<lambda>_ w. (Inr (), w)),
       watchOnce = (\<lambda>_ w. (Inr (), w)), newUnmanaged = (\<lambda>_ w. (Inr (), w)),
       addNonLeaderElected = (\<lambda>_ w. (Inr (), w)), webhookServerDir = None\<rparr>,
     newCertWatcher = (\<lambda>_ _ w. (Inr (), w)),
     readCAFile = (\<lambda>p w. (case snd w p of None \<Rightarrow> Inl (OtherError []) | Some c \<Rightarrow> Inr c, w)),
     appendCertsFromPEM = (\<lambda>p. p \<noteq> []), statFile = (\<lambda>_ w. (Inr (), w)), addCertWatcher = (\<lambda>w. (Inr (), w)),
     alNewAuditor = (\<lambda>_ _ w. (Inr (), w)), alRegisterMetrics = (\<lambda>_ w. w), alAddReadyzCheck = (\<lambda>_ _ w. (Inr (), w)),
     alServe = (\<lambda>_ _ w. (Inr (), w))\<rparr>"

lemma sample_ca_block: "pemBlock replicaLib (sampleCA serial)"
  using sim_pem [of serial "[]"] by (simp add: pemBlock_def replicaLib_def simCertLib_def sampleCA_def)

lemma replica_laws: "cert_laws fst (\<lambda>p. map_option snd (simBlock p)) replicaLib"
  "disk_laws snd replicaLib replicaStartLib"
proof -
  show "cert_laws fst (\<lambda>p. map_option snd (simBlock p)) replicaLib"
    unfolding cert_laws_def issues_def by (auto simp: replicaLib_def split: option.splits)
  have "appendCertsFromPEM replicaStartLib (concat cas)" if "cas \<noteq> []" "list_all (pemBlock replicaLib) cas" for cas
    using that by (cases cas) (simp_all add: replicaStartLib_def pemBlock_def)
  moreover have "snd (snd (mkdirAll replicaLib p m w)) = snd w"
    "snd (snd (writeFile replicaLib p c m w)) = (snd w)(p \<mapsto> c)"
    "snd w p = Some c \<Longrightarrow> fst (readCAFile replicaStartLib p w) = Inr c" for p c m w
    by (simp_all add: replicaLib_def replicaStartLib_def)
  ultimately show "disk_laws snd replicaLib replicaStartLib"
    unfolding disk_laws_def by blast
qed

lemma second_generation:
  "generation replicaLib (\<lambda>p. map_option snd (simBlock p)) [sampleCA ''2'', sampleCA ''1''] (Some secondGeneration)"
  using sample_ca_block sim_block [where rest = "[]"]
  by (simp add: generation_def issuedBy_def secondGeneration_def dataOf_def data_key_defs del: quoted.simps)

theorem pool_follows_rotation_witness:
  "let rel = reloaderOf (DefaultOptions\<lparr>CertDir := ''/certs''\<rparr>)
   in \<exists>w1 w3. ReconcileReloader replicaLib rel ''1'' (Some secondGeneration, Map.empty) =
        (Ok (\<lparr>RequeueAfter = 30 * second\<rparr>, ''2''), w1) \<and>
      reloadCAPool replicaStartLib ''/certs'' (sampleCA ''1'') w1 = (Ok (sampleCA ''2'' @ sampleCA ''1''), w3)"
proof -
  let ?rel = "reloaderOf (DefaultOptions\<lparr>CertDir := ''/certs''\<rparr>)" and ?w = "(Some secondGeneration, Map.empty)"
  have rel: "rlCertDir ?rel = ''/certs''" by (simp add: reloaderOf_def)
  have "\<exists>w1. ReconcileReloader replicaLib ?rel ''1'' ?w = (Ok (\<lparr>RequeueAfter = 30 * second\<rparr>, ''2''), w1)"
    by (simp add: ReconcileReloader_def writeCertificatesToDisk_def certificateOrder_def writeCertificate_def io_simps
        replicaLib_def reloaderOf_def DefaultOptions_def secondGeneration_def dataOf_def data_key_defs Let_def sampleCA_def)
  then obtain w1 where run: "ReconcileReloader replicaLib ?rel ''1'' ?w = (Ok (\<lparr>RequeueAfter = 30 * second\<rparr>, ''2''), w1)" ..
  have start: "generation replicaLib (\<lambda>p. map_option snd (simBlock p)) [sampleCA ''2'', sampleCA ''1''] (fst ?w)"
    using second_generation by simp
  from pool_follows_rotation [OF replica_laws start run _ refl, of "sampleCA ''1''"]
  have "\<exists>w3. reloadCAPool replicaStartLib ''/certs'' (sampleCA ''1'') w1 = (Ok (sampleCA ''2'' @ sampleCA ''1''), w3)"
    unfolding rel by simp
  with run show ?thesis unfolding Let_def by blast
qed

end
