(* ===== verification/Credential_Properties.thy ===== *)
theory Credential_Properties
  imports Secret_Rotation
begin

section \<open>The secrets are well formed\<close>

text \<open>
  What the secret of an application credential promises to those who read it back: when its labels obey
  the grammar of Kubernetes, when they decode and to what, and what its annotation parses to.
\<close>

lemma secret_label_values:
  "ran (secretLabels u n) = {ProjectDomainID u, sanitizeLabelValue (ProjectDomainName u), ProjectID u,
     sanitizeLabelValue (ProjectName u), Region u, n}"
  by (simp add: secretLabels_def ran_map_upd insert_commute)

text \<open>C24. The labels of a generated secret are valid label values exactly when the IDs, the region and the
  shoot's name are, whatever characters the names of the project and the domain have. The labels decode
  if and only if the sanitised names and the rest are not empty, to the sanitised user info. For an
  expiration from 1970 up to the end of the year 9999 the annotation parses to it, cut to whole
  seconds.\<close>

theorem secret_well_typed:
  assumes "0 \<le> acExpiresAt c" and "acExpiresAt c < 253402300800 * second"
    and "s = ApplicationCredentialsInternalSecret sh u c"
  shows "(ran (isLabels s) \<subseteq> Collect validLabelValue \<longleftrightarrow>
        list_all validLabelValue [ProjectDomainID u, ProjectID u, Region u, shName sh]) \<and>
     (OpenStackUserInfoFromLabels (isLabels s) = Ok v \<longleftrightarrow> labelsReadable u \<and> v = labelledInfo u) \<and>
     map_option parseRFC3339 (isAnnotations s AnnotationKeyExpiresAt) =
       Some (Inr (acExpiresAt c div second * second))"
proof (intro conjI)
  show "ran (isLabels s) \<subseteq> Collect validLabelValue \<longleftrightarrow>
      list_all validLabelValue [ProjectDomainID u, ProjectID u, Region u, shName sh]"
    using assms(3) by (auto simp: new_secret_labels secret_label_values label.norm_valid)
  show "OpenStackUserInfoFromLabels (isLabels s) = Ok v \<longleftrightarrow> labelsReadable u \<and> v = labelledInfo u"
  proof (cases "labelsReadable u")
    case True
    then show ?thesis using assms(3) by (auto simp: secret_labels_roundtrip)
  next
    case False
    then show ?thesis using assms(3) secret_labels_unreadable [of u sh c] by auto
  qed
  show "map_option parseRFC3339 (isAnnotations s AnnotationKeyExpiresAt) =
      Some (Inr (acExpiresAt c div second * second))"
    using assms parse_format_rfc3339 [of "acExpiresAt c"] by (simp add: ApplicationCredentialsInternalSecret_def)
qed

theorem secret_well_typed_witness:
  "ran (isLabels (ApplicationCredentialsInternalSecret (namedShoot ''garden-eu-1-p'' ''shoot'')
        (emptyUserInfo\<lparr>ProjectID := ''p1'', ProjectName := ''- my project!'', Region := ''eu-1''\<rparr>)
        \<lparr>acID = ''id'', acName = ''name'', acSecret = [], acExpiresAt = 0\<rparr>))
      \<subseteq> Collect validLabelValue"
  using secret_well_typed [OF _ _ refl, of "\<lparr>acID = ''id'', acName = ''name'', acSecret = [], acExpiresAt = 0\<rparr>"
      "namedShoot ''garden-eu-1-p'' ''shoot''"
      "emptyUserInfo\<lparr>ProjectID := ''p1'', ProjectName := ''- my project!'', Region := ''eu-1''\<rparr>"]
  by (simp add: second_def validLabelValue_def isAlphanumeric_def labelChar_def LabelValueMaxLength_def
      emptyUserInfo_def namedShoot_def)

end
