(* ===== verification/Entry_Properties.thy ===== *)
theory Entry_Properties
  imports Entry_Points Cert_Properties Sample_Cluster Cloud_Properties
begin

section \<open>What a started program has\<close>

subsection \<open>The operator\<close>

text \<open>
  What the libraries promise about the controllers that are registered and whether the manager has been
  started: only \<open>Complete\<close> registers, only \<open>Start\<close> starts.
\<close>

definition idle :: "('w \<Rightarrow> controller list) \<Rightarrow> ('w \<Rightarrow> bool) \<Rightarrow> ('w \<Rightarrow> 'a \<times> 'w) \<Rightarrow> bool" where
  "idle registered started op \<longleftrightarrow> (\<forall>c. stable_call (\<lambda>w. (registered w, started w) = c) op)"

definition start_laws :: "('w \<Rightarrow> controller list) \<Rightarrow> ('w \<Rightarrow> bool) \<Rightarrow> 'w StartLib \<Rightarrow> 'w cloud \<Rightarrow> bool" where
  "start_laws registered started lib os \<longleftrightarrow>
     (\<forall>c. idle registered started (getConfigWithContext lib c)) \<and> (\<forall>mo. idle registered started (newManager lib mo)) \<and>
     (\<forall>n. idle registered started (addHealthzCheck lib n)) \<and> (\<forall>n. idle registered started (addReadyzCheck lib n)) \<and>
     (\<forall>c. cloud_keeps (\<lambda>w. (registered w, started w) = c) os) \<and>
     (\<forall>c n w. started (snd (completeController lib c n w)) = started w \<and>
        (fst (completeController lib c n w) = Inr () \<longrightarrow>
           registered (snd (completeController lib c n w)) = registered w @ [c])) \<and>
     (\<forall>w. registered (snd (startManager lib w)) = registered w)"

lemma idle_calls:
  assumes "start_laws registered started lib os"
  shows "stable (\<lambda>w. (registered w, started w) = c) (callE (getConfigWithContext lib x))"
    "stable (\<lambda>w. (registered w, started w) = c) (callE (newManager lib mo))"
    "stable (\<lambda>w. (registered w, started w) = c) (callE (addHealthzCheck lib n))"
    "stable (\<lambda>w. (registered w, started w) = c) (callE (addReadyzCheck lib n))"
  by (rule stable_callE, use assms in \<open>unfold start_laws_def idle_def, blast\<close>)+

lemma stable_region_clients:
  assumes "cloud_keeps I os"
  shows "stable I (NewRegionOpenStackClientSet os regions domain)"
proof -
  have "stable I (fillRegions os domain rcs m)" for rcs m
  proof (induction rcs arbitrary: m)
    case (Cons rc rcs)
    then show ?case
      unfolding fillRegions.simps NewClientSet_def getDomainByName_def
      by (intro stable_intros cloud_keepsD [OF assms] Cons.IH)
  qed (simp add: stable_intros)
  then show ?thesis by (simp add: NewRegionOpenStackClientSet_def)
qed

lemma stable_load: "stable I (loadValidConfig lib path)"
  unfolding loadValidConfig_def by (intro stable_intros) (simp add: stable_def)

text \<open>Up to the start nothing is started, so what a started program has is what the steps before returned.\<close>

lemma unstarted_step:
  assumes "\<And>c. stable (\<lambda>w. (registered w, started w) = c) m" and "\<not> started w"
    and "\<And>x v. m w = (Ok x, v) \<Longrightarrow> registered v = registered w \<Longrightarrow> \<not> started v \<Longrightarrow>
      wp (f x) (\<lambda>r v. started v \<longrightarrow> P v) v"
  shows "wp (bindE m f) (\<lambda>r v. started v \<longrightarrow> P v) w"
proof (cases "m w")
  case (Pair x v)
  then have "registered v = registered w" "started v = started w"
    using stableD [OF assms(1) Pair, of "(registered w, started w)"] by simp_all
  then show ?thesis
    using assms(2,3) Pair by (cases x) (auto simp: wp_def run_bindE)
qed

lemma unstarted_then:
  assumes "\<And>c. stable (\<lambda>w. (registered w, started w) = c) m" and "\<not> started w"
    and "\<And>v. m w = (Ok (), v) \<Longrightarrow> registered v = registered w \<Longrightarrow> \<not> started v \<Longrightarrow> wp k (\<lambda>r v. started v \<longrightarrow> P v) v"
  shows "wp (thenE m k) (\<lambda>r v. started v \<longrightarrow> P v) w"
  unfolding thenE_def using assms(1,2) by (rule unstarted_step) (simp add: assms(3))

lemma load_valid:
  "loadValidConfig lib path w = (Ok cfg, v) \<Longrightarrow> v = w \<and>
     LoadConfig (readConfigFile lib) (unmarshalConfig lib) path w = Ok cfg \<and> ValidateConfig (urlScheme lib) cfg = Ok ()"
  by (auto simp: loadValidConfig_def io_simps split: outcome.splits)

definition registers :: "('w \<Rightarrow> controller list) \<Rightarrow> ('w \<Rightarrow> bool) \<Rightarrow> 'w \<Rightarrow> controller list \<Rightarrow> unit res \<Rightarrow> 'w \<Rightarrow> bool" where
  "registers registered started w cs r v \<longleftrightarrow> started v = started w \<and>
     (r = Ok () \<longrightarrow> registered v = registered w @ cs)"

lemma add_one:
  assumes "start_laws registered started lib os"
  shows "wp (addController lib n c k) (registers registered started w [c]) w"
proof -
  have "started (snd (completeController lib c k w)) = started w"
    "fst (completeController lib c k w) = Inr () \<Longrightarrow> registered (snd (completeController lib c k w)) = registered w @ [c]"
    using assms by (simp_all add: start_laws_def)
  then show ?thesis
    by (auto simp: addController_def registers_def wp_def run_wrapE run_callE split: prod.splits sum.splits)
qed

lemma add_then:
  assumes "start_laws registered started lib os"
    and "\<And>v. wp m (registers registered started v cs) v"
  shows "wp (thenE (addController lib n c k) m) (registers registered started w (c # cs)) w"
  unfolding wp_thenE
proof (rule wp_mono [OF add_one [OF assms(1)]])
  fix r v
  assume r: "registers registered started w [c] r v"
  from assms(2) [of v] have "wp m (registers registered started w (c # cs)) v" if "r = Ok ()"
    by (rule wp_mono) (use r that in \<open>auto simp: registers_def\<close>)
  with r show "case r of Ok x \<Rightarrow> wp m (registers registered started w (c # cs)) v
      | Err e \<Rightarrow> registers registered started w (c # cs) (Err e) v
      | Panicked p \<Rightarrow> registers registered started w (c # cs) (Panicked p) v"
    by (auto simp: registers_def split: outcome.splits)
qed

text \<open>What the operator's controllers are given.\<close>

definition operatorControllers :: "PersephoneConfig \<Rightarrow> RegionOpenStackClientSet \<Rightarrow> controller list" where
  "operatorControllers cfg clients = [ProjectController cfg, InternalSecretController clients (LandscapeName cfg),
     ShootController clients (LandscapeName cfg)]"

definition enabledRegions :: "PersephoneConfig \<Rightarrow> string set" where
  "enabledRegions cfg = {fst rc |rc. rc \<in> set (Regions cfg) \<and> Enabled (snd rc)}"

lemma add_all:
  assumes laws: "start_laws registered started lib os"
  shows "wp (addControllers lib os opts cfg) (\<lambda>r v. started v = started w \<and> (r = Ok () \<longrightarrow>
     (\<exists>clients. dom clients = enabledRegions cfg \<and> registered v = registered w @ operatorControllers cfg clients))) w"
proof -
  have keep: "stable (\<lambda>w. (registered w, started w) = c)
      (start_wrap StartClientSet [] (NewRegionOpenStackClientSet os (Regions cfg) (ClusterUsersDomain cfg)))" for c
    using laws by (intro stable_intros stable_region_clients) (unfold start_laws_def, blast)
  obtain x v where run: "start_wrap StartClientSet [] (NewRegionOpenStackClientSet os (Regions cfg) (ClusterUsersDomain cfg)) w = (x, v)"
    by fastforce
  then have v: "registered v = registered w" "started v = started w"
    using stableD [OF keep run, of "(registered w, started w)"] by simp_all
  show ?thesis
  proof (cases x)
    case (Ok clients)
    with run have "NewRegionOpenStackClientSet os (Regions cfg) (ClusterUsersDomain cfg) w = (Ok clients, v)"
      by (auto simp: run_wrapE split: prod.splits outcome.splits)
    then have "dom clients = enabledRegions cfg"
      unfolding enabledRegions_def by (rule region_clients_enabled)
    moreover have "wp (thenE (addController lib ''project'' (ProjectController cfg) (ocProject (opControllers opts)))
       (thenE (addController lib ''secret'' (InternalSecretController clients (LandscapeName cfg))
                 (ocInternalSecret (opControllers opts)))
          (addController lib ''shoot'' (ShootController clients (LandscapeName cfg)) (ocShoot (opControllers opts)))))
       (registers registered started v (operatorControllers cfg clients)) v"
      unfolding operatorControllers_def by (intro add_then [OF laws] add_one [OF laws])
    ultimately show ?thesis
      using v by (auto simp: addControllers_def wp_def run_bindE run Ok registers_def)
  qed (use v in \<open>auto simp: addControllers_def wp_def run_bindE run\<close>)
qed

text \<open>C16. A started operator has a validated configuration, the client sets of exactly the enabled regions, and
  its three controllers, in this order and with this configuration: whatever fails before, the manager is
  not started.\<close>

theorem operator_starts_configured:
  assumes laws: "start_laws registered started lib os" and "\<not> started w"
    and run: "runOperator lib os opts w = (r, w')" and "started w'"
  shows "\<exists>cfg clients v. opConfigFile opts \<noteq> [] \<and>
     LoadConfig (readConfigFile lib) (unmarshalConfig lib) (opConfigFile opts) v = Ok cfg \<and>
     ValidateConfig (urlScheme lib) cfg = Ok () \<and> dom clients = enabledRegions cfg \<and>
     registered w' = registered w @ operatorControllers cfg clients"
proof -
  let ?opts = "CompleteOperator (environment lib) opts"
  let ?P = "\<lambda>w'. \<exists>cfg clients v. opConfigFile opts \<noteq> [] \<and>
     LoadConfig (readConfigFile lib) (unmarshalConfig lib) (opConfigFile opts) v = Ok cfg \<and>
     ValidateConfig (urlScheme lib) cfg = Ok () \<and> dom clients = enabledRegions cfg \<and>
     registered w' = registered w @ operatorControllers cfg clients"
  have last: "wp (thenE (start_wrap ControllersFailed [] (addControllers lib os o' cfg)) (callE (startManager lib)))
      (\<lambda>r v. started v \<longrightarrow> (\<exists>clients. dom clients = enabledRegions cfg \<and>
         registered v = registered u @ operatorControllers cfg clients)) u" if "\<not> started u" for o' cfg u
  proof (rule wpI)
    fix r v
    assume run: "thenE (start_wrap ControllersFailed [] (addControllers lib os o' cfg)) (callE (startManager lib)) u = (r, v)"
    obtain x y where add: "addControllers lib os o' cfg u = (x, y)" by fastforce
    have y: "started y = started u" "x = Ok () \<Longrightarrow> \<exists>clients. dom clients = enabledRegions cfg \<and>
        registered y = registered u @ operatorControllers cfg clients"
      using wpD [OF add_all [OF laws] add] by simp_all
    have "v = y" if "x \<noteq> Ok ()"
      using run add that by (cases x) (simp_all add: run_thenE run_wrapE)
    moreover have "v = snd (startManager lib y)" if "x = Ok ()"
      using run add that by (auto simp: run_thenE run_wrapE run_callE split: prod.splits sum.splits)
    moreover have "registered (snd (startManager lib y)) = registered y"
      using laws by (simp add: start_laws_def)
    ultimately show "started v \<longrightarrow> (\<exists>clients. dom clients = enabledRegions cfg \<and>
        registered v = registered u @ operatorControllers cfg clients)"
      using that y by (cases "x = Ok ()") auto
  qed
  have "wp (runOperator lib os opts) (\<lambda>r v. started v \<longrightarrow> ?P v) w"
    unfolding runOperator_def Let_def
  proof (rule unstarted_then [where registered = registered and started = started])
    fix v
    assume "start_wrap OptionsInvalid [] (liftE (ValidateOperator ?opts)) w = (Ok (), v)"
      and v: "registered v = registered w" "\<not> started v"
    then have config: "opConfigFile opts \<noteq> []" "opConfigFile ?opts = opConfigFile opts"
      by (auto simp: run_wrapE run_simps ValidateOperator_def CompleteOperator_def Let_def split: if_splits)
    show "wp (bindE (loadValidConfig lib (opConfigFile ?opts)) (startOperator lib os ?opts))
        (\<lambda>r v. started v \<longrightarrow> ?P v) v"
    proof (rule unstarted_step [where registered = registered and started = started, OF stable_load v(2)])
      fix cfg u
      assume "loadValidConfig lib (opConfigFile ?opts) v = (Ok cfg, u)" and u: "registered u = registered v" "\<not> started u"
      then have cfg: "LoadConfig (readConfigFile lib) (unmarshalConfig lib) (opConfigFile opts) v = Ok cfg"
        "ValidateConfig (urlScheme lib) cfg = Ok ()"
        using load_valid config(2) by metis+
      have final: "wp (thenE (start_wrap ControllersFailed [] (addControllers lib os ?opts cfg)) (callE (startManager lib)))
          (\<lambda>r v. started v \<longrightarrow> ?P v) x" if "registered x = registered w" "\<not> started x" for x
        using last [OF that(2)] by (rule wp_mono) (use config cfg that in auto)
      show "wp (startOperator lib os ?opts cfg) (\<lambda>r v. started v \<longrightarrow> ?P v) u"
        unfolding startOperator_def
        using u v by (intro unstarted_then [where registered = registered and started = started] stable_wrapE idle_calls [OF laws] final) simp_all
    qed
  qed (use assms(2) in \<open>auto intro: stable_intros\<close>)
  from wpD [OF this run] assms(4) show ?thesis by blast
qed

subsection \<open>Witness\<close>

text \<open>A world of registered controllers and whether the manager runs, and a Keystone of one domain.\<close>

type_synonym start_world = "controller list \<times> bool"

definition quietCloud :: "start_world cloud" where
  "quietCloud =
     (let provider = \<lparr>pcIdentityBase = [], pcTokenID = [], pcIdentityEndpoint = ''https://id'', pcSession = ''admin''\<rparr>
      in \<lparr>authenticate = (\<lambda>_ w. (Inr provider, w)),
          new_identity_v3 = (\<lambda>p. Inr \<lparr>scProvider = p, scService = ''identity''\<rparr>),
          new_network_v2 = (\<lambda>p. Inr \<lparr>scProvider = p, scService = ''network''\<rparr>),
          list_domains = (\<lambda>_ _ w. (Inr (Inr [\<lparr>dmID = ''kubernetes''\<rparr>]), w)),
          list_users = (\<lambda>_ _ _ w. (Inr (Inr []), w)), list_roles = (\<lambda>_ _ w. (Inr (Inr []), w)),
          update_password = (\<lambda>_ _ _ w. (Inr (), w)), create_user = (\<lambda>_ _ w. (Inl (OtherError ''refused''), w)),
          delete_user = (\<lambda>_ _ w. (Inr (), w)), assign_role = (\<lambda>_ _ _ _ w. (Inr (), w)),
          list_credentials = (\<lambda>_ _ w. (Inr (Inr []), w)),
          create_credential = (\<lambda>_ _ _ w. (Inl (OtherError ''refused''), w)),
          delete_credential = (\<lambda>_ _ _ w. (Inr (), w)), list_networks = (\<lambda>_ w. (Inr (Inr []), w)),
          random_password = (\<lambda>w. (Inr ''pw'', w)), clock_now = (\<lambda>w. (0, w)), poll_until = simPoll\<rparr>)"

definition startConfig :: PersephoneConfig where
  "startConfig = \<lparr>ClusterUsersDomain = ''kubernetes'',
     Regions = [(''eu-1'', \<lparr>Enabled = True, IdentityEndpoint = ''https://id'', ApplicationCredentialID = ''i'',
       ApplicationCredentialSecret = ''s'', AuditTransportURL = []\<rparr>), (''eu-2'', zeroRegionalConfig)],
     DefaultRegion = ''eu-1'', LandscapeName = ''live'', DefaultCloudProfileName = [], DefaultProviderType = [],
     DefaultShootQuota = 3\<rparr>"

definition startLib :: "start_world StartLib" where
  "startLib = \<lparr>readConfigFile = (\<lambda>_ _. Inr ''config''), unmarshalConfig = (\<lambda>_. Inr startConfig),
     urlScheme = (\<lambda>_. Inr ''https''), environment = (\<lambda>_. []), getConfigWithContext = (\<lambda>_ w. (Inr (), w)),
     getConfigOrDie = (\<lambda>w. (Inr (), w)), newManager = (\<lambda>_ w. (Inr (), w)), addHealthzCheck = (\<lambda>_ w. (Inr (), w)),
     addReadyzCheck = (\<lambda>_ w. (Inr (), w)), completeController = (\<lambda>c _ w. (Inr (), fst w @ [c], snd w)),
     addCertificateManagement = (\<lambda>_ w. (Inr (), w)), registerWebhook = (\<lambda>_ w. w),
     startManager = (\<lambda>w. (Inr (), fst w, True))\<rparr>"

lemma start_laws_hold: "start_laws fst snd startLib quietCloud"
  by (auto simp: start_laws_def idle_def stable_call_def startLib_def quietCloud_def cloud_keeps_def Let_def
      intro: stable_simPoll)

lemma sample_region_clients:
  "\<exists>clients. NewRegionOpenStackClientSet quietCloud (Regions startConfig) d w = (Ok clients, w)"
  by (simp add: NewRegionOpenStackClientSet_def NewClientSet_def getDomainByName_def io_simps quietCloud_def Let_def
      startConfig_def zeroRegionalConfig_def)

lemma sample_valid: "ValidateConfig urls startConfig = Ok ()"
  by (simp add: validateConfig_Ok_iff auditURLAccepted_def startConfig_def)

lemma sample_start:
  assumes "opConfigFile opts \<noteq> []"
  shows "snd (snd (runOperator startLib quietCloud opts ([], False)))"
proof -
  have loaded: "loadValidConfig startLib path w = (Ok startConfig, w)" for path and w :: start_world
  proof -
    have "LoadConfig (readConfigFile startLib) (unmarshalConfig startLib) path w = Ok startConfig"
      by (simp add: LoadConfig_def startLib_def)
    then show ?thesis by (simp add: loadValidConfig_def io_simps sample_valid)
  qed
  obtain clients where clients: "NewRegionOpenStackClientSet quietCloud (Regions startConfig) (ClusterUsersDomain startConfig)
      ([], False) = (Ok clients, ([], False))"
    using sample_region_clients by blast
  have "opConfigFile (CompleteOperator env opts) \<noteq> []" for env
    using assms by (simp add: CompleteOperator_def Let_def)
  then show ?thesis
    using clients by (simp add: runOperator_def startOperator_def addControllers_def addController_def Let_def ValidateOperator_def
        io_simps loaded) (simp add: startLib_def io_simps)
qed

lemma enabled_regions_filter:
  "enabledRegions cfg = fst ` set (filter (\<lambda>rc. Enabled (snd rc)) (Regions cfg))"
  by (force simp: enabledRegions_def image_iff)

theorem operator_starts_configured_witness:
  "\<exists>clients. dom clients = {''eu-1''} \<and>
     fst (snd (runOperator startLib quietCloud (operatorFlags (\<lambda>_. []) [''config'' \<mapsto> StringFlag ''c.yaml'']) ([], False))) =
       operatorControllers startConfig clients"
proof -
  let ?opts = "operatorFlags (\<lambda>_. []) [''config'' \<mapsto> StringFlag ''c.yaml'']"
  have "opConfigFile ?opts \<noteq> []" by (simp add: operatorFlags_def StringVar_def)
  note started = sample_start [OF this]
  have idle: "\<not> snd ([] :: controller list, False)" by simp
  have loaded: "LoadConfig (readConfigFile startLib) (unmarshalConfig startLib) path v = Ok cfg \<Longrightarrow> cfg = startConfig"
    for path v cfg
    by (simp add: LoadConfig_def startLib_def)
  obtain r w' where run: "runOperator startLib quietCloud ?opts ([], False) = (r, w')" by (meson surj_pair)
  with started have "snd w'" by simp
  from operator_starts_configured [OF start_laws_hold idle run this] obtain cfg clients v
    where load: "LoadConfig (readConfigFile startLib) (unmarshalConfig startLib) (opConfigFile ?opts) v = Ok cfg"
      and has: "dom clients = enabledRegions cfg" "fst w' = fst ([] :: controller list, False) @ operatorControllers cfg clients"
    by (elim exE conjE)
  have "dom clients = enabledRegions startConfig" and "fst w' = operatorControllers startConfig clients"
    using has unfolding loaded [OF load] fst_conv append_Nil .
  then have "dom clients = enabledRegions startConfig" and
    "fst (snd (runOperator startLib quietCloud ?opts ([], False))) = operatorControllers startConfig clients"
    unfolding run snd_conv .
  moreover have "enabledRegions startConfig = {''eu-1''}"
    by (simp add: enabled_regions_filter startConfig_def zeroRegionalConfig_def)
  ultimately show ?thesis by (intro exI [of _ clients] conjI) (simp only:)+
qed

end
