(* ===== verification/Spec2Isabelle.thy ===== *)
theory Spec2Isabelle
  imports Quota_Contract Cloud_Properties Liquid_Server Webhook_Config Shoot_Properties
    Project_Properties Admission_Properties Audit_Properties Auth_Properties Audit_TLS
    Credential_Properties Entry_Properties
begin

text \<open>
  Persephone gives the projects of an OpenStack landscape their clusters: it stands between Keystone,
  whose projects and users it reads, and a Gardener installation, whose projects and shoots it manages.
  This development models the Go code under \<open>src/internal\<close> and \<open>src/cmd\<close> and proves what it
  promises.

  \<^bold>\<open>The programs.\<close> The webhook server (\<open>cmd/persephone-webhook\<close>) authenticates the requests of the
  API server with Keystone, provisions the project of the user on the way, and completes shoots at
  their admission. The operator (\<open>cmd/persephone-operator\<close>) runs three controllers: one rotates and
  deletes the credentials of the shoots, one points each shoot at its newest credentials, one
  provisions the known projects again. The liquid API server (\<open>cmd/persephone-liquid-apiserver\<close>) lets
  Limes read the usage and set the quota of a project. The audit webhook
  (\<open>cmd/persephone-audit-webhook\<close>) sends the audit events of shoots to the auditor of their region and
  keeps the certificates it is called with. \<open>scikube\<close> is the client's command line tool and
  credential plugin. They share the virtual garden cluster and Keystone: the token webhook writes into
  labels what the controllers read, provisioning creates the quota that Limes then owns, the admission
  webhook creates the first secret of a shoot, which the controller then replaces and in the end deletes
  with the user.

  \<^bold>\<open>How code becomes definitions.\<close> A Go function is a definition of the same name (or nearly: a
  method of a client is prefixed where two clash). A struct is a record with the fields the program
  uses, a pointer that can be nil an \<open>option\<close>, a map a partial function or, where its order can be
  seen, an association list. A function that talks to the outside is a state transformer \<open>('w, 'a) io\<close>
  over a world of arbitrary type, ending in \<open>Ok\<close>, \<open>Err\<close> or \<open>Panicked\<close> (Prelude). The world is touched
  through records of operations only, which stand for the libraries: \<open>kube\<close> (controller-runtime),
  \<open>cloud\<close> (gophercloud), \<open>CertLib\<close>, \<open>StartLib\<close> (the manager) and so on. Each is an argument of the
  definitions that use it. What is documented of them is a named hypothesis of the theorems that need it
  (the predicates ending in \<open>_laws\<close>), over a \<open>view\<close> of the world, and theories Sample_Cluster and
  Sample_Cloud, with the samples beside the theorems, show by concrete operations that it can hold.
  Such an operation may fail at any call. Every error that the code makes is a constructor of theory
  Errors and keeps its cause, so classifications such as \<open>apierrors.IsNotFound\<close> are computed from
  the value as the code does.
  A quantity is a \<open>64 word\<close> (\<open>int64\<close> is read with \<open>sint\<close>), an instant
  an integer of nanoseconds, a duration is bounded to 64 bits where \<open>Sub\<close> saturates.

  \<^bold>\<open>The theories.\<close>
  \<^item> Prelude, Go_Std, Go_Path, Go_Time, Rfc3339: outcomes, effects, their weakest preconditions (\<open>wp_simps\<close>,
    with \<open>wp_frame\<close> for what a call leaves alone), and what the code uses of Go's \<open>strings\<close>,
    \<open>strconv\<close>, \<open>utf8\<close>, \<open>filepath\<close> (\<open>Join\<close> cleans) and \<open>time\<close>, with the round trip of RFC 3339 dates.
  \<^item> Constants, Errors, Config, Options: \<open>internal/constants\<close>, the error sites, \<open>internal/config\<close>, and
    \<open>options\<close> of the commands.
  \<^item> User_Info, Labels, Names, Cluster, Provision, Credentials, Kubeconfig: \<open>internal/kubernetes\<close>.
    \<open>user_info_codec\<close> is the contract of the encoding in extras, \<open>normaliser\<close> that of the
    sanitiser of label values, \<open>naming\<close> that of the names of namespaces and service users; each is interpreted
    on the code's functions. Provision follows \<open>ReconcileGardenerProjectResources\<close> through its five
    objects: what it establishes, where it can fail, what it leaves alone, what a retry gives.
  \<^item> OpenStack, Catalog, Cloud_Properties: \<open>internal/openstack\<close>: the clients of the regions, the service user
    of a cluster and its application credentials, the endpoint search.
  \<^item> Token_Webhook, Shoot_Admission, Webhook_Config, Admission_Properties: \<open>internal/webhook/token\<close>,
    \<open>internal/webhook/shootadmission\<close> and \<open>internal/webhook/add.go\<close>.
  \<^item> Internal_Secret, Secret_Properties, Secret_Deletion, Secret_Rotation, Credential_Properties:
    \<open>internal/controller/internalsecret\<close>. What a reconciliation returns, what it waits for, what a
    deletion leaves, and the invariant that keeps rotation going (locale \<open>rotating\<close>, interpreted on the
    reconciler over the in-memory cluster).
  \<^item> Shoot_Controller, Shoot_Properties, Project_Controller, Project_Properties:
    \<open>internal/controller/shoot\<close> and \<open>internal/controller/project\<close>.
  \<^item> Audit_Event, Audit_Handler, Audit_Properties: \<open>internal/webhook/audithandler\<close>, and the abstract
    account of what must be recorded that the handler implements.
  \<^item> Audit_Cert, Cert_Properties, Audit_TLS: \<open>internal/controller/auditcert\<close>, the generations of its CA,
    and the way of a rotated CA into the pool of the server.
  \<^item> Liquid, Liquid_Server, Quota_Contract: \<open>internal/liquidserver\<close>, and its contract with
    provisioning: both are steps of one relation (\<open>quota_step\<close>), and the two cells they share, the
    namespace and the quota, are interpretations of the locale \<open>owned_cell\<close>.
  \<^item> Exec_Auth, Scikube, Auth_Properties: \<open>internal/auth\<close> and \<open>cmd/scikube/cmd\<close>, and the cache round trip.
  \<^item> Entry_Points, Entry_Properties: \<open>run\<close> of the four servers and the registration of the controllers.

  \<^bold>\<open>Bounds and fuel.\<close> Every loop of the code but one runs over a list and is structural recursion, so
  no definition needs fuel. The one left polls for a new user until it can log in, at intervals of three
  seconds, for five minutes: the loop is the library's (\<open>wait.PollUntilContextCancel\<close>), here the
  operation \<open>poll_until\<close> of the record \<open>cloud\<close>, and the condition that it runs is \<open>tryUserClients\<close>. Quotas are words: \<open>default_quota_sign\<close> and
  \<open>limes_owns_quota\<close> say where the conversions of \<open>uint64\<close> to \<open>int64\<close> cap and where they wrap.

  \<^bold>\<open>Concurrency.\<close> A reconciliation or a request is one run of a definition. What others do between two
  calls of a run is not modelled. That runs follow each other in any order is: see Quota_Contract and
  Cert_Properties.

  \<^bold>\<open>Not modelled.\<close> The functions \<open>main\<close> parse flags, set up loggers and metrics and call \<open>run\<close>: no logic.
  Logging and the flags of the logger are left out throughout; the metrics that handlers count are operations,
  their registration is not modelled. The type assertion on the webhook server and the
  construction of watches are calls into controller-runtime whose results the model takes as given.
  \<open>internal/openstack/fake_e2e_client.go\<close> and \<open>internal/webhook/audithandler/testing.go\<close> are test doubles:
  only tests see what they answer. Generated code, charts and documentation have no behaviour of
  their own.
\<close>

end
